(* ===== verification/Prelude.thy ===== *)
theory Prelude
  imports Complex_Main
begin

text \<open>
  Shared groundwork of the development.

  \<^item> Go strings are byte sequences, modelled by \<^typ>\<open>string\<close>; the few operations of the
    \<^verbatim>\<open>strings\<close> package the code relies on (blank test, prefix up to a separator, replacement,
    lower case, splitting) are defined here on bytes.
  \<^item> Every error value of the program is a value of \<open>gov_error\<close>; \<open>Wrap\<close> is
    \<^verbatim>\<open>fmt.Errorf("ctx: %w", err)\<close>.
  \<^item> A fallible, state-changing Go function is a value of \<open>('s, 'a) go\<close>: it takes the state
    and returns the error or the result, with the new state. \<open>bindW ctx m k\<close> is the idiom
    \<^verbatim>\<open>x, err := m; if err != nil { return fmt.Errorf("ctx: %w", err) }; k x\<close>, and
    \<open>discard m k\<close> is \<^verbatim>\<open>_ = m; k\<close>.
  \<^item> \<open>wp\<close> is the weakest precondition of such a computation; its rules are collected in
    \<open>wps\<close> and carry the proofs about the application services.
\<close>

named_theorems wps "weakest preconditions of Go computations"
named_theorems gov "unfoldings of the small constructors and accessors"

section \<open>Errors\<close>

datatype gov_error =
    ErrEmptyID
  | ErrInvalidULID string
  | ErrZeroTimestamp
  | ErrInvalidEnum string string
  | ErrEmptyTitle
  | ErrTaskInvalidTransition string string
  | ErrInvalidTransition string string
  | ErrTerminalState string string
  | ErrMissingTaskID
  | ErrNoEvaluations
  | ErrRoutingEmptyReason
  | ErrPolicyEmptyAction
  | ErrMissingConstraints
  | ErrMissingApproval
  | ErrPolicyEmptyReason
  | ErrFailureFieldsOnSuccess
  | ErrMissingFailureStage
  | ErrMissingFailureCode
  | ErrEmptyFailureCode
  | ErrMissingRetryable
  | ErrUnknownAttemptStatus string
  | ErrLeaseNotActive string
  | ErrInvalidTimeoutBudget
  | ErrInvalidRetryBudget int
  | ErrApprovalEmptyReason
  | ErrApprovalNotPending string
  | ErrEscalationNotPending string
  | ErrNotTriggered string
  | ErrAuditEmptyAction
  | ErrEmptyOutcome
  | ErrInvalidTraceparent string
  | ErrShortRead
  | ErrNotFound string
  | ErrDB string
  | ErrPanic string
  | ErrNoRoutingDecision gov_error
  | ErrNoPolicyDecision gov_error
  | ErrNoWorkflowRun gov_error
  | ErrLeaseExhausted
  | ErrTerminalWorkflow string
  | ErrUnknownPolicyOutcome string
  | ErrInvalidInput string
  | ErrJSON string
  | ErrCallback string
  | Wrap string gov_error

text \<open>The error at the end of a chain of wrappings, as \<^verbatim>\<open>errors.Is\<close> finds it.\<close>

fun root_cause :: "gov_error \<Rightarrow> gov_error" where
  "root_cause (Wrap _ e) = root_cause e"
| "root_cause e = e"

section \<open>Go strings\<close>

text \<open>
  \<open>trimLeftSpace\<close> strips the leading white space of a UTF-8 byte sequence as
  \<^verbatim>\<open>strings.TrimSpace\<close> does on the left: the ASCII space characters, and the encodings of
  U+0085, U+00A0, U+1680, U+2000 to U+200A, U+2028, U+2029, U+202F, U+205F and U+3000.
  Since \<^verbatim>\<open>TrimSpace(s) == ""\<close> holds exactly when nothing is left after stripping on the
  left, \<open>isBlank\<close> is that test, the only use the program makes of \<^verbatim>\<open>TrimSpace\<close>.
\<close>

definition asciiSpace :: "nat \<Rightarrow> bool" where
  "asciiSpace b \<longleftrightarrow> (9 \<le> b \<and> b \<le> 13) \<or> b = 32"

definition space2 :: "nat \<Rightarrow> nat \<Rightarrow> bool" where
  "space2 b c \<longleftrightarrow> b = 0xC2 \<and> (c = 0x85 \<or> c = 0xA0)"

definition space3 :: "nat \<Rightarrow> nat \<Rightarrow> nat \<Rightarrow> bool" where
  "space3 b c d \<longleftrightarrow>
     (b = 0xE1 \<and> c = 0x9A \<and> d = 0x80)
   \<or> (b = 0xE2 \<and> c = 0x80 \<and> ((0x80 \<le> d \<and> d \<le> 0x8A) \<or> d = 0xA8 \<or> d = 0xA9 \<or> d = 0xAF))
   \<or> (b = 0xE2 \<and> c = 0x81 \<and> d = 0x9F)
   \<or> (b = 0xE3 \<and> c = 0x80 \<and> d = 0x80)"

fun trimLeftSpace :: "nat list \<Rightarrow> nat list" where
  "trimLeftSpace [] = []"
| "trimLeftSpace (b # bs) =
     (if asciiSpace b then trimLeftSpace bs
      else case bs of
        [] \<Rightarrow> [b]
      | c # cs \<Rightarrow>
          (if space2 b c then trimLeftSpace cs
           else case cs of
             [] \<Rightarrow> b # bs
           | d # ds \<Rightarrow> (if space3 b c d then trimLeftSpace ds else b # bs)))"

definition isBlank :: "string \<Rightarrow> bool" where
  "isBlank s \<longleftrightarrow> trimLeftSpace (map of_char s) = []"

lemma isBlank_Nil [simp]: "isBlank []"
  by (simp add: isBlank_def)

text \<open>A string that starts with a printable ASCII character is not blank.\<close>

lemma not_isBlank_Cons:
  assumes "32 < (of_char c :: nat)" "(of_char c :: nat) < 0x80"
  shows "\<not> isBlank (c # s)"
  using assms
  by (auto simp: isBlank_def asciiSpace_def space2_def space3_def split: list.splits)

text \<open>\<^verbatim>\<open>strings.Index(code, "/")\<close> and the slice before it: the whole string when absent.\<close>

definition beforeByte :: "char \<Rightarrow> string \<Rightarrow> string" where
  "beforeByte c s = takeWhile (\<lambda>d. d \<noteq> c) s"

text \<open>\<^verbatim>\<open>strings.Split(s, sep)\<close> for a separator of one byte: never empty.\<close>

fun splitOn :: "char \<Rightarrow> string \<Rightarrow> string list" where
  "splitOn c [] = [[]]"
| "splitOn c (d # s) =
     (if d = c then [] # splitOn c s
      else case splitOn c s of [] \<Rightarrow> [[d]] | w # ws \<Rightarrow> (d # w) # ws)"

lemma splitOn_not_Nil [simp]: "splitOn c s \<noteq> []"
  by (induction s) (auto split: list.splits)

lemma splitOn_no_sep: "c \<notin> set s \<Longrightarrow> splitOn c s = [s]"
  by (induction s) auto

lemma splitOn_sep: "c \<notin> set s \<Longrightarrow> splitOn c (s @ c # t) = s # splitOn c t"
  by (induction s) auto

text \<open>Joining what was split gives the string back.\<close>

fun joinWith :: "char \<Rightarrow> string list \<Rightarrow> string" where
  "joinWith c [] = []"
| "joinWith c [w] = w"
| "joinWith c (w # ws) = w @ c # joinWith c ws"

lemma joinWith_Cons: "ws \<noteq> [] \<Longrightarrow> joinWith c (w # ws) = w @ c # joinWith c ws"
  by (cases ws) auto

lemma joinWith_prefix: "joinWith c ((d # w) # ws) = d # joinWith c (w # ws)"
  by (cases ws) auto

lemma joinWith_splitOn: "joinWith c (splitOn c s) = s"
proof (induction s)
  case Nil
  then show ?case by simp
next
  case (Cons d s)
  then show ?case
    by (auto simp: joinWith_Cons joinWith_prefix split: list.splits)
qed

lemma splitOn_parts_free: "w \<in> set (splitOn c s) \<Longrightarrow> c \<notin> set w"
  by (induction s arbitrary: w) (fastforce split: if_splits list.splits)+

text \<open>Lower case of the ASCII letters; other bytes are kept.\<close>

definition lowerByte :: "char \<Rightarrow> char" where
  "lowerByte c = (if 65 \<le> (of_char c :: nat) \<and> (of_char c :: nat) \<le> 90
                  then char_of ((of_char c :: nat) + 32) else c)"

definition toLower :: "string \<Rightarrow> string" where
  "toLower s = map lowerByte s"

lemma length_toLower [simp]: "length (toLower s) = length s"
  by (simp add: toLower_def)

section \<open>Decimal numerals, as \<^verbatim>\<open>strconv\<close> and \<^verbatim>\<open>fmt\<close> print them\<close>

definition digitChar :: "nat \<Rightarrow> char" where
  "digitChar d = char_of (48 + d)"

fun showNat :: "nat \<Rightarrow> string" where
  "showNat n = (if n < 10 then [digitChar n] else showNat (n div 10) @ [digitChar (n mod 10)])"

declare showNat.simps [simp del]

lemma showNat_not_Nil [simp]: "showNat n \<noteq> []"
  by (subst showNat.simps) simp

definition showInt :: "int \<Rightarrow> string" where
  "showInt i = (if i < 0 then CHR ''-'' # showNat (nat (- i)) else showNat (nat i))"

text \<open>The last \<open>k\<close> digits of \<open>n\<close>, with leading zeros.\<close>

fun padDigits :: "nat \<Rightarrow> nat \<Rightarrow> string" where
  "padDigits 0 n = []"
| "padDigits (Suc k) n = padDigits k (n div 10) @ [digitChar (n mod 10)]"

section \<open>Dynamically typed values\<close>

text \<open>The values the program stores in a \<^verbatim>\<open>map[string]any\<close>.\<close>

datatype any =
    AString string
  | ABool bool
  | AInt int
  | AFloat rat
  | ANil
  | AList "any list"
  | AMap "string \<Rightarrow> any option"

text \<open>The type assertion \<^verbatim>\<open>s, _ := m[k].(string)\<close>: the zero value when absent or no string.\<close>

definition asString :: "any option \<Rightarrow> string" where
  "asString v = (case v of Some (AString s) \<Rightarrow> s | _ \<Rightarrow> [])"

lemma asString_simps [simp]:
  "asString None = []" "asString (Some (AString s)) = s" "asString (Some (ABool b)) = []"
  "asString (Some (AInt i)) = []" "asString (Some (AFloat r)) = []" "asString (Some ANil) = []"
  "asString (Some (AList l)) = []" "asString (Some (AMap m)) = []"
  by (simp_all add: asString_def)

section \<open>Time\<close>

text \<open>
  A \<^verbatim>\<open>time.Time\<close> is the number of nanoseconds since Go's zero time, so \<^verbatim>\<open>IsZero\<close> is a test
  for 0; a \<^verbatim>\<open>time.Duration\<close> is a number of nanoseconds. \<^verbatim>\<open>Sub\<close> saturates at the bounds of
  a 64-bit duration.
\<close>

type_synonym gotime = int
type_synonym duration = int

definition Second :: duration where "Second = 1000000000"
definition Millisecond :: duration where "Millisecond = 1000000"

definition timeSub :: "gotime \<Rightarrow> gotime \<Rightarrow> duration" where
  "timeSub t u = max (- (2 ^ 63)) (min (2 ^ 63 - 1) (t - u))"

lemma timeSub_ge_iff: "0 < d \<Longrightarrow> d \<le> 2 ^ 63 - 1 \<Longrightarrow> d \<le> timeSub t u \<longleftrightarrow> d \<le> t - u"
  by (auto simp: timeSub_def)

section \<open>Machine integers\<close>

text \<open>\<^verbatim>\<open>x++\<close> on a 64-bit \<^verbatim>\<open>int\<close>.\<close>

definition inc64 :: "int \<Rightarrow> int" where
  "inc64 i = (if i = 2 ^ 63 - 1 then - (2 ^ 63) else i + 1)"

section \<open>Computations over a state\<close>

type_synonym ('s, 'a) go = "'s \<Rightarrow> (gov_error + 'a) \<times> 's"

definition ret :: "'a \<Rightarrow> ('s, 'a) go" where
  "ret x s = (Inr x, s)"

definition throw :: "gov_error \<Rightarrow> ('s, 'a) go" where
  "throw e s = (Inl e, s)"

definition lift :: "gov_error + 'a \<Rightarrow> ('s, 'a) go" where
  "lift r s = (r, s)"

definition gets :: "('s \<Rightarrow> 'a) \<Rightarrow> ('s, 'a) go" where
  "gets f s = (Inr (f s), s)"

definition modify :: "('s \<Rightarrow> 's) \<Rightarrow> ('s, unit) go" where
  "modify f s = (Inr (), f s)"

definition bindE :: "('s, 'a) go \<Rightarrow> ('a \<Rightarrow> ('s, 'b) go) \<Rightarrow> ('s, 'b) go" where
  "bindE m k s = (case m s of (Inl e, s') \<Rightarrow> (Inl e, s') | (Inr x, s') \<Rightarrow> k x s')"

text \<open>
  A panic is the error \<open>ErrPanic\<close>: no statement of the program inspects it, so it passes through
  every wrapping and through every call whose error is ignored.
\<close>

definition isPanic :: "gov_error \<Rightarrow> bool" where
  "isPanic e \<longleftrightarrow> (\<exists>msg. e = ErrPanic msg)"

lemma isPanic_code [code]: "isPanic e = (case e of ErrPanic _ \<Rightarrow> True | _ \<Rightarrow> False)"
  by (simp add: isPanic_def split: gov_error.splits)

lemma isPanic_simps [simp]:
  "isPanic (ErrPanic x1)"
  "\<not> isPanic ErrEmptyID"
  "\<not> isPanic (ErrInvalidULID x2)"
  "\<not> isPanic ErrZeroTimestamp"
  "\<not> isPanic (ErrInvalidEnum x3 x4)"
  "\<not> isPanic ErrEmptyTitle"
  "\<not> isPanic (ErrTaskInvalidTransition x5 x6)"
  "\<not> isPanic (ErrInvalidTransition x7 x8)"
  "\<not> isPanic (ErrTerminalState x9 x10)"
  "\<not> isPanic ErrMissingTaskID"
  "\<not> isPanic ErrNoEvaluations"
  "\<not> isPanic ErrRoutingEmptyReason"
  "\<not> isPanic ErrPolicyEmptyAction"
  "\<not> isPanic ErrMissingConstraints"
  "\<not> isPanic ErrMissingApproval"
  "\<not> isPanic ErrPolicyEmptyReason"
  "\<not> isPanic ErrFailureFieldsOnSuccess"
  "\<not> isPanic ErrMissingFailureStage"
  "\<not> isPanic ErrMissingFailureCode"
  "\<not> isPanic ErrEmptyFailureCode"
  "\<not> isPanic ErrMissingRetryable"
  "\<not> isPanic (ErrUnknownAttemptStatus x11)"
  "\<not> isPanic (ErrLeaseNotActive x12)"
  "\<not> isPanic ErrInvalidTimeoutBudget"
  "\<not> isPanic (ErrInvalidRetryBudget x13)"
  "\<not> isPanic ErrApprovalEmptyReason"
  "\<not> isPanic (ErrApprovalNotPending x14)"
  "\<not> isPanic (ErrEscalationNotPending x15)"
  "\<not> isPanic (ErrNotTriggered x16)"
  "\<not> isPanic ErrAuditEmptyAction"
  "\<not> isPanic ErrEmptyOutcome"
  "\<not> isPanic (ErrInvalidTraceparent x17)"
  "\<not> isPanic ErrShortRead"
  "\<not> isPanic (ErrNotFound x18)"
  "\<not> isPanic (ErrDB x19)"
  "\<not> isPanic (ErrNoRoutingDecision x20)"
  "\<not> isPanic (ErrNoPolicyDecision x21)"
  "\<not> isPanic (ErrNoWorkflowRun x22)"
  "\<not> isPanic ErrLeaseExhausted"
  "\<not> isPanic (ErrTerminalWorkflow x23)"
  "\<not> isPanic (ErrUnknownPolicyOutcome x24)"
  "\<not> isPanic (ErrInvalidInput x25)"
  "\<not> isPanic (ErrJSON x26)"
  "\<not> isPanic (ErrCallback x27)"
  "\<not> isPanic (Wrap x28 x29)"
  by (simp_all add: isPanic_def)

definition bindW :: "string \<Rightarrow> ('s, 'a) go \<Rightarrow> ('a \<Rightarrow> ('s, 'b) go) \<Rightarrow> ('s, 'b) go" where
  "bindW c m k s =
     (case m s of
        (Inl e, s') \<Rightarrow> (Inl (if isPanic e then e else Wrap c e), s')
      | (Inr x, s') \<Rightarrow> k x s')"

text \<open>\<open>bindR m k\<close> hands the whole outcome to \<open>k\<close>: \<^verbatim>\<open>x, err := m\<close> with \<^verbatim>\<open>err\<close> inspected by \<open>k\<close>.\<close>

definition bindR :: "('s, 'a) go \<Rightarrow> (gov_error + 'a \<Rightarrow> ('s, 'b) go) \<Rightarrow> ('s, 'b) go" where
  "bindR m k s =
     (case m s of
        (Inl e, s') \<Rightarrow> (if isPanic e then (Inl e, s') else k (Inl e) s')
      | (Inr x, s') \<Rightarrow> k (Inr x) s')"

definition discard :: "('s, 'a) go \<Rightarrow> ('s, 'b) go \<Rightarrow> ('s, 'b) go" where
  "discard m k s =
     (case m s of
        (Inl e, s') \<Rightarrow> (if isPanic e then (Inl e, s') else k s')
      | (Inr x, s') \<Rightarrow> k s')"

section \<open>Weakest preconditions\<close>

definition wp :: "('s, 'a) go \<Rightarrow> ('a \<Rightarrow> 's \<Rightarrow> bool) \<Rightarrow> (gov_error \<Rightarrow> 's \<Rightarrow> bool) \<Rightarrow> 's \<Rightarrow> bool" where
  "wp m Q E s = (case m s of (Inl e, s') \<Rightarrow> E e s' | (Inr x, s') \<Rightarrow> Q x s')"

lemma wp_ret [wps]: "wp (ret x) Q E s = Q x s"
  by (simp add: wp_def ret_def)

lemma wp_throw [wps]: "wp (throw e) Q E s = E e s"
  by (simp add: wp_def throw_def)

lemma wp_lift [wps]: "wp (lift r) Q E s = (case r of Inl e \<Rightarrow> E e s | Inr x \<Rightarrow> Q x s)"
  by (simp add: wp_def lift_def)

lemma wp_gets [wps]: "wp (gets f) Q E s = Q (f s) s"
  by (simp add: wp_def gets_def)

lemma wp_modify [wps]: "wp (modify f) Q E s = Q () (f s)"
  by (simp add: wp_def modify_def)

lemma wp_bindE [wps]: "wp (bindE m k) Q E s = wp m (\<lambda>x. wp (k x) Q E) E s"
  by (simp add: wp_def bindE_def split: prod.splits sum.splits)

lemma wp_bindW [wps]:
  "wp (bindW c m k) Q E s = wp m (\<lambda>x. wp (k x) Q E) (\<lambda>e. E (if isPanic e then e else Wrap c e)) s"
  by (simp add: wp_def bindW_def split: prod.splits sum.splits)

lemma wp_bindR [wps]:
  "wp (bindR m k) Q E s =
     wp m (\<lambda>x. wp (k (Inr x)) Q E) (\<lambda>e s'. if isPanic e then E e s' else wp (k (Inl e)) Q E s') s"
  by (simp add: wp_def bindR_def split: prod.splits sum.splits)

lemma wp_discard [wps]:
  "wp (discard m k) Q E s = wp m (\<lambda>_. wp k Q E) (\<lambda>e s'. if isPanic e then E e s' else wp k Q E s') s"
  by (simp add: wp_def discard_def split: prod.splits sum.splits)

lemma wp_if [wps]: "wp (if b then m else n) Q E s = (if b then wp m Q E s else wp n Q E s)"
  by simp

lemma wp_case_option [wps]:
  "wp (case v of None \<Rightarrow> m | Some x \<Rightarrow> f x) Q E s = (case v of None \<Rightarrow> wp m Q E s | Some x \<Rightarrow> wp (f x) Q E s)"
  by (simp split: option.splits)

lemma wp_case_sum [wps]:
  "wp (case v of Inl e \<Rightarrow> m e | Inr x \<Rightarrow> f x) Q E s = (case v of Inl e \<Rightarrow> wp (m e) Q E s | Inr x \<Rightarrow> wp (f x) Q E s)"
  by (simp split: sum.splits)

text \<open>Consequence, and how to get back from \<open>wp\<close> to a run.\<close>

lemma wp_mono:
  assumes "wp m Q E s" "\<And>x t. Q x t \<Longrightarrow> Q' x t" "\<And>e t. E e t \<Longrightarrow> E' e t"
  shows "wp m Q' E' s"
  using assms by (auto simp: wp_def split: prod.splits sum.splits)

lemma wp_conj: "wp m Q E s \<Longrightarrow> wp m Q' E' s \<Longrightarrow> wp m (\<lambda>x t. Q x t \<and> Q' x t) (\<lambda>e t. E e t \<and> E' e t) s"
  by (auto simp: wp_def split: prod.splits sum.splits)

lemma wp_Inr: "wp m Q E s \<Longrightarrow> m s = (Inr x, t) \<Longrightarrow> Q x t"
  by (simp add: wp_def)

lemma wp_Inl: "wp m Q E s \<Longrightarrow> m s = (Inl e, t) \<Longrightarrow> E e t"
  by (simp add: wp_def)

lemma wp_snd: "wp m (\<lambda>_. P) (\<lambda>_. P) s \<Longrightarrow> P (snd (m s))"
  by (auto simp: wp_def split: prod.splits sum.splits)

section \<open>Two-state properties closed under sequencing\<close>

text \<open>
  A reflexive and transitive relation between states that every primitive step respects is
  respected by every computation built from those steps, whatever errors occur on the way.
\<close>

locale step_preorder =
  fixes R :: "'s \<Rightarrow> 's \<Rightarrow> bool"
  assumes R_refl: "R s s"
    and R_trans: "R s t \<Longrightarrow> R t u \<Longrightarrow> R s u"
begin

definition steps :: "('s, 'a) go \<Rightarrow> bool" where
  "steps m \<longleftrightarrow> (\<forall>s. R s (snd (m s)))"

lemma stepsI: "(\<And>s. R s (snd (m s))) \<Longrightarrow> steps m"
  by (simp add: steps_def)

lemma stepsD: "steps m \<Longrightarrow> R s (snd (m s))"
  by (simp add: steps_def)

lemma steps_ret: "steps (ret x)"
  by (simp add: steps_def ret_def R_refl)

lemma steps_throw: "steps (throw e)"
  by (simp add: steps_def throw_def R_refl)

lemma steps_lift: "steps (lift r)"
  by (simp add: steps_def lift_def R_refl)

lemma steps_gets: "steps (gets f)"
  by (simp add: steps_def gets_def R_refl)

lemma steps_modify: "(\<And>s. R s (f s)) \<Longrightarrow> steps (modify f)"
  by (simp add: steps_def modify_def)

lemma steps_bindR:
  assumes m: "steps m" and k: "\<And>r. steps (k r)"
  shows "steps (bindR m k)"
proof (rule stepsI)
  fix s
  obtain r t where mt: "m s = (r, t)" by fastforce
  then have "R s t" using stepsD [OF m, of s] by simp
  moreover have "R t (snd (k r t))" by (rule stepsD [OF k])
  ultimately show "R s (snd (bindR m k s))"
    by (cases r) (simp_all add: bindR_def mt R_trans)
qed

lemma bindE_bindR: "bindE m k = bindR m (\<lambda>r. case r of Inl e \<Rightarrow> throw e | Inr x \<Rightarrow> k x)"
  by (rule ext) (simp add: bindE_def bindR_def throw_def split: prod.splits sum.splits)

lemma bindW_bindR: "bindW c m k = bindR m (\<lambda>r. case r of Inl e \<Rightarrow> throw (Wrap c e) | Inr x \<Rightarrow> k x)"
  by (rule ext) (simp add: bindW_def bindR_def throw_def split: prod.splits sum.splits)

lemma discard_bindR: "discard m k = bindR m (\<lambda>_. k)"
  by (rule ext) (simp add: discard_def bindR_def split: prod.splits sum.splits)

lemma steps_bindE: "steps m \<Longrightarrow> (\<And>x. steps (k x)) \<Longrightarrow> steps (bindE m k)"
  unfolding bindE_bindR by (rule steps_bindR) (auto simp: steps_throw split: sum.split)

lemma steps_bindW: "steps m \<Longrightarrow> (\<And>x. steps (k x)) \<Longrightarrow> steps (bindW c m k)"
  unfolding bindW_bindR by (rule steps_bindR) (auto simp: steps_throw split: sum.split)

lemma steps_discard: "steps m \<Longrightarrow> steps k \<Longrightarrow> steps (discard m k)"
  unfolding discard_bindR by (rule steps_bindR)

lemma steps_if: "steps m \<Longrightarrow> steps n \<Longrightarrow> steps (if b then m else n)"
  by simp

lemma steps_case_option: "steps m \<Longrightarrow> (\<And>x. steps (f x)) \<Longrightarrow> steps (case v of None \<Rightarrow> m | Some x \<Rightarrow> f x)"
  by (simp split: option.splits)

lemma steps_case_sum: "(\<And>e. steps (m e)) \<Longrightarrow> (\<And>x. steps (f x)) \<Longrightarrow> steps (case v of Inl e \<Rightarrow> m e | Inr x \<Rightarrow> f x)"
  by (simp split: sum.splits)

lemmas steps_rules =
  steps_ret steps_throw steps_lift steps_gets steps_bindE steps_bindW steps_bindR
  steps_discard steps_if steps_case_option steps_case_sum

end

end
