(* ===== verification/Float64.thy ===== *)
theory Float64
  imports Prelude "HOL-Library.Log_Nat"
begin

text \<open>
  Go's \<^verbatim>\<open>float64\<close> arithmetic. A finite double is a rational number, and every operation returns
  the exact result rounded to the nearest double, ties to even (\<open>rnd64\<close>); an untyped constant
  of the source is rounded once, when it is used. The exponent range is unbounded, which is no
  restriction for the scores and rates of this program, all of which are 0 or of moderate size.
  Expressions are evaluated without fusing multiplications and additions.

  The only facts the other theories use are those of the locale \<open>rounding\<close>: rounding is
  monotone, odd and idempotent.
\<close>

section \<open>Rounding to an integer, ties to even\<close>

definition roundEven :: "rat \<Rightarrow> int" where
  "roundEven x =
     (let f = \<lfloor>x\<rfloor>; d = x - of_int f
      in if d < 1 / 2 then f else if 1 / 2 < d then f + 1 else if even f then f else f + 1)"

lemma roundEven_bounds: "\<lfloor>x\<rfloor> \<le> roundEven x" "roundEven x \<le> \<lfloor>x\<rfloor> + 1"
  by (auto simp: roundEven_def Let_def)

lemma roundEven_of_int [simp]: "roundEven (of_int i) = i"
  by (simp add: roundEven_def)

lemma roundEven_mono:
  assumes "x \<le> y"
  shows "roundEven x \<le> roundEven y"
proof (cases "\<lfloor>x\<rfloor> = \<lfloor>y\<rfloor>")
  case True
  with assms show ?thesis by (auto simp: roundEven_def Let_def)
next
  case False
  with assms have "\<lfloor>x\<rfloor> + 1 \<le> \<lfloor>y\<rfloor>" using floor_mono [OF assms] by simp
  then show ?thesis using roundEven_bounds(2) [of x] roundEven_bounds(1) [of y] by linarith
qed

lemma roundEven_ge: "of_int i \<le> x \<Longrightarrow> i \<le> roundEven x"
  using roundEven_mono [of "of_int i" x] by simp

lemma roundEven_le: "x \<le> of_int i \<Longrightarrow> roundEven x \<le> i"
  using roundEven_mono [of x "of_int i"] by simp

section \<open>The binary exponent of a positive rational\<close>

text \<open>\<open>ilog2 p q\<close> is the exponent \<open>e\<close> with \<open>2 ^ e \<le> p / q < 2 ^ (e + 1)\<close>, found from the bit lengths.\<close>

definition pow2 :: "int \<Rightarrow> rat" where
  "pow2 e = (if 0 \<le> e then 2 ^ nat e else 1 / 2 ^ nat (- e))"

definition expo :: "rat \<Rightarrow> int" where
  "expo x =
     (let (p, q) = quotient_of x; e = bitlen p - bitlen q
      in if pow2 e \<le> x then e else e - 1)"

lemma pow2_powi: "pow2 e = 2 powi e"
  by (auto simp: pow2_def power_int_def field_simps)

lemma pow2_pos [simp]: "0 < pow2 e"
  by (simp add: pow2_def)

lemma pow2_nonneg [simp]: "0 \<le> pow2 e"
  by (simp add: less_imp_le)

lemma pow2_nz [simp]: "pow2 e \<noteq> 0"
  using pow2_pos [of e] by linarith

lemma pow2_add: "pow2 (a + b) = pow2 a * pow2 b"
  by (simp add: pow2_powi power_int_add)

lemma pow2_le: "a \<le> b \<Longrightarrow> pow2 a \<le> pow2 b"
  by (simp add: pow2_powi power_int_increasing)

lemma pow2_less_imp: "pow2 a < pow2 b \<Longrightarrow> a < b"
  using pow2_le [of b a] by linarith

lemma bitlen_pow2:
  assumes "0 < i"
  shows "pow2 (bitlen i - 1) \<le> of_int i" "(of_int i :: rat) < pow2 (bitlen i)"
proof -
  from assms have b: "0 < bitlen i" using bitlen_nonneg [of i] by (simp add: bitlen_eq_zero_iff less_le)
  have "2 ^ nat (bitlen i - 1) \<le> i \<and> i < 2 ^ nat (bitlen i)"
    using bitlen_bounds [OF assms] .
  then have "(of_int (2 ^ nat (bitlen i - 1)) :: rat) \<le> of_int i"
    and "(of_int i :: rat) < of_int (2 ^ nat (bitlen i))"
    by (simp_all only: of_int_le_iff of_int_less_iff)
  then show "pow2 (bitlen i - 1) \<le> of_int i" "(of_int i :: rat) < pow2 (bitlen i)"
    using b by (simp_all add: pow2_def)
qed

lemma expo_bounds:
  assumes "0 < x"
  shows "pow2 (expo x) \<le> x" "x < pow2 (expo x + 1)"
proof -
  obtain p q where pq: "quotient_of x = (p, q)" by fastforce
  have q: "0 < q" using quotient_of_denom_pos [OF pq] .
  have x: "x = of_int p / of_int q" using quotient_of_div [OF pq] .
  have p: "0 < p" using assms x q by (simp add: zero_less_divide_iff)
  define e where "e = bitlen p - bitlen q"
  have "x < pow2 (bitlen p) / pow2 (bitlen q - 1)"
    unfolding x using p q bitlen_pow2 [OF p] bitlen_pow2 [OF q]
    by (intro frac_less) simp_all
  also have "\<dots> = pow2 (e + 1)"
    using pow2_add [of "bitlen q - 1" "e + 1"] by (simp add: e_def field_simps)
  finally have up: "x < pow2 (e + 1)" .
  have "pow2 (bitlen p - 1) / pow2 (bitlen q) \<le> x"
    unfolding x using p q bitlen_pow2 [OF p] bitlen_pow2 [OF q]
    by (intro frac_le) simp_all
  moreover have "pow2 (bitlen p - 1) / pow2 (bitlen q) = pow2 (e - 1)"
    using pow2_add [of "bitlen q" "e - 1"] by (simp add: e_def field_simps)
  ultimately have lo: "pow2 (e - 1) \<le> x" by simp
  have ex: "expo x = (if pow2 e \<le> x then e else e - 1)"
    by (simp add: expo_def pq e_def)
  show "pow2 (expo x) \<le> x" "x < pow2 (expo x + 1)"
    using up lo by (auto simp: ex)
qed

lemma expo_mono:
  assumes "0 < x" "x \<le> y"
  shows "expo x \<le> expo y"
proof -
  from assms have "pow2 (expo x) < pow2 (expo y + 1)"
    using expo_bounds [of x] expo_bounds [of y] by linarith
  then show ?thesis using pow2_less_imp by fastforce
qed

section \<open>Rounding to a double\<close>

definition rnd64 :: "rat \<Rightarrow> rat" where
  "rnd64 x =
     (if x = 0 then 0
      else let u = pow2 (expo \<bar>x\<bar> - 52)
           in sgn x * (of_int (roundEven (\<bar>x\<bar> / u)) * u))"

lemma rnd64_pos:
  assumes "0 < x"
  shows "rnd64 x = of_int (roundEven (x / pow2 (expo x - 52))) * pow2 (expo x - 52)"
  using assms by (simp add: rnd64_def Let_def)

lemma rnd64_0 [simp]: "rnd64 0 = 0"
  by (simp add: rnd64_def)

lemma rnd64_minus: "rnd64 (- x) = - rnd64 x"
  by (simp add: rnd64_def Let_def sgn_minus)

lemma pow2_52: "pow2 52 = of_int (2 ^ 52)"
  by (simp add: pow2_def)

lemma pow2_53: "pow2 53 = of_int (2 ^ 53)"
  by (simp add: pow2_def)

text \<open>Rounding stays between the powers of two around the number.\<close>

lemma rnd64_binade:
  assumes "0 < x"
  shows "pow2 (expo x) \<le> rnd64 x" "rnd64 x \<le> pow2 (expo x + 1)"
proof -
  define u where "u = pow2 (expo x - 52)"
  have u: "0 < u" by (simp add: u_def)
  have lo: "pow2 (expo x) = of_int (2 ^ 52) * u"
    using pow2_add [of 52 "expo x - 52"] by (simp only: pow2_52 [symmetric] u_def) simp
  have hi: "pow2 (expo x + 1) = of_int (2 ^ 53) * u"
    using pow2_add [of 53 "expo x - 52"]
    by (simp only: pow2_53 [symmetric] u_def) (simp add: add.commute)
  have "of_int (2 ^ 52) \<le> x / u" "x / u \<le> of_int (2 ^ 53)"
    using expo_bounds [OF assms] u lo hi by (simp_all add: field_simps)
  then have "2 ^ 52 \<le> roundEven (x / u)" "roundEven (x / u) \<le> 2 ^ 53"
    by (blast intro: roundEven_ge roundEven_le)+
  then have "(of_int (2 ^ 52) :: rat) \<le> of_int (roundEven (x / u))"
    "of_int (roundEven (x / u)) \<le> (of_int (2 ^ 53) :: rat)"
    by (simp_all only: of_int_le_iff)
  then show "pow2 (expo x) \<le> rnd64 x" "rnd64 x \<le> pow2 (expo x + 1)"
    unfolding rnd64_pos [OF assms] lo hi u_def [symmetric]
    using u by (simp_all only: mult_right_mono less_imp_le)
qed

lemma rnd64_pos_mono:
  assumes "0 < x" "x \<le> y"
  shows "rnd64 x \<le> rnd64 y"
proof (cases "expo x = expo y")
  case True
  have "x / pow2 (expo x - 52) \<le> y / pow2 (expo x - 52)"
    using assms by (simp add: divide_right_mono)
  then have "roundEven (x / pow2 (expo x - 52)) \<le> roundEven (y / pow2 (expo x - 52))"
    by (rule roundEven_mono)
  then show ?thesis using assms True by (simp add: rnd64_pos mult_right_mono)
next
  case False
  with expo_mono [OF assms] have "expo x + 1 \<le> expo y" by simp
  then have "pow2 (expo x + 1) \<le> pow2 (expo y)" by (rule pow2_le)
  then show ?thesis using rnd64_binade(2) [of x] rnd64_binade(1) [of y] assms by linarith
qed

lemma rnd64_nonneg: "0 \<le> x \<Longrightarrow> 0 \<le> rnd64 x"
proof (cases "x = 0")
  case False
  assume "0 \<le> x"
  with False have "0 < x" by simp
  from rnd64_binade(1) [OF this] show ?thesis using pow2_pos [of "expo x"] by linarith
qed simp

lemma rnd64_mono:
  assumes "x \<le> y"
  shows "rnd64 x \<le> rnd64 y"
proof (cases "0 < x")
  case True
  then show ?thesis using assms by (rule rnd64_pos_mono)
next
  case x: False
  show ?thesis
  proof (cases "0 \<le> y")
    case True
    from x have "0 \<le> rnd64 (- x)" by (intro rnd64_nonneg) simp
    then have "rnd64 x \<le> 0" by (simp add: rnd64_minus)
    then show ?thesis using rnd64_nonneg [OF True] by linarith
  next
    case False
    then have "rnd64 (- y) \<le> rnd64 (- x)" using assms by (intro rnd64_pos_mono) simp_all
    then show ?thesis by (simp add: rnd64_minus)
  qed
qed

lemma expo_unique:
  assumes "pow2 e \<le> x" "x < pow2 (e + 1)"
  shows "expo x = e"
proof -
  have "0 < x" using assms(1) pow2_pos [of e] by linarith
  note b = expo_bounds [OF this]
  have "pow2 e < pow2 (expo x + 1)" "pow2 (expo x) < pow2 (e + 1)"
    using assms b by linarith+
  then have "e < expo x + 1" "expo x < e + 1" by (blast intro: pow2_less_imp)+
  then show ?thesis by simp
qed

lemma rnd64_scaled:
  assumes "2 ^ 52 \<le> m" "m < 2 ^ 53"
  shows "rnd64 (of_int m * pow2 k) = of_int m * pow2 k"
proof -
  have m: "pow2 52 \<le> of_int m" "of_int m < pow2 53"
    unfolding pow2_52 pow2_53 of_int_le_iff of_int_less_iff using assms by blast+
  have "pow2 (k + 52) = pow2 52 * pow2 k" "pow2 (k + 52 + 1) = pow2 53 * pow2 k"
    using pow2_add [of 52 k] pow2_add [of 53 k] by (simp_all add: add.commute)
  then have "pow2 (k + 52) \<le> of_int m * pow2 k" "of_int m * pow2 k < pow2 (k + 52 + 1)"
    using m by (simp_all add: mult_right_mono)
  then have e: "expo (of_int m * pow2 k) = k + 52" by (rule expo_unique)
  have "0 < of_int m * pow2 k" using m(1) pow2_pos [of 52] by (intro mult_pos_pos) (linarith | simp)+
  then show ?thesis by (simp add: rnd64_pos e)
qed

lemma rnd64_pow2: "rnd64 (pow2 k) = pow2 k"
  using rnd64_scaled [of "2 ^ 52" "k - 52"] pow2_add [of 52 "k - 52"] by (simp add: pow2_52)

lemma rnd64_idem: "rnd64 (rnd64 x) = rnd64 x"
proof -
  have pos: "rnd64 (rnd64 x) = rnd64 x" if "0 < x" for x
  proof -
    define u where "u = expo x - 52"
    define m where "m = roundEven (x / pow2 u)"
    have r: "rnd64 x = of_int m * pow2 u"
      using rnd64_pos [OF that] by (simp add: m_def u_def)
    have b: "pow2 (expo x) = pow2 52 * pow2 u" "pow2 (expo x + 1) = pow2 53 * pow2 u"
      using pow2_add [of 52 u] pow2_add [of 53 u] by (simp_all add: u_def add.commute)
    have "pow2 52 * pow2 u \<le> of_int m * pow2 u" "of_int m * pow2 u \<le> pow2 53 * pow2 u"
      using rnd64_binade [OF that] by (simp_all add: r b)
    then have "pow2 52 \<le> of_int m" "of_int m \<le> pow2 53" by simp_all
    then have m: "2 ^ 52 \<le> m" "m \<le> 2 ^ 53"
      unfolding pow2_52 pow2_53 of_int_le_iff by blast+
    show ?thesis
    proof (cases "m = 2 ^ 53")
      case True
      then have "rnd64 x = pow2 (expo x + 1)" by (simp only: r b pow2_53)
      then show ?thesis by (simp add: rnd64_pow2)
    next
      case False
      with m have "m < 2 ^ 53" by simp
      then show ?thesis unfolding r by (rule rnd64_scaled [OF m(1)])
    qed
  qed
  consider "x = 0" | "0 < x" | "0 < - x" by linarith
  then show ?thesis
  proof cases
    case 3
    from pos [OF this] show ?thesis by (simp add: rnd64_minus)
  qed (simp_all add: pos)
qed

section \<open>The interface of rounding\<close>

locale rounding =
  fixes rnd :: "rat \<Rightarrow> rat"
  assumes mono: "x \<le> y \<Longrightarrow> rnd x \<le> rnd y"
    and odd: "rnd (- x) = - rnd x"
    and idem: "rnd (rnd x) = rnd x"
    and one: "rnd 1 = 1"
begin

lemma zero: "rnd 0 = 0"
  using odd [of 0] by simp

lemma nonneg: "0 \<le> x \<Longrightarrow> 0 \<le> rnd x"
  using mono [of 0 x] by (simp add: zero)

lemma nonpos: "x \<le> 0 \<Longrightarrow> rnd x \<le> 0"
  using mono [of x 0] by (simp add: zero)

lemma le_one: "x \<le> 1 \<Longrightarrow> rnd x \<le> 1"
  using mono [of x 1] by (simp add: one)

lemma unit: "0 \<le> x \<Longrightarrow> x \<le> 1 \<Longrightarrow> 0 \<le> rnd x \<and> rnd x \<le> 1"
  by (simp add: nonneg le_one)

text \<open>A representable bound on the exact result is a bound on the rounded one.\<close>

lemma le_repr: "x \<le> rnd b \<Longrightarrow> rnd x \<le> rnd b"
  using mono [of x "rnd b"] by (simp add: idem)

lemma ge_repr: "rnd b \<le> x \<Longrightarrow> rnd b \<le> rnd x"
  using mono [of "rnd b" x] by (simp add: idem)

lemma ge_neg_repr: "- rnd b \<le> x \<Longrightarrow> - rnd b \<le> rnd x"
  using ge_repr [of "- b" x] by (simp add: odd)

text \<open>Scaling a number by a factor of the unit interval keeps it within representable bounds.\<close>

lemma scale_bounds:
  assumes "- rnd a \<le> x" "x \<le> rnd b" "0 \<le> rnd a" "0 \<le> rnd b" "0 \<le> c" "c \<le> 1"
  shows "- rnd a \<le> rnd (x * c)" "rnd (x * c) \<le> rnd b"
proof -
  have "x * c \<le> rnd b"
    using mult_mono [of x "rnd b" c 1] assms mult_nonpos_nonneg [of x c]
    by (cases "0 \<le> x") (auto intro: order_trans)
  then show "rnd (x * c) \<le> rnd b" by (rule le_repr)
  have "(- x) * c \<le> rnd a"
    using mult_mono [of "- x" "rnd a" c 1] assms mult_nonneg_nonneg [of x c]
    by (cases "0 \<le> - x") (auto intro: order_trans)
  then show "- rnd a \<le> rnd (x * c)" by (intro ge_neg_repr) simp
qed

end

interpretation fl: rounding rnd64
proof
  show "rnd64 1 = 1" using rnd64_pow2 [of 0] by (simp add: pow2_def)
qed (simp_all add: rnd64_mono rnd64_minus rnd64_idem)

section \<open>The operations\<close>

definition fadd :: "rat \<Rightarrow> rat \<Rightarrow> rat" where "fadd x y = rnd64 (x + y)"
definition fsub :: "rat \<Rightarrow> rat \<Rightarrow> rat" where "fsub x y = rnd64 (x - y)"
definition fmul :: "rat \<Rightarrow> rat \<Rightarrow> rat" where "fmul x y = rnd64 (x * y)"
definition fdiv :: "rat \<Rightarrow> rat \<Rightarrow> rat" where "fdiv x y = rnd64 (x / y)"

lemmas fl_defs = fadd_def fsub_def fmul_def fdiv_def

text \<open>\<^verbatim>\<open>float64(a) / float64(b)\<close> for counters with \<open>0 \<le> a \<le> b\<close> is a rate in the unit interval.\<close>

lemma fdiv_unit:
  assumes "0 \<le> a" "a \<le> b"
  shows "0 \<le> fdiv a b \<and> fdiv a b \<le> 1"
proof -
  have "0 \<le> a / b" "a / b \<le> 1" using assms by (auto simp: divide_le_eq_1)
  then show ?thesis by (simp add: fdiv_def fl.unit)
qed

text \<open>
  \<^verbatim>\<open>fmt.Sprintf("%.kf", x)\<close>: the decimal with \<open>k\<close> digits after the point nearest to \<open>x\<close>,
  ties to even, with the sign of \<open>x\<close>.
\<close>

definition fmtFixed :: "nat \<Rightarrow> rat \<Rightarrow> string" where
  "fmtFixed k x =
     (let n = nat (roundEven (\<bar>x\<bar> * 10 ^ k))
      in (if x < 0 then ''-'' else '''') @ showNat (n div 10 ^ k) @
         (if k = 0 then '''' else ''.'' @ padDigits k (n mod 10 ^ k)))"

end
