(* ===== verification/Shared.thy ===== *)
theory Shared
  imports Float64
begin

text \<open>
  The shared kernel (\<^verbatim>\<open>internal/domain/shared\<close>): identifiers, the string enumerations and the
  non-zero timestamp, and the two interfaces the aggregates of the program have in common.

  A Go \<^verbatim>\<open>type X string\<close> is a datatype with one constructor: the constructor is the conversion
  \<^verbatim>\<open>X(s)\<close>, the selector \<^verbatim>\<open>string(x)\<close>, and the constants of the source are abbreviations. So
  values outside the declared constants exist in the model as they do in the program.
\<close>

section \<open>Interfaces\<close>

subsection \<open>String enumerations\<close>

text \<open>A type over strings, its declared values and its checked conversion.\<close>

locale string_enum =
  fixes mk :: "string \<Rightarrow> 'e" and str :: "'e \<Rightarrow> string"
    and declared :: "'e list" and parse :: "string \<Rightarrow> gov_error + 'e"
    and what :: string
  assumes str_mk: "str (mk s) = s"
    and mk_str: "mk (str x) = x"
    and parse_eq: "parse s = (if mk s \<in> set declared then Inr (mk s) else Inl (ErrInvalidEnum what s))"
begin

lemma str_inj: "str x = str y \<longleftrightarrow> x = y"
  by (metis mk_str)

lemma parse_str: "x \<in> set declared \<Longrightarrow> parse (str x) = Inr x"
  by (simp add: parse_eq mk_str)

lemma parse_Inr: "parse s = Inr x \<longleftrightarrow> s = str x \<and> x \<in> set declared"
  by (auto simp: parse_eq str_mk mk_str)

lemma mk_declared: "mk s \<in> set declared \<longleftrightarrow> s \<in> str ` set declared"
  by (metis imageE image_eqI mk_str str_mk)

lemma parse_Inl: "parse s = Inl e \<longleftrightarrow> s \<notin> str ` set declared \<and> e = ErrInvalidEnum what s"
  by (auto simp: parse_eq mk_declared [symmetric] simp del: image_iff)

end

subsection \<open>Objects with a status\<close>

text \<open>
  A method that fails leaves its object as it was, so a sequence of calls whose errors the
  callers handle or drop is a fold over the object.
\<close>

fun runOps :: "('op \<Rightarrow> 'a \<Rightarrow> gov_error + 'a) \<Rightarrow> 'op list \<Rightarrow> 'a \<Rightarrow> 'a" where
  "runOps step [] x = x"
| "runOps step (op # ops) x =
     runOps step ops (case step op x of Inl _ \<Rightarrow> x | Inr y \<Rightarrow> y)"

lemma runOps_append: "runOps step (ops @ ops') x = runOps step ops' (runOps step ops x)"
  by (induction ops arbitrary: x) simp_all

lemma runOps_induct:
  assumes "P x" "\<And>op x y. P x \<Longrightarrow> step op x = Inr y \<Longrightarrow> P y"
  shows "P (runOps step ops x)"
  using assms(1) by (induction ops arbitrary: x) (auto intro: assms(2) split: sum.split)

locale status_machine =
  fixes status :: "'a \<Rightarrow> 'st" and valid :: "'st \<Rightarrow> 'st \<Rightarrow> bool"
    and step :: "'op \<Rightarrow> 'a \<Rightarrow> gov_error + 'a"
  assumes step_valid: "step op x = Inr y \<Longrightarrow> valid (status x) (status y)"
begin

text \<open>Every sequence of calls moves the status along the transition relation.\<close>

lemma runOps_path: "valid\<^sup>*\<^sup>* (status x) (status (runOps step ops x))"
proof (rule runOps_induct [where P = "\<lambda>y. valid\<^sup>*\<^sup>* (status x) (status y)"])
  fix op u v
  assume "valid\<^sup>*\<^sup>* (status x) (status u)" "step op u = Inr v"
  then show "valid\<^sup>*\<^sup>* (status x) (status v)"
    by (auto intro: rtranclp.rtrancl_into_rtrancl dest: step_valid)
qed simp

text \<open>An object whose status has no way out rejects every call and never changes.\<close>

lemma final_rejects: "(\<And>t. \<not> valid (status x) t) \<Longrightarrow> \<exists>e. step op x = Inl e"
  by (cases "step op x") (auto dest: step_valid)

lemma final_stays:
  assumes "\<And>t. \<not> valid (status x) t"
  shows "runOps step ops x = x"
proof (induction ops)
  case (Cons op ops)
  from final_rejects [OF assms] obtain e where "step op x = Inl e" by blast
  with Cons show ?case by simp
qed simp

end

subsection \<open>Keyed stores\<close>

text \<open>What a client of a keyed store relies on: a lookup sees the last value put under its key.\<close>

locale kv_store =
  fixes lookup :: "'s \<Rightarrow> 'k \<Rightarrow> 'v option" and put :: "'k \<Rightarrow> 'v \<Rightarrow> 's \<Rightarrow> 's"
  assumes lookup_put: "lookup (put k v s) k' = (if k' = k then Some v else lookup s k')"
begin

lemma lookup_same: "lookup (put k v s) k = Some v"
  by (simp add: lookup_put)

lemma lookup_other: "k' \<noteq> k \<Longrightarrow> lookup (put k v s) k' = lookup s k'"
  by (simp add: lookup_put)

text \<open>A property of every stored value is kept by a put whose value has it.\<close>

lemma all_put:
  "(\<And>k' v'. lookup s k' = Some v' \<Longrightarrow> P k' v') \<Longrightarrow> P k v \<Longrightarrow> lookup (put k v s) k' = Some v' \<Longrightarrow> P k' v'"
  by (auto simp: lookup_put split: if_splits)

end

section \<open>Identifiers\<close>

text \<open>
  \<open>ulidOK\<close> stands for the success of \<^verbatim>\<open>ulid.ParseStrict\<close> (a third-party package). Converting
  between an identifier type and its string is the identity.
\<close>

type_synonym TaskID = string
type_synonym WorkflowRunID = string
type_synonym RoutingDecisionID = string
type_synonym PolicyDecisionID = string
type_synonym ApprovalRequestID = string
type_synonym ExecutionLeaseID = string
type_synonym EscalationTriggerID = string
type_synonym AuditEntryID = string
type_synonym ActorID = string

definition validateULID :: "(string \<Rightarrow> bool) \<Rightarrow> string \<Rightarrow> gov_error + unit" where
  "validateULID ulidOK s =
     (if s = [] then Inl ErrEmptyID
      else if \<not> ulidOK s then Inl (ErrInvalidULID s)
      else Inr ())"

definition newID :: "(string \<Rightarrow> bool) \<Rightarrow> string \<Rightarrow> gov_error + string" where
  "newID ulidOK s = (case validateULID ulidOK s of Inl e \<Rightarrow> Inl e | Inr _ \<Rightarrow> Inr s)"

definition NewTaskID :: "(string \<Rightarrow> bool) \<Rightarrow> string \<Rightarrow> gov_error + TaskID" where
  "NewTaskID = newID"
definition NewWorkflowRunID :: "(string \<Rightarrow> bool) \<Rightarrow> string \<Rightarrow> gov_error + WorkflowRunID" where
  "NewWorkflowRunID = newID"
definition NewRoutingDecisionID :: "(string \<Rightarrow> bool) \<Rightarrow> string \<Rightarrow> gov_error + RoutingDecisionID" where
  "NewRoutingDecisionID = newID"
definition NewPolicyDecisionID :: "(string \<Rightarrow> bool) \<Rightarrow> string \<Rightarrow> gov_error + PolicyDecisionID" where
  "NewPolicyDecisionID = newID"
definition NewApprovalRequestID :: "(string \<Rightarrow> bool) \<Rightarrow> string \<Rightarrow> gov_error + ApprovalRequestID" where
  "NewApprovalRequestID = newID"
definition NewExecutionLeaseID :: "(string \<Rightarrow> bool) \<Rightarrow> string \<Rightarrow> gov_error + ExecutionLeaseID" where
  "NewExecutionLeaseID = newID"
definition NewEscalationTriggerID :: "(string \<Rightarrow> bool) \<Rightarrow> string \<Rightarrow> gov_error + EscalationTriggerID" where
  "NewEscalationTriggerID = newID"
definition NewAuditEntryID :: "(string \<Rightarrow> bool) \<Rightarrow> string \<Rightarrow> gov_error + AuditEntryID" where
  "NewAuditEntryID = newID"

lemmas newID_defs =
  NewTaskID_def NewWorkflowRunID_def NewRoutingDecisionID_def NewPolicyDecisionID_def
  NewApprovalRequestID_def NewExecutionLeaseID_def NewEscalationTriggerID_def NewAuditEntryID_def

lemma newID_Inr: "newID ulidOK s = Inr i \<longleftrightarrow> i = s \<and> s \<noteq> [] \<and> ulidOK s"
  by (auto simp: newID_def validateULID_def)

definition NewActorID :: "string \<Rightarrow> gov_error + ActorID" where
  "NewActorID s = (if s = [] then Inl ErrEmptyID else Inr s)"

lemma NewActorID_Inr: "NewActorID s = Inr i \<longleftrightarrow> i = s \<and> s \<noteq> []"
  by (auto simp: NewActorID_def)

section \<open>Timestamps\<close>

type_synonym Timestamp = gotime

definition NewTimestamp :: "gotime \<Rightarrow> gov_error + Timestamp" where
  "NewTimestamp t = (if t = 0 then Inl ErrZeroTimestamp else Inr t)"

definition MustTimestamp :: "gotime \<Rightarrow> gov_error + Timestamp" where
  "MustTimestamp t =
     (case NewTimestamp t of Inl _ \<Rightarrow> Inl (ErrPanic ''timestamp must not be zero'') | Inr ts \<Rightarrow> Inr ts)"

lemma NewTimestamp_Inr: "NewTimestamp t = Inr ts \<longleftrightarrow> ts = t \<and> t \<noteq> 0"
  by (auto simp: NewTimestamp_def)

section \<open>Enumerations\<close>

datatype RiskLevel = RiskLevel (RiskLevel_String: string)

abbreviation "RiskLevelLow \<equiv> RiskLevel ''low''"
abbreviation "RiskLevelMedium \<equiv> RiskLevel ''medium''"
abbreviation "RiskLevelHigh \<equiv> RiskLevel ''high''"
abbreviation "RiskLevelCritical \<equiv> RiskLevel ''critical''"

definition validRiskLevels :: "RiskLevel list" where
  "validRiskLevels = [RiskLevelLow, RiskLevelMedium, RiskLevelHigh, RiskLevelCritical]"

definition NewRiskLevel :: "string \<Rightarrow> gov_error + RiskLevel" where
  "NewRiskLevel s =
     (let rl = RiskLevel s
      in if rl \<notin> set validRiskLevels then Inl (ErrInvalidEnum ''risk level'' s) else Inr rl)"

interpretation riskLevel: string_enum RiskLevel RiskLevel_String validRiskLevels NewRiskLevel "''risk level''"
  by unfold_locales (simp_all add: NewRiskLevel_def Let_def)

datatype Priority = Priority (Priority_String: string)

abbreviation "PriorityLow \<equiv> Priority ''low''"
abbreviation "PriorityNormal \<equiv> Priority ''normal''"
abbreviation "PriorityHigh \<equiv> Priority ''high''"
abbreviation "PriorityUrgent \<equiv> Priority ''urgent''"

definition validPriorities :: "Priority list" where
  "validPriorities = [PriorityLow, PriorityNormal, PriorityHigh, PriorityUrgent]"

definition NewPriority :: "string \<Rightarrow> gov_error + Priority" where
  "NewPriority s =
     (let p = Priority s
      in if p \<notin> set validPriorities then Inl (ErrInvalidEnum ''priority'' s) else Inr p)"

interpretation priority: string_enum Priority Priority_String validPriorities NewPriority "''priority''"
  by unfold_locales (simp_all add: NewPriority_def Let_def)

datatype FailureStage = FailureStage (FailureStage_String: string)

abbreviation "FailureStageRouting \<equiv> FailureStage ''routing''"
abbreviation "FailureStagePolicy \<equiv> FailureStage ''policy''"
abbreviation "FailureStageApproval \<equiv> FailureStage ''approval''"
abbreviation "FailureStageWorkflow \<equiv> FailureStage ''workflow''"
abbreviation "FailureStageExecution \<equiv> FailureStage ''execution''"
abbreviation "FailureStageRuntime \<equiv> FailureStage ''runtime''"
abbreviation "FailureStageMemoryContext \<equiv> FailureStage ''memory_context''"
abbreviation "FailureStageNotification \<equiv> FailureStage ''notification''"

definition validFailureStages :: "FailureStage list" where
  "validFailureStages =
     [FailureStageRouting, FailureStagePolicy, FailureStageApproval, FailureStageWorkflow,
      FailureStageExecution, FailureStageRuntime, FailureStageMemoryContext, FailureStageNotification]"

definition NewFailureStage :: "string \<Rightarrow> gov_error + FailureStage" where
  "NewFailureStage s =
     (let fs = FailureStage s
      in if fs \<notin> set validFailureStages then Inl (ErrInvalidEnum ''failure stage'' s) else Inr fs)"

interpretation failureStage:
  string_enum FailureStage FailureStage_String validFailureStages NewFailureStage "''failure stage''"
  by unfold_locales (simp_all add: NewFailureStage_def Let_def)

lemmas shared_lists = validRiskLevels_def validPriorities_def validFailureStages_def

end
