(* ===== verification/Workflow.thy ===== *)
theory Workflow
  imports Shared
begin

text \<open>
  The workflow aggregate (\<^verbatim>\<open>internal/domain/workflow\<close>): the execution state of a task, its
  transition table and its recorded history.
\<close>

section \<open>Statuses\<close>

datatype WorkflowStatus = WorkflowStatus (WorkflowStatus_String: string)

abbreviation "StatusCreated \<equiv> WorkflowStatus ''created''"
abbreviation "StatusRouted \<equiv> WorkflowStatus ''routed''"
abbreviation "StatusPolicyChecked \<equiv> WorkflowStatus ''policy_checked''"
abbreviation "StatusRunning \<equiv> WorkflowStatus ''running''"
abbreviation "StatusAwaitingApproval \<equiv> WorkflowStatus ''awaiting_approval''"
abbreviation "StatusApproved \<equiv> WorkflowStatus ''approved''"
abbreviation "StatusPaused \<equiv> WorkflowStatus ''paused''"
abbreviation "StatusCompleted \<equiv> WorkflowStatus ''completed''"
abbreviation "StatusFailed \<equiv> WorkflowStatus ''failed''"
abbreviation "StatusKilled \<equiv> WorkflowStatus ''killed''"
abbreviation "StatusQuarantined \<equiv> WorkflowStatus ''quarantined''"

definition workflowStatuses :: "WorkflowStatus list" where
  "workflowStatuses =
     [StatusCreated, StatusRouted, StatusPolicyChecked, StatusRunning, StatusAwaitingApproval,
      StatusApproved, StatusPaused, StatusCompleted, StatusFailed, StatusKilled, StatusQuarantined]"

definition terminalStates :: "WorkflowStatus list" where
  "terminalStates = [StatusCompleted, StatusFailed, StatusKilled, StatusQuarantined]"

definition IsTerminal :: "WorkflowStatus \<Rightarrow> bool" where
  "IsTerminal s \<longleftrightarrow> s \<in> set terminalStates"

definition transitionTable :: "WorkflowStatus \<Rightarrow> WorkflowStatus list option" where
  "transitionTable =
     [StatusCreated \<mapsto> [StatusRouted],
      StatusRouted \<mapsto> [StatusPolicyChecked],
      StatusPolicyChecked \<mapsto> [StatusRunning, StatusAwaitingApproval, StatusFailed],
      StatusAwaitingApproval \<mapsto> [StatusApproved, StatusFailed],
      StatusApproved \<mapsto> [StatusRunning],
      StatusRunning \<mapsto> [StatusCompleted, StatusFailed, StatusPaused, StatusKilled, StatusQuarantined],
      StatusPaused \<mapsto> [StatusRunning, StatusKilled]]"

definition IsValidTransition :: "WorkflowStatus \<Rightarrow> WorkflowStatus \<Rightarrow> bool" where
  "IsValidTransition from to \<longleftrightarrow>
     (if to = StatusKilled \<and> \<not> IsTerminal from then True
      else case transitionTable from of None \<Rightarrow> False | Some targets \<Rightarrow> to \<in> set targets)"

lemma IsTerminal_simps [simp]:
  "\<not> IsTerminal StatusCreated" "\<not> IsTerminal StatusRouted" "\<not> IsTerminal StatusPolicyChecked"
  "\<not> IsTerminal StatusRunning" "\<not> IsTerminal StatusAwaitingApproval" "\<not> IsTerminal StatusApproved"
  "\<not> IsTerminal StatusPaused" "IsTerminal StatusCompleted" "IsTerminal StatusFailed"
  "IsTerminal StatusKilled" "IsTerminal StatusQuarantined"
  by (simp_all add: IsTerminal_def terminalStates_def)

lemma IsTerminal_iff:
  "IsTerminal s \<longleftrightarrow>
     s = StatusCompleted \<or> s = StatusFailed \<or> s = StatusKilled \<or> s = StatusQuarantined"
  by (simp add: IsTerminal_def terminalStates_def)

lemma IsValidTransition_simps [simp]:
  "IsValidTransition StatusCreated s \<longleftrightarrow> s = StatusRouted \<or> s = StatusKilled"
  "IsValidTransition StatusRouted s \<longleftrightarrow> s = StatusPolicyChecked \<or> s = StatusKilled"
  "IsValidTransition StatusPolicyChecked s \<longleftrightarrow>
     s = StatusRunning \<or> s = StatusAwaitingApproval \<or> s = StatusFailed \<or> s = StatusKilled"
  "IsValidTransition StatusAwaitingApproval s \<longleftrightarrow>
     s = StatusApproved \<or> s = StatusFailed \<or> s = StatusKilled"
  "IsValidTransition StatusApproved s \<longleftrightarrow> s = StatusRunning \<or> s = StatusKilled"
  "IsValidTransition StatusRunning s \<longleftrightarrow>
     s = StatusCompleted \<or> s = StatusFailed \<or> s = StatusPaused \<or> s = StatusKilled \<or> s = StatusQuarantined"
  "IsValidTransition StatusPaused s \<longleftrightarrow> s = StatusRunning \<or> s = StatusKilled"
  by (auto simp: IsValidTransition_def transitionTable_def)

lemma terminal_no_transition: "IsTerminal s \<Longrightarrow> \<not> IsValidTransition s s'"
  by (auto simp: IsTerminal_iff IsValidTransition_def transitionTable_def)

lemma IsValidTransition_terminal [simp]:
  "\<not> IsValidTransition StatusCompleted s" "\<not> IsValidTransition StatusFailed s"
  "\<not> IsValidTransition StatusKilled s" "\<not> IsValidTransition StatusQuarantined s"
  by (simp_all add: terminal_no_transition)

text \<open>Only declared statuses are ever entered.\<close>

lemma IsValidTransition_declared: "IsValidTransition s s' \<Longrightarrow> s' \<in> set workflowStatuses"
  by (auto simp: IsValidTransition_def transitionTable_def workflowStatuses_def split: if_splits)

text \<open>Which statuses can lead into a given one.\<close>

lemma IsValidTransition_into:
  "IsValidTransition s StatusRouted \<longleftrightarrow> s = StatusCreated"
  "IsValidTransition s StatusPolicyChecked \<longleftrightarrow> s = StatusRouted"
  "IsValidTransition s StatusRunning \<longleftrightarrow> s = StatusPolicyChecked \<or> s = StatusApproved \<or> s = StatusPaused"
  "IsValidTransition s StatusAwaitingApproval \<longleftrightarrow> s = StatusPolicyChecked"
  "IsValidTransition s StatusApproved \<longleftrightarrow> s = StatusAwaitingApproval"
  "IsValidTransition s StatusPaused \<longleftrightarrow> s = StatusRunning"
  "IsValidTransition s StatusCompleted \<longleftrightarrow> s = StatusRunning"
  "IsValidTransition s StatusQuarantined \<longleftrightarrow> s = StatusRunning"
  "IsValidTransition s StatusKilled \<longleftrightarrow> \<not> IsTerminal s"
  "\<not> IsValidTransition s StatusCreated"
  by (auto simp: IsValidTransition_def transitionTable_def terminal_no_transition IsTerminal_iff)

section \<open>The aggregate\<close>

record WorkflowTransition =
  tr_From :: WorkflowStatus
  tr_To :: WorkflowStatus
  tr_Reason :: string
  tr_Actor :: ActorID
  tr_Timestamp :: Timestamp

record WorkflowRun =
  w_ID :: WorkflowRunID
  w_TaskID :: TaskID
  w_Status :: WorkflowStatus
  w_RoutingDecisionID :: "RoutingDecisionID option"
  w_PolicyDecisionID :: "PolicyDecisionID option"
  w_CurrentStepIndex :: int
  w_Transitions :: "WorkflowTransition list"
  w_CreatedAt :: Timestamp
  w_UpdatedAt :: Timestamp

definition NewWorkflowRun :: "WorkflowRunID \<Rightarrow> TaskID \<Rightarrow> Timestamp \<Rightarrow> WorkflowRun" where
  "NewWorkflowRun i taskID now =
     \<lparr>w_ID = i, w_TaskID = taskID, w_Status = StatusCreated, w_RoutingDecisionID = None,
      w_PolicyDecisionID = None, w_CurrentStepIndex = 0, w_Transitions = [],
      w_CreatedAt = now, w_UpdatedAt = now\<rparr>"

definition transitionTo ::
  "WorkflowStatus \<Rightarrow> string \<Rightarrow> ActorID \<Rightarrow> Timestamp \<Rightarrow> WorkflowRun \<Rightarrow> gov_error + WorkflowRun" where
  "transitionTo target reason actor now w =
     (if IsTerminal (w_Status w)
      then Inl (ErrTerminalState ''cannot transition from '' (WorkflowStatus_String (w_Status w)))
      else if \<not> IsValidTransition (w_Status w) target
      then Inl (ErrInvalidTransition (WorkflowStatus_String (w_Status w)) (WorkflowStatus_String target))
      else
        let transition = \<lparr>tr_From = w_Status w, tr_To = target, tr_Reason = reason,
                          tr_Actor = actor, tr_Timestamp = now\<rparr>
        in Inr (w\<lparr>w_Transitions := w_Transitions w @ [transition],
                  w_Status := target, w_UpdatedAt := now\<rparr>))"

definition MarkRouted ::
  "RoutingDecisionID \<Rightarrow> string \<Rightarrow> ActorID \<Rightarrow> Timestamp \<Rightarrow> WorkflowRun \<Rightarrow> gov_error + WorkflowRun" where
  "MarkRouted rdID reason actor now w =
     (case transitionTo StatusRouted reason actor now w of
        Inl e \<Rightarrow> Inl e
      | Inr w' \<Rightarrow> Inr (w'\<lparr>w_RoutingDecisionID := Some rdID\<rparr>))"

definition MarkPolicyChecked ::
  "PolicyDecisionID \<Rightarrow> ActorID \<Rightarrow> Timestamp \<Rightarrow> WorkflowRun \<Rightarrow> gov_error + WorkflowRun" where
  "MarkPolicyChecked pdID actor now w =
     (case transitionTo StatusPolicyChecked [] actor now w of
        Inl e \<Rightarrow> Inl e
      | Inr w' \<Rightarrow> Inr (w'\<lparr>w_PolicyDecisionID := Some pdID\<rparr>))"

definition TransitionTo ::
  "WorkflowStatus \<Rightarrow> string \<Rightarrow> ActorID \<Rightarrow> Timestamp \<Rightarrow> WorkflowRun \<Rightarrow> gov_error + WorkflowRun" where
  "TransitionTo target reason actor now w = transitionTo target reason actor now w"

definition Kill :: "string \<Rightarrow> ActorID \<Rightarrow> Timestamp \<Rightarrow> WorkflowRun \<Rightarrow> gov_error + WorkflowRun" where
  "Kill reason actor now w =
     (if IsTerminal (w_Status w)
      then Inl (ErrTerminalState ''cannot kill from '' (WorkflowStatus_String (w_Status w)))
      else transitionTo StatusKilled reason actor now w)"

definition Pause :: "string \<Rightarrow> ActorID \<Rightarrow> Timestamp \<Rightarrow> WorkflowRun \<Rightarrow> gov_error + WorkflowRun" where
  "Pause reason actor now w = transitionTo StatusPaused reason actor now w"
definition Resume :: "string \<Rightarrow> ActorID \<Rightarrow> Timestamp \<Rightarrow> WorkflowRun \<Rightarrow> gov_error + WorkflowRun" where
  "Resume reason actor now w = transitionTo StatusRunning reason actor now w"
definition Complete :: "string \<Rightarrow> ActorID \<Rightarrow> Timestamp \<Rightarrow> WorkflowRun \<Rightarrow> gov_error + WorkflowRun" where
  "Complete reason actor now w = transitionTo StatusCompleted reason actor now w"
definition Fail :: "string \<Rightarrow> ActorID \<Rightarrow> Timestamp \<Rightarrow> WorkflowRun \<Rightarrow> gov_error + WorkflowRun" where
  "Fail reason actor now w = transitionTo StatusFailed reason actor now w"
definition Quarantine :: "string \<Rightarrow> ActorID \<Rightarrow> Timestamp \<Rightarrow> WorkflowRun \<Rightarrow> gov_error + WorkflowRun" where
  "Quarantine reason actor now w = transitionTo StatusQuarantined reason actor now w"

lemmas workflow_op_defs =
  MarkRouted_def MarkPolicyChecked_def TransitionTo_def Kill_def Pause_def Resume_def
  Complete_def Fail_def Quarantine_def

definition ReconstructWorkflowRun ::
  "WorkflowRunID \<Rightarrow> TaskID \<Rightarrow> WorkflowStatus \<Rightarrow> RoutingDecisionID option \<Rightarrow> PolicyDecisionID option \<Rightarrow>
   int \<Rightarrow> WorkflowTransition list \<Rightarrow> Timestamp \<Rightarrow> Timestamp \<Rightarrow> WorkflowRun" where
  "ReconstructWorkflowRun i taskID status rd pd idx ts created updated =
     \<lparr>w_ID = i, w_TaskID = taskID, w_Status = status, w_RoutingDecisionID = rd,
      w_PolicyDecisionID = pd, w_CurrentStepIndex = idx, w_Transitions = ts,
      w_CreatedAt = created, w_UpdatedAt = updated\<rparr>"

section \<open>The calls and the history\<close>

datatype WorkflowOp =
    OpMarkRouted RoutingDecisionID string
  | OpMarkPolicyChecked PolicyDecisionID
  | OpTransitionTo WorkflowStatus string
  | OpKill string
  | OpPause string
  | OpResume string
  | OpComplete string
  | OpFail string
  | OpQuarantine string

fun applyWorkflowOp :: "WorkflowOp \<times> ActorID \<times> Timestamp \<Rightarrow> WorkflowRun \<Rightarrow> gov_error + WorkflowRun" where
  "applyWorkflowOp (OpMarkRouted rd r, a, now) w = MarkRouted rd r a now w"
| "applyWorkflowOp (OpMarkPolicyChecked pd, a, now) w = MarkPolicyChecked pd a now w"
| "applyWorkflowOp (OpTransitionTo s r, a, now) w = TransitionTo s r a now w"
| "applyWorkflowOp (OpKill r, a, now) w = Kill r a now w"
| "applyWorkflowOp (OpPause r, a, now) w = Pause r a now w"
| "applyWorkflowOp (OpResume r, a, now) w = Resume r a now w"
| "applyWorkflowOp (OpComplete r, a, now) w = Complete r a now w"
| "applyWorkflowOp (OpFail r, a, now) w = Fail r a now w"
| "applyWorkflowOp (OpQuarantine r, a, now) w = Quarantine r a now w"

text \<open>\<open>chain s ts s'\<close>: the recorded transitions lead from \<open>s\<close> to \<open>s'\<close> without a gap, each one legal.\<close>

fun chain :: "WorkflowStatus \<Rightarrow> WorkflowTransition list \<Rightarrow> WorkflowStatus \<Rightarrow> bool" where
  "chain s [] s' \<longleftrightarrow> s = s'"
| "chain s (t # ts) s' \<longleftrightarrow> tr_From t = s \<and> IsValidTransition s (tr_To t) \<and> chain (tr_To t) ts s'"

lemma chain_snoc:
  "chain s (ts @ [t]) s' \<longleftrightarrow>
     chain s ts (tr_From t) \<and> IsValidTransition (tr_From t) (tr_To t) \<and> tr_To t = s'"
  by (induction ts arbitrary: s) auto

lemma transitionTo_Inr:
  "transitionTo target r a now w = Inr w' \<longleftrightarrow>
     IsValidTransition (w_Status w) target \<and>
     w' = w\<lparr>w_Transitions := w_Transitions w @
              [\<lparr>tr_From = w_Status w, tr_To = target, tr_Reason = r, tr_Actor = a, tr_Timestamp = now\<rparr>],
            w_Status := target, w_UpdatedAt := now\<rparr>"
  by (auto simp: transitionTo_def Let_def terminal_no_transition)

text \<open>What a successful call does: one legal transition, recorded last, by the caller, at its time.\<close>

lemma applyWorkflowOp_transitionTo:
  assumes "applyWorkflowOp (op, a, now) w = Inr w'"
  obtains target r u where "transitionTo target r a now w = Inr u"
    "w' = u \<or> (\<exists>rd. target = StatusRouted \<and> w' = u\<lparr>w_RoutingDecisionID := Some rd\<rparr>) \<or>
     (\<exists>pd. target = StatusPolicyChecked \<and> w' = u\<lparr>w_PolicyDecisionID := Some pd\<rparr>)"
  using assms
  by (cases op; simp add: workflow_op_defs split: sum.splits if_splits; blast)

lemma applyWorkflowOp_Inr:
  assumes "applyWorkflowOp (op, a, now) w = Inr w'"
  shows
    "\<exists>t. w_Transitions w' = w_Transitions w @ [t] \<and> tr_From t = w_Status w \<and> tr_To t = w_Status w' \<and>
         tr_Actor t = a \<and> tr_Timestamp t = now"
    "w_UpdatedAt w' = now" "IsValidTransition (w_Status w) (w_Status w')"
    "w_ID w' = w_ID w" "w_TaskID w' = w_TaskID w" "w_CreatedAt w' = w_CreatedAt w"
    "w_CurrentStepIndex w' = w_CurrentStepIndex w"
    "w_RoutingDecisionID w' = w_RoutingDecisionID w \<or> w_Status w' = StatusRouted"
    "w_PolicyDecisionID w' = w_PolicyDecisionID w \<or> w_Status w' = StatusPolicyChecked"
proof -
  from assms obtain target r u where u: "transitionTo target r a now w = Inr u"
    "w' = u \<or> (\<exists>rd. target = StatusRouted \<and> w' = u\<lparr>w_RoutingDecisionID := Some rd\<rparr>) \<or>
     (\<exists>pd. target = StatusPolicyChecked \<and> w' = u\<lparr>w_PolicyDecisionID := Some pd\<rparr>)"
    by (rule applyWorkflowOp_transitionTo)
  then show
    "\<exists>t. w_Transitions w' = w_Transitions w @ [t] \<and> tr_From t = w_Status w \<and> tr_To t = w_Status w' \<and>
         tr_Actor t = a \<and> tr_Timestamp t = now"
    "w_UpdatedAt w' = now" "IsValidTransition (w_Status w) (w_Status w')"
    "w_ID w' = w_ID w" "w_TaskID w' = w_TaskID w" "w_CreatedAt w' = w_CreatedAt w"
    "w_CurrentStepIndex w' = w_CurrentStepIndex w"
    "w_RoutingDecisionID w' = w_RoutingDecisionID w \<or> w_Status w' = StatusRouted"
    "w_PolicyDecisionID w' = w_PolicyDecisionID w \<or> w_Status w' = StatusPolicyChecked"
    by (auto simp: transitionTo_Inr)
qed

interpretation workflowMachine: status_machine w_Status IsValidTransition applyWorkflowOp
proof
  fix op w w'
  assume "applyWorkflowOp op w = Inr w'"
  then show "IsValidTransition (w_Status w) (w_Status w')"
    by (cases op) (auto dest: applyWorkflowOp_Inr(3))
qed

subsection \<open>The invariant of a workflow run\<close>

definition lastChange :: "WorkflowRun \<Rightarrow> Timestamp" where
  "lastChange w = (if w_Transitions w = [] then w_CreatedAt w else tr_Timestamp (last (w_Transitions w)))"

definition workflowInv :: "WorkflowRun \<Rightarrow> bool" where
  "workflowInv w \<longleftrightarrow>
     chain StatusCreated (w_Transitions w) (w_Status w) \<and>
     w_UpdatedAt w = lastChange w \<and>
     (w_RoutingDecisionID w \<noteq> None \<longrightarrow> StatusRouted \<in> tr_To ` set (w_Transitions w)) \<and>
     (w_PolicyDecisionID w \<noteq> None \<longrightarrow> StatusPolicyChecked \<in> tr_To ` set (w_Transitions w))"

lemma workflowInv_new: "workflowInv (NewWorkflowRun i t now)"
  by (simp add: workflowInv_def NewWorkflowRun_def lastChange_def)

lemma workflowInv_step:
  assumes "workflowInv w" "applyWorkflowOp op w = Inr w'"
  shows "workflowInv w'"
proof -
  obtain o' a now where op: "op = (o', a, now)" by (cases op)
  note eff = applyWorkflowOp_Inr [OF assms(2) [unfolded op]]
  from eff(1) obtain t where "w_Transitions w' = w_Transitions w @ [t]" "tr_From t = w_Status w"
    "tr_To t = w_Status w'" "tr_Timestamp t = now" by blast
  with assms(1) eff(2,3,8,9) show ?thesis
    by (auto simp: workflowInv_def lastChange_def chain_snoc)
qed

lemma workflowInv_runOps: "workflowInv w \<Longrightarrow> workflowInv (runOps applyWorkflowOp ops w)"
  by (rule runOps_induct [where P = workflowInv]) (auto intro: workflowInv_step)

text \<open>A status reached from the start lies on a legal path; before it runs, a run was routed and checked.\<close>

lemma chain_declared: "chain s ts s' \<Longrightarrow> s \<in> set workflowStatuses \<Longrightarrow> s' \<in> set workflowStatuses"
  by (induction ts arbitrary: s) (auto dest: IsValidTransition_declared)

lemma chain_killed: "chain StatusKilled ts s' \<longleftrightarrow> ts = [] \<and> s' = StatusKilled"
  by (cases ts) auto

lemma chain_governed:
  assumes "chain StatusCreated ts s'" "t \<in> set ts"
    "tr_To t \<noteq> StatusRouted" "tr_To t \<noteq> StatusPolicyChecked" "tr_To t \<noteq> StatusKilled"
  shows "map tr_To (take 2 ts) = [StatusRouted, StatusPolicyChecked]"
proof (cases ts)
  case (Cons u us)
  with assms show ?thesis by (cases us) (auto simp: chain_killed)
qed (use assms in simp)

text \<open>An approval is only ever recorded for a run that was waiting for it.\<close>

lemma chain_edges: "chain s ts s' \<Longrightarrow> t \<in> set ts \<Longrightarrow> IsValidTransition (tr_From t) (tr_To t)"
  by (induction ts arbitrary: s) auto

subsection \<open>No dead ends\<close>

text \<open>The shortest way to completion from each status, and the calls that take it.\<close>

definition pathToCompleted :: "WorkflowStatus \<Rightarrow> WorkflowStatus list" where
  "pathToCompleted s =
     (if s = StatusCreated then [StatusRouted, StatusPolicyChecked, StatusRunning, StatusCompleted]
      else if s = StatusRouted then [StatusPolicyChecked, StatusRunning, StatusCompleted]
      else if s = StatusAwaitingApproval then [StatusApproved, StatusRunning, StatusCompleted]
      else if s = StatusRunning then [StatusCompleted]
      else [StatusRunning, StatusCompleted])"

fun validPath :: "WorkflowStatus \<Rightarrow> WorkflowStatus list \<Rightarrow> bool" where
  "validPath s [] \<longleftrightarrow> True"
| "validPath s (s' # ss) \<longleftrightarrow> IsValidTransition s s' \<and> validPath s' ss"

lemma validPath_toCompleted:
  assumes "s \<in> set workflowStatuses" "\<not> IsTerminal s"
  shows "validPath s (pathToCompleted s)"
  using assms unfolding workflowStatuses_def list.set
  by (elim insertE) (simp_all add: pathToCompleted_def)

lemma runOps_validPath:
  "validPath (w_Status w) ss \<Longrightarrow>
   w_Status (runOps applyWorkflowOp (map (\<lambda>s. (OpTransitionTo s r, a, now)) ss) w) = last (w_Status w # ss)"
proof (induction ss arbitrary: w)
  case (Cons s ss)
  then obtain w' where "TransitionTo s r a now w = Inr w'" "w_Status w' = s"
    by (auto simp: TransitionTo_def transitionTo_Inr)
  with Cons show ?case by simp
qed simp

section \<open>Correctness of the workflow run\<close>

text \<open>
  C10. Governance cannot be bypassed at the level of the aggregate: whatever calls a new run
  receives, its history is an unbroken chain of legal transitions from \<open>created\<close> to its current
  status, its status is a declared one, its last change is the time of the last transition, and if
  the run ever ran, was approved, awaited approval, paused, completed, failed or was quarantined,
  then it was routed first and policy-checked second.
\<close>

theorem workflow_governed:
  assumes "w = runOps applyWorkflowOp ops (NewWorkflowRun i task now)"
  shows "chain StatusCreated (w_Transitions w) (w_Status w) \<and>
         w_Status w \<in> set workflowStatuses \<and> w_UpdatedAt w = lastChange w \<and>
         (\<forall>t \<in> set (w_Transitions w).
            tr_To t \<notin> {StatusRouted, StatusPolicyChecked, StatusKilled} \<longrightarrow>
            map tr_To (take 2 (w_Transitions w)) = [StatusRouted, StatusPolicyChecked])"
proof -
  have "workflowInv w" unfolding assms by (intro workflowInv_runOps workflowInv_new)
  then have c: "chain StatusCreated (w_Transitions w) (w_Status w)" "w_UpdatedAt w = lastChange w"
    by (simp_all add: workflowInv_def)
  have "w_Status w \<in> set workflowStatuses"
    by (rule chain_declared [OF c(1)]) (simp add: workflowStatuses_def)
  with c show ?thesis by (simp add: chain_governed)
qed

theorem workflow_governed_witness:
  "map tr_To (take 2 (w_Transitions (runOps applyWorkflowOp
     [(OpMarkRouted ''R1'' ''score'', ''system'', 2), (OpMarkPolicyChecked ''P1'', ''system'', 3),
      (OpTransitionTo StatusRunning ''go'', ''system'', 4)] (NewWorkflowRun ''W1'' ''T1'' 1))))
   = [StatusRouted, StatusPolicyChecked]"
proof -
  let ?ops = "[(OpMarkRouted ''R1'' ''score'', ''system'', 2), (OpMarkPolicyChecked ''P1'', ''system'', 3),
      (OpTransitionTo StatusRunning ''go'', ''system'', 4)]"
  let ?w = "runOps applyWorkflowOp ?ops (NewWorkflowRun ''W1'' ''T1'' 1)"
  have "tr_To (w_Transitions ?w ! 2) = StatusRunning \<and> length (w_Transitions ?w) = 3"
    by (simp add: workflow_op_defs transitionTo_def NewWorkflowRun_def)
  then have "\<exists>t \<in> set (w_Transitions ?w). tr_To t = StatusRunning"
    by (intro bexI [of _ "w_Transitions ?w ! 2"] nth_mem) simp_all
  moreover note workflow_governed [of ?w ?ops "''W1''" "''T1''" 1, OF refl]
  ultimately show ?thesis by fastforce
qed

text \<open>
  C11. The terminal statuses are exactly the ones with no way out: a run in one of them rejects
  every call and stays as it is, whatever is tried; every other run can be killed, and nothing
  but its status, history and time of change is touched by that.
\<close>

theorem workflow_terminal:
  "(IsTerminal (w_Status w) \<longrightarrow>
      runOps applyWorkflowOp ops w = w \<and> (\<forall>op. \<exists>e. applyWorkflowOp op w = Inl e)) \<and>
   (\<not> IsTerminal (w_Status w) \<longrightarrow>
      (\<exists>ts. Kill r a now w = Inr (w\<lparr>w_Transitions := ts, w_Status := StatusKilled, w_UpdatedAt := now\<rparr>)))"
proof -
  have "\<exists>ts. Kill r a now w = Inr (w\<lparr>w_Transitions := ts, w_Status := StatusKilled, w_UpdatedAt := now\<rparr>)"
    if "\<not> IsTerminal (w_Status w)"
    using that by (auto simp: Kill_def transitionTo_Inr IsValidTransition_into)
  then show ?thesis
    using workflowMachine.final_stays workflowMachine.final_rejects terminal_no_transition
    by (intro conjI impI allI) blast+
qed

theorem workflow_terminal_witness:
  "runOps applyWorkflowOp [(OpResume ''r'', ''a'', 9), (OpKill ''r'', ''a'', 10)]
     (ReconstructWorkflowRun ''W1'' ''T1'' StatusQuarantined None None 0 [] 1 1) =
     ReconstructWorkflowRun ''W1'' ''T1'' StatusQuarantined None None 0 [] 1 1 \<and>
   (\<exists>ts. Kill ''r'' ''a'' 9 (NewWorkflowRun ''W1'' ''T1'' 1) =
      Inr ((NewWorkflowRun ''W1'' ''T1'' 1)
             \<lparr>w_Transitions := ts, w_Status := StatusKilled, w_UpdatedAt := 9\<rparr>))"
  using workflow_terminal [of "ReconstructWorkflowRun ''W1'' ''T1'' StatusQuarantined None None 0 [] 1 1"
      "[(OpResume ''r'', ''a'', 9), (OpKill ''r'', ''a'', 10)]"]
    workflow_terminal [of "NewWorkflowRun ''W1'' ''T1'' 1" "[]" "''r''" "''a''" 9]
  by (simp add: ReconstructWorkflowRun_def NewWorkflowRun_def)

text \<open>
  C12. No dead ends: a run in any declared status that is not terminal can still be completed,
  by at most four transitions.
\<close>

theorem workflow_completable:
  assumes "w_Status w \<in> set workflowStatuses" "\<not> IsTerminal (w_Status w)"
  shows "\<exists>ops. length ops \<le> 4 \<and> w_Status (runOps applyWorkflowOp ops w) = StatusCompleted"
proof (intro exI conjI)
  let ?ops = "map (\<lambda>s. (OpTransitionTo s [], [], 0)) (pathToCompleted (w_Status w))"
  show "length ?ops \<le> 4" by (simp add: pathToCompleted_def)
  show "w_Status (runOps applyWorkflowOp ?ops w) = StatusCompleted"
    using runOps_validPath [OF validPath_toCompleted [OF assms]] by (simp add: pathToCompleted_def)
qed

theorem workflow_completable_witness:
  "\<exists>ops. length ops \<le> 4 \<and>
     w_Status (runOps applyWorkflowOp ops (NewWorkflowRun ''W1'' ''T1'' 1)) = StatusCompleted"
  using workflow_completable [of "NewWorkflowRun ''W1'' ''T1'' 1"]
  by (simp add: NewWorkflowRun_def workflowStatuses_def)

end
