(* ===== verification/Task.thy ===== *)
theory Task
  imports Shared
begin

text \<open>
  The task aggregate (\<^verbatim>\<open>internal/domain/task\<close>): what enters the governance pipeline. Its status
  follows only the intake lifecycle; execution state belongs to the workflow.
\<close>

section \<open>Enumerations\<close>

datatype TaskType = TaskType (TaskType_String: string)

abbreviation "TypeDevelopment \<equiv> TaskType ''development''"
abbreviation "TypeReview \<equiv> TaskType ''review''"
abbreviation "TypeResearch \<equiv> TaskType ''research''"
abbreviation "TypeRefactor \<equiv> TaskType ''refactor''"
abbreviation "TypeBugfix \<equiv> TaskType ''bugfix''"
abbreviation "TypeDeployment \<equiv> TaskType ''deployment''"

definition validTaskTypes :: "TaskType list" where
  "validTaskTypes =
     [TypeDevelopment, TypeReview, TypeResearch, TypeRefactor, TypeBugfix, TypeDeployment]"

definition NewTaskType :: "string \<Rightarrow> gov_error + TaskType" where
  "NewTaskType s =
     (let tt = TaskType s
      in if tt \<notin> set validTaskTypes then Inl (ErrInvalidEnum ''task type'' s) else Inr tt)"

interpretation taskType: string_enum TaskType TaskType_String validTaskTypes NewTaskType "''task type''"
  by unfold_locales (simp_all add: NewTaskType_def Let_def)

datatype TaskScope = TaskScope (TaskScope_String: string)

abbreviation "ScopeFile \<equiv> TaskScope ''file''"
abbreviation "ScopeModule \<equiv> TaskScope ''module''"
abbreviation "ScopeRepo \<equiv> TaskScope ''repo''"
abbreviation "ScopeSystem \<equiv> TaskScope ''system''"

definition validTaskScopes :: "TaskScope list" where
  "validTaskScopes = [ScopeFile, ScopeModule, ScopeRepo, ScopeSystem]"

definition NewTaskScope :: "string \<Rightarrow> gov_error + TaskScope" where
  "NewTaskScope s =
     (let ts = TaskScope s
      in if ts \<notin> set validTaskScopes then Inl (ErrInvalidEnum ''task scope'' s) else Inr ts)"

interpretation taskScope: string_enum TaskScope TaskScope_String validTaskScopes NewTaskScope "''task scope''"
  by unfold_locales (simp_all add: NewTaskScope_def Let_def)

datatype TaskStatus = TaskStatus (TaskStatus_String: string)

abbreviation "TaskStatusCreated \<equiv> TaskStatus ''created''"
abbreviation "TaskStatusAccepted \<equiv> TaskStatus ''accepted''"
abbreviation "TaskStatusInProgress \<equiv> TaskStatus ''in_progress''"
abbreviation "TaskStatusCompleted \<equiv> TaskStatus ''completed''"
abbreviation "TaskStatusFailed \<equiv> TaskStatus ''failed''"
abbreviation "TaskStatusCancelled \<equiv> TaskStatus ''cancelled''"

definition validTaskStatuses :: "TaskStatus list" where
  "validTaskStatuses =
     [TaskStatusCreated, TaskStatusAccepted, TaskStatusInProgress, TaskStatusCompleted,
      TaskStatusFailed, TaskStatusCancelled]"

definition NewTaskStatus :: "string \<Rightarrow> gov_error + TaskStatus" where
  "NewTaskStatus s =
     (let ts = TaskStatus s
      in if ts \<notin> set validTaskStatuses then Inl (ErrInvalidEnum ''task status'' s) else Inr ts)"

interpretation taskStatus:
  string_enum TaskStatus TaskStatus_String validTaskStatuses NewTaskStatus "''task status''"
  by unfold_locales (simp_all add: NewTaskStatus_def Let_def)

definition taskTransitions :: "TaskStatus \<Rightarrow> TaskStatus list option" where
  "taskTransitions =
     [TaskStatusCreated \<mapsto> [TaskStatusAccepted, TaskStatusCancelled],
      TaskStatusAccepted \<mapsto> [TaskStatusInProgress, TaskStatusCancelled],
      TaskStatusInProgress \<mapsto> [TaskStatusCompleted, TaskStatusFailed, TaskStatusCancelled]]"

section \<open>The aggregate\<close>

type_synonym metadata = "string \<rightharpoonup> any"

record Task =
  t_id :: TaskID
  t_parentTaskID :: "TaskID option"
  t_taskType :: TaskType
  t_title :: string
  t_scope :: TaskScope
  t_priority :: Priority
  t_riskLevel :: RiskLevel
  t_status :: TaskStatus
  t_metadata :: metadata
  t_createdAt :: Timestamp
  t_updatedAt :: Timestamp

definition NewTask ::
  "TaskID \<Rightarrow> TaskID option \<Rightarrow> TaskType \<Rightarrow> string \<Rightarrow> TaskScope \<Rightarrow> Priority \<Rightarrow> RiskLevel \<Rightarrow>
   metadata \<Rightarrow> Timestamp \<Rightarrow> gov_error + Task" where
  "NewTask i parent ty title scope prio risk meta now =
     (if isBlank title then Inl ErrEmptyTitle
      else Inr \<lparr>t_id = i, t_parentTaskID = parent, t_taskType = ty, t_title = title,
                t_scope = scope, t_priority = prio, t_riskLevel = risk,
                t_status = TaskStatusCreated, t_metadata = meta,
                t_createdAt = now, t_updatedAt = now\<rparr>)"

definition Reconstruct ::
  "TaskID \<Rightarrow> TaskID option \<Rightarrow> TaskType \<Rightarrow> string \<Rightarrow> TaskScope \<Rightarrow> Priority \<Rightarrow> RiskLevel \<Rightarrow>
   TaskStatus \<Rightarrow> metadata \<Rightarrow> Timestamp \<Rightarrow> Timestamp \<Rightarrow> Task" where
  "Reconstruct i parent ty title scope prio risk status meta created updated =
     \<lparr>t_id = i, t_parentTaskID = parent, t_taskType = ty, t_title = title,
      t_scope = scope, t_priority = prio, t_riskLevel = risk,
      t_status = status, t_metadata = meta, t_createdAt = created, t_updatedAt = updated\<rparr>"

definition taskTransitionTo :: "TaskStatus \<Rightarrow> Timestamp \<Rightarrow> Task \<Rightarrow> gov_error + Task" where
  "taskTransitionTo target now t =
     (case taskTransitions (t_status t) of
        None \<Rightarrow> Inl (ErrTaskInvalidTransition (TaskStatus_String (t_status t)) (TaskStatus_String target))
      | Some allowed \<Rightarrow>
          if target \<notin> set allowed
          then Inl (ErrTaskInvalidTransition (TaskStatus_String (t_status t)) (TaskStatus_String target))
          else Inr (t\<lparr>t_status := target, t_updatedAt := now\<rparr>))"

definition Accept :: "Timestamp \<Rightarrow> Task \<Rightarrow> gov_error + Task" where
  "Accept now t = taskTransitionTo TaskStatusAccepted now t"
definition Start :: "Timestamp \<Rightarrow> Task \<Rightarrow> gov_error + Task" where
  "Start now t = taskTransitionTo TaskStatusInProgress now t"
definition taskComplete :: "Timestamp \<Rightarrow> Task \<Rightarrow> gov_error + Task" where
  "taskComplete now t = taskTransitionTo TaskStatusCompleted now t"
definition taskFail :: "Timestamp \<Rightarrow> Task \<Rightarrow> gov_error + Task" where
  "taskFail now t = taskTransitionTo TaskStatusFailed now t"
definition Cancel :: "Timestamp \<Rightarrow> Task \<Rightarrow> gov_error + Task" where
  "Cancel now t = taskTransitionTo TaskStatusCancelled now t"

lemmas task_op_defs = Accept_def Start_def taskComplete_def taskFail_def Cancel_def

section \<open>The lifecycle\<close>

datatype TaskOp = OpAccept | OpStart | OpComplete | OpFail | OpCancel

fun applyTaskOp :: "TaskOp \<times> Timestamp \<Rightarrow> Task \<Rightarrow> gov_error + Task" where
  "applyTaskOp (OpAccept, now) t = Accept now t"
| "applyTaskOp (OpStart, now) t = Start now t"
| "applyTaskOp (OpComplete, now) t = taskComplete now t"
| "applyTaskOp (OpFail, now) t = taskFail now t"
| "applyTaskOp (OpCancel, now) t = Cancel now t"

definition taskEdge :: "TaskStatus \<Rightarrow> TaskStatus \<Rightarrow> bool" where
  "taskEdge s s' \<longleftrightarrow> (\<exists>ss. taskTransitions s = Some ss \<and> s' \<in> set ss)"

lemma taskEdge_simps:
  "taskEdge TaskStatusCreated s \<longleftrightarrow> s = TaskStatusAccepted \<or> s = TaskStatusCancelled"
  "taskEdge TaskStatusAccepted s \<longleftrightarrow> s = TaskStatusInProgress \<or> s = TaskStatusCancelled"
  "taskEdge TaskStatusInProgress s \<longleftrightarrow>
     s = TaskStatusCompleted \<or> s = TaskStatusFailed \<or> s = TaskStatusCancelled"
  "\<not> taskEdge TaskStatusCompleted s" "\<not> taskEdge TaskStatusFailed s" "\<not> taskEdge TaskStatusCancelled s"
  by (simp_all add: taskEdge_def taskTransitions_def)

lemma taskTransitionTo_Inr:
  "taskTransitionTo target now t = Inr t' \<longleftrightarrow>
     taskEdge (t_status t) target \<and> t' = t\<lparr>t_status := target, t_updatedAt := now\<rparr>"
  by (auto simp: taskTransitionTo_def taskEdge_def split: option.splits if_splits)

lemma taskTransitionTo_cases:
  "taskTransitionTo target now t =
     (if taskEdge (t_status t) target then Inr (t\<lparr>t_status := target, t_updatedAt := now\<rparr>)
      else Inl (ErrTaskInvalidTransition (TaskStatus_String (t_status t)) (TaskStatus_String target)))"
  by (auto simp: taskTransitionTo_def taskEdge_def split: option.splits)

interpretation taskMachine: status_machine t_status taskEdge applyTaskOp
proof
  fix op t t'
  assume "applyTaskOp op t = Inr t'"
  then show "taskEdge (t_status t) (t_status t')"
    by (cases "(op, t)" rule: applyTaskOp.cases) (auto simp: task_op_defs taskTransitionTo_Inr)
qed

text \<open>The fields no call of the lifecycle may touch.\<close>

definition sameTask :: "Task \<Rightarrow> Task \<Rightarrow> bool" where
  "sameTask t t' \<longleftrightarrow> t' = t\<lparr>t_status := t_status t', t_updatedAt := t_updatedAt t'\<rparr>"

lemma applyTaskOp_same: "applyTaskOp op t = Inr t' \<Longrightarrow> sameTask t t'"
  by (cases "(op, t)" rule: applyTaskOp.cases)
     (auto simp: task_op_defs taskTransitionTo_Inr sameTask_def)

lemma sameTask_trans: "sameTask t u \<Longrightarrow> sameTask u v \<Longrightarrow> sameTask t v"
  by (cases t; cases u; cases v) (simp add: sameTask_def)

lemma runOps_sameTask: "sameTask t (runOps applyTaskOp ops t)"
proof (rule runOps_induct [where P = "sameTask t"])
  show "sameTask t t" by (simp add: sameTask_def)
qed (blast intro: sameTask_trans applyTaskOp_same)

text \<open>Terminal statuses of a task.\<close>

definition taskFinal :: "TaskStatus \<Rightarrow> bool" where
  "taskFinal s \<longleftrightarrow> s \<in> {TaskStatusCompleted, TaskStatusFailed, TaskStatusCancelled}"

lemma taskFinal_no_edge: "taskFinal s \<Longrightarrow> \<not> taskEdge s s'"
  by (auto simp: taskFinal_def taskEdge_simps)

text \<open>A task of a declared status is never stuck: it is final, or it can be cancelled.\<close>

lemma Cancel_Inr:
  "s \<in> set validTaskStatuses \<Longrightarrow> t_status t = s \<Longrightarrow>
   (\<exists>t'. Cancel now t = Inr t') \<longleftrightarrow> \<not> taskFinal s"
  by (auto simp: validTaskStatuses_def Cancel_def taskTransitionTo_Inr taskEdge_simps taskFinal_def)

section \<open>Correctness of the lifecycle\<close>

text \<open>
  C27. Whatever sequence of lifecycle calls a task receives, its identity, classification,
  metadata and creation time never change and its status moves along the declared transitions;
  once it is completed, failed or cancelled every call is rejected and the task stays as it is.
\<close>

theorem task_lifecycle:
  "sameTask t (runOps applyTaskOp ops t) \<and>
   taskEdge\<^sup>*\<^sup>* (t_status t) (t_status (runOps applyTaskOp ops t)) \<and>
   (taskFinal (t_status t) \<longrightarrow>
      runOps applyTaskOp ops t = t \<and> (\<forall>op. \<exists>e. applyTaskOp op t = Inl e))"
  by (intro conjI impI allI runOps_sameTask taskMachine.runOps_path taskMachine.final_stays
      taskMachine.final_rejects taskFinal_no_edge)

definition sampleTask :: Task where
  "sampleTask = Reconstruct ''T1'' None TypeBugfix ''fix'' ScopeFile PriorityLow RiskLevelLow
     TaskStatusCancelled Map.empty 1 1"

theorem task_lifecycle_witness:
  "runOps applyTaskOp [(OpStart, 5), (OpAccept, 6)] sampleTask = sampleTask"
  using task_lifecycle [of sampleTask "[(OpStart, 5), (OpAccept, 6)]"]
  by (simp add: sampleTask_def Reconstruct_def taskFinal_def)

end
