(* ===== verification/Policy.thy ===== *)
theory Policy
  imports Task
begin

text \<open>
  The policy component (\<^verbatim>\<open>internal/domain/policy\<close>): outcomes ordered by restrictiveness, the rules,
  the evaluator that combines them and the immutable decision that records the result.
\<close>

section \<open>Outcomes\<close>

datatype PolicyOutcome = PolicyOutcome (Restrictiveness: int)

abbreviation "OutcomeAllow \<equiv> PolicyOutcome 0"
abbreviation "OutcomeAllowWithConstraints \<equiv> PolicyOutcome 1"
abbreviation "OutcomeRequireApproval \<equiv> PolicyOutcome 2"
abbreviation "OutcomeDeny \<equiv> PolicyOutcome 3"

definition outcomeNames :: "PolicyOutcome \<Rightarrow> string option" where
  "outcomeNames =
     [OutcomeAllow \<mapsto> ''allow'', OutcomeAllowWithConstraints \<mapsto> ''allow_with_constraints'',
      OutcomeRequireApproval \<mapsto> ''require_approval'', OutcomeDeny \<mapsto> ''deny'']"

definition PolicyOutcome_String :: "PolicyOutcome \<Rightarrow> string" where
  "PolicyOutcome_String oc = (case outcomeNames oc of Some name \<Rightarrow> name | None \<Rightarrow> ''unknown'')"

text \<open>Outcomes are ordered by how restrictive they are.\<close>

instantiation PolicyOutcome :: linorder
begin

definition less_eq_PolicyOutcome :: "PolicyOutcome \<Rightarrow> PolicyOutcome \<Rightarrow> bool" where
  "a \<le> b \<longleftrightarrow> Restrictiveness a \<le> Restrictiveness b"

definition less_PolicyOutcome :: "PolicyOutcome \<Rightarrow> PolicyOutcome \<Rightarrow> bool" where
  "a < b \<longleftrightarrow> Restrictiveness a < Restrictiveness b"

instance
  by standard (auto simp: less_eq_PolicyOutcome_def less_PolicyOutcome_def PolicyOutcome.expand)

end

lemma PolicyOutcome_le [simp]: "PolicyOutcome i \<le> PolicyOutcome j \<longleftrightarrow> i \<le> j"
  by (simp add: less_eq_PolicyOutcome_def)

lemma PolicyOutcome_less [simp]: "PolicyOutcome i < PolicyOutcome j \<longleftrightarrow> i < j"
  by (simp add: less_PolicyOutcome_def)

record PolicyConstraint =
  pc_Type :: string
  pc_Value :: string
  pc_Reason :: string

record ApprovalRequirement =
  ar_ApproverRole :: string
  ar_Reason :: string
  ar_TimeoutSecs :: "int option"

record RuleEvaluation =
  re_RuleID :: string
  re_Passed :: bool
  re_Outcome :: "PolicyOutcome option"
  re_Reason :: string

definition sensitiveActions :: "string list" where
  "sensitiveActions =
     [''shell_execution'', ''git_push'', ''external_api_call'', ''deployment'', ''data_deletion'']"

definition IsActionSensitive :: "string \<Rightarrow> bool" where
  "IsActionSensitive action \<longleftrightarrow> action \<in> set sensitiveActions"

section \<open>Rules\<close>

record PolicyContext =
  pctx_Task :: Task
  pctx_Action :: string

record PolicyRule =
  pr_ID :: string
  pr_Evaluate :: "PolicyContext \<Rightarrow> RuleEvaluation"

text \<open>The evaluation a rule returns when it does not match, and when it demands an outcome.\<close>

abbreviation ruleSilent :: "string \<Rightarrow> string \<Rightarrow> RuleEvaluation" where
  "ruleSilent i reason \<equiv> \<lparr>re_RuleID = i, re_Passed = True, re_Outcome = None, re_Reason = reason\<rparr>"

abbreviation ruleDemands :: "string \<Rightarrow> bool \<Rightarrow> PolicyOutcome \<Rightarrow> string \<Rightarrow> RuleEvaluation" where
  "ruleDemands i passed oc reason \<equiv>
     \<lparr>re_RuleID = i, re_Passed = passed, re_Outcome = Some oc, re_Reason = reason\<rparr>"

definition riskCriticalRequiresApproval :: PolicyRule where
  "riskCriticalRequiresApproval =
     \<lparr>pr_ID = ''risk_critical_requires_approval'',
      pr_Evaluate = (\<lambda>ctx.
        if t_riskLevel (pctx_Task ctx) = RiskLevelCritical
        then ruleDemands ''risk_critical_requires_approval'' False OutcomeRequireApproval
               ''critical risk level requires approval''
        else ruleSilent ''risk_critical_requires_approval'' ''risk level is not critical'')\<rparr>"

definition deploymentRequiresApproval :: PolicyRule where
  "deploymentRequiresApproval =
     \<lparr>pr_ID = ''deployment_requires_approval'',
      pr_Evaluate = (\<lambda>ctx.
        if t_taskType (pctx_Task ctx) = TypeDeployment
        then ruleDemands ''deployment_requires_approval'' False OutcomeRequireApproval
               ''deployment tasks require approval''
        else ruleSilent ''deployment_requires_approval'' ''task is not a deployment'')\<rparr>"

definition systemScopeRequiresApproval :: PolicyRule where
  "systemScopeRequiresApproval =
     \<lparr>pr_ID = ''system_scope_requires_approval'',
      pr_Evaluate = (\<lambda>ctx.
        if t_scope (pctx_Task ctx) = ScopeSystem
        then ruleDemands ''system_scope_requires_approval'' False OutcomeRequireApproval
               ''system scope requires approval''
        else ruleSilent ''system_scope_requires_approval'' ''task scope is not system'')\<rparr>"

definition destructiveActionDeny :: PolicyRule where
  "destructiveActionDeny =
     \<lparr>pr_ID = ''destructive_action_deny'',
      pr_Evaluate = (\<lambda>ctx.
        if pctx_Action ctx = ''data_deletion''
        then ruleDemands ''destructive_action_deny'' False OutcomeDeny ''data deletion is denied''
        else ruleSilent ''destructive_action_deny'' ''action is not destructive'')\<rparr>"

definition fileScopeLowRiskAllow :: PolicyRule where
  "fileScopeLowRiskAllow =
     \<lparr>pr_ID = ''file_scope_low_risk_allow'',
      pr_Evaluate = (\<lambda>ctx.
        if t_scope (pctx_Task ctx) = ScopeFile \<and> t_riskLevel (pctx_Task ctx) = RiskLevelLow
        then ruleDemands ''file_scope_low_risk_allow'' True OutcomeAllow
               ''file scope with low risk is allowed''
        else ruleSilent ''file_scope_low_risk_allow'' ''not file scope with low risk'')\<rparr>"

definition il2NoApplyWithoutTasksDone :: PolicyRule where
  "il2NoApplyWithoutTasksDone =
     \<lparr>pr_ID = ''il2_no_apply_without_tasks_done'',
      pr_Evaluate = (\<lambda>ctx.
        if pctx_Action ctx \<noteq> ''sdd_apply''
        then ruleSilent ''il2_no_apply_without_tasks_done'' ''action is not sdd_apply; IL2 does not apply''
        else if asString (t_metadata (pctx_Task ctx) ''tasks_phase_status'') = ''done''
        then ruleSilent ''il2_no_apply_without_tasks_done'' ''tasks phase is done; IL2 satisfied''
        else ruleDemands ''il2_no_apply_without_tasks_done'' False OutcomeDeny
               ''tasks phase not DONE; IL2 blocks sdd_apply until tasks phase status is done'')\<rparr>"

definition DefaultRules :: "PolicyRule list" where
  "DefaultRules =
     [riskCriticalRequiresApproval, deploymentRequiresApproval, systemScopeRequiresApproval,
      destructiveActionDeny, fileScopeLowRiskAllow, il2NoApplyWithoutTasksDone]"

lemmas rule_defs =
  riskCriticalRequiresApproval_def deploymentRequiresApproval_def systemScopeRequiresApproval_def
  destructiveActionDeny_def fileScopeLowRiskAllow_def il2NoApplyWithoutTasksDone_def

section \<open>The evaluator\<close>

record EvaluatorResult =
  er_Outcome :: PolicyOutcome
  er_Constraints :: "PolicyConstraint list"
  er_ApprovalRequirement :: "ApprovalRequirement option"
  er_RulesEvaluated :: "RuleEvaluation list"
  er_Reason :: string

text \<open>The loop over the rules, with the most restrictive outcome, the evaluations and the reason so far.\<close>

fun policyLoop ::
  "PolicyContext \<Rightarrow> PolicyRule list \<Rightarrow> PolicyOutcome \<Rightarrow> RuleEvaluation list \<Rightarrow> string \<Rightarrow>
   PolicyOutcome \<times> RuleEvaluation list \<times> string" where
  "policyLoop ctx [] mostRestrictive evals reason = (mostRestrictive, evals, reason)"
| "policyLoop ctx (rule # rules) mostRestrictive evals reason =
     (let eval = pr_Evaluate rule ctx; evals' = evals @ [eval]
      in case re_Outcome eval of
           Some oc \<Rightarrow>
             if Restrictiveness mostRestrictive < Restrictiveness oc
             then policyLoop ctx rules oc evals' (re_Reason eval)
             else policyLoop ctx rules mostRestrictive evals' reason
         | None \<Rightarrow> policyLoop ctx rules mostRestrictive evals' reason)"

definition EvaluatePolicy :: "PolicyRule list \<Rightarrow> PolicyContext \<Rightarrow> EvaluatorResult" where
  "EvaluatePolicy rules ctx =
     (let (mr, evals, reason) = policyLoop ctx rules OutcomeAllow [] [];
          (mr, reason) =
            (if mr = OutcomeAllow
             then (OutcomeAllowWithConstraints,
                   ''no rule explicitly allowed; defaulting to allow with timeout constraint'')
             else (mr, reason));
          result = \<lparr>er_Outcome = mr, er_Constraints = [], er_ApprovalRequirement = None,
                    er_RulesEvaluated = evals, er_Reason = reason\<rparr>
      in if mr = OutcomeAllowWithConstraints
         then result\<lparr>er_Constraints :=
                [\<lparr>pc_Type = ''timeout'', pc_Value = ''300s'', pc_Reason = ''default timeout constraint''\<rparr>]\<rparr>
         else if mr = OutcomeRequireApproval
         then result\<lparr>er_ApprovalRequirement :=
                Some \<lparr>ar_ApproverRole = ''human'', ar_Reason = reason, ar_TimeoutSecs = None\<rparr>\<rparr>
         else result)"

section \<open>The decision\<close>

record PolicyDecision =
  pd_id :: PolicyDecisionID
  pd_taskID :: TaskID
  pd_evaluatedAction :: string
  pd_outcome :: PolicyOutcome
  pd_constraints :: "PolicyConstraint list"
  pd_approvalRequirement :: "ApprovalRequirement option"
  pd_rulesEvaluated :: "RuleEvaluation list"
  pd_reason :: string
  pd_createdAt :: Timestamp

definition ReconstructPolicyDecision ::
  "PolicyDecisionID \<Rightarrow> TaskID \<Rightarrow> string \<Rightarrow> PolicyOutcome \<Rightarrow> PolicyConstraint list \<Rightarrow>
   ApprovalRequirement option \<Rightarrow> RuleEvaluation list \<Rightarrow> string \<Rightarrow> Timestamp \<Rightarrow> PolicyDecision" where
  "ReconstructPolicyDecision i taskID action oc cs ar evals reason created =
     \<lparr>pd_id = i, pd_taskID = taskID, pd_evaluatedAction = action, pd_outcome = oc,
      pd_constraints = cs, pd_approvalRequirement = ar, pd_rulesEvaluated = evals,
      pd_reason = reason, pd_createdAt = created\<rparr>"

definition NewPolicyDecision ::
  "PolicyDecisionID \<Rightarrow> TaskID \<Rightarrow> string \<Rightarrow> PolicyOutcome \<Rightarrow> PolicyConstraint list \<Rightarrow>
   ApprovalRequirement option \<Rightarrow> RuleEvaluation list \<Rightarrow> string \<Rightarrow> Timestamp \<Rightarrow>
   gov_error + PolicyDecision" where
  "NewPolicyDecision i taskID action oc cs ar evals reason created =
     (if action = [] then Inl ErrPolicyEmptyAction
      else if reason = [] then Inl ErrPolicyEmptyReason
      else if oc = OutcomeAllowWithConstraints \<and> cs = [] then Inl ErrMissingConstraints
      else if oc = OutcomeRequireApproval \<and> ar = None then Inl ErrMissingApproval
      else Inr \<lparr>pd_id = i, pd_taskID = taskID, pd_evaluatedAction = action, pd_outcome = oc,
                pd_constraints = cs, pd_approvalRequirement = ar, pd_rulesEvaluated = evals,
                pd_reason = reason, pd_createdAt = created\<rparr>)"

section \<open>The evaluator against its specification\<close>

text \<open>The outcomes the rules demand, in order.\<close>

definition demanded :: "PolicyRule list \<Rightarrow> PolicyContext \<Rightarrow> PolicyOutcome list" where
  "demanded rules ctx = List.map_filter (\<lambda>r. re_Outcome (pr_Evaluate r ctx)) rules"

lemma demanded_simps [simp]:
  "demanded [] ctx = []"
  "demanded (r # rs) ctx =
     (case re_Outcome (pr_Evaluate r ctx) of None \<Rightarrow> demanded rs ctx | Some oc \<Rightarrow> oc # demanded rs ctx)"
  by (simp_all add: demanded_def map_filter_simps split: option.split)



text \<open>
  The reason is the one of the first rule that demanded the final outcome, unless no rule went
  beyond the starting one.
\<close>

lemma policyLoop_reason:
  assumes "policyLoop ctx rules mr evals reason = (mr', evals', reason')"
  shows "(mr' = mr \<and> reason' = reason) \<or>
         (mr < mr' \<and> (\<exists>r \<in> set rules. re_Outcome (pr_Evaluate r ctx) = Some mr' \<and>
                                       re_Reason (pr_Evaluate r ctx) = reason'))"
  using assms
proof (induction rules arbitrary: mr evals reason)
  case (Cons r rs)
  from Cons.prems Cons.IH show ?case
    by (fastforce simp: Let_def less_PolicyOutcome_def split: option.splits if_splits)
qed simp







lemma EvaluatePolicy_obligations:
  "(er_Constraints (EvaluatePolicy rules ctx) \<noteq> []) =
     (er_Outcome (EvaluatePolicy rules ctx) = OutcomeAllowWithConstraints)"
  "(er_ApprovalRequirement (EvaluatePolicy rules ctx) \<noteq> None) =
     (er_Outcome (EvaluatePolicy rules ctx) = OutcomeRequireApproval)"
  by (simp_all add: EvaluatePolicy_def Let_def split: prod.split)

lemma EvaluatePolicy_reason:
  "(er_Reason (EvaluatePolicy rules ctx) =
      ''no rule explicitly allowed; defaulting to allow with timeout constraint'') \<or>
   (\<exists>r \<in> set rules. re_Outcome (pr_Evaluate r ctx) = Some (er_Outcome (EvaluatePolicy rules ctx)) \<and>
                    re_Reason (pr_Evaluate r ctx) = er_Reason (EvaluatePolicy rules ctx))"
proof -
  obtain mr evals reason where l: "policyLoop ctx rules OutcomeAllow [] [] = (mr, evals, reason)"
    by (metis prod_cases3)
  from policyLoop_reason [OF l] show ?thesis
    by (auto simp: EvaluatePolicy_def l Let_def)
qed






text \<open>A result of the evaluator always makes a valid decision.\<close>

lemma EvaluatePolicy_reason_nonempty:
  "(\<And>r. r \<in> set rules \<Longrightarrow> re_Reason (pr_Evaluate r ctx) \<noteq> []) \<Longrightarrow> er_Reason (EvaluatePolicy rules ctx) \<noteq> []"
  using EvaluatePolicy_reason [of rules ctx] by auto

lemma DefaultRules_reasons: "r \<in> set DefaultRules \<Longrightarrow> re_Reason (pr_Evaluate r ctx) \<noteq> []"
  by (auto simp: DefaultRules_def rule_defs split: if_splits)

lemma NewPolicyDecision_of_result:
  assumes "action \<noteq> []" "er_Reason res \<noteq> []" "res = EvaluatePolicy rules ctx"
  shows "NewPolicyDecision i task action (er_Outcome res) (er_Constraints res)
           (er_ApprovalRequirement res) (er_RulesEvaluated res) (er_Reason res) now =
         Inr (ReconstructPolicyDecision i task action (er_Outcome res) (er_Constraints res)
           (er_ApprovalRequirement res) (er_RulesEvaluated res) (er_Reason res) now)"
  using assms(1,2) EvaluatePolicy_obligations [of rules ctx]
  unfolding assms(3) by (auto simp: NewPolicyDecision_def ReconstructPolicyDecision_def)

end
