(* ===== verification/Execution.thy ===== *)
theory Execution
  imports Shared
begin

text \<open>
  The execution component (\<^verbatim>\<open>internal/domain/execution\<close>): the result of one attempt and the lease
  that bounds how many attempts a workflow run has.
\<close>

section \<open>Attempts\<close>

datatype AttemptStatus = AttemptStatus (AttemptStatus_String: string)

abbreviation "AttemptStatusSuccess \<equiv> AttemptStatus ''success''"
abbreviation "AttemptStatusFailure \<equiv> AttemptStatus ''failure''"
abbreviation "AttemptStatusRetry \<equiv> AttemptStatus ''retry''"

record AttemptResult =
  at_Status :: AttemptStatus
  at_FailureStage :: "FailureStage option"
  at_FailureCode :: "string option"
  at_Retryable :: "bool option"
  at_ToolName :: "string option"
  at_StrategyUsed :: "string option"
  at_AgentRole :: "string option"
  at_Detail :: "string option"

definition NewSuccessResult :: AttemptResult where
  "NewSuccessResult =
     \<lparr>at_Status = AttemptStatusSuccess, at_FailureStage = None, at_FailureCode = None,
      at_Retryable = None, at_ToolName = None, at_StrategyUsed = None, at_AgentRole = None,
      at_Detail = None\<rparr>"

definition NewFailureResult :: "FailureStage \<Rightarrow> string \<Rightarrow> bool \<Rightarrow> gov_error + AttemptResult" where
  "NewFailureResult stage code retryable =
     (if code = [] then Inl ErrEmptyFailureCode
      else Inr \<lparr>at_Status = AttemptStatusFailure, at_FailureStage = Some stage,
                at_FailureCode = Some code, at_Retryable = Some retryable, at_ToolName = None,
                at_StrategyUsed = None, at_AgentRole = None, at_Detail = None\<rparr>)"

definition NewRetryResult :: "FailureStage \<Rightarrow> string \<Rightarrow> gov_error + AttemptResult" where
  "NewRetryResult stage code =
     (if code = [] then Inl ErrEmptyFailureCode
      else Inr \<lparr>at_Status = AttemptStatusRetry, at_FailureStage = Some stage,
                at_FailureCode = Some code, at_Retryable = Some True, at_ToolName = None,
                at_StrategyUsed = None, at_AgentRole = None, at_Detail = None\<rparr>)"

definition WithToolName :: "string \<Rightarrow> AttemptResult \<Rightarrow> AttemptResult" where
  "WithToolName name a = a\<lparr>at_ToolName := Some name\<rparr>"
definition WithStrategy :: "string \<Rightarrow> AttemptResult \<Rightarrow> AttemptResult" where
  "WithStrategy s a = a\<lparr>at_StrategyUsed := Some s\<rparr>"
definition WithAgentRole :: "string \<Rightarrow> AttemptResult \<Rightarrow> AttemptResult" where
  "WithAgentRole role a = a\<lparr>at_AgentRole := Some role\<rparr>"
definition WithDetail :: "string \<Rightarrow> AttemptResult \<Rightarrow> AttemptResult" where
  "WithDetail detail a = a\<lparr>at_Detail := Some detail\<rparr>"

definition Validate :: "AttemptResult \<Rightarrow> gov_error + unit" where
  "Validate a =
     (if at_Status a = AttemptStatusSuccess then
        (if at_FailureStage a \<noteq> None \<or> at_FailureCode a \<noteq> None \<or> at_Retryable a \<noteq> None
         then Inl ErrFailureFieldsOnSuccess else Inr ())
      else if at_Status a = AttemptStatusFailure \<or> at_Status a = AttemptStatusRetry then
        (if at_FailureStage a = None then Inl ErrMissingFailureStage
         else if at_FailureCode a = None then Inl ErrMissingFailureCode
         else if at_FailureCode a = Some [] then Inl ErrEmptyFailureCode
         else if at_Retryable a = None then Inl ErrMissingRetryable
         else Inr ())
      else Inl (ErrUnknownAttemptStatus (AttemptStatus_String (at_Status a))))"

text \<open>The results a caller can build with the constructors and the copying setters.\<close>

inductive builtResult :: "AttemptResult \<Rightarrow> bool" where
  success: "builtResult NewSuccessResult"
| failure: "NewFailureResult stage code retryable = Inr a \<Longrightarrow> builtResult a"
| retry: "NewRetryResult stage code = Inr a \<Longrightarrow> builtResult a"
| toolName: "builtResult a \<Longrightarrow> builtResult (WithToolName s a)"
| strategy: "builtResult a \<Longrightarrow> builtResult (WithStrategy s a)"
| agentRole: "builtResult a \<Longrightarrow> builtResult (WithAgentRole s a)"
| detail: "builtResult a \<Longrightarrow> builtResult (WithDetail s a)"

lemma Validate_With [simp]:
  "Validate (WithToolName s a) = Validate a" "Validate (WithStrategy s a) = Validate a"
  "Validate (WithAgentRole s a) = Validate a" "Validate (WithDetail s a) = Validate a"
  by (simp_all add: Validate_def WithToolName_def WithStrategy_def WithAgentRole_def WithDetail_def)

lemma Validate_constructors:
  "Validate NewSuccessResult = Inr ()"
  "NewFailureResult stage code retryable = Inr a \<Longrightarrow> Validate a = Inr ()"
  "NewRetryResult stage code = Inr a \<Longrightarrow> Validate a = Inr ()"
  by (auto simp: NewSuccessResult_def NewFailureResult_def NewRetryResult_def Validate_def split: if_splits)

lemma builtResult_Validate: "builtResult a \<Longrightarrow> Validate a = Inr ()"
  by (induction rule: builtResult.induct) (simp_all add: Validate_constructors)

text \<open>Setting the optional fields one after the other.\<close>

fun setFields :: "string option \<times> string option \<times> string option \<times> string option \<Rightarrow> AttemptResult \<Rightarrow> AttemptResult" where
  "setFields (tool, strat, role, det) a =
     (let a = (case tool of None \<Rightarrow> a | Some s \<Rightarrow> WithToolName s a);
          a = (case strat of None \<Rightarrow> a | Some s \<Rightarrow> WithStrategy s a);
          a = (case role of None \<Rightarrow> a | Some s \<Rightarrow> WithAgentRole s a)
      in case det of None \<Rightarrow> a | Some s \<Rightarrow> WithDetail s a)"

lemma builtResult_setFields: "builtResult a \<Longrightarrow> builtResult (setFields fs a)"
  by (cases fs) (auto simp: Let_def split: option.split intro: builtResult.intros)

lemma setFields_fields:
  "at_ToolName a = None \<Longrightarrow> at_StrategyUsed a = None \<Longrightarrow> at_AgentRole a = None \<Longrightarrow> at_Detail a = None \<Longrightarrow>
   setFields (tool, strat, role, det) a =
     a\<lparr>at_ToolName := tool, at_StrategyUsed := strat, at_AgentRole := role, at_Detail := det\<rparr>"
  by (cases a) (simp add: Let_def WithToolName_def WithStrategy_def WithAgentRole_def WithDetail_def
    split: option.split)

lemma builtResult_fill:
  assumes "builtResult \<lparr>at_Status = st, at_FailureStage = fs, at_FailureCode = fc, at_Retryable = rt,
      at_ToolName = None, at_StrategyUsed = None, at_AgentRole = None, at_Detail = None\<rparr>"
  shows "builtResult \<lparr>at_Status = st, at_FailureStage = fs, at_FailureCode = fc, at_Retryable = rt,
      at_ToolName = tn, at_StrategyUsed = su, at_AgentRole = ar, at_Detail = dt\<rparr>"
  using builtResult_setFields [OF assms, of "(tn, su, ar, dt)"]
  by (simp add: setFields_fields del: setFields.simps)

lemma Validate_Inr:
  "Validate a = Inr () \<longleftrightarrow>
     at_Status a = AttemptStatusSuccess \<and> at_FailureStage a = None \<and> at_FailureCode a = None \<and> at_Retryable a = None \<or>
     (at_Status a = AttemptStatusFailure \<or> at_Status a = AttemptStatusRetry) \<and>
     (\<exists>s c r. at_FailureStage a = Some s \<and> at_FailureCode a = Some c \<and> c \<noteq> [] \<and> at_Retryable a = Some r)"
  unfolding Validate_def by (cases "at_FailureStage a"; cases "at_FailureCode a"; cases "at_Retryable a") auto

text \<open>
  C24. Validation accepts exactly what the constructors can build, up to the one combination the
  retry constructor rules out: a valid result is built, or it is a retry marked not retryable.
\<close>

theorem Validate_iff_built:
  "Validate a = Inr () \<longleftrightarrow>
     builtResult a \<or>
     (at_Status a = AttemptStatusRetry \<and> at_FailureStage a \<noteq> None \<and>
      (\<exists>c. at_FailureCode a = Some c \<and> c \<noteq> []) \<and> at_Retryable a = Some False)"
    (is "_ \<longleftrightarrow> builtResult a \<or> ?odd a")
proof
  assume "Validate a = Inr ()"
  then consider
      "at_Status a = AttemptStatusSuccess" "at_FailureStage a = None" "at_FailureCode a = None" "at_Retryable a = None"
    | s c r where "at_Status a = AttemptStatusFailure" "at_FailureStage a = Some s"
        "at_FailureCode a = Some c" "c \<noteq> []" "at_Retryable a = Some r"
    | s c where "at_Status a = AttemptStatusRetry" "at_FailureStage a = Some s"
        "at_FailureCode a = Some c" "c \<noteq> []" "at_Retryable a = Some True"
    | "?odd a"
    unfolding Validate_Inr by (elim disjE conjE exE) auto
  then show "builtResult a \<or> ?odd a"
  proof cases
    case 1
    with builtResult.success show ?thesis
      by (cases a rule: AttemptResult.cases) (simp add: NewSuccessResult_def builtResult_fill)
  next
    case 2
    with builtResult.failure [of s c r] show ?thesis
      by (cases a rule: AttemptResult.cases) (simp add: NewFailureResult_def builtResult_fill)
  next
    case 3
    with builtResult.retry [of s c] show ?thesis
      by (cases a rule: AttemptResult.cases) (simp add: NewRetryResult_def builtResult_fill)
  qed simp
next
  assume "builtResult a \<or> ?odd a"
  then show "Validate a = Inr ()" using builtResult_Validate by (auto simp: Validate_Inr)
qed

section \<open>Leases\<close>

datatype LeaseStatus = LeaseStatus (LeaseStatus_String: string)

abbreviation "LeaseStatusActive \<equiv> LeaseStatus ''active''"
abbreviation "LeaseStatusExhausted \<equiv> LeaseStatus ''exhausted''"
abbreviation "LeaseStatusRevoked \<equiv> LeaseStatus ''revoked''"

record RetryBudget =
  rb_MaxAttempts :: int

definition NewRetryBudget :: "int \<Rightarrow> gov_error + RetryBudget" where
  "NewRetryBudget m = (if m \<le> 0 then Inl (ErrInvalidRetryBudget m) else Inr \<lparr>rb_MaxAttempts = m\<rparr>)"

record ExecutionLease =
  l_ID :: ExecutionLeaseID
  l_WorkflowRunID :: WorkflowRunID
  l_TimeoutBudget :: duration
  l_RetryBudget :: RetryBudget
  l_AttemptsUsed :: int
  l_TimeElapsed :: duration
  l_Status :: LeaseStatus
  l_CreatedAt :: Timestamp

definition NewExecutionLease ::
  "ExecutionLeaseID \<Rightarrow> WorkflowRunID \<Rightarrow> duration \<Rightarrow> RetryBudget \<Rightarrow> Timestamp \<Rightarrow> gov_error + ExecutionLease" where
  "NewExecutionLease i wfID timeout budget created =
     (if timeout \<le> 0 then Inl ErrInvalidTimeoutBudget
      else Inr \<lparr>l_ID = i, l_WorkflowRunID = wfID, l_TimeoutBudget = timeout, l_RetryBudget = budget,
                l_AttemptsUsed = 0, l_TimeElapsed = 0, l_Status = LeaseStatusActive,
                l_CreatedAt = created\<rparr>)"

definition HasRetryBudget :: "ExecutionLease \<Rightarrow> bool" where
  "HasRetryBudget l \<longleftrightarrow>
     l_Status l = LeaseStatusActive \<and> l_AttemptsUsed l < rb_MaxAttempts (l_RetryBudget l)"

definition RecordAttempt :: "ExecutionLease \<Rightarrow> gov_error + ExecutionLease" where
  "RecordAttempt l =
     (if l_Status l \<noteq> LeaseStatusActive
      then Inl (ErrLeaseNotActive (LeaseStatus_String (l_Status l)))
      else let l = l\<lparr>l_AttemptsUsed := inc64 (l_AttemptsUsed l)\<rparr>
           in Inr (if rb_MaxAttempts (l_RetryBudget l) \<le> l_AttemptsUsed l
                   then l\<lparr>l_Status := LeaseStatusExhausted\<rparr> else l))"

definition UpdateTimeElapsed :: "duration \<Rightarrow> ExecutionLease \<Rightarrow> ExecutionLease" where
  "UpdateTimeElapsed elapsed l = l\<lparr>l_TimeElapsed := elapsed\<rparr>"

definition Revoke :: "ExecutionLease \<Rightarrow> gov_error + ExecutionLease" where
  "Revoke l =
     (if l_Status l \<noteq> LeaseStatusActive
      then Inl (ErrLeaseNotActive (LeaseStatus_String (l_Status l)))
      else Inr (l\<lparr>l_Status := LeaseStatusRevoked\<rparr>))"

definition ReconstructExecutionLease ::
  "ExecutionLeaseID \<Rightarrow> WorkflowRunID \<Rightarrow> duration \<Rightarrow> RetryBudget \<Rightarrow> int \<Rightarrow> duration \<Rightarrow> LeaseStatus \<Rightarrow>
   Timestamp \<Rightarrow> ExecutionLease" where
  "ReconstructExecutionLease i wfID timeout budget used elapsed status created =
     \<lparr>l_ID = i, l_WorkflowRunID = wfID, l_TimeoutBudget = timeout, l_RetryBudget = budget,
      l_AttemptsUsed = used, l_TimeElapsed = elapsed, l_Status = status, l_CreatedAt = created\<rparr>"

subsection \<open>The lifecycle of a lease\<close>

datatype LeaseOp = OpRecordAttempt | OpUpdateTimeElapsed duration | OpRevoke

fun applyLeaseOp :: "LeaseOp \<Rightarrow> ExecutionLease \<Rightarrow> gov_error + ExecutionLease" where
  "applyLeaseOp OpRecordAttempt l = RecordAttempt l"
| "applyLeaseOp (OpUpdateTimeElapsed d) l = Inr (UpdateTimeElapsed d l)"
| "applyLeaseOp OpRevoke l = Revoke l"

definition leaseInv :: "ExecutionLease \<Rightarrow> bool" where
  "leaseInv l \<longleftrightarrow>
     (let m = rb_MaxAttempts (l_RetryBudget l); u = l_AttemptsUsed l
      in 0 < m \<and> m < 2 ^ 63 \<and> 0 \<le> u \<and> u \<le> m \<and>
         (l_Status l = LeaseStatusActive \<and> u < m \<or>
          l_Status l = LeaseStatusExhausted \<and> u = m \<or>
          l_Status l = LeaseStatusRevoked \<and> u < m))"

lemma leaseInv_new:
  assumes "NewRetryBudget m = Inr b" "m < 2 ^ 63" "NewExecutionLease i w d b now = Inr l"
  shows "leaseInv l"
  using assms by (auto simp: NewRetryBudget_def NewExecutionLease_def leaseInv_def split: if_splits)

lemma RecordAttempt_inv:
  assumes "leaseInv l" "l_Status l = LeaseStatusActive"
  shows "RecordAttempt l =
     Inr (l\<lparr>l_AttemptsUsed := l_AttemptsUsed l + 1,
            l_Status := (if l_AttemptsUsed l + 1 = rb_MaxAttempts (l_RetryBudget l)
                         then LeaseStatusExhausted else LeaseStatusActive)\<rparr>)"
  using assms by (cases l) (auto simp: RecordAttempt_def leaseInv_def inc64_def Let_def)

lemma leaseInv_step:
  assumes "leaseInv l" "applyLeaseOp op l = Inr l'"
  shows "leaseInv l'"
proof (cases op)
  case OpRecordAttempt
  with assms have act: "l_Status l = LeaseStatusActive" by (auto simp: RecordAttempt_def split: if_splits)
  from assms OpRecordAttempt RecordAttempt_inv [OF assms(1) act] act show ?thesis
    by (auto simp: leaseInv_def Let_def split: if_splits)
qed (use assms in \<open>auto simp: leaseInv_def UpdateTimeElapsed_def Revoke_def split: if_splits\<close>)

definition leaseEdge :: "LeaseStatus \<Rightarrow> LeaseStatus \<Rightarrow> bool" where
  "leaseEdge s s' \<longleftrightarrow> s = s' \<or> (s = LeaseStatusActive \<and> s' \<in> {LeaseStatusExhausted, LeaseStatusRevoked})"

interpretation leaseMachine: status_machine l_Status leaseEdge applyLeaseOp
proof
  fix op l l'
  assume "applyLeaseOp op l = Inr l'"
  then show "leaseEdge (l_Status l) (l_Status l')"
    by (cases op) (auto simp: leaseEdge_def RecordAttempt_def UpdateTimeElapsed_def Revoke_def Let_def
        split: if_splits)
qed

text \<open>How many of a list of calls record an attempt successfully.\<close>

fun recorded :: "LeaseOp list \<Rightarrow> ExecutionLease \<Rightarrow> nat" where
  "recorded [] l = 0"
| "recorded (op # ops) l =
     (case applyLeaseOp op l of
        Inl _ \<Rightarrow> recorded ops l
      | Inr l' \<Rightarrow> (if op = OpRecordAttempt then 1 else 0) + recorded ops l')"

lemma applyLeaseOp_used:
  assumes "leaseInv l" "applyLeaseOp op l = Inr l'"
  shows "l_AttemptsUsed l' = l_AttemptsUsed l + (if op = OpRecordAttempt then 1 else 0)"
    "l_RetryBudget l' = l_RetryBudget l"
proof -
  have "l_Status l = LeaseStatusActive" if "op = OpRecordAttempt"
    using assms that by (auto simp: RecordAttempt_def split: if_splits)
  then show "l_AttemptsUsed l' = l_AttemptsUsed l + (if op = OpRecordAttempt then 1 else 0)"
    "l_RetryBudget l' = l_RetryBudget l"
    using assms RecordAttempt_inv [OF assms(1)]
    by (cases op; auto simp: UpdateTimeElapsed_def Revoke_def split: if_splits)+
qed

lemma recorded_used:
  "leaseInv l \<Longrightarrow> l_AttemptsUsed (runOps applyLeaseOp ops l) = l_AttemptsUsed l + int (recorded ops l) \<and>
     l_RetryBudget (runOps applyLeaseOp ops l) = l_RetryBudget l \<and> leaseInv (runOps applyLeaseOp ops l)"
proof (induction ops arbitrary: l)
  case (Cons op ops)
  show ?case
  proof (cases "applyLeaseOp op l")
    case (Inr l')
    with Cons.prems have "leaseInv l'" by (rule leaseInv_step)
    from Cons.IH [OF this] applyLeaseOp_used [OF Cons.prems Inr] Inr show ?thesis by simp
  qed (simp add: Cons)
qed simp

text \<open>
  C23. A lease bounds the attempts of a run: a lease made with a budget of \<open>m\<close> attempts accepts at
  most \<open>m\<close> of them whatever else is called, counts exactly the accepted ones without
  overflowing, becomes exhausted at the last one and at no other, and rejects attempts from then on.
\<close>

theorem lease_budget:
  assumes "NewRetryBudget m = Inr b" "m < 2 ^ 63" "NewExecutionLease i w d b now = Inr l0"
    and "l = runOps applyLeaseOp ops l0"
  shows "int (recorded ops l0) \<le> m \<and> l_AttemptsUsed l = int (recorded ops l0) \<and>
         (l_Status l = LeaseStatusExhausted \<longleftrightarrow> int (recorded ops l0) = m) \<and>
         (HasRetryBudget l \<longleftrightarrow> (\<exists>l'. RecordAttempt l = Inr l')) \<and>
         (l_Status l \<noteq> LeaseStatusActive \<longrightarrow>
            (\<forall>ops'. recorded ops' l = 0 \<and> l_Status (runOps applyLeaseOp ops' l) = l_Status l))"
proof -
  have inv0: "leaseInv l0" by (rule leaseInv_new [OF assms(1-3)])
  have l0: "l_AttemptsUsed l0 = 0" "l_RetryBudget l0 = b"
    using assms(3) by (auto simp: NewExecutionLease_def split: if_splits)
  have b: "rb_MaxAttempts b = m" using assms(1) by (auto simp: NewRetryBudget_def split: if_splits)
  note r = recorded_used [OF inv0, of ops, folded assms(4)]
  have stuck: "recorded ops' k = 0 \<and> l_Status (runOps applyLeaseOp ops' k) = l_Status k"
    if "l_Status k \<noteq> LeaseStatusActive" for ops' k
    using that
  proof (induction ops' arbitrary: k)
    case (Cons op ops')
    then show ?case by (cases op) (simp_all add: RecordAttempt_def Revoke_def UpdateTimeElapsed_def)
  qed simp
  have rec: "(\<exists>l'. RecordAttempt l = Inr l') \<longleftrightarrow> l_Status l = LeaseStatusActive"
    by (simp add: RecordAttempt_def Let_def)
  have m: "rb_MaxAttempts (l_RetryBudget l) = m" "l_AttemptsUsed l = int (recorded ops l0)" "leaseInv l"
    using r by (simp_all add: l0 b)
  then show ?thesis unfolding rec
    by (auto simp: leaseInv_def HasRetryBudget_def Let_def stuck)
qed

theorem lease_budget_witness:
  "l_Status (runOps applyLeaseOp [OpRecordAttempt, OpUpdateTimeElapsed 7, OpRecordAttempt, OpRecordAttempt]
     (ReconstructExecutionLease ''L1'' ''W1'' 5 \<lparr>rb_MaxAttempts = 2\<rparr> 0 0 LeaseStatusActive 1))
   = LeaseStatusExhausted"
  using lease_budget [of 2 "\<lparr>rb_MaxAttempts = 2\<rparr>" "''L1''" "''W1''" 5 1
      "ReconstructExecutionLease ''L1'' ''W1'' 5 \<lparr>rb_MaxAttempts = 2\<rparr> 0 0 LeaseStatusActive 1"
      _ "[OpRecordAttempt, OpUpdateTimeElapsed 7, OpRecordAttempt, OpRecordAttempt]", OF _ _ _ refl]
  by (simp add: NewRetryBudget_def NewExecutionLease_def ReconstructExecutionLease_def RecordAttempt_def
      UpdateTimeElapsed_def inc64_def Let_def)

end
