(* ===== verification/Approval.thy ===== *)
theory Approval
  imports Shared
begin

text \<open>
  The approval aggregate (\<^verbatim>\<open>internal/domain/approval\<close>): a request that is pending until it is
  approved, denied or expired, exactly once.
\<close>

datatype ApprovalStatus = ApprovalStatus (ApprovalStatus_String: string)

abbreviation "ApprovalPending \<equiv> ApprovalStatus ''pending''"
abbreviation "ApprovalApproved \<equiv> ApprovalStatus ''approved''"
abbreviation "ApprovalDenied \<equiv> ApprovalStatus ''denied''"
abbreviation "ApprovalExpired \<equiv> ApprovalStatus ''expired''"

definition validApprovalStatuses :: "ApprovalStatus list" where
  "validApprovalStatuses = [ApprovalPending, ApprovalApproved, ApprovalDenied, ApprovalExpired]"

definition NewApprovalStatus :: "string \<Rightarrow> gov_error + ApprovalStatus" where
  "NewApprovalStatus s =
     (let st = ApprovalStatus s
      in if st \<notin> set validApprovalStatuses then Inl (ErrInvalidEnum ''approval status'' s) else Inr st)"

interpretation approvalStatus:
  string_enum ApprovalStatus ApprovalStatus_String validApprovalStatuses NewApprovalStatus "''approval status''"
  by unfold_locales (simp_all add: NewApprovalStatus_def Let_def)

definition ApprovalStatus_IsTerminal :: "ApprovalStatus \<Rightarrow> bool" where
  "ApprovalStatus_IsTerminal st \<longleftrightarrow>
     st = ApprovalApproved \<or> st = ApprovalDenied \<or> st = ApprovalExpired"

record ApproverSpec =
  as_Role :: string
  as_ActorID :: "ActorID option"

record ApprovalResolution =
  res_ResolvedBy :: ActorID
  res_ResolvedAt :: Timestamp
  res_Reason :: string
  res_Status :: ApprovalStatus

record ApprovalRequest =
  a_id :: ApprovalRequestID
  a_taskID :: TaskID
  a_workflowRunID :: WorkflowRunID
  a_reason :: string
  a_requiredApprover :: ApproverSpec
  a_status :: ApprovalStatus
  a_resolution :: "ApprovalResolution option"
  a_expiresAt :: "Timestamp option"
  a_createdAt :: Timestamp

definition NewApprovalRequest ::
  "ApprovalRequestID \<Rightarrow> TaskID \<Rightarrow> WorkflowRunID \<Rightarrow> string \<Rightarrow> ApproverSpec \<Rightarrow> Timestamp option \<Rightarrow>
   Timestamp \<Rightarrow> gov_error + ApprovalRequest" where
  "NewApprovalRequest i taskID wfID reason approver expires now =
     (if isBlank reason then Inl ErrApprovalEmptyReason
      else Inr \<lparr>a_id = i, a_taskID = taskID, a_workflowRunID = wfID, a_reason = reason,
                a_requiredApprover = approver, a_status = ApprovalPending, a_resolution = None,
                a_expiresAt = expires, a_createdAt = now\<rparr>)"

definition ReconstructApprovalRequest ::
  "ApprovalRequestID \<Rightarrow> TaskID \<Rightarrow> WorkflowRunID \<Rightarrow> string \<Rightarrow> ApproverSpec \<Rightarrow> ApprovalStatus \<Rightarrow>
   ApprovalResolution option \<Rightarrow> Timestamp option \<Rightarrow> Timestamp \<Rightarrow> ApprovalRequest" where
  "ReconstructApprovalRequest i taskID wfID reason approver status resolution expires created =
     \<lparr>a_id = i, a_taskID = taskID, a_workflowRunID = wfID, a_reason = reason,
      a_requiredApprover = approver, a_status = status, a_resolution = resolution,
      a_expiresAt = expires, a_createdAt = created\<rparr>"

definition resolve ::
  "ActorID \<Rightarrow> string \<Rightarrow> ApprovalStatus \<Rightarrow> Timestamp \<Rightarrow> ApprovalRequest \<Rightarrow> gov_error + ApprovalRequest" where
  "resolve resolvedBy reason status now ar =
     (if a_status ar \<noteq> ApprovalPending
      then Inl (ErrApprovalNotPending (ApprovalStatus_String (a_status ar)))
      else Inr (ar\<lparr>a_status := status,
                   a_resolution := Some \<lparr>res_ResolvedBy = resolvedBy, res_ResolvedAt = now,
                                         res_Reason = reason, res_Status = status\<rparr>\<rparr>))"

definition Approve :: "ActorID \<Rightarrow> string \<Rightarrow> Timestamp \<Rightarrow> ApprovalRequest \<Rightarrow> gov_error + ApprovalRequest" where
  "Approve resolvedBy reason now ar = resolve resolvedBy reason ApprovalApproved now ar"
definition Deny :: "ActorID \<Rightarrow> string \<Rightarrow> Timestamp \<Rightarrow> ApprovalRequest \<Rightarrow> gov_error + ApprovalRequest" where
  "Deny resolvedBy reason now ar = resolve resolvedBy reason ApprovalDenied now ar"
definition Expire :: "Timestamp \<Rightarrow> ApprovalRequest \<Rightarrow> gov_error + ApprovalRequest" where
  "Expire now ar = resolve ''system'' ''expired'' ApprovalExpired now ar"

lemmas approval_op_defs = Approve_def Deny_def Expire_def

datatype ApprovalOp = OpApprove ActorID string | OpDeny ActorID string | OpExpire

fun applyApprovalOp :: "ApprovalOp \<times> Timestamp \<Rightarrow> ApprovalRequest \<Rightarrow> gov_error + ApprovalRequest" where
  "applyApprovalOp (OpApprove a r, now) ar = Approve a r now ar"
| "applyApprovalOp (OpDeny a r, now) ar = Deny a r now ar"
| "applyApprovalOp (OpExpire, now) ar = Expire now ar"

definition approvalEdge :: "ApprovalStatus \<Rightarrow> ApprovalStatus \<Rightarrow> bool" where
  "approvalEdge s s' \<longleftrightarrow> s = ApprovalPending \<and> ApprovalStatus_IsTerminal s'"

interpretation approvalMachine: status_machine a_status approvalEdge applyApprovalOp
proof
  fix op ar ar'
  assume "applyApprovalOp op ar = Inr ar'"
  then show "approvalEdge (a_status ar) (a_status ar')"
    by (cases "(op, ar)" rule: applyApprovalOp.cases)
       (auto simp: approval_op_defs resolve_def approvalEdge_def ApprovalStatus_IsTerminal_def split: if_splits)
qed

text \<open>A request is pending without a resolution, or resolved with one that says the same.\<close>

definition approvalInv :: "ApprovalRequest \<Rightarrow> bool" where
  "approvalInv ar \<longleftrightarrow>
     a_status ar = ApprovalPending \<and> a_resolution ar = None \<or>
     ApprovalStatus_IsTerminal (a_status ar) \<and> map_option res_Status (a_resolution ar) = Some (a_status ar)"

lemma approvalInv_step: "applyApprovalOp op ar = Inr ar' \<Longrightarrow> approvalInv ar'"
  by (cases "(op, ar)" rule: applyApprovalOp.cases)
     (auto simp: approval_op_defs resolve_def approvalInv_def ApprovalStatus_IsTerminal_def split: if_splits)

lemma pending_no_step: "a_status ar \<noteq> ApprovalPending \<Longrightarrow> \<not> approvalEdge (a_status ar) s"
  by (simp add: approvalEdge_def)

lemma pending_accepts: "a_status ar = ApprovalPending \<Longrightarrow> \<exists>ar'. applyApprovalOp op ar = Inr ar' \<and> a_status ar' \<noteq> ApprovalPending"
  by (cases "(op, ar)" rule: applyApprovalOp.cases) (auto simp: approval_op_defs resolve_def)

text \<open>
  C25. An approval request is resolved at most once: of any calls a new request receives, the
  first succeeds and fixes status and resolution for good; every later call is rejected. The
  request always satisfies that it is pending without a resolution, or carries a resolution with
  its own status.
\<close>

theorem approval_resolved_once:
  assumes "NewApprovalRequest i t w r spec ex now = Inr ar"
  shows "approvalInv (runOps applyApprovalOp ops ar) \<and>
         runOps applyApprovalOp ops ar = runOps applyApprovalOp (take 1 ops) ar \<and>
         (ops \<noteq> [] \<longrightarrow> (\<forall>op. \<exists>e. applyApprovalOp op (runOps applyApprovalOp ops ar) = Inl e))"
proof (cases ops)
  case Nil
  with assms show ?thesis by (auto simp: NewApprovalRequest_def approvalInv_def split: if_splits)
next
  case (Cons op ops')
  from assms have "a_status ar = ApprovalPending" by (auto simp: NewApprovalRequest_def split: if_splits)
  from pending_accepts [OF this] obtain ar' where
    ar': "applyApprovalOp op ar = Inr ar'" "a_status ar' \<noteq> ApprovalPending" by blast
  have "runOps applyApprovalOp ops' ar' = ar'" "\<exists>e. applyApprovalOp o' ar' = Inl e" for o'
    by (intro approvalMachine.final_stays approvalMachine.final_rejects pending_no_step ar'(2))+
  with Cons ar' approvalInv_step [OF ar'(1)] show ?thesis by simp
qed

theorem approval_resolved_once_witness:
  "let ar = ReconstructApprovalRequest ''A1'' ''T1'' ''W1'' ''risky'' \<lparr>as_Role = ''human'', as_ActorID = None\<rparr>
              ApprovalPending None None 5;
       ops = [(OpApprove ''ann'' ''ok'', 6), (OpDeny ''bob'' ''no'', 7)]
   in a_status (runOps applyApprovalOp ops ar) = ApprovalApproved"
  using approval_resolved_once [of "''A1''" "''T1''" "''W1''" "''risky''" "\<lparr>as_Role = ''human'', as_ActorID = None\<rparr>" None 5
      "ReconstructApprovalRequest ''A1'' ''T1'' ''W1'' ''risky'' \<lparr>as_Role = ''human'', as_ActorID = None\<rparr>
              ApprovalPending None None 5" "[(OpApprove ''ann'' ''ok'', 6), (OpDeny ''bob'' ''no'', 7)]"]
  by (simp add: NewApprovalRequest_def ReconstructApprovalRequest_def not_isBlank_Cons approval_op_defs resolve_def)

end
