(* ===== verification/Escalation.thy ===== *)
theory Escalation
  imports Shared
begin

text \<open>The escalation aggregate (\<^verbatim>\<open>internal/domain/escalation\<close>): pending, then triggered, then resolved.\<close>

datatype EscalationTarget = EscalationTarget (EscalationTarget_String: string)

abbreviation "TargetHuman \<equiv> EscalationTarget ''human''"
abbreviation "TargetSeniorAgent \<equiv> EscalationTarget ''senior_agent''"
abbreviation "TargetAdmin \<equiv> EscalationTarget ''admin''"

definition validEscalationTargets :: "EscalationTarget list" where
  "validEscalationTargets = [TargetHuman, TargetSeniorAgent, TargetAdmin]"

definition NewEscalationTarget :: "string \<Rightarrow> gov_error + EscalationTarget" where
  "NewEscalationTarget s =
     (let et = EscalationTarget s
      in if et \<notin> set validEscalationTargets then Inl (ErrInvalidEnum ''escalation target'' s) else Inr et)"

interpretation escalationTarget:
  string_enum EscalationTarget EscalationTarget_String validEscalationTargets NewEscalationTarget "''escalation target''"
  by unfold_locales (simp_all add: NewEscalationTarget_def Let_def)

datatype EscalationStatus = EscalationStatus (EscalationStatus_String: string)

abbreviation "EscalationPending \<equiv> EscalationStatus ''pending''"
abbreviation "EscalationTriggered \<equiv> EscalationStatus ''triggered''"
abbreviation "EscalationResolved \<equiv> EscalationStatus ''resolved''"

record EscalationCondition =
  ec_Type :: string
  ec_Parameters :: "string \<rightharpoonup> any"

record EscalationTrigger =
  e_id :: EscalationTriggerID
  e_taskID :: TaskID
  e_condition :: EscalationCondition
  e_target :: EscalationTarget
  e_status :: EscalationStatus
  e_triggeredAt :: "Timestamp option"
  e_createdAt :: Timestamp

definition NewEscalationTrigger ::
  "EscalationTriggerID \<Rightarrow> TaskID \<Rightarrow> EscalationCondition \<Rightarrow> EscalationTarget \<Rightarrow> Timestamp \<Rightarrow> EscalationTrigger" where
  "NewEscalationTrigger i taskID condition target now =
     \<lparr>e_id = i, e_taskID = taskID, e_condition = condition, e_target = target,
      e_status = EscalationPending, e_triggeredAt = None, e_createdAt = now\<rparr>"

definition ReconstructEscalationTrigger ::
  "EscalationTriggerID \<Rightarrow> TaskID \<Rightarrow> EscalationCondition \<Rightarrow> EscalationTarget \<Rightarrow> EscalationStatus \<Rightarrow>
   Timestamp option \<Rightarrow> Timestamp \<Rightarrow> EscalationTrigger" where
  "ReconstructEscalationTrigger i taskID condition target status triggered created =
     \<lparr>e_id = i, e_taskID = taskID, e_condition = condition, e_target = target,
      e_status = status, e_triggeredAt = triggered, e_createdAt = created\<rparr>"

definition Trigger :: "Timestamp \<Rightarrow> EscalationTrigger \<Rightarrow> gov_error + EscalationTrigger" where
  "Trigger now et =
     (if e_status et \<noteq> EscalationPending
      then Inl (ErrEscalationNotPending (EscalationStatus_String (e_status et)))
      else Inr (et\<lparr>e_status := EscalationTriggered, e_triggeredAt := Some now\<rparr>))"

definition escalationResolve :: "EscalationTrigger \<Rightarrow> gov_error + EscalationTrigger" where
  "escalationResolve et =
     (if e_status et \<noteq> EscalationTriggered
      then Inl (ErrNotTriggered (EscalationStatus_String (e_status et)))
      else Inr (et\<lparr>e_status := EscalationResolved\<rparr>))"

datatype EscalationOp = OpTrigger Timestamp | OpResolve

fun applyEscalationOp :: "EscalationOp \<Rightarrow> EscalationTrigger \<Rightarrow> gov_error + EscalationTrigger" where
  "applyEscalationOp (OpTrigger now) et = Trigger now et"
| "applyEscalationOp OpResolve et = escalationResolve et"

definition escalationEdge :: "EscalationStatus \<Rightarrow> EscalationStatus \<Rightarrow> bool" where
  "escalationEdge s s' \<longleftrightarrow>
     s = EscalationPending \<and> s' = EscalationTriggered \<or> s = EscalationTriggered \<and> s' = EscalationResolved"

interpretation escalationMachine: status_machine e_status escalationEdge applyEscalationOp
proof
  fix op et et'
  assume "applyEscalationOp op et = Inr et'"
  then show "escalationEdge (e_status et) (e_status et')"
    by (cases op) (auto simp: Trigger_def escalationResolve_def escalationEdge_def split: if_splits)
qed

text \<open>The time of triggering is recorded exactly when the escalation has left the pending status.\<close>

definition escalationInv :: "EscalationTrigger \<Rightarrow> bool" where
  "escalationInv et \<longleftrightarrow>
     e_status et = EscalationPending \<and> e_triggeredAt et = None \<or>
     e_status et \<in> {EscalationTriggered, EscalationResolved} \<and> e_triggeredAt et \<noteq> None"

lemma escalationInv_step: "escalationInv et \<Longrightarrow> applyEscalationOp op et = Inr et' \<Longrightarrow> escalationInv et'"
  by (cases op) (auto simp: Trigger_def escalationResolve_def escalationInv_def split: if_splits)

lemma resolved_stays: "e_status et = EscalationResolved \<Longrightarrow> runOps applyEscalationOp ops et = et"
  by (rule escalationMachine.final_stays) (simp add: escalationEdge_def)

text \<open>
  C26. An escalation is triggered before it is resolved and each happens once: whatever calls a
  new escalation receives, it records a time of triggering exactly when it has been triggered,
  that time is the one of the first trigger call, and once resolved it never changes again.
\<close>

theorem escalation_lifecycle:
  assumes "et = runOps applyEscalationOp ops (NewEscalationTrigger i t c tgt now)"
  shows "escalationInv et \<and>
         e_triggeredAt et = (case [n. OpTrigger n \<leftarrow> ops] of [] \<Rightarrow> None | n # _ \<Rightarrow> Some n) \<and>
         (e_status et = EscalationResolved \<longrightarrow> (\<forall>ops'. runOps applyEscalationOp ops' et = et))"
proof -
  have inv: "escalationInv et" unfolding assms
  proof (rule runOps_induct [where P = escalationInv])
    show "escalationInv (NewEscalationTrigger i t c tgt now)"
      by (simp add: NewEscalationTrigger_def escalationInv_def)
  qed (rule escalationInv_step)
  have later: "e_triggeredAt (runOps applyEscalationOp ops x) = e_triggeredAt x"
    if "e_status x \<noteq> EscalationPending" for x ops
    using that
  proof (induction ops arbitrary: x)
    case (Cons op ops)
    then show ?case by (cases op) (auto simp: Trigger_def escalationResolve_def)
  qed simp
  have first: "e_triggeredAt (runOps applyEscalationOp ops x) =
      (case [n. OpTrigger n \<leftarrow> ops] of [] \<Rightarrow> None | n # _ \<Rightarrow> Some n)"
    if "e_status x = EscalationPending" "e_triggeredAt x = None" for x
    using that
  proof (induction ops arbitrary: x)
    case (Cons op ops)
    then show ?case by (cases op) (auto simp: Trigger_def escalationResolve_def later)
  qed simp
  from inv first resolved_stays show ?thesis by (simp add: assms NewEscalationTrigger_def)
qed

theorem escalation_lifecycle_witness:
  "e_triggeredAt (runOps applyEscalationOp [OpResolve, OpTrigger 7, OpTrigger 9, OpResolve]
     (NewEscalationTrigger ''E1'' ''T1'' \<lparr>ec_Type = ''manual'', ec_Parameters = Map.empty\<rparr> TargetHuman 3)) = Some 7"
  using escalation_lifecycle [of _ "[OpResolve, OpTrigger 7, OpTrigger 9, OpResolve]" "''E1''" "''T1''"
      "\<lparr>ec_Type = ''manual'', ec_Parameters = Map.empty\<rparr>" TargetHuman 3, OF refl]
  by simp

end
