(* ===== verification/Trace.thy ===== *)
theory Trace
  imports Shared "HOL-Library.Word"
begin

text \<open>
  W3C trace contexts (\<^verbatim>\<open>internal/domain/trace\<close>), the HTTP middleware that attaches one to every
  request (\<^verbatim>\<open>adapters/inbound/http/middleware\<close>) and the log handler that reports it
  (\<^verbatim>\<open>infrastructure/obs/log\<close>). Bytes are 8-bit words; the random source is the list of bytes it
  will deliver, and \<^verbatim>\<open>io.ReadFull\<close> takes its share off the front or fails.
\<close>

unbundle bit_operations_syntax

type_synonym byte = "8 word"

section \<open>Hexadecimal\<close>

definition hexChars :: string where
  "hexChars = ''0123456789abcdef''"

definition hexByte :: "byte \<Rightarrow> string" where
  "hexByte b = [hexChars ! (unat b div 16), hexChars ! (unat b mod 16)]"

definition EncodeToString :: "byte list \<Rightarrow> string" where
  "EncodeToString bs = concat (map hexByte bs)"

definition isHexChar :: "char \<Rightarrow> bool" where
  "isHexChar c \<longleftrightarrow>
     (let n = (of_char c :: nat)
      in (48 \<le> n \<and> n \<le> 57) \<or> (97 \<le> n \<and> n \<le> 102) \<or> (65 \<le> n \<and> n \<le> 70))"

definition isLowerHex :: "char \<Rightarrow> bool" where
  "isLowerHex c \<longleftrightarrow> (let n = (of_char c :: nat) in (48 \<le> n \<and> n \<le> 57) \<or> (97 \<le> n \<and> n \<le> 102))"

definition hexValue :: "char \<Rightarrow> nat" where
  "hexValue c =
     (let n = (of_char c :: nat)
      in if n \<le> 57 then n - 48 else if 97 \<le> n then n - 97 + 10 else n - 65 + 10)"

definition isHex :: "string \<Rightarrow> bool" where
  "isHex s \<longleftrightarrow> list_all isHexChar s \<and> 0 < length s"

definition allZeros :: "string \<Rightarrow> bool" where
  "allZeros s \<longleftrightarrow> list_all (\<lambda>c. c = CHR ''0'') s"

definition validateHex :: "string \<Rightarrow> nat \<Rightarrow> string \<Rightarrow> gov_error + unit" where
  "validateHex s expectedLen field =
     (if length s \<noteq> expectedLen
      then Inl (ErrInvalidTraceparent (field @ '' must be '' @ showNat expectedLen @ '' hex chars, got '' @ showNat (length s)))
      else if \<not> isHex s then Inl (ErrInvalidTraceparent (field @ '' contains non-hex characters''))
      else Inr ())"

section \<open>Traces\<close>

record Trace =
  tc_TraceID :: string
  tc_SpanID :: string
  tc_Sampled :: bool

text \<open>\<^verbatim>\<open>io.ReadFull(rand, buf)\<close> with \<^verbatim>\<open>len(buf) = n\<close>.\<close>

definition ReadFull :: "nat \<Rightarrow> (byte list, byte list) go" where
  "ReadFull n rand = (if length rand < n then (Inl ErrShortRead, []) else (Inr (take n rand), drop n rand))"

definition traceNew :: "(byte list, Trace) go" where
  "traceNew =
     bindW ''trace.New: read trace_id'' (ReadFull 16) (\<lambda>traceBytes.
     bindW ''trace.New: read span_id'' (ReadFull 8) (\<lambda>spanBytes.
     ret \<lparr>tc_TraceID = EncodeToString traceBytes, tc_SpanID = EncodeToString spanBytes, tc_Sampled = True\<rparr>))"

definition Parse :: "string \<Rightarrow> gov_error + Trace" where
  "Parse traceparent =
     (let parts = splitOn (CHR ''-'') traceparent
      in case parts of
        [version, traceID, spanID, flags] \<Rightarrow>
          if version \<noteq> ''00'' then Inl (ErrInvalidTraceparent (''unsupported version '' @ version))
          else (case validateHex traceID 32 ''trace_id'' of Inl e \<Rightarrow> Inl e | Inr _ \<Rightarrow>
          if allZeros traceID then Inl (ErrInvalidTraceparent ''trace_id must not be all zeros'')
          else (case validateHex spanID 16 ''span_id'' of Inl e \<Rightarrow> Inl e | Inr _ \<Rightarrow>
          if allZeros spanID then Inl (ErrInvalidTraceparent ''span_id must not be all zeros'')
          else if length flags \<noteq> 2 then Inl (ErrInvalidTraceparent ''flags must be 2 hex chars'')
          else if \<not> list_all isHexChar flags then Inl (ErrInvalidTraceparent ''flags not valid hex'')
          else Inr \<lparr>tc_TraceID = toLower traceID, tc_SpanID = toLower spanID,
                    tc_Sampled = odd (16 * hexValue (flags ! 0) + hexValue (flags ! 1))\<rparr>))
      | _ \<Rightarrow> Inl (ErrInvalidTraceparent (''expected 4 segments, got '' @ showNat (length parts))))"

definition Trace_String :: "Trace \<Rightarrow> string" where
  "Trace_String t = ''00-'' @ tc_TraceID t @ ''-'' @ tc_SpanID t @ ''-'' @ (if tc_Sampled t then ''01'' else ''00'')"

definition WithNewSpan :: "Trace \<Rightarrow> (byte list, Trace) go" where
  "WithNewSpan t =
     bindW ''trace.WithNewSpan: read span_id'' (ReadFull 8) (\<lambda>spanBytes.
     ret \<lparr>tc_TraceID = tc_TraceID t, tc_SpanID = EncodeToString spanBytes, tc_Sampled = tc_Sampled t\<rparr>)"

text \<open>
  The lower case of a non-ASCII character is never a hexadecimal digit, so lowering the ASCII
  letters is enough for the test and the value returned below.
\<close>

fun xorSpread :: "nat \<Rightarrow> string \<Rightarrow> byte list \<Rightarrow> byte list" where
  "xorSpread i [] out = out"
| "xorSpread i (b # bs) out =
     xorSpread (Suc i) bs (out[i mod 16 := (out ! (i mod 16)) XOR of_nat (of_char b)])"

definition normaliseRequestID :: "string \<Rightarrow> string" where
  "normaliseRequestID i =
     (let stripped = toLower (filter (\<lambda>c. c \<noteq> CHR ''-'') i)
      in if length stripped = 32 \<and> isHex stripped \<and> \<not> allZeros stripped then stripped
         else let out = xorSpread 0 i (replicate 16 0);
                  out = (if allZeros (EncodeToString out) then out[15 := 1] else out)
              in EncodeToString out)"

definition FromRequestID :: "string \<Rightarrow> (byte list, Trace) go" where
  "FromRequestID requestID =
     (let traceID = normaliseRequestID requestID
      in bindW ''trace.FromRequestID: read span_id'' (ReadFull 8) (\<lambda>spanBytes.
         ret \<lparr>tc_TraceID = traceID, tc_SpanID = EncodeToString spanBytes, tc_Sampled = True\<rparr>))"

text \<open>The part of a request context that matters here is the trace it carries, if any.\<close>

definition ChildSpan :: "Trace option \<Rightarrow> (byte list, Trace option \<times> Trace) go" where
  "ChildSpan ctx =
     bindE (case ctx of Some parent \<Rightarrow> WithNewSpan parent | None \<Rightarrow> traceNew) (\<lambda>child.
     ret (Some child, child))"

section \<open>The middleware and the log handler\<close>

text \<open>\<open>hdr\<close> is \<^verbatim>\<open>r.Header.Get\<close>: the empty string for an absent header.\<close>

definition traceFromRequest :: "(string \<Rightarrow> string) \<Rightarrow> (byte list, Trace) go" where
  "traceFromRequest hdr =
     (if hdr ''Traceparent'' \<noteq> [] then lift (Parse (hdr ''Traceparent''))
      else if hdr ''X-Request-ID'' \<noteq> [] then FromRequestID (hdr ''X-Request-ID'')
      else traceNew)"

text \<open>
  The middleware hands the next handler the request with a trace in its context and sets the
  response header; when even a fresh trace cannot be made, it does neither. The result is what
  the next handler sees and the header that was set.
\<close>

definition TraceW3C :: "(string \<Rightarrow> string) \<Rightarrow> (byte list, Trace option \<times> string option) go" where
  "TraceW3C hdr =
     bindR (traceFromRequest hdr) (\<lambda>r.
     case r of
       Inr t \<Rightarrow> ret (Some t, Some (Trace_String t))
     | Inl _ \<Rightarrow>
         bindR traceNew (\<lambda>fresh.
         case fresh of
           Inl _ \<Rightarrow> ret (None, None)
         | Inr t \<Rightarrow> ret (Some t, Some (Trace_String t))))"

text \<open>The attributes the log handler adds to a record.\<close>

definition traceAttrs :: "Trace option \<Rightarrow> (string \<times> string) list" where
  "traceAttrs ctx =
     (case ctx of
        Some t \<Rightarrow> [(''trace_id'', tc_TraceID t), (''span_id'', tc_SpanID t)]
      | None \<Rightarrow> [])"

section \<open>Lemmas\<close>

definition validID :: "nat \<Rightarrow> string \<Rightarrow> bool" where
  "validID n s \<longleftrightarrow> length s = n \<and> list_all isLowerHex s \<and> \<not> allZeros s"

definition validTrace :: "Trace \<Rightarrow> bool" where
  "validTrace t \<longleftrightarrow> validID 32 (tc_TraceID t) \<and> validID 16 (tc_SpanID t)"

lemma isLowerHex_isHexChar: "isLowerHex c \<Longrightarrow> isHexChar c"
  by (auto simp: isLowerHex_def isHexChar_def Let_def)

lemma lowerByte_isLowerHex: "isLowerHex c \<Longrightarrow> lowerByte c = c"
  by (auto simp: isLowerHex_def lowerByte_def Let_def)

lemma isHexChar_lowerByte: "isHexChar c \<Longrightarrow> isLowerHex (lowerByte c)"
  by (auto simp: isLowerHex_def isHexChar_def lowerByte_def Let_def)

lemma isLowerHex_dash: "isLowerHex c \<Longrightarrow> c \<noteq> CHR ''-''"
  by (auto simp: isLowerHex_def Let_def)

lemma lowerByte_zero: "lowerByte c = CHR ''0'' \<longleftrightarrow> c = CHR ''0''"
proof
  assume z: "lowerByte c = CHR ''0''"
  show "c = CHR ''0''"
  proof (cases "65 \<le> (of_char c :: nat) \<and> (of_char c :: nat) \<le> 90")
    case True
    then have "(of_char (lowerByte c) :: nat) = of_char c + 32" by (simp add: lowerByte_def)
    with z True show ?thesis by simp
  next
    case False
    with z show ?thesis unfolding lowerByte_def by (metis (full_types))
  qed
qed (simp add: lowerByte_def)

lemma toLower_lower: "list_all isLowerHex s \<Longrightarrow> toLower s = s"
  by (induction s) (auto simp: toLower_def lowerByte_isLowerHex)

lemma toLower_hex: "list_all isHexChar s \<Longrightarrow> list_all isLowerHex (toLower s)"
  by (induction s) (auto simp: toLower_def isHexChar_lowerByte)

lemma toLower_allZeros: "allZeros (toLower s) = allZeros s"
  by (induction s) (auto simp: toLower_def allZeros_def lowerByte_zero)

lemma toLower_validID: "length s = n \<Longrightarrow> isHex s \<Longrightarrow> \<not> allZeros s \<Longrightarrow> validID n (toLower s)"
  by (simp add: validID_def isHex_def toLower_hex toLower_allZeros)

lemma validID_facts:
  assumes "validID n s" "0 < n"
  shows "length s = n" "isHex s" "\<not> allZeros s" "CHR ''-'' \<notin> set s" "toLower s = s"
  using assms
  by (auto simp: validID_def isHex_def list_all_iff isLowerHex_isHexChar toLower_lower dest: isLowerHex_dash)

lemma Parse_String:
  assumes "validTrace t"
  shows "Parse (Trace_String t) = Inr t"
proof -
  from assms have v: "validID 32 (tc_TraceID t)" "validID 16 (tc_SpanID t)" by (simp_all add: validTrace_def)
  note f = validID_facts [OF v(1), simplified] validID_facts [OF v(2), simplified]
  have "splitOn (CHR ''-'') (Trace_String t) =
      [''00'', tc_TraceID t, tc_SpanID t, (if tc_Sampled t then ''01'' else ''00'')]"
    using f(4,9) by (simp add: Trace_String_def splitOn_sep splitOn_no_sep)
  then show ?thesis using f
    by (simp add: Parse_def validateHex_def isHexChar_def hexValue_def)
qed

lemma Parse_valid: "Parse s = Inr t \<Longrightarrow> validTrace t"
  by (auto simp: Parse_def validTrace_def validateHex_def Let_def toLower_validID
      split: list.splits if_splits sum.splits)

subsection \<open>Encoded bytes\<close>

lemma nibbles: "unat (b :: byte) div 16 < 16" "unat b mod 16 < 16"
proof -
  have "unat b < 2 ^ LENGTH(8)" by (rule unsigned_less)
  then show "unat b div 16 < 16" "unat b mod 16 < 16" by simp_all
qed

lemma hexChars_nth: "k < 16 \<Longrightarrow> isLowerHex (hexChars ! k) \<and> (hexChars ! k = CHR ''0'' \<longleftrightarrow> k = 0)"
proof -
  have "\<forall>k \<in> set [0..<16]. isLowerHex (hexChars ! k) \<and> (hexChars ! k = CHR ''0'' \<longleftrightarrow> k = 0)"
    by code_simp
  then show "k < 16 \<Longrightarrow> ?thesis" by simp
qed

lemma hexByte_lower: "list_all isLowerHex (hexByte b)"
  by (simp add: hexByte_def hexChars_nth nibbles)

lemma hexByte_zero: "allZeros (hexByte b) \<longleftrightarrow> b = 0"
proof -
  have "allZeros (hexByte b) \<longleftrightarrow> unat b div 16 = 0 \<and> unat b mod 16 = 0"
    by (simp add: hexByte_def allZeros_def hexChars_nth nibbles)
  also have "\<dots> \<longleftrightarrow> unat b = 0" by presburger
  finally show ?thesis by (simp add: unat_eq_0)
qed

lemma EncodeToString_simps [simp]:
  "EncodeToString [] = []" "EncodeToString (b # bs) = hexByte b @ EncodeToString bs"
  by (simp_all add: EncodeToString_def)

lemma EncodeToString_length: "length (EncodeToString bs) = 2 * length bs"
  by (induction bs) (simp_all add: hexByte_def)

lemma EncodeToString_lower: "list_all isLowerHex (EncodeToString bs)"
  by (induction bs) (simp_all add: hexByte_lower)

lemma EncodeToString_zero: "allZeros (EncodeToString bs) \<longleftrightarrow> list_all (\<lambda>b. b = 0) bs"
  by (induction bs) (simp_all add: hexByte_zero [unfolded allZeros_def] allZeros_def)

lemma EncodeToString_validID:
  "validID (2 * length bs) (EncodeToString bs) \<longleftrightarrow> \<not> list_all (\<lambda>b. b = 0) bs"
  by (simp add: validID_def EncodeToString_length EncodeToString_lower EncodeToString_zero)

lemma xorSpread_length [simp]: "length (xorSpread i s out) = length out"
  by (induction s arbitrary: i out) simp_all

lemma normaliseRequestID_valid: "validID 32 (normaliseRequestID i)"
proof (cases "length (toLower (filter (\<lambda>c. c \<noteq> CHR ''-'') i)) = 32 \<and>
    isHex (toLower (filter (\<lambda>c. c \<noteq> CHR ''-'') i)) \<and> \<not> allZeros (toLower (filter (\<lambda>c. c \<noteq> CHR ''-'') i))")
  case True
  have idem: "toLower (toLower s) = toLower s" if "isHex (toLower s)" for s
    by (auto simp: toLower_def lowerByte_def)
  from True show ?thesis
    using toLower_validID [of "toLower (filter (\<lambda>c. c \<noteq> CHR ''-'') i)" 32]
    by (simp add: normaliseRequestID_def idem)
next
  case False
  define out where "out = xorSpread 0 i (replicate 16 0)"
  define out' where "out' = (if allZeros (EncodeToString out) then out[15 := 1] else out)"
  have "length out' = 16" by (simp add: out'_def out_def)
  moreover have "\<not> list_all (\<lambda>b. b = 0) out'"
    using set_update_memI [of 15 out 1]
    by (auto simp: out'_def EncodeToString_zero list_all_iff out_def intro!: bexI [of _ 1])
  ultimately have "validID 32 (EncodeToString out')"
    using EncodeToString_validID [of out'] by simp
  with False show ?thesis
    unfolding normaliseRequestID_def Let_def out'_def out_def by presburger
qed

subsection \<open>The operations that draw random bytes\<close>

abbreviation someNonzero :: "byte list \<Rightarrow> bool" where
  "someNonzero bs \<equiv> \<not> list_all (\<lambda>b. b = 0) bs"

lemma validID_span: "length bs = 8 \<Longrightarrow> someNonzero bs \<Longrightarrow> validID 16 (EncodeToString bs)"
  using EncodeToString_validID [of bs] by simp

lemma validID_trace: "length bs = 16 \<Longrightarrow> someNonzero bs \<Longrightarrow> validID 32 (EncodeToString bs)"
  using EncodeToString_validID [of bs] by simp

lemmas draw_defs = traceNew_def WithNewSpan_def FromRequestID_def bindW_def ReadFull_def ret_def

lemma traceNew_valid:
  assumes "24 \<le> length rand" "someNonzero (take 16 rand)" "someNonzero (take 8 (drop 16 rand))"
  shows "\<exists>t. traceNew rand = (Inr t, drop 24 rand) \<and> validTrace t"
  using assms by (simp add: draw_defs validTrace_def validID_span validID_trace)

lemma FromRequestID_valid:
  assumes "8 \<le> length rand" "someNonzero (take 8 rand)"
  shows "\<exists>t. FromRequestID i rand = (Inr t, drop 8 rand) \<and> validTrace t \<and> tc_TraceID t = normaliseRequestID i"
  using assms by (simp add: draw_defs validTrace_def validID_span normaliseRequestID_valid)

lemma ChildSpan_keeps_trace:
  assumes "ChildSpan (Some p) rand = (Inr (ctx, child), rand')"
  shows "ctx = Some child \<and> tc_TraceID child = tc_TraceID p \<and> tc_Sampled child = tc_Sampled p \<and>
         (validTrace p \<longrightarrow> someNonzero (take 8 rand) \<longrightarrow> validTrace child)"
  using assms
  by (auto simp: ChildSpan_def bindE_def draw_defs validTrace_def validID_span split: if_splits)

text \<open>The failures of the random source and of the parser are errors, never panics.\<close>

lemma traceNew_no_panic: "traceNew rand = (Inl e, rand') \<Longrightarrow> \<not> isPanic e"
  by (auto simp: draw_defs split: if_splits prod.splits sum.splits)

lemma FromRequestID_no_panic: "FromRequestID i rand = (Inl e, rand') \<Longrightarrow> \<not> isPanic e"
  by (auto simp: draw_defs split: if_splits prod.splits sum.splits)

lemma Parse_no_panic: "Parse s = Inl e \<Longrightarrow> \<not> isPanic e"
  by (auto simp: Parse_def validateHex_def Let_def split: list.splits if_splits sum.splits)

lemma traceFromRequest_no_panic: "traceFromRequest hdr rand = (Inl e, rand') \<Longrightarrow> \<not> isPanic e"
  using traceNew_no_panic FromRequestID_no_panic Parse_no_panic
  by (auto simp: traceFromRequest_def lift_def split: if_splits sum.splits)

section \<open>Correctness of trace propagation\<close>

text \<open>
  C28. Printing and parsing a traceparent are inverse: a trace prints to a header that parses back
  to it exactly when its identifiers are well formed (32 and 16 lower-case hexadecimal digits, not
  all zero), and whatever header is accepted yields such a trace, so accepted headers survive being
  forwarded.
\<close>

theorem traceparent_roundtrip:
  "(Parse (Trace_String t) = Inr t \<longleftrightarrow> validTrace t) \<and>
   (\<forall>s u. Parse s = Inr u \<longrightarrow> validTrace u \<and> Parse (Trace_String u) = Inr u)"
  using Parse_String Parse_valid by blast

theorem traceparent_roundtrip_witness:
  "Parse ''00-4BF92F3577B34DA6A3CE929D0E0E4736-00f067aa0ba902b7-01'' =
     Inr \<lparr>tc_TraceID = ''4bf92f3577b34da6a3ce929d0e0e4736'', tc_SpanID = ''00f067aa0ba902b7'', tc_Sampled = True\<rparr> \<and>
   Parse (Trace_String \<lparr>tc_TraceID = ''4bf92f3577b34da6a3ce929d0e0e4736'', tc_SpanID = ''00f067aa0ba902b7'',
     tc_Sampled = True\<rparr>) =
     Inr \<lparr>tc_TraceID = ''4bf92f3577b34da6a3ce929d0e0e4736'', tc_SpanID = ''00f067aa0ba902b7'', tc_Sampled = True\<rparr>"
proof -
  let ?t = "\<lparr>tc_TraceID = ''4bf92f3577b34da6a3ce929d0e0e4736'', tc_SpanID = ''00f067aa0ba902b7'', tc_Sampled = True\<rparr>"
  have "Parse ''00-4BF92F3577B34DA6A3CE929D0E0E4736-00f067aa0ba902b7-01'' = Inr ?t"
    by code_simp
  with traceparent_roundtrip [of ?t] show ?thesis by blast
qed

text \<open>
  C29. Every request is served with a usable trace when the random source delivers: the middleware
  never fails, puts a well-formed trace into the request context and echoes exactly that trace; an
  acceptable \<open>Traceparent\<close> header is continued unchanged, and without one the trace identifier is
  a function of \<open>X-Request-ID\<close> alone. Even with an exhausted source the request is served.
\<close>

theorem TraceW3C_always_traces:
  "(\<exists>ctx hd rand'. TraceW3C hdr rand = (Inr (ctx, hd), rand') \<and> hd = map_option Trace_String ctx) \<and>
   (24 \<le> length rand \<and> someNonzero (take 16 rand) \<and> someNonzero (take 8 rand) \<and> someNonzero (take 8 (drop 16 rand)) \<longrightarrow>
     (\<exists>t rand'. TraceW3C hdr rand = (Inr (Some t, Some (Trace_String t)), rand') \<and> validTrace t \<and>
        Parse (Trace_String t) = Inr t \<and>
        (\<forall>u. hdr ''Traceparent'' \<noteq> [] \<and> Parse (hdr ''Traceparent'') = Inr u \<longrightarrow> t = u) \<and>
        (hdr ''Traceparent'' = [] \<and> hdr ''X-Request-ID'' \<noteq> [] \<longrightarrow>
           tc_TraceID t = normaliseRequestID (hdr ''X-Request-ID''))))"
    (is "?total \<and> (?ok \<longrightarrow> ?good)")
proof (intro conjI impI)
  show ?total
    using traceFromRequest_no_panic traceNew_no_panic
    by (fastforce simp: TraceW3C_def bindR_def ret_def split: prod.splits sum.splits)
next
  assume ok: ?ok
  then obtain f where f: "traceNew rand = (Inr f, drop 24 rand)" "validTrace f"
    using traceNew_valid [of rand] by blast
  from ok obtain q where q: "FromRequestID (hdr ''X-Request-ID'') rand = (Inr q, drop 8 rand)" "validTrace q"
    "tc_TraceID q = normaliseRequestID (hdr ''X-Request-ID'')"
    using FromRequestID_valid [of rand] by force
  show ?good
    using f q Parse_valid
    by (cases "Parse (hdr ''Traceparent'')")
       (auto simp: TraceW3C_def traceFromRequest_def bindR_def ret_def lift_def Parse_String dest: Parse_no_panic)
qed

theorem TraceW3C_always_traces_witness:
  "\<exists>t rand'. TraceW3C (\<lambda>h. if h = ''X-Request-ID'' then ''req-1'' else []) (replicate 24 7) =
      (Inr (Some t, Some (Trace_String t)), rand') \<and> tc_TraceID t = normaliseRequestID ''req-1''"
  using TraceW3C_always_traces [of "\<lambda>h. if h = ''X-Request-ID'' then ''req-1'' else []" "replicate 24 7"]
  by (auto simp: list_all_iff)

end
