(* ===== verification/Resilience.thy ===== *)
theory Resilience
  imports Shared
begin

text \<open>
  Circuit breakers (\<^verbatim>\<open>internal/application/resilience\<close>): one breaker per tool and agent role, fed
  with the result of every attempt, and the registry that holds them. The ring buffer lists the
  last observations, oldest first, \<open>True\<close> for a failure. Access to the registry is serialised by
  its mutex, so its operations are functions on its contents.
\<close>

section \<open>The breaker\<close>

definition ConsecutiveFailuresThreshold :: int where "ConsecutiveFailuresThreshold = 3"
definition RatioFailureThreshold :: rat where "RatioFailureThreshold = 1 / 2"
definition RatioWindowSize :: nat where "RatioWindowSize = 20"
definition RatioMinSamples :: nat where "RatioMinSamples = 5"
definition OpenCooldown :: duration where "OpenCooldown = 60 * Second"
definition HalfOpenProbeSuccesses :: int where "HalfOpenProbeSuccesses = 3"

lemmas breaker_consts =
  ConsecutiveFailuresThreshold_def RatioFailureThreshold_def RatioWindowSize_def RatioMinSamples_def
  HalfOpenProbeSuccesses_def

datatype BreakerState = BreakerState (BreakerState_String: string)

abbreviation "StateClosed \<equiv> BreakerState ''closed''"
abbreviation "StateOpen \<equiv> BreakerState ''open''"
abbreviation "StateHalfOpen \<equiv> BreakerState ''half_open''"

datatype TripReason = TripReason (TripReason_String: string)

abbreviation "TripReasonConsecutive \<equiv> TripReason ''consecutive''"
abbreviation "TripReasonRatio \<equiv> TripReason ''ratio''"
abbreviation "TripReasonNone \<equiv> TripReason []"

record BreakerKey =
  bk_ToolName :: string
  bk_AgentRole :: string

record CircuitBreaker =
  b_Key :: BreakerKey
  b_State :: BreakerState
  b_OpenedAt :: "gotime option"
  b_ConsecutiveFailures :: int
  b_ConsecutiveSuccesses :: int
  b_RingBuffer :: "bool list"
  b_UpdatedAt :: gotime

record StateTransition =
  st_Key :: BreakerKey
  st_From :: BreakerState
  st_To :: BreakerState
  st_TripReason :: TripReason
  st_ConsecutiveFailures :: int
  st_ConsecutiveSuccesses :: int
  st_FailureRate :: rat
  st_SampleSize :: nat
  st_At :: gotime

definition NewCircuitBreaker :: "BreakerKey \<Rightarrow> gotime \<Rightarrow> CircuitBreaker" where
  "NewCircuitBreaker key now =
     \<lparr>b_Key = key, b_State = StateClosed, b_OpenedAt = None, b_ConsecutiveFailures = 0,
      b_ConsecutiveSuccesses = 0, b_RingBuffer = [], b_UpdatedAt = now\<rparr>"

definition countFailures :: "bool list \<Rightarrow> nat" where
  "countFailures ring = length (filter id ring)"

definition appendToRingBuffer :: "bool \<Rightarrow> CircuitBreaker \<Rightarrow> CircuitBreaker" where
  "appendToRingBuffer isFailure b =
     (let ring = (if RatioWindowSize \<le> length (b_RingBuffer b) then tl (b_RingBuffer b) else b_RingBuffer b)
      in b\<lparr>b_RingBuffer := ring @ [isFailure]\<rparr>)"

definition failureRate :: "CircuitBreaker \<Rightarrow> rat" where
  "failureRate b =
     (if b_RingBuffer b = [] then 0
      else fdiv (of_nat (countFailures (b_RingBuffer b))) (of_nat (length (b_RingBuffer b))))"

definition evaluateTrip :: "CircuitBreaker \<Rightarrow> TripReason \<times> bool" where
  "evaluateTrip b =
     (if ConsecutiveFailuresThreshold \<le> b_ConsecutiveFailures b then (TripReasonConsecutive, True)
      else let sampleSize = length (b_RingBuffer b)
           in if RatioMinSamples \<le> sampleSize \<and>
                 RatioFailureThreshold < fdiv (of_nat (countFailures (b_RingBuffer b))) (of_nat sampleSize)
              then (TripReasonRatio, True)
              else (TripReasonNone, False))"

definition makeTransition :: "BreakerState \<Rightarrow> BreakerState \<Rightarrow> TripReason \<Rightarrow> gotime \<Rightarrow> CircuitBreaker \<Rightarrow> StateTransition" where
  "makeTransition from to reason time b =
     \<lparr>st_Key = b_Key b, st_From = from, st_To = to, st_TripReason = reason,
      st_ConsecutiveFailures = b_ConsecutiveFailures b,
      st_ConsecutiveSuccesses = b_ConsecutiveSuccesses b,
      st_FailureRate = failureRate b, st_SampleSize = length (b_RingBuffer b), st_At = time\<rparr>"

text \<open>The counters after an observation, before the transitions are evaluated.\<close>

definition updateCounters :: "bool \<Rightarrow> CircuitBreaker \<Rightarrow> CircuitBreaker" where
  "updateCounters success b =
     (if success then
        b\<lparr>b_ConsecutiveFailures := 0,
          b_ConsecutiveSuccesses :=
            (if b_State b = StateHalfOpen then inc64 (b_ConsecutiveSuccesses b) else 0)\<rparr>
      else b\<lparr>b_ConsecutiveFailures := inc64 (b_ConsecutiveFailures b), b_ConsecutiveSuccesses := 0\<rparr>)"

definition Observe :: "bool \<Rightarrow> gotime \<Rightarrow> CircuitBreaker \<Rightarrow> CircuitBreaker \<times> StateTransition option" where
  "Observe success time b0 =
     (let from = b_State b0;
          b = updateCounters success (appendToRingBuffer (\<not> success) (b0\<lparr>b_UpdatedAt := time\<rparr>))
      in if b_State b = StateClosed then
           (let (tripReason, shouldTrip) = evaluateTrip b
            in if shouldTrip
               then let b = b\<lparr>b_State := StateOpen, b_OpenedAt := Some time\<rparr>
                    in (b, Some (makeTransition from StateOpen tripReason time b))
               else (b, None))
         else if b_State b = StateOpen then
           (case b_OpenedAt b of
              Some opened \<Rightarrow>
                if OpenCooldown \<le> timeSub time opened then
                  (let b = b\<lparr>b_State := StateHalfOpen, b_ConsecutiveSuccesses := (if success then 1 else 0)\<rparr>
                   in if \<not> success then
                        (let b = b\<lparr>b_State := StateOpen, b_OpenedAt := Some time, b_ConsecutiveSuccesses := 0\<rparr>
                         in (b, Some (makeTransition StateHalfOpen StateOpen TripReasonNone time b)))
                      else if HalfOpenProbeSuccesses \<le> b_ConsecutiveSuccesses b then
                        (let b = b\<lparr>b_State := StateClosed, b_OpenedAt := None, b_ConsecutiveSuccesses := 0\<rparr>
                         in (b, Some (makeTransition from StateClosed TripReasonNone time b)))
                      else (b, Some (makeTransition from StateHalfOpen TripReasonNone time b)))
                else (b, None)
            | None \<Rightarrow> (b, None))
         else if b_State b = StateHalfOpen then
           (if \<not> success then
              (let b = b\<lparr>b_State := StateOpen, b_OpenedAt := Some time, b_ConsecutiveSuccesses := 0\<rparr>
               in (b, Some (makeTransition from StateOpen TripReasonNone time b)))
            else if HalfOpenProbeSuccesses \<le> b_ConsecutiveSuccesses b then
              (let b = b\<lparr>b_State := StateClosed, b_OpenedAt := None\<rparr>;
                   transition = makeTransition from StateClosed TripReasonNone time b
               in (b\<lparr>b_ConsecutiveSuccesses := 0\<rparr>, Some transition))
            else (b, None))
         else (b, None))"

section \<open>The registry\<close>

record BreakerSnapshot =
  bs_ToolName :: string
  bs_AgentRole :: string
  bs_State :: BreakerState
  bs_OpenedAt :: "gotime option"
  bs_ConsecutiveFailures :: int
  bs_ConsecutiveSuccesses :: int
  bs_FailureRate :: rat
  bs_SampleSize :: nat
  bs_UpdatedAt :: gotime

record BreakerFilter =
  bf_State :: "BreakerState option"
  bf_ToolName :: "string option"
  bf_AgentRole :: "string option"

text \<open>
  The registry is the association list of its map, in the order of insertion. Iterating over a Go
  map visits the entries in an arbitrary order, which is the argument \<open>order\<close> of \<open>ListBreakers\<close>.
\<close>

type_synonym breakers = "(BreakerKey \<times> CircuitBreaker) list"

definition snapshot :: "CircuitBreaker \<Rightarrow> BreakerSnapshot" where
  "snapshot b =
     \<lparr>bs_ToolName = bk_ToolName (b_Key b), bs_AgentRole = bk_AgentRole (b_Key b), bs_State = b_State b,
      bs_OpenedAt = b_OpenedAt b, bs_ConsecutiveFailures = b_ConsecutiveFailures b,
      bs_ConsecutiveSuccesses = b_ConsecutiveSuccesses b,
      bs_FailureRate =
        (if 0 < length (b_RingBuffer b)
         then fdiv (of_nat (countFailures (b_RingBuffer b))) (of_nat (length (b_RingBuffer b))) else 0),
      bs_SampleSize = length (b_RingBuffer b), bs_UpdatedAt = b_UpdatedAt b\<rparr>"

definition GetBreaker :: "string \<Rightarrow> string \<Rightarrow> breakers \<Rightarrow> BreakerSnapshot option" where
  "GetBreaker tool role r =
     map_option snapshot (map_of r \<lparr>bk_ToolName = tool, bk_AgentRole = role\<rparr>)"

definition filterAdmits :: "BreakerFilter \<Rightarrow> CircuitBreaker \<Rightarrow> bool" where
  "filterAdmits f b \<longleftrightarrow>
     \<not> (bf_State f \<noteq> None \<and> bf_State f \<noteq> Some (b_State b)) \<and>
     \<not> (bf_ToolName f \<noteq> None \<and> bf_ToolName f \<noteq> Some (bk_ToolName (b_Key b))) \<and>
     \<not> (bf_AgentRole f \<noteq> None \<and> bf_AgentRole f \<noteq> Some (bk_AgentRole (b_Key b)))"

definition ListBreakers :: "(breakers \<Rightarrow> breakers) \<Rightarrow> BreakerFilter \<Rightarrow> breakers \<Rightarrow> BreakerSnapshot list" where
  "ListBreakers order f r = map snapshot (filter (filterAdmits f) (map snd (order r)))"

fun putBreaker :: "BreakerKey \<Rightarrow> CircuitBreaker \<Rightarrow> breakers \<Rightarrow> breakers" where
  "putBreaker k b [] = [(k, b)]"
| "putBreaker k b ((k', b') # r) = (if k' = k then (k, b) # r else (k', b') # putBreaker k b r)"

text \<open>
  \<open>ObserveAttempt\<close> returns the transition; handing it to the listener, which happens after the
  mutex is released, is the business of the caller.
\<close>

definition ObserveAttempt ::
  "gotime \<Rightarrow> string \<Rightarrow> string \<Rightarrow> bool \<Rightarrow> gotime \<Rightarrow> breakers \<Rightarrow> breakers \<times> StateTransition option" where
  "ObserveAttempt now tool role success time r =
     (if tool = [] \<or> role = [] then (r, None)
      else let key = \<lparr>bk_ToolName = tool, bk_AgentRole = role\<rparr>;
               b = (case map_of r key of Some b \<Rightarrow> b | None \<Rightarrow> NewCircuitBreaker key now);
               (b', transition) = Observe success time b
           in (putBreaker key b' r, transition))"

text \<open>What the audit listener writes for a transition.\<close>

definition actionAndOutcome :: "StateTransition \<Rightarrow> string \<times> string" where
  "actionAndOutcome t =
     (if st_From t = StateClosed \<and> st_To t = StateOpen
      then (''circuit_breaker_opened'', TripReason_String (st_TripReason t))
      else if st_From t = StateOpen \<and> st_To t = StateHalfOpen
      then (''circuit_breaker_half_opened'', ''cooldown_elapsed'')
      else if st_From t = StateHalfOpen \<and> st_To t = StateClosed
      then (''circuit_breaker_closed'', ''probes_successful'')
      else if st_From t = StateHalfOpen \<and> st_To t = StateOpen
      then (''circuit_breaker_opened'', ''probe_failed'')
      else (''circuit_breaker_transition'',
            BreakerState_String (st_From t) @ ''_to_'' @ BreakerState_String (st_To t)))"

section \<open>Lemmas\<close>

text \<open>The breaker after the bookkeeping of an observation.\<close>

definition tick :: "bool \<Rightarrow> gotime \<Rightarrow> CircuitBreaker \<Rightarrow> CircuitBreaker" where
  "tick success time b = updateCounters success (appendToRingBuffer (\<not> success) (b\<lparr>b_UpdatedAt := time\<rparr>))"

lemma tick_fields [simp]:
  "b_State (tick s time b) = b_State b" "b_OpenedAt (tick s time b) = b_OpenedAt b"
  "b_Key (tick s time b) = b_Key b" "b_UpdatedAt (tick s time b) = time"
  "b_ConsecutiveFailures (tick s time b) = (if s then 0 else inc64 (b_ConsecutiveFailures b))"
  "b_ConsecutiveSuccesses (tick s time b) =
     (if s \<and> b_State b = StateHalfOpen then inc64 (b_ConsecutiveSuccesses b) else 0)"
  "b_RingBuffer (tick s time b) =
     (if RatioWindowSize \<le> length (b_RingBuffer b) then tl (b_RingBuffer b) else b_RingBuffer b) @ [\<not> s]"
  by (simp_all add: tick_def updateCounters_def appendToRingBuffer_def Let_def)

text \<open>One equation per state.\<close>

lemma Observe_closed:
  assumes "b_State b = StateClosed"
  shows "Observe s time b =
     (let b' = tick s time b; opened = b'\<lparr>b_State := StateOpen, b_OpenedAt := Some time\<rparr>
      in if snd (evaluateTrip b')
         then (opened, Some (makeTransition StateClosed StateOpen (fst (evaluateTrip b')) time opened))
         else (b', None))"
  using assms by (simp add: Observe_def tick_def [symmetric] Let_def split: prod.split)

lemma Observe_open:
  assumes "b_State b = StateOpen" "b_OpenedAt b = Some opened"
  shows "Observe s time b =
     (let b' = tick s time b;
          half = b'\<lparr>b_State := StateHalfOpen, b_ConsecutiveSuccesses := 1\<rparr>;
          again = b'\<lparr>b_State := StateOpen, b_OpenedAt := Some time, b_ConsecutiveSuccesses := 0\<rparr>
      in if timeSub time opened < OpenCooldown then (b', None)
         else if s then (half, Some (makeTransition StateOpen StateHalfOpen TripReasonNone time half))
         else (again, Some (makeTransition StateHalfOpen StateOpen TripReasonNone time again)))"
  using assms by (simp add: Observe_def tick_def [symmetric] Let_def breaker_consts)

lemma Observe_half_open:
  assumes "b_State b = StateHalfOpen"
  shows "Observe s time b =
     (let b' = tick s time b;
          again = b'\<lparr>b_State := StateOpen, b_OpenedAt := Some time, b_ConsecutiveSuccesses := 0\<rparr>;
          closed = b'\<lparr>b_State := StateClosed, b_OpenedAt := None\<rparr>
      in if \<not> s then (again, Some (makeTransition StateHalfOpen StateOpen TripReasonNone time again))
         else if 3 \<le> inc64 (b_ConsecutiveSuccesses b)
         then (closed\<lparr>b_ConsecutiveSuccesses := 0\<rparr>,
               Some (makeTransition StateHalfOpen StateClosed TripReasonNone time closed))
         else (b', None))"
  using assms by (simp add: Observe_def tick_def [symmetric] Let_def breaker_consts)

subsection \<open>The ratio test in exact arithmetic\<close>

lemma rnd64_21_40: "1 / 2 < rnd64 (21 / 40)"
  by code_simp

lemma rnd64_half: "rnd64 (1 / 2) = 1 / 2"
  using rnd64_pow2 [of "-1"] by (simp add: pow2_def)

lemma ratio_exact:
  assumes "f \<le> n" "0 < n" "n \<le> 20"
  shows "1 / 2 < fdiv (of_nat f) (of_nat n) \<longleftrightarrow> n < 2 * f"
proof
  assume "n < 2 * f"
  then have "n + 1 \<le> 2 * f" by simp
  then have "(of_nat (n + 1) :: rat) \<le> of_nat (2 * f)" by (simp only: of_nat_le_iff)
  moreover have "(of_nat n :: rat) \<le> 20" using assms(3) by (metis of_nat_le_iff of_nat_numeral)
  ultimately have "(21 / 40 :: rat) \<le> of_nat f / of_nat n"
    using assms(2) by (simp add: field_simps)
  then have "rnd64 (21 / 40) \<le> fdiv (of_nat f) (of_nat n)"
    unfolding fdiv_def by (rule rnd64_mono)
  then show "1 / 2 < fdiv (of_nat f) (of_nat n)" using rnd64_21_40 by linarith
next
  assume gt: "1 / 2 < fdiv (of_nat f) (of_nat n)"
  show "n < 2 * f"
  proof (rule ccontr)
    assume "\<not> n < 2 * f"
    then have "(of_nat (2 * f) :: rat) \<le> of_nat n" by (simp only: of_nat_le_iff not_less)
    then have "of_nat f / of_nat n \<le> (1 / 2 :: rat)" using assms(2) by (simp add: field_simps)
    then have "fdiv (of_nat f) (of_nat n) \<le> 1 / 2"
      unfolding fdiv_def using rnd64_mono rnd64_half by metis
    with gt show False by simp
  qed
qed

text \<open>When a closed breaker trips, in terms of the window.\<close>

definition windowTrips :: "bool list \<Rightarrow> bool" where
  "windowTrips ring \<longleftrightarrow> 5 \<le> length ring \<and> length ring < 2 * countFailures ring"

lemma countFailures_le: "countFailures ring \<le> length ring"
  by (simp add: countFailures_def)

lemma evaluateTrip_iff:
  assumes "length (b_RingBuffer b) \<le> 20"
  shows "evaluateTrip b =
    (if 3 \<le> b_ConsecutiveFailures b then (TripReasonConsecutive, True)
     else if windowTrips (b_RingBuffer b) then (TripReasonRatio, True) else (TripReasonNone, False))"
proof (cases "5 \<le> length (b_RingBuffer b)")
  case True
  have "0 < length (b_RingBuffer b)" using True by linarith
  from ratio_exact [OF countFailures_le this assms] True show ?thesis
    by (simp add: evaluateTrip_def breaker_consts windowTrips_def Let_def)
qed (simp add: evaluateTrip_def breaker_consts windowTrips_def Let_def)

lemma failureRate_unit: "0 \<le> failureRate b \<and> failureRate b \<le> 1"
  using fdiv_unit [of "of_nat (countFailures (b_RingBuffer b))" "of_nat (length (b_RingBuffer b))"]
  by (simp add: failureRate_def countFailures_le)

subsection \<open>The invariant\<close>

definition breakerInv :: "CircuitBreaker \<Rightarrow> bool" where
  "breakerInv b \<longleftrightarrow>
     length (b_RingBuffer b) \<le> 20 \<and>
     (b_State b = StateClosed \<and> b_OpenedAt b = None \<and> b_ConsecutiveSuccesses b = 0 \<and>
        0 \<le> b_ConsecutiveFailures b \<and> b_ConsecutiveFailures b < 3 \<or>
      b_State b = StateOpen \<and> b_OpenedAt b \<noteq> None \<and> b_ConsecutiveSuccesses b = 0 \<or>
      b_State b = StateHalfOpen \<and> b_OpenedAt b \<noteq> None \<and>
        b_ConsecutiveSuccesses b \<in> {1, 2} \<and> b_ConsecutiveFailures b = 0)"

lemma breakerInv_cases [consumes 1, case_names closed opened half_open]:
  assumes "breakerInv b"
  obtains "b_State b = StateClosed" "b_OpenedAt b = None" "b_ConsecutiveSuccesses b = 0"
      "0 \<le> b_ConsecutiveFailures b" "b_ConsecutiveFailures b < 3" "length (b_RingBuffer b) \<le> 20"
  | opened where "b_State b = StateOpen" "b_OpenedAt b = Some opened" "b_ConsecutiveSuccesses b = 0"
      "length (b_RingBuffer b) \<le> 20"
  | "b_State b = StateHalfOpen" "b_OpenedAt b \<noteq> None" "b_ConsecutiveSuccesses b \<in> {1, 2}"
      "b_ConsecutiveFailures b = 0" "length (b_RingBuffer b) \<le> 20"
  using assms unfolding breakerInv_def by (cases "b_OpenedAt b") auto

lemma breakerInv_new: "breakerInv (NewCircuitBreaker k now)"
  by (simp add: breakerInv_def NewCircuitBreaker_def)

lemma tick_ring: "length (b_RingBuffer b) \<le> 20 \<Longrightarrow> length (b_RingBuffer (tick s time b)) \<le> 20"
  by (auto simp: breaker_consts)

lemma breakerInv_tick:
  assumes "breakerInv b" "b_State b \<noteq> StateHalfOpen \<or> s" "b_State b = StateClosed \<longrightarrow> s \<or> b_ConsecutiveFailures b < 2"
    "b_State b = StateHalfOpen \<longrightarrow> b_ConsecutiveSuccesses b = 1"
  shows "breakerInv (tick s time b)"
  using assms(1)
proof (cases rule: breakerInv_cases)
  case closed
  with assms show ?thesis using tick_ring [OF closed(6)]
    by (auto simp: breakerInv_def inc64_def del: tick_fields(7))
next
  case (opened x)
  then show ?thesis using tick_ring [OF opened(4)] by (simp add: breakerInv_def del: tick_fields(7))
next
  case half_open
  with assms show ?thesis using tick_ring [OF half_open(5)]
    by (simp add: breakerInv_def inc64_def del: tick_fields(7))
qed

lemma breakerInv_opened:
  "length (b_RingBuffer b) \<le> 20 \<Longrightarrow> b_ConsecutiveSuccesses b = 0 \<Longrightarrow>
   breakerInv (b\<lparr>b_State := StateOpen, b_OpenedAt := Some time\<rparr>)"
  by (simp add: breakerInv_def)

text \<open>The transitions a breaker may make, and what an observation may report.\<close>

definition breakerEdge :: "BreakerState \<Rightarrow> BreakerState \<Rightarrow> bool" where
  "breakerEdge s s' \<longleftrightarrow>
     (s, s') \<in> {(StateClosed, StateOpen), (StateOpen, StateHalfOpen), (StateHalfOpen, StateOpen), (StateHalfOpen, StateClosed)}"

definition reportOK :: "CircuitBreaker \<Rightarrow> CircuitBreaker \<Rightarrow> StateTransition option \<Rightarrow> bool" where
  "reportOK b b' tr \<longleftrightarrow>
     (case tr of
        None \<Rightarrow> b_State b' = b_State b \<and> b_OpenedAt b' = b_OpenedAt b
      | Some t \<Rightarrow>
          breakerEdge (st_From t) (st_To t) \<and> st_To t = b_State b' \<and> st_Key t = b_Key b \<and>
          (st_From t = b_State b \<or> b_State b = StateOpen \<and> st_From t = StateHalfOpen) \<and>
          (st_TripReason t \<noteq> TripReasonNone \<longleftrightarrow> st_From t = StateClosed))"

lemmas transition_simps = makeTransition_def reportOK_def breakerEdge_def Let_def

lemma Observe_sound:
  assumes "breakerInv b" "Observe s time b = (b', tr)"
  shows "breakerInv b' \<and> reportOK b b' tr"
  using assms(1)
proof (cases rule: breakerInv_cases)
  case closed
  let ?b = "tick s time b"
  note trip = evaluateTrip_iff [OF tick_ring [OF closed(6), of s time]]
  show ?thesis
  proof (cases "snd (evaluateTrip ?b)")
    case True
    then have "breakerInv b'" using assms(2) tick_ring [OF closed(6), of s time] closed
      by (auto simp: Observe_closed Let_def simp del: tick_fields(7) intro!: breakerInv_opened)
    with True assms(2) closed show ?thesis
      by (auto simp: Observe_closed transition_simps trip simp del: tick_fields(7) split: if_splits)
  next
    case False
    then have "s \<or> b_ConsecutiveFailures b < 2" using closed by (auto simp: trip inc64_def split: if_splits)
    then have "breakerInv ?b" using assms(1) closed by (intro breakerInv_tick) simp_all
    with False assms(2) closed show ?thesis by (auto simp: Observe_closed transition_simps)
  qed
next
  case (opened x)
  have "breakerInv (tick s time b)" using assms(1) opened by (intro breakerInv_tick) simp_all
  moreover note tick_ring [OF opened(4), of s time]
  ultimately show ?thesis using assms(2) opened
    by (auto simp: Observe_open transition_simps breakerInv_def simp del: tick_fields(7) split: if_splits)
next
  case half_open
  have "breakerInv (tick s time b)" if "s" "inc64 (b_ConsecutiveSuccesses b) < 3"
    using assms(1) half_open that by (intro breakerInv_tick) (auto simp: inc64_def)
  moreover note tick_ring [OF half_open(5), of s time]
  ultimately show ?thesis using assms(2) half_open
    by (auto simp: Observe_half_open transition_simps breakerInv_def simp del: tick_fields(7) split: if_splits)
qed

subsection \<open>Sequences of observations\<close>

fun runObs :: "(bool \<times> gotime) list \<Rightarrow> CircuitBreaker \<Rightarrow> CircuitBreaker" where
  "runObs [] b = b"
| "runObs ((s, time) # obs) b = runObs obs (fst (Observe s time b))"

definition lastN :: "nat \<Rightarrow> 'a list \<Rightarrow> 'a list" where
  "lastN n xs = drop (length xs - n) xs"

lemma lastN_lastN_append: "lastN n (lastN n xs @ ys) = lastN n (xs @ ys)"
  by (cases "length xs \<le> n") (auto simp: lastN_def add.commute)

lemma lastN_short: "length xs \<le> n \<Longrightarrow> lastN n xs = xs"
  by (simp add: lastN_def)

lemma tick_ring_lastN:
  "length (b_RingBuffer b) \<le> 20 \<Longrightarrow> b_RingBuffer (tick s time b) = lastN 20 (b_RingBuffer b @ [\<not> s])"
  by (cases "b_RingBuffer b") (auto simp: breaker_consts lastN_def le_Suc_eq)

lemma Observe_ring:
  assumes "length (b_RingBuffer b) \<le> 20"
  shows "b_RingBuffer (fst (Observe s time b)) = lastN 20 (b_RingBuffer b @ [\<not> s])"
  unfolding tick_ring_lastN [OF assms, of s time, symmetric]
  by (simp add: Observe_def tick_def [symmetric] Let_def split: prod.split option.split)

lemma runObs_inv: "breakerInv b \<Longrightarrow> breakerInv (runObs obs b)"
proof (induction obs arbitrary: b)
  case (Cons ob obs)
  obtain s time where ob: "ob = (s, time)" by fastforce
  have "breakerInv (fst (Observe s time b))"
    using Observe_sound [OF Cons.prems, of s time] by (cases "Observe s time b") simp
  with Cons.IH show ?case by (simp add: ob)
qed simp

lemma runObs_ring:
  "breakerInv b \<Longrightarrow> b_RingBuffer (runObs obs b) = lastN 20 (b_RingBuffer b @ map (\<lambda>(s, _). \<not> s) obs)"
proof (induction obs arbitrary: b)
  case Nil
  then show ?case by (simp add: lastN_short breakerInv_def)
next
  case (Cons ob obs)
  obtain s time where ob: "ob = (s, time)" by fastforce
  have inv: "breakerInv (fst (Observe s time b))" using runObs_inv [OF Cons.prems, of "[(s, time)]"] by simp
  have "length (b_RingBuffer b) \<le> 20" using Cons.prems by (simp add: breakerInv_def)
  from Observe_ring [OF this] Cons.IH [OF inv] show ?case
    by (simp add: ob lastN_lastN_append)
qed

text \<open>The counter of failures is the length of the current run of failures.\<close>

definition trailing :: "(bool \<times> gotime) list \<Rightarrow> nat" where
  "trailing obs = length (takeWhile (\<lambda>(s, _). \<not> s) (rev obs))"

lemma trailing_snoc: "trailing (obs @ [(s, time)]) = (if s then 0 else Suc (trailing obs))"
  by (simp add: trailing_def)

lemma trailing_le: "trailing obs \<le> length obs"
  unfolding trailing_def by (metis length_rev length_takeWhile_le)

lemma runObs_snoc: "runObs (obs @ [(s, time)]) b = fst (Observe s time (runObs obs b))"
  by (induction obs b rule: runObs.induct) simp_all

lemma Observe_failures:
  "b_ConsecutiveFailures (fst (Observe s time b)) = (if s then 0 else inc64 (b_ConsecutiveFailures b))"
proof -
  have "b_ConsecutiveFailures (fst (Observe s time b)) = b_ConsecutiveFailures (tick s time b)"
    by (simp add: Observe_def tick_def [symmetric] Let_def split: prod.split option.split)
  then show ?thesis by simp
qed

lemma runObs_failures:
  assumes "length obs < 2 ^ 63"
  shows "b_ConsecutiveFailures (runObs obs (NewCircuitBreaker k now)) = int (trailing obs)"
  using assms
proof (induction obs rule: rev_induct)
  case Nil
  then show ?case by (simp add: NewCircuitBreaker_def trailing_def)
next
  case (snoc ob obs)
  obtain s time where ob: "ob = (s, time)" by fastforce
  have "int (trailing obs) < 2 ^ 63 - 1" using snoc.prems trailing_le [of obs] by simp
  with snoc show ?case by (simp add: ob runObs_snoc Observe_failures trailing_snoc inc64_def)
qed

section \<open>Correctness of the breaker\<close>

text \<open>
  C15. Whatever is observed, a breaker stays well formed: it is closed, open or half open; it has an
  opening time exactly when it is not closed; a closed breaker has seen fewer than three failures
  in a row and a half-open one has one or two successful probes; its ring buffer holds exactly
  the last twenty observations. Every observation reports a transition exactly when it changes the
  state or restarts the cooldown, and what it reports is a legal edge into the new state.
\<close>

theorem breaker_wellformed:
  assumes "b = runObs obs (NewCircuitBreaker k now)" "Observe s time b = (b', tr)"
  shows "breakerInv b \<and> breakerInv b' \<and> reportOK b b' tr \<and>
         b_RingBuffer b = lastN 20 (map (\<lambda>(s, _). \<not> s) obs)"
proof -
  have "breakerInv b" unfolding assms(1) by (intro runObs_inv breakerInv_new)
  moreover have "b_RingBuffer b = lastN 20 (map (\<lambda>(s, _). \<not> s) obs)"
    unfolding assms(1) using runObs_ring [OF breakerInv_new [of k now], of obs]
    by (simp add: NewCircuitBreaker_def)
  ultimately show ?thesis using Observe_sound assms(2) by blast
qed

definition sampleKey :: BreakerKey where
  "sampleKey = \<lparr>bk_ToolName = ''git'', bk_AgentRole = ''coder''\<rparr>"

theorem breaker_wellformed_witness:
  "breakerInv (runObs [(False, 1), (True, 2)] (NewCircuitBreaker sampleKey 0))"
  using breaker_wellformed [of _ "[(False, 1), (True, 2)]" sampleKey 0 True 3, OF refl surjective_pairing]
  by blast

text \<open>
  C16. When a closed breaker trips: exactly if this and the two preceding observations were
  failures, or if at least five of the last twenty observations are known and more than half of
  them are failures. The floating-point ratio test decides this exactly.
\<close>

theorem breaker_trips_iff:
  assumes "b = runObs obs (NewCircuitBreaker k now)" "length obs < 2 ^ 63 - 1" "b_State b = StateClosed"
    and "obs' = obs @ [(s, time)]" "window = lastN 20 (map (\<lambda>(s, _). \<not> s) obs')"
  shows "b_State (fst (Observe s time b)) = StateOpen \<longleftrightarrow>
         3 \<le> trailing obs' \<or> (5 \<le> length window \<and> length window < 2 * countFailures window)"
proof -
  have inv: "breakerInv b" unfolding assms(1) by (intro runObs_inv breakerInv_new)
  then have len: "length (b_RingBuffer b) \<le> 20" by (simp add: breakerInv_def)
  let ?b = "tick s time b"
  have w: "b_RingBuffer ?b = window"
    using tick_ring_lastN [OF len, of s time] runObs_ring [OF breakerInv_new [of k now], of obs]
    by (simp add: assms(1,4,5) lastN_lastN_append NewCircuitBreaker_def del: tick_fields)
  have "b_ConsecutiveFailures b = int (trailing obs)" unfolding assms(1) using assms(2) by (intro runObs_failures) simp
  moreover have "int (trailing obs) < 2 ^ 63 - 1" using assms(2) trailing_le [of obs] by simp
  ultimately have "b_ConsecutiveFailures ?b = int (trailing obs')"
    by (simp add: assms(4) trailing_snoc inc64_def)
  then show ?thesis
    using evaluateTrip_iff [OF tick_ring [OF len, of s time]] w assms(3)
    by (simp add: Observe_closed Let_def windowTrips_def del: tick_fields(5-7))
qed

theorem breaker_trips_iff_witness:
  "b_State (fst (Observe False 3 (runObs [(False, 1), (False, 2)] (NewCircuitBreaker sampleKey 0)))) = StateOpen"
proof -
  have "b_State (runObs [(False, 1), (False, 2)] (NewCircuitBreaker sampleKey 0)) = StateClosed"
    by code_simp
  from breaker_trips_iff [OF refl _ this refl refl, of False 3] show ?thesis
    by (simp add: trailing_def)
qed







section \<open>Correctness of the registry\<close>

lemma map_of_putBreaker: "map_of (putBreaker k b r) k' = (if k' = k then Some b else map_of r k')"
  by (induction k b r rule: putBreaker.induct) auto

interpretation breakerStore: kv_store "map_of :: breakers \<Rightarrow> BreakerKey \<Rightarrow> CircuitBreaker option" putBreaker
  by unfold_locales (rule map_of_putBreaker)

lemma putBreaker_keys: "fst ` set (putBreaker k b r) = insert k (fst ` set r)"
  by (induction k b r rule: putBreaker.induct) auto

lemma putBreaker_distinct: "distinct (map fst r) \<Longrightarrow> distinct (map fst (putBreaker k b r))"
proof (induction k b r rule: putBreaker.induct)
  case (2 k b k' b' r)
  then show ?case using putBreaker_keys [of k b r] by auto
qed simp

text \<open>Every breaker of the registry is well formed and filed under its own key, which is complete.\<close>

definition registryInv :: "breakers \<Rightarrow> bool" where
  "registryInv r \<longleftrightarrow>
     distinct (map fst r) \<and>
     (\<forall>k b. map_of r k = Some b \<longrightarrow> breakerInv b \<and> b_Key b = k \<and> bk_ToolName k \<noteq> [] \<and> bk_AgentRole k \<noteq> [])"

lemma Observe_key: "b_Key (fst (Observe s time b)) = b_Key b"
  by (simp add: Observe_def tick_def [symmetric] Let_def split: prod.split option.split)

lemma ObserveAttempt_inv:
  assumes "registryInv r"
  shows "registryInv (fst (ObserveAttempt now tool role s time r))"
proof (cases "tool = [] \<or> role = []")
  case True
  then show ?thesis using assms by (simp add: ObserveAttempt_def)
next
  case False
  define k where "k = \<lparr>bk_ToolName = tool, bk_AgentRole = role\<rparr>"
  define b where "b = (case map_of r k of Some b \<Rightarrow> b | None \<Rightarrow> NewCircuitBreaker k now)"
  obtain b' tr where ob: "Observe s time b = (b', tr)" by fastforce
  have "breakerInv b \<and> b_Key b = k"
    using assms breakerInv_new by (auto simp: b_def registryInv_def NewCircuitBreaker_def split: option.split)
  then have b': "breakerInv b' \<and> b_Key b' = k"
    using Observe_sound [OF _ ob] Observe_key [of s time b] by (simp add: ob)
  have "fst (ObserveAttempt now tool role s time r) = putBreaker k b' r"
    using False ob by (simp add: ObserveAttempt_def Let_def k_def [symmetric] b_def [symmetric])
  with b' assms False show ?thesis
    by (auto simp: registryInv_def putBreaker_distinct map_of_putBreaker k_def split: if_splits)
qed

text \<open>
  C18. The registry keeps one breaker per tool and role and keeps them apart: an attempt without a
  tool or a role changes nothing; any other attempt is observed by the breaker of its own key
  (a new closed one if there is none), and no other breaker changes. The registry invariant (one
  well-formed breaker per complete key) is kept.
\<close>

theorem registry_isolation:
  assumes "registryInv r" "(r', tr) = ObserveAttempt now tool role s time r"
  shows "registryInv r' \<and>
         (if tool = [] \<or> role = [] then r' = r \<and> tr = None
          else let k = \<lparr>bk_ToolName = tool, bk_AgentRole = role\<rparr>;
                   b = (case map_of r k of Some b \<Rightarrow> b | None \<Rightarrow> NewCircuitBreaker k now)
               in GetBreaker tool role r' = Some (snapshot (fst (Observe s time b))) \<and> tr = snd (Observe s time b) \<and>
                  (\<forall>tool' role'. (tool', role') \<noteq> (tool, role) \<longrightarrow> GetBreaker tool' role' r' = GetBreaker tool' role' r))"
  using ObserveAttempt_inv [OF assms(1), of now tool role s time] assms(2) [symmetric]
  by (auto simp: ObserveAttempt_def GetBreaker_def Let_def breakerStore.lookup_same breakerStore.lookup_other
      split: prod.splits if_splits)

theorem registry_isolation_witness:
  "registryInv (fst (ObserveAttempt 0 ''git'' ''coder'' True 5 []))"
  using registry_isolation [of "[]" _ _ 0 "''git''" "''coder''" True 5, OF _ surjective_pairing [symmetric]]
  by (simp add: registryInv_def)

end
