(* ===== verification/AuditTrail.thy ===== *)
theory AuditTrail
  imports Shared
begin

text \<open>
  The audit aggregate (\<^verbatim>\<open>internal/domain/audit\<close>). The builders of the context return the map they
  update in place, so a chain of them is a chain of map updates. The span of OpenTelemetry is an
  argument: its identifiers when it is valid.
\<close>

type_synonym AuditContext = "string \<rightharpoonup> any"

definition NewAuditContext :: AuditContext where
  "NewAuditContext = Map.empty"

definition WithTraceInfo :: "(string \<times> string) option \<Rightarrow> AuditContext \<Rightarrow> AuditContext" where
  "WithTraceInfo sc c =
     (case sc of
        Some (traceID, spanID) \<Rightarrow> c(''trace_id'' \<mapsto> AString traceID, ''span_id'' \<mapsto> AString spanID)
      | None \<Rightarrow> c)"

definition WithFailure :: "string \<Rightarrow> string \<Rightarrow> bool \<Rightarrow> AuditContext \<Rightarrow> AuditContext" where
  "WithFailure stage code retryable c =
     c(''failure_stage'' \<mapsto> AString stage, ''failure_code'' \<mapsto> AString code, ''retryable'' \<mapsto> ABool retryable)"

definition auditWithToolName :: "string \<Rightarrow> AuditContext \<Rightarrow> AuditContext" where
  "auditWithToolName name c = c(''tool_name'' \<mapsto> AString name)"
definition auditWithStrategy :: "string \<Rightarrow> AuditContext \<Rightarrow> AuditContext" where
  "auditWithStrategy strategy c = c(''strategy_used'' \<mapsto> AString strategy)"
definition auditWithAgentRole :: "string \<Rightarrow> AuditContext \<Rightarrow> AuditContext" where
  "auditWithAgentRole role c = c(''agent_role'' \<mapsto> AString role)"

definition WithLeaseState :: "int \<Rightarrow> int \<Rightarrow> int \<Rightarrow> AuditContext \<Rightarrow> AuditContext" where
  "WithLeaseState attemptsUsed retryBudget timeElapsedMs c =
     c(''attempts_used'' \<mapsto> AInt attemptsUsed, ''retry_budget'' \<mapsto> AInt retryBudget,
       ''time_elapsed_ms'' \<mapsto> AInt timeElapsedMs)"

definition auditSet :: "string \<Rightarrow> any \<Rightarrow> AuditContext \<Rightarrow> AuditContext" where
  "auditSet key value c = c(key \<mapsto> value)"

record AuditEntry =
  ae_id :: AuditEntryID
  ae_taskID :: "TaskID option"
  ae_workflowRunID :: "WorkflowRunID option"
  ae_actor :: ActorID
  ae_action :: string
  ae_outcome :: string
  ae_context :: AuditContext
  ae_createdAt :: Timestamp

definition NewAuditEntry ::
  "AuditEntryID \<Rightarrow> ActorID \<Rightarrow> string \<Rightarrow> string \<Rightarrow> AuditContext \<Rightarrow> Timestamp \<Rightarrow> gov_error + AuditEntry" where
  "NewAuditEntry i actor action oc ctx now =
     (if isBlank action then Inl ErrAuditEmptyAction
      else if isBlank oc then Inl ErrEmptyOutcome
      else Inr \<lparr>ae_id = i, ae_taskID = None, ae_workflowRunID = None, ae_actor = actor,
                ae_action = action, ae_outcome = oc, ae_context = ctx, ae_createdAt = now\<rparr>)"

definition ReconstructAuditEntry ::
  "AuditEntryID \<Rightarrow> TaskID option \<Rightarrow> WorkflowRunID option \<Rightarrow> ActorID \<Rightarrow> string \<Rightarrow> string \<Rightarrow> AuditContext \<Rightarrow>
   Timestamp \<Rightarrow> AuditEntry" where
  "ReconstructAuditEntry i taskID wfID actor action oc ctx created =
     \<lparr>ae_id = i, ae_taskID = taskID, ae_workflowRunID = wfID, ae_actor = actor,
      ae_action = action, ae_outcome = oc, ae_context = ctx, ae_createdAt = created\<rparr>"

definition WithTaskID :: "TaskID \<Rightarrow> AuditEntry \<Rightarrow> AuditEntry" where
  "WithTaskID i ae = ae\<lparr>ae_taskID := Some i\<rparr>"
definition WithWorkflowRunID :: "WorkflowRunID \<Rightarrow> AuditEntry \<Rightarrow> AuditEntry" where
  "WithWorkflowRunID i ae = ae\<lparr>ae_workflowRunID := Some i\<rparr>"

lemma NewAuditEntry_Inr:
  "NewAuditEntry i actor action oc ctx now = Inr ae \<longleftrightarrow>
     \<not> isBlank action \<and> \<not> isBlank oc \<and>
     ae = ReconstructAuditEntry i None None actor action oc ctx now"
  by (auto simp: NewAuditEntry_def ReconstructAuditEntry_def)

end
