(* ===== verification/Routing.thy ===== *)
theory Routing
  imports Task AuditTrail
begin

text \<open>
  The routing component (\<^verbatim>\<open>internal/domain/routing\<close> and the statistics collector of
  \<^verbatim>\<open>internal/application/routing\<close>): hard overrides, weighted scores, the adaptive adjustment by
  observed failure rates, the tie-break and the immutable decision. All arithmetic is that of
  \<^verbatim>\<open>float64\<close>; a constant of the source is rounded where it is used.
\<close>

section \<open>Strategies and roles\<close>

datatype RoutingStrategy = RoutingStrategy (RoutingStrategy_String: string)

abbreviation "StrategyDirect \<equiv> RoutingStrategy ''direct''"
abbreviation "StrategyDecompose \<equiv> RoutingStrategy ''decompose''"
abbreviation "StrategyCollaborate \<equiv> RoutingStrategy ''collaborate''"
abbreviation "StrategyEscalate \<equiv> RoutingStrategy ''escalate''"

definition validStrategies :: "RoutingStrategy list" where
  "validStrategies = [StrategyDirect, StrategyDecompose, StrategyCollaborate, StrategyEscalate]"

definition NewRoutingStrategy :: "string \<Rightarrow> gov_error + RoutingStrategy" where
  "NewRoutingStrategy s =
     (let rs = RoutingStrategy s
      in if rs \<notin> set validStrategies then Inl (ErrInvalidEnum ''routing strategy'' s) else Inr rs)"

interpretation routingStrategy:
  string_enum RoutingStrategy RoutingStrategy_String validStrategies NewRoutingStrategy "''routing strategy''"
  by unfold_locales (simp_all add: NewRoutingStrategy_def Let_def)

datatype AgentRole = AgentRole (AgentRole_String: string)

abbreviation "RoleImplementer \<equiv> AgentRole ''implementer''"
abbreviation "RoleReviewer \<equiv> AgentRole ''reviewer''"
abbreviation "RoleResearcher \<equiv> AgentRole ''researcher''"
abbreviation "RoleArchitect \<equiv> AgentRole ''architect''"
abbreviation "RoleHuman \<equiv> AgentRole ''human''"

definition validAgentRoles :: "AgentRole list" where
  "validAgentRoles = [RoleImplementer, RoleReviewer, RoleResearcher, RoleArchitect, RoleHuman]"

definition NewAgentRole :: "string \<Rightarrow> gov_error + AgentRole" where
  "NewAgentRole s =
     (let ar = AgentRole s
      in if ar \<notin> set validAgentRoles then Inl (ErrInvalidEnum ''agent role'' s) else Inr ar)"

interpretation agentRole: string_enum AgentRole AgentRole_String validAgentRoles NewAgentRole "''agent role''"
  by unfold_locales (simp_all add: NewAgentRole_def Let_def)

section \<open>Scoring factors\<close>

record MemoryContext =
  mc_SimilarTaskFailureRate :: rat
  mc_HasRelevantHeuristics :: bool

definition WeightRiskLevel :: rat where "WeightRiskLevel = 30 / 100"
definition WeightTaskScope :: rat where "WeightTaskScope = 25 / 100"
definition WeightTaskType :: rat where "WeightTaskType = 20 / 100"
definition WeightTaskPriority :: rat where "WeightTaskPriority = 10 / 100"
definition WeightMemorySimilar :: rat where "WeightMemorySimilar = 10 / 100"
definition WeightMemoryHeuristics :: rat where "WeightMemoryHeuristics = 5 / 100"

lemmas weight_defs =
  WeightRiskLevel_def WeightTaskScope_def WeightTaskType_def WeightTaskPriority_def
  WeightMemorySimilar_def WeightMemoryHeuristics_def

text \<open>A \<^verbatim>\<open>switch\<close> statement whose cases return, with the value returned after it.\<close>

fun switch :: "'a \<Rightarrow> ('a \<times> 'b) list \<Rightarrow> 'b \<Rightarrow> 'b" where
  "switch x [] d = d"
| "switch x ((y, v) # cs) d = (if x = y then v else switch x cs d)"

definition scoreRiskLevel :: "RiskLevel \<Rightarrow> RoutingStrategy \<Rightarrow> rat" where
  "scoreRiskLevel risk strategy = rnd64 (switch strategy
     [(StrategyDirect, switch risk
        [(RiskLevelLow, 9/10), (RiskLevelMedium, 6/10), (RiskLevelHigh, 3/10), (RiskLevelCritical, 1/10)] (1/2)),
      (StrategyDecompose, switch risk
        [(RiskLevelLow, 4/10), (RiskLevelMedium, 7/10), (RiskLevelHigh, 8/10), (RiskLevelCritical, 5/10)] (1/2)),
      (StrategyEscalate, switch risk
        [(RiskLevelLow, 1/10), (RiskLevelMedium, 4/10), (RiskLevelHigh, 7/10), (RiskLevelCritical, 1)] (1/2))]
     (1/2))"

definition scoreTaskScope :: "TaskScope \<Rightarrow> RoutingStrategy \<Rightarrow> rat" where
  "scoreTaskScope scope strategy = rnd64 (switch strategy
     [(StrategyDirect, switch scope
        [(ScopeFile, 9/10), (ScopeModule, 7/10), (ScopeRepo, 4/10), (ScopeSystem, 2/10)] (1/2)),
      (StrategyDecompose, switch scope
        [(ScopeFile, 3/10), (ScopeModule, 6/10), (ScopeRepo, 8/10), (ScopeSystem, 7/10)] (1/2)),
      (StrategyEscalate, switch scope
        [(ScopeFile, 1/10), (ScopeModule, 3/10), (ScopeRepo, 5/10), (ScopeSystem, 8/10)] (1/2))]
     (1/2))"

definition scoreTaskType :: "TaskType \<Rightarrow> RoutingStrategy \<Rightarrow> rat" where
  "scoreTaskType tt strategy = rnd64 (switch strategy
     [(StrategyDirect, switch tt
        [(TypeBugfix, 8/10), (TypeDevelopment, 7/10), (TypeReview, 6/10), (TypeResearch, 5/10),
         (TypeRefactor, 4/10), (TypeDeployment, 2/10)] (1/2)),
      (StrategyDecompose, switch tt
        [(TypeBugfix, 3/10), (TypeDevelopment, 6/10), (TypeReview, 4/10), (TypeResearch, 7/10),
         (TypeRefactor, 8/10), (TypeDeployment, 5/10)] (1/2)),
      (StrategyEscalate, switch tt
        [(TypeBugfix, 2/10), (TypeDevelopment, 3/10), (TypeReview, 4/10), (TypeResearch, 3/10),
         (TypeRefactor, 4/10), (TypeDeployment, 9/10)] (1/2))]
     (1/2))"

definition scoreTaskPriority :: "Priority \<Rightarrow> RoutingStrategy \<Rightarrow> rat" where
  "scoreTaskPriority p strategy = rnd64 (switch strategy
     [(StrategyDirect, switch p
        [(PriorityLow, 7/10), (PriorityNormal, 7/10), (PriorityHigh, 5/10), (PriorityUrgent, 4/10)] (1/2)),
      (StrategyDecompose, switch p
        [(PriorityLow, 5/10), (PriorityNormal, 5/10), (PriorityHigh, 6/10), (PriorityUrgent, 5/10)] (1/2)),
      (StrategyEscalate, switch p
        [(PriorityLow, 2/10), (PriorityNormal, 3/10), (PriorityHigh, 6/10), (PriorityUrgent, 8/10)] (1/2))]
     (1/2))"

definition scoreMemorySimilarTasks :: "MemoryContext option \<Rightarrow> RoutingStrategy \<Rightarrow> rat" where
  "scoreMemorySimilarTasks ctx strategy =
     (case ctx of
        None \<Rightarrow> 1/2
      | Some c \<Rightarrow>
          switch strategy
            [(StrategyDirect, fsub 1 (mc_SimilarTaskFailureRate c)),
             (StrategyDecompose, fadd (1/2) (fmul (mc_SimilarTaskFailureRate c) (rnd64 (3/10)))),
             (StrategyEscalate, mc_SimilarTaskFailureRate c)]
            (1/2))"

definition scoreMemoryHeuristics :: "MemoryContext option \<Rightarrow> RoutingStrategy \<Rightarrow> rat" where
  "scoreMemoryHeuristics ctx strategy =
     (case ctx of
        None \<Rightarrow> 1/2
      | Some c \<Rightarrow>
          if mc_HasRelevantHeuristics c
          then rnd64 (switch strategy
                 [(StrategyDirect, 8/10), (StrategyDecompose, 6/10), (StrategyEscalate, 3/10)] (1/2))
          else 1/2)"

section \<open>Adaptive adjustment\<close>

definition MaxPenalty :: rat where "MaxPenalty = rnd64 (15 / 100)"
definition MaxBonus :: rat where "MaxBonus = rnd64 (5 / 100)"
definition BaselineFailureRate :: rat where "BaselineFailureRate = rnd64 (20 / 100)"
definition BaselineComplement :: rat where "BaselineComplement = rnd64 (1 - 20 / 100)"
definition MinSamples :: int where "MinSamples = 5"
definition FullConfidenceAt :: int where "FullConfidenceAt = 30"

record AdaptiveAdjustment =
  aa_RawAdjustment :: rat
  aa_Confidence :: rat
  aa_FinalAdjustment :: rat
  aa_FailureRate :: rat
  aa_SampleSize :: int
  aa_Granularity :: string
  aa_Window :: string

record StatsKey =
  sk_Strategy :: RoutingStrategy
  sk_Role :: string
  sk_Category :: string

record FailureRate =
  fr_Total :: int
  fr_Failures :: int
  fr_Rate :: rat

text \<open>The maps of the statistics, as association lists with distinct keys; \<open>None\<close> is a nil map.\<close>

record FailureStats =
  fs_ByStrategyRoleCategory :: "(StatsKey \<times> FailureRate) list option"
  fs_ByStrategyCategory :: "(StatsKey \<times> FailureRate) list option"
  fs_ByStrategy :: "(RoutingStrategy \<times> FailureRate) list option"
  fs_ComputedAt :: gotime
  fs_Window :: duration

definition defaultRoleMapping :: "RoutingStrategy \<Rightarrow> AgentRole" where
  "defaultRoleMapping strategy = switch strategy
     [(StrategyDirect, RoleImplementer), (StrategyDecompose, RoleArchitect), (StrategyEscalate, RoleHuman)]
     (AgentRole [])"

definition clampValue :: "rat \<Rightarrow> rat \<Rightarrow> rat \<Rightarrow> rat" where
  "clampValue value lo hi = (if value < lo then lo else if hi < value then hi else value)"

definition computeRawAdjustment :: "rat \<Rightarrow> rat" where
  "computeRawAdjustment rate =
     (let deviation = fsub BaselineFailureRate rate;
          raw = (if 0 \<le> deviation then fmul (fdiv deviation BaselineFailureRate) MaxBonus
                 else fmul (fdiv deviation BaselineComplement) MaxPenalty)
      in clampValue raw (- MaxPenalty) MaxBonus)"

definition computeConfidence :: "int \<Rightarrow> rat" where
  "computeConfidence samples =
     (if samples \<le> MinSamples then 0
      else if FullConfidenceAt \<le> samples then 1
      else fdiv (of_int (samples - MinSamples)) (of_int (FullConfidenceAt - MinSamples)))"

text \<open>\<^verbatim>\<open>time.Duration.String\<close>: hours, minutes and seconds, or one unit below a second.\<close>

definition trimZeros :: "string \<Rightarrow> string" where
  "trimZeros s = rev (dropWhile (\<lambda>c. c = CHR ''0'') (rev s))"

definition fmtFrac :: "nat \<Rightarrow> nat \<Rightarrow> string" where
  "fmtFrac k u =
     (let frac = trimZeros (padDigits k (u mod 10 ^ k))
      in showNat (u div 10 ^ k) @ (if frac = [] then [] else ''.'' @ frac))"

definition durationString :: "duration \<Rightarrow> string" where
  "durationString d =
     (let u = nat \<bar>d\<bar>; sign = (if d < 0 then ''-'' else [])
      in if u = 0 then ''0s''
         else if u < 10 ^ 3 then sign @ showNat u @ ''ns''
         else if u < 10 ^ 6 then sign @ fmtFrac 3 u @ [CHR 0xC2, CHR 0xB5] @ ''s''
         else if u < 10 ^ 9 then sign @ fmtFrac 6 u @ ''ms''
         else let secs = u div 10 ^ 9; mins = secs div 60; hours = mins div 60
              in sign @ (if 0 < hours then showNat hours @ ''h'' else []) @
                 (if 0 < mins then showNat (mins mod 60) @ ''m'' else []) @
                 fmtFrac 9 ((secs mod 60) * 10 ^ 9 + u mod 10 ^ 9) @ ''s'')"

definition buildAdjustment :: "FailureRate \<Rightarrow> string \<Rightarrow> duration \<Rightarrow> AdaptiveAdjustment" where
  "buildAdjustment fr granularity window =
     (let raw = computeRawAdjustment (fr_Rate fr); conf = computeConfidence (fr_Total fr)
      in \<lparr>aa_RawAdjustment = raw, aa_Confidence = conf, aa_FinalAdjustment = fmul raw conf,
          aa_FailureRate = fr_Rate fr, aa_SampleSize = fr_Total fr, aa_Granularity = granularity,
          aa_Window = durationString window\<rparr>)"

text \<open>The sums of an aggregation, and its rate.\<close>

definition aggregate :: "(StatsKey \<Rightarrow> bool) \<Rightarrow> (StatsKey \<times> FailureRate) list \<Rightarrow> FailureRate" where
  "aggregate P m =
     (let vs = map snd (filter (\<lambda>(k, _). P k) m);
          total = sum_list (map fr_Total vs); failures = sum_list (map fr_Failures vs)
      in \<lparr>fr_Total = total, fr_Failures = failures,
          fr_Rate = (if 0 < total then fdiv (of_int failures) (of_int total) else 0)\<rparr>)"

definition aggregateByStrategyAndRole ::
  "(StatsKey \<times> FailureRate) list \<Rightarrow> RoutingStrategy \<Rightarrow> string \<Rightarrow> FailureRate" where
  "aggregateByStrategyAndRole m strategy role =
     aggregate (\<lambda>k. sk_Strategy k = strategy \<and> sk_Role k = role) m"

definition aggregateByStrategyFromMap ::
  "(StatsKey \<times> FailureRate) list \<Rightarrow> RoutingStrategy \<Rightarrow> FailureRate" where
  "aggregateByStrategyFromMap m strategy = aggregate (\<lambda>k. sk_Strategy k = strategy) m"

definition computeAdjustment :: "RoutingStrategy \<Rightarrow> FailureStats option \<Rightarrow> AdaptiveAdjustment option" where
  "computeAdjustment strategy stats =
     (case stats of None \<Rightarrow> None | Some st \<Rightarrow>
        let role = AgentRole_String (defaultRoleMapping strategy);
            level3 =
              (case fs_ByStrategy st of
                 None \<Rightarrow> None
               | Some m \<Rightarrow>
                   (case map_of m strategy of
                      Some fr \<Rightarrow> if MinSamples \<le> fr_Total fr then Some (buildAdjustment fr ''strategy'' (fs_Window st)) else None
                    | None \<Rightarrow> None));
            level2 =
              (case fs_ByStrategyCategory st of
                 None \<Rightarrow> level3
               | Some m \<Rightarrow>
                   let agg = aggregateByStrategyFromMap m strategy
                   in if MinSamples \<le> fr_Total agg
                      then Some (buildAdjustment agg ''strategy_category'' (fs_Window st)) else level3)
        in case fs_ByStrategyRoleCategory st of
             None \<Rightarrow> level2
           | Some m \<Rightarrow>
               let agg = aggregateByStrategyAndRole m strategy role
               in if MinSamples \<le> fr_Total agg
                  then Some (buildAdjustment agg ''strategy_role_category'' (fs_Window st)) else level2)"

section \<open>The evaluator\<close>

record StrategyEvaluation =
  se_Strategy :: RoutingStrategy
  se_Score :: rat
  se_AdjustedScore :: rat
  se_FactorScores :: "string \<rightharpoonup> rat"
  se_Overridden :: bool
  se_Reason :: string
  se_AdaptiveAdjustment :: "AdaptiveAdjustment option"

record RoutingConstraint =
  rc_Type :: string
  rc_Value :: string

definition applyAdaptiveAdjustments :: "StrategyEvaluation list \<Rightarrow> FailureStats option \<Rightarrow> StrategyEvaluation list" where
  "applyAdaptiveAdjustments evals stats =
     map (\<lambda>eval.
       let unadjusted = eval\<lparr>se_AdjustedScore := se_Score eval\<rparr>
       in case stats of None \<Rightarrow> unadjusted | Some _ \<Rightarrow>
         (case computeAdjustment (se_Strategy eval) stats of
            None \<Rightarrow> unadjusted
          | Some adj \<Rightarrow>
              let adjusted = fadd (se_Score eval) (aa_FinalAdjustment adj)
              in eval\<lparr>se_AdaptiveAdjustment := Some adj,
                      se_AdjustedScore := clampValue adjusted (fsub (se_Score eval) MaxPenalty)
                                            (fadd (se_Score eval) MaxBonus)\<rparr>)) evals"

record EvaluatorInput =
  ei_Task :: Task
  ei_MemoryContext :: "MemoryContext option"
  ei_FailureStats :: "FailureStats option"

record RoutingResult =
  rr_Evaluations :: "StrategyEvaluation list"
  rr_SelectedStrategy :: RoutingStrategy
  rr_SelectedRole :: AgentRole
  rr_Reason :: string

definition overrideResult :: "RoutingStrategy \<Rightarrow> string \<Rightarrow> RoutingResult" where
  "overrideResult strategy reason =
     \<lparr>rr_Evaluations =
        [\<lparr>se_Strategy = strategy, se_Score = 1, se_AdjustedScore = 1, se_FactorScores = Map.empty,
          se_Overridden = True, se_Reason = reason, se_AdaptiveAdjustment = None\<rparr>],
      rr_SelectedStrategy = strategy, rr_SelectedRole = defaultRoleMapping strategy, rr_Reason = reason\<rparr>"

definition checkOverrides :: "Task \<Rightarrow> RoutingResult option" where
  "checkOverrides t =
     (if t_riskLevel t = RiskLevelCritical
      then Some (overrideResult StrategyEscalate ''[override] risk_level is critical'')
      else if t_scope t = ScopeSystem \<and> t_taskType t = TypeDeployment
      then Some (overrideResult StrategyEscalate ''[override] system-scope deployment'')
      else case t_metadata t ''force_strategy'' of
        Some (AString forceStr) \<Rightarrow>
          (case NewRoutingStrategy forceStr of
             Inr strategy \<Rightarrow>
               Some (overrideResult strategy (''[override] force_strategy='' @ RoutingStrategy_String strategy))
           | Inl _ \<Rightarrow> None)
      | _ \<Rightarrow> None)"

definition evaluatedStrategies :: "RoutingStrategy list" where
  "evaluatedStrategies = [StrategyDirect, StrategyDecompose, StrategyEscalate]"

definition weightedScore :: "rat \<Rightarrow> rat \<Rightarrow> rat \<Rightarrow> rat \<Rightarrow> rat \<Rightarrow> rat \<Rightarrow> rat" where
  "weightedScore risk scope ty prio sim heur =
     fadd (fadd (fadd (fadd (fadd
       (fmul risk (rnd64 WeightRiskLevel))
       (fmul scope (rnd64 WeightTaskScope)))
       (fmul ty (rnd64 WeightTaskType)))
       (fmul prio (rnd64 WeightTaskPriority)))
       (fmul sim (rnd64 WeightMemorySimilar)))
       (fmul heur (rnd64 WeightMemoryHeuristics))"

definition scoreStrategies :: "Task \<Rightarrow> MemoryContext option \<Rightarrow> StrategyEvaluation list" where
  "scoreStrategies t memCtx =
     map (\<lambda>strategy.
       let risk = scoreRiskLevel (t_riskLevel t) strategy;
           scope = scoreTaskScope (t_scope t) strategy;
           ty = scoreTaskType (t_taskType t) strategy;
           prio = scoreTaskPriority (t_priority t) strategy;
           sim = scoreMemorySimilarTasks memCtx strategy;
           heur = scoreMemoryHeuristics memCtx strategy;
           factors = [''risk_level'' \<mapsto> risk, ''task_scope'' \<mapsto> scope, ''task_type'' \<mapsto> ty,
                      ''task_priority'' \<mapsto> prio, ''memory_similar_tasks'' \<mapsto> sim, ''memory_heuristics'' \<mapsto> heur];
           score = weightedScore risk scope ty prio sim heur
       in \<lparr>se_Strategy = strategy, se_Score = score, se_AdjustedScore = score, se_FactorScores = factors,
           se_Overridden = False,
           se_Reason = RoutingStrategy_String strategy @ '' scored '' @ fmtFixed 4 score,
           se_AdaptiveAdjustment = None\<rparr>) evaluatedStrategies"

definition simplicity :: "RoutingStrategy \<Rightarrow> int" where
  "simplicity strategy =
     switch strategy [(StrategyDirect, 0), (StrategyDecompose, 1), (StrategyEscalate, 2)] 0"

text \<open>Whether the loop of the tie-break replaces the best evaluation so far.\<close>

definition beats :: "StrategyEvaluation \<Rightarrow> StrategyEvaluation \<Rightarrow> bool" where
  "beats e best \<longleftrightarrow>
     se_AdjustedScore best < se_AdjustedScore e \<or>
     se_AdjustedScore e = se_AdjustedScore best \<and> simplicity (se_Strategy e) < simplicity (se_Strategy best)"

fun tiebreak :: "StrategyEvaluation list \<Rightarrow> gov_error + StrategyEvaluation" where
  "tiebreak [] = Inl (ErrPanic ''index out of range'')"
| "tiebreak (e # es) = Inr (foldl (\<lambda>best e. if beats e best then e else best) e es)"

definition selectionReason :: "StrategyEvaluation \<Rightarrow> string" where
  "selectionReason selected =
     (let name = RoutingStrategy_String (se_Strategy selected)
      in case se_AdaptiveAdjustment selected of
           None \<Rightarrow> ''score-based: '' @ name @ '' scored '' @ fmtFixed 4 (se_Score selected)
         | Some adj \<Rightarrow>
             ''[adaptive] score-based: '' @ name @ '' scored '' @ fmtFixed 4 (se_Score selected) @
             '' '' @ [CHR 0xE2, CHR 0x86, CHR 0x92] @ '' adjusted to '' @ fmtFixed 4 (se_AdjustedScore selected) @
             '' (failure_rate='' @ fmtFixed 2 (aa_FailureRate adj) @
             '', confidence='' @ fmtFixed 2 (aa_Confidence adj) @ '')'')"

definition Evaluate :: "EvaluatorInput \<Rightarrow> gov_error + RoutingResult" where
  "Evaluate input =
     (case checkOverrides (ei_Task input) of
        Some result \<Rightarrow> Inr result
      | None \<Rightarrow>
          let evals = scoreStrategies (ei_Task input) (ei_MemoryContext input);
              evals = applyAdaptiveAdjustments evals (ei_FailureStats input)
          in case tiebreak evals of
               Inl e \<Rightarrow> Inl e
             | Inr selected \<Rightarrow>
                 Inr \<lparr>rr_Evaluations = evals, rr_SelectedStrategy = se_Strategy selected,
                      rr_SelectedRole = defaultRoleMapping (se_Strategy selected),
                      rr_Reason = selectionReason selected\<rparr>)"

section \<open>The decision\<close>

record RoutingDecision =
  rd_id :: RoutingDecisionID
  rd_taskID :: TaskID
  rd_evaluatedStrategies :: "StrategyEvaluation list"
  rd_selectedStrategy :: RoutingStrategy
  rd_selectedAgentRole :: AgentRole
  rd_reason :: string
  rd_constraints :: "RoutingConstraint list"
  rd_createdAt :: Timestamp

definition ReconstructRoutingDecision ::
  "RoutingDecisionID \<Rightarrow> TaskID \<Rightarrow> StrategyEvaluation list \<Rightarrow> RoutingStrategy \<Rightarrow> AgentRole \<Rightarrow> string \<Rightarrow>
   RoutingConstraint list \<Rightarrow> Timestamp \<Rightarrow> RoutingDecision" where
  "ReconstructRoutingDecision i taskID evals strategy role reason cons created =
     \<lparr>rd_id = i, rd_taskID = taskID, rd_evaluatedStrategies = evals, rd_selectedStrategy = strategy,
      rd_selectedAgentRole = role, rd_reason = reason, rd_constraints = cons, rd_createdAt = created\<rparr>"

definition NewRoutingDecision ::
  "RoutingDecisionID \<Rightarrow> TaskID \<Rightarrow> StrategyEvaluation list \<Rightarrow> RoutingStrategy \<Rightarrow> AgentRole \<Rightarrow> string \<Rightarrow>
   RoutingConstraint list \<Rightarrow> Timestamp \<Rightarrow> gov_error + RoutingDecision" where
  "NewRoutingDecision i taskID evals strategy role reason cons created =
     (if taskID = [] then Inl ErrMissingTaskID
      else if evals = [] then Inl ErrNoEvaluations
      else if reason = [] then Inl ErrRoutingEmptyReason
      else Inr \<lparr>rd_id = i, rd_taskID = taskID, rd_evaluatedStrategies = evals, rd_selectedStrategy = strategy,
                rd_selectedAgentRole = role, rd_reason = reason, rd_constraints = cons, rd_createdAt = created\<rparr>)"

section \<open>Scores lie in the unit interval\<close>

abbreviation inUnit :: "rat \<Rightarrow> bool" where
  "inUnit x \<equiv> 0 \<le> x \<and> x \<le> 1"

lemma switch_in: "P d \<Longrightarrow> (\<And>k v. (k, v) \<in> set cs \<Longrightarrow> P v) \<Longrightarrow> P (switch x cs d)"
  by (induction x cs d rule: switch.induct) auto

lemma switch_nonneg: "0 \<le> d \<Longrightarrow> list_all (\<lambda>(_, v). 0 \<le> v) cs \<Longrightarrow> (0 :: rat) \<le> switch x cs d"
  by (rule switch_in) (auto simp: list_all_iff)

lemma switch_le_one: "d \<le> 1 \<Longrightarrow> list_all (\<lambda>(_, v). v \<le> 1) cs \<Longrightarrow> switch x cs d \<le> (1 :: rat)"
  by (rule switch_in) (auto simp: list_all_iff)

lemmas unit_rules = fl.nonneg fl.le_one switch_nonneg switch_le_one

lemma factor_unit:
  "inUnit (scoreRiskLevel risk strategy)" "inUnit (scoreTaskScope scope strategy)"
  "inUnit (scoreTaskType ty strategy)" "inUnit (scoreTaskPriority prio strategy)"
  by (simp_all add: scoreRiskLevel_def scoreTaskScope_def scoreTaskType_def scoreTaskPriority_def
      unit_rules del: switch.simps)

text \<open>The memory engine reports a failure rate; it is one when it lies in the unit interval.\<close>

definition memoryOK :: "MemoryContext option \<Rightarrow> bool" where
  "memoryOK ctx \<longleftrightarrow> (case ctx of None \<Rightarrow> True | Some c \<Rightarrow> inUnit (mc_SimilarTaskFailureRate c))"

lemma fadd_mono: "a \<le> a' \<Longrightarrow> b \<le> b' \<Longrightarrow> fadd a b \<le> fadd a' b'"
  unfolding fadd_def by (rule fl.mono) simp

lemma fmul_mono: "a \<le> a' \<Longrightarrow> 0 \<le> c \<Longrightarrow> fmul a c \<le> fmul a' c"
  unfolding fmul_def by (rule fl.mono) (simp add: mult_right_mono)

lemma decompose_le: "r \<le> 1 \<Longrightarrow> fadd (1/2) (fmul r (rnd64 (3/10))) \<le> 1"
proof -
  assume "r \<le> 1"
  then have "fadd (1/2) (fmul r (rnd64 (3/10))) \<le> fadd (1/2) (fmul 1 (rnd64 (3/10)))"
    by (intro fadd_mono fmul_mono) (simp_all add: fl.nonneg)
  also have "\<dots> \<le> 1" by code_simp
  finally show ?thesis .
qed

lemma memory_factor_unit:
  assumes "memoryOK ctx"
  shows "inUnit (scoreMemorySimilarTasks ctx strategy)" "inUnit (scoreMemoryHeuristics ctx strategy)"
proof -
  show "inUnit (scoreMemorySimilarTasks ctx strategy)"
  proof (cases ctx)
    case (Some c)
    with assms have r: "0 \<le> mc_SimilarTaskFailureRate c" "mc_SimilarTaskFailureRate c \<le> 1"
      by (simp_all add: memoryOK_def)
    then have "0 \<le> fadd (1/2) (fmul (mc_SimilarTaskFailureRate c) (rnd64 (3/10)))"
      by (simp add: fadd_def fmul_def fl.nonneg)
    with r decompose_le show ?thesis
      by (simp add: Some scoreMemorySimilarTasks_def fsub_def unit_rules del: switch.simps)
  qed (simp add: scoreMemorySimilarTasks_def)
  show "inUnit (scoreMemoryHeuristics ctx strategy)"
    by (simp add: scoreMemoryHeuristics_def unit_rules del: switch.simps split: option.split)
qed

lemma weights_nonneg:
  "0 \<le> rnd64 WeightRiskLevel" "0 \<le> rnd64 WeightTaskScope" "0 \<le> rnd64 WeightTaskType"
  "0 \<le> rnd64 WeightTaskPriority" "0 \<le> rnd64 WeightMemorySimilar" "0 \<le> rnd64 WeightMemoryHeuristics"
  by (simp_all add: weight_defs fl.nonneg)

lemma weightedScore_mono:
  "a \<le> a' \<Longrightarrow> b \<le> b' \<Longrightarrow> c \<le> c' \<Longrightarrow> d \<le> d' \<Longrightarrow> e \<le> e' \<Longrightarrow> f \<le> f' \<Longrightarrow>
   weightedScore a b c d e f \<le> weightedScore a' b' c' d' e' f'"
  unfolding weightedScore_def by (intro fadd_mono fmul_mono weights_nonneg)

lemma weightedScore_unit:
  assumes "inUnit a" "inUnit b" "inUnit c" "inUnit d" "inUnit e" "inUnit f"
  shows "inUnit (weightedScore a b c d e f)"
proof -
  have "weightedScore 0 0 0 0 0 0 \<le> weightedScore a b c d e f"
    "weightedScore a b c d e f \<le> weightedScore 1 1 1 1 1 1"
    using assms by (simp_all add: weightedScore_mono)
  moreover have "weightedScore 0 0 0 0 0 0 = 0" by (simp add: weightedScore_def fadd_def fmul_def)
  moreover have "weightedScore 1 1 1 1 1 1 = 1" by code_simp
  ultimately show ?thesis by simp
qed

lemma scoreStrategies_unit:
  assumes "memoryOK ctx" "e \<in> set (scoreStrategies t ctx)"
  shows "inUnit (se_Score e)"
proof -
  have "list_all (\<lambda>e. inUnit (se_Score e)) (scoreStrategies t ctx)"
    unfolding scoreStrategies_def Let_def list.pred_map o_def StrategyEvaluation.simps
    unfolding list_all_iff by (intro ballI weightedScore_unit factor_unit memory_factor_unit [OF assms(1)])
  with assms(2) show ?thesis by (simp add: list_all_iff)
qed

section \<open>The adaptive adjustment is bounded and monotone\<close>

lemma clampValue_bounds: "lo \<le> hi \<Longrightarrow> lo \<le> clampValue v lo hi \<and> clampValue v lo hi \<le> hi"
  by (simp add: clampValue_def)

lemma clampValue_mono: "v \<le> w \<Longrightarrow> lo \<le> hi \<Longrightarrow> clampValue v lo hi \<le> clampValue w lo hi"
  by (simp add: clampValue_def)

lemma const_nonneg: "0 \<le> MaxPenalty" "0 \<le> MaxBonus" "0 \<le> BaselineFailureRate" "0 \<le> BaselineComplement"
  by (simp_all add: MaxPenalty_def MaxBonus_def BaselineFailureRate_def BaselineComplement_def fl.nonneg)

lemma computeRawAdjustment_bounds:
  "- MaxPenalty \<le> computeRawAdjustment r \<and> computeRawAdjustment r \<le> MaxBonus"
  unfolding computeRawAdjustment_def Let_def using const_nonneg by (intro clampValue_bounds) linarith

lemma computeConfidence_unit: "inUnit (computeConfidence n)"
  using fdiv_unit [of "of_int (n - MinSamples)" "of_int (FullConfidenceAt - MinSamples)"]
  by (simp add: computeConfidence_def MinSamples_def FullConfidenceAt_def)

lemma fdiv_mono: "a \<le> b \<Longrightarrow> 0 \<le> c \<Longrightarrow> fdiv a c \<le> fdiv b c"
  unfolding fdiv_def by (rule fl.mono) (simp add: divide_right_mono)

lemma fdiv_sign: "0 \<le> a \<Longrightarrow> 0 \<le> c \<Longrightarrow> 0 \<le> fdiv a c" "a \<le> 0 \<Longrightarrow> 0 \<le> c \<Longrightarrow> fdiv a c \<le> 0"
  by (simp_all add: fdiv_def fl.nonneg fl.nonpos divide_nonpos_nonneg)

lemma fmul_sign: "0 \<le> a \<Longrightarrow> 0 \<le> c \<Longrightarrow> 0 \<le> fmul a c" "a \<le> 0 \<Longrightarrow> 0 \<le> c \<Longrightarrow> fmul a c \<le> 0"
  by (simp_all add: fmul_def fl.nonneg fl.nonpos mult_nonpos_nonneg)

lemma computeRawAdjustment_antimono:
  assumes "r \<le> r'"
  shows "computeRawAdjustment r' \<le> computeRawAdjustment r"
proof -
  define raw where "raw dev = (if 0 \<le> dev then fmul (fdiv dev BaselineFailureRate) MaxBonus
    else fmul (fdiv dev BaselineComplement) MaxPenalty)" for dev
  have mono: "raw d' \<le> raw d" if "d' \<le> d" for d d'
  proof (cases "d' < 0 \<and> 0 \<le> d")
    case True
    then have "raw d' \<le> 0" "0 \<le> raw d" by (simp_all add: raw_def fmul_sign fdiv_sign const_nonneg)
    then show ?thesis by linarith
  next
    case False
    with that show ?thesis by (auto simp: raw_def intro!: fmul_mono fdiv_mono const_nonneg)
  qed
  have "fsub BaselineFailureRate r' \<le> fsub BaselineFailureRate r"
    using assms by (simp add: fsub_def fl.mono)
  from mono [OF this] show ?thesis
    unfolding computeRawAdjustment_def Let_def raw_def using const_nonneg by (intro clampValue_mono) linarith+
qed

lemma final_bounds:
  "- MaxPenalty \<le> aa_FinalAdjustment (buildAdjustment fr g w) \<and> aa_FinalAdjustment (buildAdjustment fr g w) \<le> MaxBonus"
  using fl.scale_bounds [of "15/100" "computeRawAdjustment (fr_Rate fr)" "5/100" "computeConfidence (fr_Total fr)"]
    computeRawAdjustment_bounds [of "fr_Rate fr"] computeConfidence_unit [of "fr_Total fr"] const_nonneg
  by (simp add: buildAdjustment_def Let_def fmul_def MaxPenalty_def MaxBonus_def)

text \<open>An adjustment is built from a bucket or an aggregate with at least five samples.\<close>

lemma computeAdjustment_built:
  assumes "computeAdjustment strategy stats = Some adj"
  obtains fr g st where "stats = Some st" "adj = buildAdjustment fr g (fs_Window st)" "MinSamples \<le> fr_Total fr"
  using assms
  by (auto simp: computeAdjustment_def Let_def split: option.splits if_splits)

lemma applyAdaptive_strategy: "map se_Strategy (applyAdaptiveAdjustments evals stats) = map se_Strategy evals"
  by (simp add: applyAdaptiveAdjustments_def Let_def split: option.split)

lemma fsub_le_fadd: "fsub x MaxPenalty \<le> fadd x MaxBonus"
  using const_nonneg by (simp add: fsub_def fadd_def fl.mono)

text \<open>One evaluation after the adaptive step.\<close>

lemma applyAdaptive_cases:
  assumes "e \<in> set (applyAdaptiveAdjustments evals stats)"
  obtains e0 where "e0 \<in> set evals" "e = e0\<lparr>se_AdjustedScore := se_Score e0\<rparr>"
      "computeAdjustment (se_Strategy e0) stats = None"
  | e0 adj where "e0 \<in> set evals" "computeAdjustment (se_Strategy e0) stats = Some adj"
      "e = e0\<lparr>se_AdaptiveAdjustment := Some adj,
             se_AdjustedScore := clampValue (fadd (se_Score e0) (aa_FinalAdjustment adj))
               (fsub (se_Score e0) MaxPenalty) (fadd (se_Score e0) MaxBonus)\<rparr>"
  using assms
  by (cases stats) (auto simp: applyAdaptiveAdjustments_def Let_def computeAdjustment_def [of _ None] split: option.splits)

end
