(* ===== verification/RoutingEval.thy ===== *)
theory RoutingEval
  imports Routing
begin

text \<open>
  The evaluator of \<^verbatim>\<open>internal/domain/routing\<close> against its specification: the tie-break picks the
  best evaluation, overrides win over scores, and the adaptive step has bounded influence.
\<close>

section \<open>The tie-break picks the best evaluation\<close>

lemma lex_neg:
  "\<not> (b < x \<or> x = b \<and> i < j) \<Longrightarrow> b < e \<or> e = b \<and> k < j \<Longrightarrow> \<not> (e < x \<or> x = e \<and> i < k)"
  for x b e :: rat and i j k :: int
  by auto

lemma beats_trans_neg: "\<not> beats x b \<Longrightarrow> beats e b \<Longrightarrow> \<not> beats x e"
  unfolding beats_def by (rule lex_neg)

lemma not_beats_self: "\<not> beats e e"
  by (simp add: beats_def)

lemma foldl_best:
  assumes "\<And>b e. f b e = (if beats e b then e else b)" "\<forall>x \<in> A. \<not> beats x b" "b \<in> A"
  shows "foldl f b xs \<in> insert b (set xs) \<and> (\<forall>x \<in> A \<union> set xs. \<not> beats x (foldl f b xs))"
  using assms(2,3)
proof (induction xs arbitrary: A b)
  case (Cons y ys)
  have c: "f b y = y \<or> f b y = b" by (simp add: assms(1))
  have "\<forall>x \<in> insert y A. \<not> beats x (f b y)"
    using Cons.prems(1) not_beats_self beats_trans_neg assms(1) by (metis insertE)
  moreover have "f b y \<in> insert y A" using c Cons.prems(2) by (elim disjE) simp_all
  ultimately have "foldl f (f b y) ys \<in> insert (f b y) (set ys) \<and>
      (\<forall>x \<in> insert y A \<union> set ys. \<not> beats x (foldl f (f b y) ys))"
    by (rule Cons.IH)
  with c show ?case by (elim disjE) auto
qed simp

lemma tiebreak_best:
  assumes "tiebreak evals = Inr r"
  shows "r \<in> set evals \<and> (\<forall>x \<in> set evals. \<not> beats x r)"
proof -
  obtain e es where evals: "evals = e # es" using assms by (cases evals) simp_all
  have "r = foldl (\<lambda>best e. if beats e best then e else best) e es" using assms by (simp add: evals)
  then show ?thesis
    using foldl_best [of "\<lambda>best e. if beats e best then e else best" "{e}" e es, OF refl] not_beats_self
    by (simp add: evals)
qed

lemma tiebreak_total: "evals \<noteq> [] \<Longrightarrow> \<exists>r. tiebreak evals = Inr r"
  by (cases evals) simp_all

section \<open>Correctness of routing\<close>

lemma Evaluate_override: "checkOverrides (ei_Task input) = Some res \<Longrightarrow> Evaluate input = Inr res"
  by (simp add: Evaluate_def)

lemma selectionReason_nonempty: "selectionReason e \<noteq> []"
  by (simp add: selectionReason_def Let_def split: option.split)

abbreviation evaluations :: "EvaluatorInput \<Rightarrow> StrategyEvaluation list" where
  "evaluations input \<equiv>
     applyAdaptiveAdjustments (scoreStrategies (ei_Task input) (ei_MemoryContext input)) (ei_FailureStats input)"

lemma scoreStrategies_strategy: "map se_Strategy (scoreStrategies t m) = evaluatedStrategies"
  unfolding scoreStrategies_def Let_def map_map o_def StrategyEvaluation.simps by simp

lemma scored_strategies: "map se_Strategy (evaluations input) = evaluatedStrategies"
  by (simp only: applyAdaptive_strategy scoreStrategies_strategy)

lemma scoreStrategies_not_Nil: "scoreStrategies t m \<noteq> []"
proof
  assume "scoreStrategies t m = []"
  with scoreStrategies_strategy [of t m] show False by (simp add: evaluatedStrategies_def)
qed

lemma applyAdaptive_not_Nil: "evals \<noteq> [] \<Longrightarrow> applyAdaptiveAdjustments evals stats \<noteq> []"
  by (simp only: applyAdaptiveAdjustments_def map_is_Nil_conv not_False_eq_True)

lemma Evaluate_scored:
  assumes "checkOverrides (ei_Task input) = None"
  obtains sel where "tiebreak (evaluations input) = Inr sel"
    "Evaluate input = Inr \<lparr>rr_Evaluations = evaluations input, rr_SelectedStrategy = se_Strategy sel,
       rr_SelectedRole = defaultRoleMapping (se_Strategy sel), rr_Reason = selectionReason sel\<rparr>"
proof -
  obtain sel where sel: "tiebreak (evaluations input) = Inr sel"
    using tiebreak_total [OF applyAdaptive_not_Nil [OF scoreStrategies_not_Nil]] by blast
  show thesis by (rule that [OF sel]) (simp only: Evaluate_def assms sel Let_def option.case sum.case)
qed

lemma escalate_valid: "StrategyEscalate \<in> set validStrategies"
  by (simp add: validStrategies_def)

definition mustEscalate :: "Task \<Rightarrow> bool" where
  "mustEscalate t \<longleftrightarrow>
     t_riskLevel t = RiskLevelCritical \<or> t_scope t = ScopeSystem \<and> t_taskType t = TypeDeployment"

definition forcedStrategy :: "Task \<Rightarrow> RoutingStrategy option" where
  "forcedStrategy t =
     (case t_metadata t ''force_strategy'' of
        Some (AString s) \<Rightarrow> (if RoutingStrategy s \<in> set validStrategies then Some (RoutingStrategy s) else None)
      | _ \<Rightarrow> None)"

lemma checkOverrides_must:
  assumes "mustEscalate t"
  obtains r where "r \<noteq> []" "checkOverrides t = Some (overrideResult StrategyEscalate r)"
proof (cases "t_riskLevel t = RiskLevelCritical")
  case True
  then show thesis by (intro that [of "''[override] risk_level is critical''"]) (simp_all add: checkOverrides_def)
next
  case False
  with assms show thesis
    by (intro that [of "''[override] system-scope deployment''"]) (simp_all add: checkOverrides_def mustEscalate_def)
qed

lemma checkOverrides_free:
  "\<not> mustEscalate t \<Longrightarrow>
   checkOverrides t =
     map_option (\<lambda>s. overrideResult s (''[override] force_strategy='' @ RoutingStrategy_String s)) (forcedStrategy t)"
  by (auto simp: checkOverrides_def mustEscalate_def forcedStrategy_def NewRoutingStrategy_def Let_def
      split: option.split any.split)

lemma forcedStrategy_valid: "forcedStrategy t = Some s \<Longrightarrow> s \<in> set validStrategies"
  by (auto simp: forcedStrategy_def split: option.splits any.splits if_splits)

text \<open>
  C19. Routing always decides, and decides as documented. Critical risk and system-scope
  deployments escalate to a human whatever else holds; otherwise a valid \<open>force_strategy\<close> is
  obeyed; otherwise the three strategies direct, decompose and escalate are scored, in this order,
  and the selected one has the highest adjusted score and, among equals, is the simplest. The
  evaluation never panics, the result always has an evaluation and a reason, and its role is the
  default role of the strategy.
\<close>

theorem Evaluate_correct:
  "\<exists>res. Evaluate input = Inr res \<and> rr_Evaluations res \<noteq> [] \<and> rr_Reason res \<noteq> [] \<and>
     rr_SelectedRole res = defaultRoleMapping (rr_SelectedStrategy res) \<and>
     rr_SelectedStrategy res \<in> set validStrategies \<and>
     (if mustEscalate (ei_Task input)
      then rr_SelectedStrategy res = StrategyEscalate \<and> rr_SelectedRole res = RoleHuman
      else case forcedStrategy (ei_Task input) of
        Some s \<Rightarrow> rr_SelectedStrategy res = s
      | None \<Rightarrow>
          map se_Strategy (rr_Evaluations res) = [StrategyDirect, StrategyDecompose, StrategyEscalate] \<and>
          (\<exists>sel \<in> set (rr_Evaluations res). se_Strategy sel = rr_SelectedStrategy res \<and>
             (\<forall>e \<in> set (rr_Evaluations res).
                se_AdjustedScore e < se_AdjustedScore sel \<or>
                se_AdjustedScore e = se_AdjustedScore sel \<and>
                simplicity (se_Strategy sel) \<le> simplicity (se_Strategy e))))"
proof (cases "checkOverrides (ei_Task input)")
  case None
  then have no: "\<not> mustEscalate (ei_Task input)" "forcedStrategy (ei_Task input) = None"
    using checkOverrides_must [of "ei_Task input"] checkOverrides_free [of "ei_Task input"] by fastforce+
  from None obtain sel where sel: "tiebreak (evaluations input) = Inr sel"
    and ev: "Evaluate input = Inr \<lparr>rr_Evaluations = evaluations input, rr_SelectedStrategy = se_Strategy sel,
       rr_SelectedRole = defaultRoleMapping (se_Strategy sel), rr_Reason = selectionReason sel\<rparr>"
    by (rule Evaluate_scored)
  have strat: "map se_Strategy (evaluations input) = [StrategyDirect, StrategyDecompose, StrategyEscalate]"
    using scored_strategies by (simp only: evaluatedStrategies_def)
  have best: "sel \<in> set (evaluations input)" "\<forall>x \<in> set (evaluations input). \<not> beats x sel"
    using tiebreak_best [OF sel] by blast+
  have "se_Strategy sel \<in> set (map se_Strategy (evaluations input))" using best(1) by simp
  then have "se_Strategy sel \<in> set validStrategies" unfolding strat by (auto simp: validStrategies_def)
  moreover have "evaluations input \<noteq> []" using best(1) by auto
  moreover have "se_AdjustedScore e < se_AdjustedScore sel \<or>
      se_AdjustedScore e = se_AdjustedScore sel \<and> simplicity (se_Strategy sel) \<le> simplicity (se_Strategy e)"
    if "e \<in> set (evaluations input)" for e
    using best(2) that by (fastforce simp: beats_def)
  ultimately show ?thesis
    unfolding ev by (intro exI [where x = "projr (Evaluate input)"])
      (use no strat best(1) selectionReason_nonempty in \<open>auto simp: ev\<close>)
next
  case (Some res)
  have "\<exists>s r. res = overrideResult s r \<and> r \<noteq> [] \<and>
      (if mustEscalate (ei_Task input) then s = StrategyEscalate else forcedStrategy (ei_Task input) = Some s)"
  proof (cases "mustEscalate (ei_Task input)")
    case True
    then obtain r where "r \<noteq> []" "checkOverrides (ei_Task input) = Some (overrideResult StrategyEscalate r)"
      by (rule checkOverrides_must)
    with True Some show ?thesis by auto
  next
    case False
    with Some checkOverrides_free [OF False] show ?thesis by auto
  qed
  then obtain s r where "res = overrideResult s r" "r \<noteq> []"
    "if mustEscalate (ei_Task input) then s = StrategyEscalate else forcedStrategy (ei_Task input) = Some s" by blast
  then show ?thesis using Evaluate_override [OF Some] escalate_valid forcedStrategy_valid
    by (auto simp: overrideResult_def defaultRoleMapping_def split: if_splits)
qed

theorem Evaluate_correct_witness:
  "\<exists>res. Evaluate \<lparr>ei_Task = sampleTask\<lparr>t_riskLevel := RiskLevelCritical\<rparr>, ei_MemoryContext = None, ei_FailureStats = None\<rparr> = Inr res \<and>
     rr_SelectedStrategy res = StrategyEscalate \<and> rr_SelectedRole res = RoleHuman"
proof -
  let ?i = "\<lparr>ei_Task = sampleTask\<lparr>t_riskLevel := RiskLevelCritical\<rparr>, ei_MemoryContext = None, ei_FailureStats = None\<rparr>"
  have "mustEscalate (ei_Task ?i)" by (simp add: mustEscalate_def)
  with Evaluate_correct [of ?i] show ?thesis by (simp only: if_True) blast
qed

text \<open>
  C22. Scores are what they claim to be: with a failure rate from memory between 0 and 1 (or no
  memory at all) every weighted score lies between 0 and 1 in the floating-point arithmetic of the
  program.
\<close>

theorem scores_in_unit:
  assumes "memoryOK ctx" "e \<in> set (scoreStrategies t ctx)"
  shows "0 \<le> se_Score e \<and> se_Score e \<le> 1"
  using scoreStrategies_unit [OF assms] .

theorem scores_in_unit_witness:
  "let e = hd (scoreStrategies sampleTask (Some \<lparr>mc_SimilarTaskFailureRate = 1/4, mc_HasRelevantHeuristics = True\<rparr>))
   in 0 \<le> se_Score e \<and> se_Score e \<le> 1"
  using scores_in_unit [of "Some \<lparr>mc_SimilarTaskFailureRate = 1/4, mc_HasRelevantHeuristics = True\<rparr>"
      "hd (scoreStrategies sampleTask (Some \<lparr>mc_SimilarTaskFailureRate = 1/4, mc_HasRelevantHeuristics = True\<rparr>))" sampleTask]
    hd_in_set [OF scoreStrategies_not_Nil]
  by (simp add: memoryOK_def Let_def)


lemma weightedScore_repr: "rnd64 (weightedScore a b c d e f) = weightedScore a b c d e f"
  unfolding weightedScore_def fadd_def by (rule fl.idem)

lemma scored_fields:
  assumes "e \<in> set (scoreStrategies t m)"
  shows "rnd64 (se_Score e) = se_Score e" "se_AdaptiveAdjustment e = None"
proof -
  have *: "list_all (\<lambda>e. rnd64 (se_Score e) = se_Score e \<and> se_AdaptiveAdjustment e = None) (scoreStrategies t m)"
    unfolding scoreStrategies_def Let_def list.pred_map o_def StrategyEvaluation.simps
    by (simp add: weightedScore_repr list.pred_True)
  with assms show "rnd64 (se_Score e) = se_Score e" "se_AdaptiveAdjustment e = None"
    by (simp_all add: list_all_iff)
qed

lemma repr_between: "rnd64 x = x \<Longrightarrow> fsub x MaxPenalty \<le> x \<and> x \<le> fadd x MaxBonus"
  using fl.mono [of "x - MaxPenalty" x] fl.mono [of x "x + MaxBonus"] const_nonneg
  by (simp add: fsub_def fadd_def)

lemma built_bounds:
  "- MaxPenalty \<le> aa_RawAdjustment (buildAdjustment fr g w) \<and> aa_RawAdjustment (buildAdjustment fr g w) \<le> MaxBonus"
  "0 \<le> aa_Confidence (buildAdjustment fr g w) \<and> aa_Confidence (buildAdjustment fr g w) \<le> 1"
  "aa_SampleSize (buildAdjustment fr g w) = fr_Total fr"
  using computeRawAdjustment_bounds computeConfidence_unit by (simp_all add: buildAdjustment_def Let_def)

text \<open>
  C20. Adaptive routing has bounded influence: the adjusted score never falls more than the
  maximal penalty below the score nor rises more than the maximal bonus above it; an applied
  adjustment rests on at least five samples, its raw and final value stay within these limits and
  its confidence between 0 and 1; and a score without an adjustment is untouched.
\<close>

theorem adaptive_bounded:
  assumes "e \<in> set (applyAdaptiveAdjustments (scoreStrategies t m) stats)"
  shows "fsub (se_Score e) MaxPenalty \<le> se_AdjustedScore e \<and> se_AdjustedScore e \<le> fadd (se_Score e) MaxBonus \<and>
         (case se_AdaptiveAdjustment e of
            None \<Rightarrow> se_AdjustedScore e = se_Score e
          | Some adj \<Rightarrow>
              - MaxPenalty \<le> aa_RawAdjustment adj \<and> aa_RawAdjustment adj \<le> MaxBonus \<and>
              - MaxPenalty \<le> aa_FinalAdjustment adj \<and> aa_FinalAdjustment adj \<le> MaxBonus \<and>
              0 \<le> aa_Confidence adj \<and> aa_Confidence adj \<le> 1 \<and> MinSamples \<le> aa_SampleSize adj)"
  using assms
proof (cases rule: applyAdaptive_cases)
  case (1 e0)
  with repr_between [OF scored_fields(1) [OF 1(1)]] scored_fields(2) [OF 1(1)] show ?thesis by simp
next
  case (2 e0 adj)
  from 2(2) obtain fr g st where "stats = Some st" "adj = buildAdjustment fr g (fs_Window st)"
    "MinSamples \<le> fr_Total fr"
    by (rule computeAdjustment_built)
  with 2 show ?thesis
    using clampValue_bounds [OF fsub_le_fadd] built_bounds final_bounds by simp
qed

text \<open>The statistics of the example: thirty direct runs, all failed.\<close>

definition sampleStats :: FailureStats where
  "sampleStats = \<lparr>fs_ByStrategyRoleCategory = None, fs_ByStrategyCategory = None,
     fs_ByStrategy = Some [(StrategyDirect, \<lparr>fr_Total = 30, fr_Failures = 30, fr_Rate = 1\<rparr>)],
     fs_ComputedAt = 1, fs_Window = 48 * 3600 * Second\<rparr>"

lemma applyAdaptive_adjusts:
  assumes "e \<in> set (applyAdaptiveAdjustments evals stats)" "computeAdjustment (se_Strategy e) stats \<noteq> None"
  shows "se_AdaptiveAdjustment e \<noteq> None"
  using assms(1)
proof (cases rule: applyAdaptive_cases)
  case (1 e0)
  with assms(2) show ?thesis by simp
qed simp

lemma sampleStats_adjusts: "computeAdjustment StrategyDirect (Some sampleStats) \<noteq> None"
  unfolding computeAdjustment_def sampleStats_def FailureStats.simps option.case Let_def
  by (simp add: MinSamples_def)

theorem adaptive_bounded_witness:
  "\<exists>e \<in> set (applyAdaptiveAdjustments (scoreStrategies sampleTask None) (Some sampleStats)).
     fsub (se_Score e) MaxPenalty \<le> se_AdjustedScore e \<and> se_AdaptiveAdjustment e \<noteq> None"
proof -
  let ?evals = "applyAdaptiveAdjustments (scoreStrategies sampleTask None) (Some sampleStats)"
  have "StrategyDirect \<in> set (map se_Strategy ?evals)"
    unfolding applyAdaptive_strategy scoreStrategies_strategy by (simp add: evaluatedStrategies_def)
  then obtain e where e: "e \<in> set ?evals" "se_Strategy e = StrategyDirect" unfolding set_map by fastforce
  have "se_AdaptiveAdjustment e \<noteq> None"
    by (rule applyAdaptive_adjusts [OF e(1)]) (simp only: e(2) sampleStats_adjusts not_False_eq_True)
  with adaptive_bounded [OF e(1)] e(1) show ?thesis by blast
qed

lemma const_repr:
  "rnd64 BaselineFailureRate = BaselineFailureRate" "rnd64 MaxBonus = MaxBonus" "rnd64 MaxPenalty = MaxPenalty"
  by (simp_all add: BaselineFailureRate_def MaxBonus_def MaxPenalty_def fl.idem)

lemma one_minus_baseline: "rnd64 (rnd64 (20 / 100) - 1) = - rnd64 (1 - 20 / 100)"
  by code_simp

lemma const_pos: "BaselineFailureRate \<noteq> 0" "BaselineComplement \<noteq> 0"
  by code_simp+

lemma raw_at_zero: "computeRawAdjustment 0 = MaxBonus"
  using const_nonneg const_pos
  by (simp add: computeRawAdjustment_def fsub_def fdiv_def fmul_def const_repr fl.one clampValue_def Let_def)

lemma raw_at_baseline: "computeRawAdjustment BaselineFailureRate = 0"
  using const_nonneg by (simp add: computeRawAdjustment_def fsub_def fdiv_def fmul_def clampValue_def Let_def)

lemma raw_at_one: "computeRawAdjustment 1 = - MaxPenalty"
proof -
  have dev: "fsub BaselineFailureRate 1 = - BaselineComplement"
    using one_minus_baseline by (simp add: fsub_def BaselineFailureRate_def BaselineComplement_def)
  have "fdiv (- BaselineComplement) BaselineComplement = - 1"
    using const_pos fl.odd [of 1] by (simp add: fdiv_def fl.one)
  moreover have "fmul (- 1) MaxPenalty = - MaxPenalty"
    using fl.odd [of MaxPenalty] by (simp add: fmul_def const_repr)
  moreover have "\<not> 0 \<le> - BaselineComplement" using const_nonneg(4) const_pos(2) by linarith
  ultimately show ?thesis
    using const_nonneg by (simp add: computeRawAdjustment_def dev clampValue_def Let_def)
qed

text \<open>
  C21. More failures never raise a score: the raw adjustment is antitone in the failure rate, it is
  exactly the maximal bonus without failures, zero at the baseline and exactly the maximal penalty
  when everything fails.
\<close>

theorem raw_adjustment_monotone:
  "(\<forall>r r'. r \<le> r' \<longrightarrow> computeRawAdjustment r' \<le> computeRawAdjustment r) \<and>
   computeRawAdjustment 0 = MaxBonus \<and> computeRawAdjustment BaselineFailureRate = 0 \<and>
   computeRawAdjustment 1 = - MaxPenalty"
  using computeRawAdjustment_antimono raw_at_zero raw_at_baseline raw_at_one by blast

theorem raw_adjustment_monotone_witness: "computeRawAdjustment (1/2) \<le> computeRawAdjustment (1/10)"
  using raw_adjustment_monotone by simp


end
