(* ===== verification/Json.thy ===== *)
theory Json
  imports Float64 Shared
begin

text \<open>
  The part of \<^verbatim>\<open>encoding/json\<close> the program uses, on parsed documents. An object is a map from
  keys to values: neither Go's decoder nor a JSONB column keeps the order of the keys. A number is
  the value it denotes; a printed \<^verbatim>\<open>float64\<close> is identified with the value it parses back to.
  Strings are taken to be valid UTF-8, for which encoding and decoding are exact.

  Decoders follow \<^verbatim>\<open>json.Unmarshal\<close> into a typed destination: \<open>null\<close> or a missing field leaves the
  zero value, a value of another shape is an error.
\<close>

datatype json =
    JNull
  | JBool bool
  | JNum rat
  | JString string
  | JArr "json list"
  | JObj "string \<Rightarrow> json option"

section \<open>Sequencing of results\<close>

fun andThen :: "gov_error + 'a \<Rightarrow> ('a \<Rightarrow> gov_error + 'b) \<Rightarrow> gov_error + 'b" where
  "andThen (Inl e) k = Inl e"
| "andThen (Inr x) k = k x"

lemma andThen_Inr: "andThen r k = Inr y \<longleftrightarrow> (\<exists>x. r = Inr x \<and> k x = Inr y)"
  by (cases r) auto

fun wrapErr :: "string \<Rightarrow> gov_error + 'a \<Rightarrow> gov_error + 'a" where
  "wrapErr c (Inl e) = Inl (if isPanic e then e else Wrap c e)"
| "wrapErr c (Inr x) = Inr x"

lemma wrapErr_Inr [simp]: "wrapErr c r = Inr x \<longleftrightarrow> r = Inr x"
  by (cases r) auto

fun mapE :: "('a \<Rightarrow> gov_error + 'b) \<Rightarrow> 'a list \<Rightarrow> gov_error + 'b list" where
  "mapE f [] = Inr []"
| "mapE f (x # xs) = andThen (f x) (\<lambda>y. andThen (mapE f xs) (\<lambda>ys. Inr (y # ys)))"

lemma mapE_map: "(\<And>x. x \<in> set xs \<Longrightarrow> f (g x) = Inr (h x)) \<Longrightarrow> mapE f (map g xs) = Inr (map h xs)"
  by (induction xs) auto

lemma mapE_id: "(\<And>x. x \<in> set xs \<Longrightarrow> f (g x) = Inr x) \<Longrightarrow> mapE f (map g xs) = Inr xs"
  using mapE_map [of xs f g id] by simp

section \<open>Typed decoding\<close>

definition decString :: "json \<Rightarrow> gov_error + string" where
  "decString j = (case j of JNull \<Rightarrow> Inr [] | JString s \<Rightarrow> Inr s | _ \<Rightarrow> Inl (ErrJSON ''string''))"

definition decBool :: "json \<Rightarrow> gov_error + bool" where
  "decBool j = (case j of JNull \<Rightarrow> Inr False | JBool b \<Rightarrow> Inr b | _ \<Rightarrow> Inl (ErrJSON ''bool''))"

definition decFloat :: "json \<Rightarrow> gov_error + rat" where
  "decFloat j = (case j of JNull \<Rightarrow> Inr 0 | JNum r \<Rightarrow> Inr (rnd64 r) | _ \<Rightarrow> Inl (ErrJSON ''float64''))"

definition decInt :: "json \<Rightarrow> gov_error + int" where
  "decInt j =
     (case j of
        JNull \<Rightarrow> Inr 0
      | JNum r \<Rightarrow> (if r = of_int \<lfloor>r\<rfloor> \<and> - (2 ^ 63) \<le> \<lfloor>r\<rfloor> \<and> \<lfloor>r\<rfloor> < 2 ^ 63 then Inr \<lfloor>r\<rfloor> else Inl (ErrJSON ''int''))
      | _ \<Rightarrow> Inl (ErrJSON ''int''))"

definition decPtr :: "(json \<Rightarrow> gov_error + 'a) \<Rightarrow> json \<Rightarrow> gov_error + 'a option" where
  "decPtr f j = (case j of JNull \<Rightarrow> Inr None | _ \<Rightarrow> andThen (f j) (\<lambda>x. Inr (Some x)))"

definition decSlice :: "(json \<Rightarrow> gov_error + 'a) \<Rightarrow> json \<Rightarrow> gov_error + 'a list" where
  "decSlice f j = (case j of JNull \<Rightarrow> Inr [] | JArr js \<Rightarrow> mapE f js | _ \<Rightarrow> Inl (ErrJSON ''slice''))"

text \<open>A struct: the decoder of the fields is given the value of each field, \<open>JNull\<close> when missing.\<close>

definition decStruct :: "((string \<Rightarrow> json) \<Rightarrow> gov_error + 'a) \<Rightarrow> json \<Rightarrow> gov_error + 'a" where
  "decStruct f j =
     (case j of
        JNull \<Rightarrow> f (\<lambda>_. JNull)
      | JObj m \<Rightarrow> f (\<lambda>k. case m k of None \<Rightarrow> JNull | Some v \<Rightarrow> v)
      | _ \<Rightarrow> Inl (ErrJSON ''struct''))"

text \<open>
  The encoders of the same shapes. \<open>omitempty\<close> leaves a field out when its pointer is nil; otherwise
  a nil pointer is \<open>null\<close>.
\<close>

definition encPtr :: "('a \<Rightarrow> json) \<Rightarrow> 'a option \<Rightarrow> json" where
  "encPtr f v = (case v of None \<Rightarrow> JNull | Some x \<Rightarrow> f x)"

definition jObj :: "(string \<times> json) list \<Rightarrow> json" where
  "jObj kvs = JObj (map_of kvs)"

definition omitEmpty :: "string \<Rightarrow> ('a \<Rightarrow> json) \<Rightarrow> 'a option \<Rightarrow> (string \<times> json) list" where
  "omitEmpty k f v = (case v of None \<Rightarrow> [] | Some x \<Rightarrow> [(k, f x)])"

lemma dec_simps [simp]:
  "decString (JString s) = Inr s" "decString JNull = Inr []"
  "decBool (JBool b) = Inr b" "decBool JNull = Inr False"
  "decFloat (JNum r) = Inr (rnd64 r)"
  "- (2 ^ 63) \<le> i \<Longrightarrow> i < 2 ^ 63 \<Longrightarrow> decInt (JNum (of_int i)) = Inr i"
  "decSlice f (JArr js) = mapE f js"
  "decStruct g (jObj kvs) = g (\<lambda>k. case map_of kvs k of None \<Rightarrow> JNull | Some v \<Rightarrow> v)"
  by (simp_all add: decString_def decBool_def decFloat_def decInt_def decSlice_def decStruct_def jObj_def)

lemma decPtr_simps [simp]:
  "decPtr d JNull = Inr None"
  "decPtr d (JString s) = andThen (d (JString s)) (\<lambda>x. Inr (Some x))"
  "decPtr d (JNum r) = andThen (d (JNum r)) (\<lambda>x. Inr (Some x))"
  "decPtr d (jObj kvs) = andThen (d (jObj kvs)) (\<lambda>x. Inr (Some x))"
  by (simp_all add: decPtr_def jObj_def)

lemma decPtr_encPtr:
  assumes "\<And>x. v = Some x \<Longrightarrow> f x \<noteq> JNull \<and> d (f x) = Inr x"
  shows "decPtr d (encPtr f v) = Inr v"
  using assms by (auto simp: decPtr_def encPtr_def split: option.splits json.splits)

section \<open>Dynamic values\<close>

text \<open>
  Encoding a \<^verbatim>\<open>map[string]any\<close>, and decoding into \<^verbatim>\<open>any\<close>: every number comes back as a
  \<^verbatim>\<open>float64\<close>.
\<close>

primrec toJSON :: "any \<Rightarrow> json" where
  "toJSON (AString s) = JString s"
| "toJSON (ABool b) = JBool b"
| "toJSON (AInt i) = JNum (of_int i)"
| "toJSON (AFloat r) = JNum r"
| "toJSON ANil = JNull"
| "toJSON (AList xs) = JArr (map toJSON xs)"
| "toJSON (AMap m) = JObj (\<lambda>k. map_option toJSON (m k))"

primrec fromJSON :: "json \<Rightarrow> any" where
  "fromJSON JNull = ANil"
| "fromJSON (JBool b) = ABool b"
| "fromJSON (JNum r) = AFloat (rnd64 r)"
| "fromJSON (JString s) = AString s"
| "fromJSON (JArr js) = AList (map fromJSON js)"
| "fromJSON (JObj m) = AMap (\<lambda>k. map_option fromJSON (m k))"

definition encMap :: "(string \<rightharpoonup> any) \<Rightarrow> json" where
  "encMap m = JObj (\<lambda>k. map_option toJSON (m k))"

definition decMap :: "json \<Rightarrow> gov_error + (string \<rightharpoonup> any)" where
  "decMap j =
     (case j of
        JNull \<Rightarrow> Inr Map.empty
      | JObj m \<Rightarrow> Inr (\<lambda>k. map_option fromJSON (m k))
      | _ \<Rightarrow> Inl (ErrJSON ''map''))"

text \<open>What a dynamic value becomes after a round trip: integers turn into floats, floats are kept.\<close>

primrec asDecoded :: "any \<Rightarrow> any" where
  "asDecoded (AString s) = AString s"
| "asDecoded (ABool b) = ABool b"
| "asDecoded (AInt i) = AFloat (rnd64 (of_int i))"
| "asDecoded (AFloat r) = AFloat (rnd64 r)"
| "asDecoded ANil = ANil"
| "asDecoded (AList xs) = AList (map asDecoded xs)"
| "asDecoded (AMap m) = AMap (\<lambda>k. map_option asDecoded (m k))"

lemma fromJSON_toJSON: "fromJSON (toJSON v) = asDecoded v"
proof (induction v)
  case (AMap m)
  have "fromJSON (toJSON z) = asDecoded z" if "m k = Some z" for k z
    by (rule AMap [of "m k"]) (use that in \<open>auto intro: range_eqI [of _ _ k]\<close>)
  then show ?case by (auto simp: fun_eq_iff option.map_comp comp_def intro!: option.map_cong)
qed (auto simp: comp_def)

lemma decMap_encMap: "decMap (encMap m) = Inr (\<lambda>k. map_option asDecoded (m k))"
  by (simp add: decMap_def encMap_def option.map_comp comp_def fromJSON_toJSON)

lemma asString_asDecoded [simp]: "asString (map_option asDecoded v) = asString v"
proof (cases v)
  case (Some x)
  then show ?thesis by (cases x) simp_all
qed simp

definition encFloats :: "(string \<rightharpoonup> rat) \<Rightarrow> json" where
  "encFloats m = JObj (\<lambda>k. map_option JNum (m k))"

text \<open>
  A \<^verbatim>\<open>map[string]float64\<close> is decoded entry by entry; an entry that is no number is an error.
\<close>

definition decFloats :: "json \<Rightarrow> gov_error + (string \<rightharpoonup> rat)" where
  "decFloats j =
     (case j of
        JNull \<Rightarrow> Inr Map.empty
      | JObj m \<Rightarrow>
          (if \<forall>v\<in>ran m. \<exists>r. decFloat v = Inr r
           then Inr (\<lambda>k. map_option (\<lambda>v. projr (decFloat v)) (m k))
           else Inl (ErrJSON ''map of float64''))
      | _ \<Rightarrow> Inl (ErrJSON ''map of float64''))"

lemma decFloats_encFloats:
  "(\<forall>r\<in>ran m. rnd64 r = r) \<Longrightarrow> decFloats (encFloats m) = Inr m"
  by (fastforce simp: decFloats_def encFloats_def ran_def fun_eq_iff option.map_comp comp_def
      split: option.splits intro: option.map_ident_strong)

end
