(* ===== verification/TimeFormat.thy ===== *)
theory TimeFormat
  imports Shared
begin

text \<open>
  Time stamps as text: the layout \<^verbatim>\<open>2006-01-02T15:04:05.999999999Z07:00\<close> (RFC 3339 with the
  fraction cut after its last non-zero digit), as \<^verbatim>\<open>time.Format\<close> writes it and
  \<^verbatim>\<open>time.Parse\<close> reads it back. A time is the number of nanoseconds since the start of year 1;
  \<open>zone\<close> is the offset of the local zone in minutes.
\<close>

section \<open>The proleptic Gregorian calendar\<close>

definition isLeap :: "nat \<Rightarrow> bool" where
  "isLeap y \<longleftrightarrow> y mod 4 = 0 \<and> (y mod 100 \<noteq> 0 \<or> y mod 400 = 0)"

text \<open>Days from the start of year 1 to the start of year \<open>y + 1\<close>.\<close>

definition daysBeforeYear :: "nat \<Rightarrow> nat" where
  "daysBeforeYear y = 365 * y + y div 4 - y div 100 + y div 400"

definition monthStarts :: "bool \<Rightarrow> nat list" where
  "monthStarts leap =
     (let f = if leap then 1 else 0
      in [0, 31, 59 + f, 90 + f, 120 + f, 151 + f, 181 + f, 212 + f, 243 + f, 273 + f, 304 + f, 334 + f, 365 + f])"

definition monthLength :: "bool \<Rightarrow> nat \<Rightarrow> nat" where
  "monthLength leap m = monthStarts leap ! m - monthStarts leap ! (m - 1)"

text \<open>
  The year and the day in it, by the cycles of 400, 100, 4 and 1 years; the last year of a cycle of
  100 and the last day of a cycle of 4 belong to the fourth part.
\<close>

definition yearOf :: "nat \<Rightarrow> nat \<times> nat" where
  "yearOf d =
     (let n400 = d div 146097; d = d mod 146097;
          n100 = min 3 (d div 36524); d = d - 36524 * n100;
          n4 = d div 1461; d = d mod 1461;
          n1 = min 3 (d div 365); d = d - 365 * n1
      in (400 * n400 + 100 * n100 + 4 * n4 + n1, d))"

text \<open>The month of a day of the year: the number of months that start on or before it.\<close>

definition monthOf :: "bool \<Rightarrow> nat \<Rightarrow> nat" where
  "monthOf leap yd = length (takeWhile (\<lambda>s. s \<le> yd) (monthStarts leap))"

section \<open>Writing\<close>

fun stripZeros :: "string \<Rightarrow> string" where
  "stripZeros [] = []"
| "stripZeros (c # cs) =
     (let r = stripZeros cs in if r = [] \<and> c = CHR ''0'' then [] else c # r)"

definition fmtFraction :: "nat \<Rightarrow> string" where
  "fmtFraction ns = (let r = stripZeros (padDigits 9 ns) in if r = [] then [] else CHR ''.'' # r)"

definition fmtZone :: "int \<Rightarrow> string" where
  "fmtZone zone =
     (if zone = 0 then ''Z''
      else (if zone < 0 then CHR ''-'' else CHR ''+'') #
           padDigits 2 (nat \<bar>zone\<bar> div 60) @ '':'' @ padDigits 2 (nat \<bar>zone\<bar> mod 60))"

definition fmtYear :: "nat \<Rightarrow> string" where
  "fmtYear y = (if y < 10000 then padDigits 4 y else showNat y)"

definition fmtRFC3339Nano :: "int \<Rightarrow> gotime \<Rightarrow> string" where
  "fmtRFC3339Nano zone t =
     (let local = nat (t + zone * 60 * Second);
          ns = local mod 1000000000; secs = local div 1000000000;
          sod = secs mod 86400; d = secs div 86400;
          (y, yd) = yearOf d; leap = isLeap (y + 1); m = monthOf leap yd
      in fmtYear (y + 1) @ ''-'' @ padDigits 2 m @ ''-'' @ padDigits 2 (yd - monthStarts leap ! (m - 1) + 1) @
         ''T'' @ padDigits 2 (sod div 3600) @ '':'' @ padDigits 2 (sod div 60 mod 60) @ '':'' @
         padDigits 2 (sod mod 60) @ fmtFraction ns @ fmtZone zone)"

section \<open>Reading\<close>

definition digitVal :: "char \<Rightarrow> nat option" where
  "digitVal c = (let n = of_char c in if 48 \<le> n \<and> n \<le> (57::nat) then Some (n - 48) else None)"

text \<open>A field of exactly \<open>k\<close> digits, and the text after it.\<close>

fun readDigits :: "nat \<Rightarrow> nat \<Rightarrow> string \<Rightarrow> (nat \<times> string) option" where
  "readDigits 0 acc s = Some (acc, s)"
| "readDigits (Suc k) acc [] = None"
| "readDigits (Suc k) acc (c # s) =
     (case digitVal c of None \<Rightarrow> None | Some d \<Rightarrow> readDigits k (10 * acc + d) s)"

definition readLit :: "char \<Rightarrow> string \<Rightarrow> string option" where
  "readLit c s = (case s of [] \<Rightarrow> None | d # r \<Rightarrow> if d = c then Some r else None)"

text \<open>The fraction of a second: digits after a point, weighted; at most nine of them count.\<close>

fun readFrac :: "nat \<Rightarrow> nat \<Rightarrow> string \<Rightarrow> nat \<times> string" where
  "readFrac acc w [] = (acc, [])"
| "readFrac acc w (c # s) =
     (case digitVal c of None \<Rightarrow> (acc, c # s) | Some d \<Rightarrow> readFrac (acc + d * w) (w div 10) s)"

definition readFraction :: "string \<Rightarrow> nat \<times> string" where
  "readFraction s =
     (case s of
        c # d # r \<Rightarrow> (if (c = CHR ''.'' \<or> c = CHR '','') \<and> digitVal d \<noteq> None then readFrac 0 100000000 (d # r) else (0, s))
      | _ \<Rightarrow> (0, s))"

definition readZone :: "string \<Rightarrow> int option" where
  "readZone s =
     (if s = ''Z'' then Some 0
      else case s of
        [] \<Rightarrow> None
      | c # r \<Rightarrow>
          if c \<noteq> CHR ''+'' \<and> c \<noteq> CHR ''-'' then None else
          Option.bind (readDigits 2 0 r) (\<lambda>(hh, r).
          Option.bind (readLit (CHR '':'') r) (\<lambda>r.
          Option.bind (readDigits 2 0 r) (\<lambda>(mm, r).
          if r = [] \<and> hh \<le> 23 \<and> mm \<le> 59
          then Some ((if c = CHR ''-'' then - 1 else 1) * int (60 * hh + mm)) else None))))"

definition parseRFC3339Nano :: "string \<Rightarrow> gotime option" where
  "parseRFC3339Nano s =
     Option.bind (readDigits 4 0 s) (\<lambda>(y, s).
     Option.bind (readLit (CHR ''-'') s) (\<lambda>s.
     Option.bind (readDigits 2 0 s) (\<lambda>(m, s).
     Option.bind (readLit (CHR ''-'') s) (\<lambda>s.
     Option.bind (readDigits 2 0 s) (\<lambda>(d, s).
     Option.bind (readLit (CHR ''T'') s) (\<lambda>s.
     Option.bind (readDigits 2 0 s) (\<lambda>(hh, s).
     Option.bind (readLit (CHR '':'') s) (\<lambda>s.
     Option.bind (readDigits 2 0 s) (\<lambda>(mi, s).
     Option.bind (readLit (CHR '':'') s) (\<lambda>s.
     Option.bind (readDigits 2 0 s) (\<lambda>(se, s).
     let (ns, s) = readFraction s in
     Option.bind (readZone s) (\<lambda>zone.
     if 1 \<le> m \<and> m \<le> 12 \<and> 1 \<le> d \<and> d \<le> monthLength (isLeap y) m \<and> hh \<le> 23 \<and> mi \<le> 59 \<and> se \<le> 59
     then Some ((int (daysBeforeYear y) - (if isLeap y then 366 else 365) + int (monthStarts (isLeap y) ! (m - 1) + d - 1)) * 86400 * Second
                + int (3600 * hh + 60 * mi + se) * Second + int ns - zone * 60 * Second)
     else None))))))))))))"

section \<open>Digits\<close>

lemma digitVal_digitChar [simp]: "d < 10 \<Longrightarrow> digitVal (digitChar d) = Some d"
  by (simp add: digitVal_def digitChar_def Let_def)

lemma readDigits_add:
  "readDigits (j + k) acc s = Option.bind (readDigits j acc s) (\<lambda>(a, r). readDigits k a r)"
  by (induction j acc s rule: readDigits.induct) (auto split: option.split)

lemma readDigits_padDigits:
  "readDigits k acc (padDigits k n @ s) = Some (acc * 10 ^ k + n mod 10 ^ k, s)"
proof (induction k arbitrary: n s)
  case (Suc k)
  let ?a = "acc * 10 ^ k + (n div 10) mod 10 ^ k"
  have "readDigits (k + 1) acc (padDigits (Suc k) n @ s) =
      Option.bind (readDigits k acc (padDigits k (n div 10) @ (digitChar (n mod 10) # s))) (\<lambda>(a, r). readDigits 1 a r)"
    by (simp only: readDigits_add padDigits.simps append_assoc append_Cons append_Nil)
  also have "\<dots> = readDigits (Suc 0) ?a (digitChar (n mod 10) # s)"
    by (simp only: Suc Option.bind.bind_lunit prod.case One_nat_def)
  also have "\<dots> = Some (10 * ?a + n mod 10, s)"
    by simp
  also have "10 * ?a + n mod 10 = acc * 10 ^ Suc k + n mod 10 ^ Suc k"
    using mod_mult2_eq [of n 10 "10 ^ k"] by simp
  finally show ?case by (simp only: Suc_eq_plus1)
qed simp

lemma padDigits_Cons: "padDigits (Suc k) n = digitChar (n div 10 ^ k mod 10) # padDigits k n"
proof (induction k arbitrary: n)
  case (Suc k)
  have "padDigits (Suc (Suc k)) n = padDigits (Suc k) (n div 10) @ [digitChar (n mod 10)]"
    by (rule padDigits.simps(2))
  also have "\<dots> = digitChar (n div 10 div 10 ^ k mod 10) # padDigits k (n div 10) @ [digitChar (n mod 10)]"
    by (simp only: Suc append_Cons)
  also have "n div 10 div 10 ^ k = n div 10 ^ Suc k"
    by (simp add: div_mult2_eq)
  finally show ?case by (simp only: padDigits.simps(2) [of k n])
qed simp

lemma digitChar_zero: "d < 10 \<Longrightarrow> digitChar d = CHR ''0'' \<longleftrightarrow> d = 0"
proof
  assume "d < 10" "digitChar d = CHR ''0''"
  then have "digitVal (CHR ''0'') = Some d" by (metis digitVal_digitChar)
  then show "d = 0" by (simp add: digitVal_def Let_def)
next
  have "char_of (48 :: nat) = CHR ''0''" by code_simp
  then show "d = 0 \<Longrightarrow> digitChar d = CHR ''0''" by (simp add: digitChar_def)
qed

lemma mod_pow_Suc: "n mod 10 ^ Suc k = n div 10 ^ k mod 10 * 10 ^ k + n mod (10 ^ k :: nat)"
  by (metis mod_mult2_eq mult.commute power_Suc)

lemma stripZeros_padDigits: "stripZeros (padDigits k n) = [] \<Longrightarrow> n mod 10 ^ k = 0"
proof (induction k)
  case (Suc k)
  let ?d = "n div 10 ^ k mod 10"
  have "stripZeros (padDigits k n) = []" "digitChar ?d = CHR ''0''"
    using Suc.prems unfolding padDigits_Cons by (auto simp: Let_def split: if_splits)
  then have "n mod 10 ^ k = 0" "?d = 0"
    using Suc.IH digitChar_zero [of ?d] by auto
  then show ?case by (simp only: mod_pow_Suc)
qed simp

lemma readFrac_stripZeros:
  assumes c: "digitVal c = None"
  shows "readFrac acc (10 ^ k div 10) (stripZeros (padDigits k n) @ c # s) = (acc + n mod 10 ^ k, c # s)"
proof (induction k arbitrary: acc)
  case (Suc k)
  let ?d = "n div 10 ^ k mod 10" and ?r = "stripZeros (padDigits k n)"
  have w: "(10 :: nat) ^ Suc k div 10 = 10 ^ k" by simp
  show ?case
  proof (cases "?r = [] \<and> digitChar ?d = CHR ''0''")
    case True
    then have "stripZeros (padDigits (Suc k) n) = []" unfolding padDigits_Cons by simp
    moreover from this have "n mod 10 ^ Suc k = 0" by (rule stripZeros_padDigits)
    ultimately show ?thesis using c by (simp only: append_Nil readFrac.simps) simp
  next
    case False
    then have "stripZeros (padDigits (Suc k) n) = digitChar ?d # ?r"
      unfolding padDigits_Cons by (auto simp: Let_def)
    then show ?thesis
      using Suc.IH [of "acc + ?d * 10 ^ k"] by (simp only: append_Cons readFrac.simps w mod_pow_Suc) simp
  qed
qed (simp add: c)

lemma readFraction_fmtFraction:
  assumes "ns < 10 ^ 9" "digitVal c = None" "c \<noteq> CHR ''.''" "c \<noteq> CHR '',''"
  shows "readFraction (fmtFraction ns @ c # s) = (ns, c # s)"
proof (cases "stripZeros (padDigits 9 ns)")
  case Nil
  then have "ns = 0" using stripZeros_padDigits [of 9 ns] assms(1) by simp
  with Nil assms show ?thesis by (simp add: fmtFraction_def readFraction_def split: list.splits)
next
  case (Cons d r)
  have "readFrac 0 (10 ^ 9 div 10) ((d # r) @ c # s) = (ns, c # s)"
    using readFrac_stripZeros [OF assms(2), of 0 9 ns s] assms(1) Cons by simp
  moreover have "digitVal d \<noteq> None"
  proof -
    have "\<And>xs. stripZeros xs \<noteq> [] \<Longrightarrow> hd (stripZeros xs) = hd xs"
      by (case_tac xs) (auto simp: Let_def)
    then have "d = hd (padDigits 9 ns)" using Cons by (metis list.distinct(1) list.sel(1))
    moreover have "(9 :: nat) = Suc 8" by simp
    ultimately have "d = digitChar (ns div 10 ^ 8 mod 10)"
      by (simp only: padDigits_Cons list.sel)
    then show ?thesis by simp
  qed
  ultimately show ?thesis using Cons by (simp add: fmtFraction_def readFraction_def)
qed

section \<open>The calendar\<close>

lemma yearOf_days:
  assumes "yearOf d = (y, yd)"
  shows "d = daysBeforeYear y + yd" "yd < 365 + (if isLeap (y + 1) then 1 else 0)"
proof -
  define a where "a = d div 146097"
  define r where "r = d mod 146097"
  define b where "b = min 3 (r div 36524)"
  define r2 where "r2 = r - 36524 * b"
  define c where "c = r2 div 1461"
  define r3 where "r3 = r2 mod 1461"
  define e where "e = min 3 (r3 div 365)"
  have y: "y = 400 * a + 100 * b + 4 * c + e" and yd: "yd = r3 - 365 * e"
    using assms by (auto simp: yearOf_def Let_def a_def r_def b_def r2_def c_def r3_def e_def)
  have d: "d = 146097 * a + r" "r < 146097" by (simp_all add: a_def r_def)
  have b: "b \<le> 3" "r = 36524 * b + r2" "r2 < 36524 \<or> b = 3 \<and> r2 \<le> 36524"
    using d(2) unfolding b_def r2_def by (auto simp: min_def)
  have c: "r2 = 1461 * c + r3" "r3 < 1461" "c \<le> 24"
    using b(3) unfolding c_def r3_def by auto
  have e: "e \<le> 3" "r3 = 365 * e + yd" "yd < 365 \<or> e = 3 \<and> yd \<le> 365"
    using c(2) unfolding yd e_def by (auto simp: min_def)
  have q: "y div 4 = 100 * a + 25 * b + c" "y div 100 = 4 * a + b" "y div 400 = a"
    using b(1) c(3) e(1) unfolding y by auto
  show "d = daysBeforeYear y + yd"
    unfolding daysBeforeYear_def q using d(1) b(2) c(1) e(2) y by linarith
  have "isLeap (y + 1)" if "yd = 365"
  proof -
    have e3: "e = 3" using e(3) that by linarith
    then have r3: "r3 = 1460" using e(2) that by linarith
    have "b = 3" if "c = 24"
      using b(3)
    proof (elim disjE conjE)
      assume "r2 < 36524"
      then show ?thesis using c(1) r3 that by linarith
    qed
    moreover have "(y + 1) mod 4 = 0"
    proof -
      have "y + 1 = 4 * (100 * a + 25 * b + c + 1)" unfolding y e3 by simp
      then show ?thesis by (metis mod_mult_self1_is_0)
    qed
    moreover have "(y + 1) mod 100 = (4 * c + 4) mod 100"
    proof -
      have "y + 1 = (4 * c + 4) + 100 * (4 * a + b)" unfolding y e3 by simp
      then show ?thesis by (metis mod_mult_self2)
    qed
    moreover have "(y + 1) mod 400 = 0" if "c = 24" "b = 3"
    proof -
      have "y + 1 = 400 * (a + 1)" unfolding y e3 that by simp
      then show ?thesis by (metis mod_mult_self1_is_0)
    qed
    moreover have "(4 * c + 4) mod 100 \<noteq> 0" if "c \<noteq> 24"
    proof -
      have "4 * c + 4 < 100" using c(3) that by linarith
      then show ?thesis by simp
    qed
    ultimately show ?thesis unfolding isLeap_def by (cases "c = 24") simp_all
  qed
  then show "yd < 365 + (if isLeap (y + 1) then 1 else 0)"
    using e(3) by (auto simp: le_less)
qed


lemma takeWhile_P_nth: "i < length (takeWhile P xs) \<Longrightarrow> P (xs ! i)"
  by (metis nth_mem set_takeWhileD takeWhile_nth)

lemma monthOf_bounds:
  assumes "yd < 365 + (if leap then 1 else 0)"
  defines "m \<equiv> monthOf leap yd"
  shows "1 \<le> m" "m \<le> 12" "monthStarts leap ! (m - 1) \<le> yd" "yd < monthStarts leap ! m"
proof -
  let ?xs = "monthStarts leap" and ?P = "\<lambda>s. s \<le> yd"
  have len: "length ?xs = 13" and lst: "?xs ! 12 = 365 + (if leap then 1 else 0)" and fst: "?xs ! 0 = 0"
    by (simp_all add: monthStarts_def Let_def)
  have tk: "?xs ! i \<le> yd" if "i < m" for i
    using takeWhile_P_nth [of i ?P ?xs] that unfolding m_def monthOf_def by blast
  have "\<not> ?xs ! 12 \<le> yd" using assms(1) lst by simp
  then have "\<not> 12 < m" using tk by blast
  then show m12: "m \<le> 12" by simp
  show m1: "1 \<le> m"
    unfolding m_def monthOf_def by (simp add: monthStarts_def Let_def Suc_le_eq)
  show "?xs ! (m - 1) \<le> yd" using tk [of "m - 1"] m1 by simp
  have "length (takeWhile ?P ?xs) < length ?xs" using m12 len unfolding m_def monthOf_def by linarith
  then have "\<not> ?P (?xs ! length (takeWhile ?P ?xs))" by (rule nth_length_takeWhile)
  then show "yd < ?xs ! m" unfolding m_def monthOf_def by simp
qed

lemma daysBeforeYear_int:
  "int (daysBeforeYear y) = 365 * int y + int (y div 4) - int (y div 100) + int (y div 400)"
proof -
  have "y div 100 \<le> y" by (rule div_le_dividend)
  then have "y div 100 \<le> 365 * y + y div 4" by linarith
  then show ?thesis unfolding daysBeforeYear_def by (simp only: of_nat_add of_nat_diff of_nat_mult of_nat_numeral)
qed

lemma div_Suc_dvd: "int (Suc y div k) = int (y div k) + (if k dvd Suc y then 1 else 0)"
  by (simp add: div_Suc dvd_eq_mod_eq_0)

lemma daysBeforeYear_Suc:
  "int (daysBeforeYear (Suc y)) = int (daysBeforeYear y) + (if isLeap (Suc y) then 366 else 365)"
proof -
  have "(4 :: nat) dvd 100" "(100 :: nat) dvd 400" by simp_all
  then have d: "100 dvd Suc y \<Longrightarrow> 4 dvd Suc y" "400 dvd Suc y \<Longrightarrow> 100 dvd Suc y"
    by (blast intro: dvd_trans)+
  show ?thesis
    unfolding daysBeforeYear_int div_Suc_dvd isLeap_def dvd_eq_mod_eq_0 [symmetric]
    using d by (cases "4 dvd Suc y"; cases "100 dvd Suc y"; cases "400 dvd Suc y") simp_all
qed

lemma daysBeforeYear_mono: "a \<le> b \<Longrightarrow> daysBeforeYear a \<le> daysBeforeYear b"
proof (induction rule: dec_induct)
  case (step n)
  then show ?case
    using daysBeforeYear_Suc [of n] by (cases "isLeap (Suc n)") simp_all
qed simp

section \<open>What is written is read back\<close>

lemma read_field:
  "n < 10000 \<Longrightarrow> readDigits 4 0 (fmtYear n @ s) = Some (n, s)"
  "n < 100 \<Longrightarrow> readDigits 2 0 (padDigits 2 n @ s) = Some (n, s)"
  by (simp_all add: readDigits_padDigits fmtYear_def)

lemma readLit_hit [simp]: "readLit c (c # s) = Some s"
  by (simp add: readLit_def)

lemma readZone_fmtZone: "\<bar>zone\<bar> < 1440 \<Longrightarrow> readZone (fmtZone zone) = Some zone"
  using read_field(2) [of "nat \<bar>zone\<bar> mod 60" "[]"]
  by (auto simp: fmtZone_def readZone_def read_field)

lemma fmtZone_head:
  "\<exists>c s. fmtZone zone = c # s \<and> digitVal c = None \<and> c \<noteq> CHR ''.'' \<and> c \<noteq> CHR '',''"
  by (auto simp: fmtZone_def digitVal_def Let_def)

lemma read_fraction_zone: "ns < 10 ^ 9 \<Longrightarrow> readFraction (fmtFraction ns @ fmtZone zone) = (ns, fmtZone zone)"
  using fmtZone_head [of zone] readFraction_fmtFraction [of ns] by auto

lemma mult_60_60: "60 * 60 = (3600 :: nat)"
  by simp

lemma monthLength_le: "1 \<le> m \<Longrightarrow> m \<le> 12 \<Longrightarrow> monthLength leap m \<le> 31"
proof -
  assume m: "1 \<le> m" "m \<le> 12"
  have "list_all (\<lambda>m. monthLength True m \<le> 31 \<and> monthLength False m \<le> 31) [1..<13]" by code_simp
  then show ?thesis using m by (cases leap) (simp_all add: list_all_iff)
qed

lemma parse_fmt:
  assumes lo: "0 \<le> t + zone * 60 * Second" and hi: "t + zone * 60 * Second < 315537897600 * Second"
    and z: "\<bar>zone\<bar> < 1440"
  shows "parseRFC3339Nano (fmtRFC3339Nano zone t) = Some t"
proof -
  define local where "local = nat (t + zone * 60 * Second)"
  define ns where "ns = local mod 1000000000"
  define secs where "secs = local div 1000000000"
  define sod where "sod = secs mod 86400"
  define d where "d = secs div 86400"
  obtain y yd where y: "yearOf d = (y, yd)" by fastforce
  note Y = yearOf_days [OF y]
  define leap where "leap = isLeap (Suc y)"
  define m where "m = monthOf leap yd"
  have yd: "yd < 365 + (if leap then 1 else 0)" using Y(2) unfolding leap_def by simp
  note M = monthOf_bounds [OF yd, folded m_def]
  define dom where "dom = yd - monthStarts leap ! (m - 1) + 1"
  have dom: "1 \<le> dom" "dom \<le> monthLength leap m" "monthStarts leap ! (m - 1) + dom = yd + 1"
    using M unfolding dom_def monthLength_def by simp_all
  have split: "local = (86400 * d + sod) * 1000000000 + ns" "ns < 1000000000" "sod < 86400"
    unfolding ns_def secs_def sod_def d_def by (simp_all add: mult.commute)
  have "secs < 315537897600"
    using hi unfolding secs_def local_def Second_def by (simp add: less_mult_imp_div_less)
  then have d': "d < daysBeforeYear 9999" unfolding d_def daysBeforeYear_def by simp
  have "y < 9999"
  proof (rule ccontr)
    assume "\<not> y < 9999"
    then have "daysBeforeYear 9999 \<le> daysBeforeYear y" by (intro daysBeforeYear_mono) simp
    then show False using Y(1) d' by linarith
  qed
  have dom100: "dom < 100" using dom(2) monthLength_le [OF M(1,2), of leap] by linarith
  have local: "t + zone * 60 * Second = int local" using lo unfolding local_def by simp
  have "parseRFC3339Nano (fmtRFC3339Nano zone t) =
    Some ((int (daysBeforeYear (Suc y)) - (if leap then 366 else 365) + int (monthStarts leap ! (m - 1) + dom - 1)) * 86400 * Second
          + int (3600 * (sod div 3600) + 60 * (sod div 60 mod 60) + sod mod 60) * Second + int ns - zone * 60 * Second)"
  proof -
    have "fmtRFC3339Nano zone t =
       fmtYear (Suc y) @ CHR ''-'' # padDigits 2 m @ CHR ''-'' # padDigits 2 dom @
       CHR ''T'' # padDigits 2 (sod div 3600) @ CHR '':'' # padDigits 2 (sod div 60 mod 60) @ CHR '':'' #
       padDigits 2 (sod mod 60) @ fmtFraction ns @ fmtZone zone"
      unfolding fmtRFC3339Nano_def Let_def local_def [symmetric] secs_def [symmetric] ns_def [symmetric]
        sod_def [symmetric] d_def [symmetric] y prod.case Suc_eq_plus1 [symmetric] leap_def [symmetric]
        m_def [symmetric] by (simp add: dom_def)
    moreover have "sod div 3600 \<le> 23" "sod mod 60 \<le> 59" "sod div 60 mod 60 \<le> 59"
      using split(3) by (simp_all add: less_Suc_eq_le [symmetric] less_mult_imp_div_less)
    ultimately show ?thesis
      using \<open>y < 9999\<close> M(1,2) dom dom100 split(2) readZone_fmtZone [OF z] read_fraction_zone [of ns zone]
      unfolding parseRFC3339Nano_def by (simp add: read_field leap_def)
  qed
  also have "int (daysBeforeYear (Suc y)) - (if leap then 366 else 365) = int (daysBeforeYear y)"
    unfolding daysBeforeYear_Suc leap_def by simp
  also have "monthStarts leap ! (m - 1) + dom - 1 = yd" using dom(3) by simp
  also have "3600 * (sod div 3600) + 60 * (sod div 60 mod 60) + sod mod 60 = sod"
    using div_mult2_eq [of sod 60 60, unfolded mult_60_60] mult_div_mod_eq [of 60 sod] mult_div_mod_eq [of 60 "sod div 60"]
    by linarith
  also have "(int (daysBeforeYear y) + int yd) * 86400 * Second + int sod * Second + int ns - zone * 60 * Second = t"
    using local Y(1) unfolding split(1) Second_def by simp
  finally show ?thesis .
qed

end
