(* ===== verification/Rows.thy ===== *)
theory Rows
  imports Json TimeFormat RoutingEval Policy Execution Approval Escalation AuditTrail Workflow
begin

text \<open>
  Rows of the PostgreSQL tables (\<^verbatim>\<open>migrations/postgres\<close>) and the two directions of
  \<^verbatim>\<open>internal/adapters/outbound/persistence\<close>: the column values each \<^verbatim>\<open>Save\<close> or \<^verbatim>\<open>Update\<close>
  passes to its statement, and the \<^verbatim>\<open>scan\<close> functions that rebuild the aggregate. A JSONB column
  holds a JSON document, a nullable column an option. \<open>pgTime\<close> is the precision of a
  \<^verbatim>\<open>TIMESTAMPTZ\<close> column and \<open>zone\<close> the offset of the local zone at an instant, both parameters.
  Column lengths are not modelled: identifiers are ULIDs of 26 characters.
\<close>

record TimeEnv =
  te_pgTime :: "gotime \<Rightarrow> gotime"
  te_zone :: "gotime \<Rightarrow> int"

text \<open>Times that the layout of \<open>TimeFormat\<close> can carry: years 1 to 9999 in a zone within a day.\<close>

definition yearInRange :: "TimeEnv \<Rightarrow> gotime \<Rightarrow> bool" where
  "yearInRange te t \<longleftrightarrow>
     \<bar>te_zone te t\<bar> < 1440 \<and> 0 \<le> t + te_zone te t * 60 * Second \<and>
     t + te_zone te t * 60 * Second < 315537897600 * Second"

definition printable :: "TimeEnv \<Rightarrow> gotime \<Rightarrow> bool" where
  "printable te t \<longleftrightarrow> t \<noteq> 0 \<and> yearInRange te t"

text \<open>\<^verbatim>\<open>Time.MarshalJSON\<close> refuses years it cannot print in four digits.\<close>

definition encTime :: "TimeEnv \<Rightarrow> gotime \<Rightarrow> gov_error + json" where
  "encTime te t =
     (if yearInRange te t then Inr (JString (fmtRFC3339Nano (te_zone te t) t))
      else Inl (ErrJSON ''Time.MarshalJSON: year outside of range [0,9999]''))"

definition mustParseTime :: "string \<Rightarrow> gov_error + gotime" where
  "mustParseTime s =
     (case parseRFC3339Nano s of
        Some t \<Rightarrow> Inr t
      | None \<Rightarrow> Inl (ErrPanic (''persistence: invalid timestamp in JSONB: '' @ s)))"

definition decTime :: "json \<Rightarrow> gov_error + gotime" where
  "decTime j =
     (case j of
        JNull \<Rightarrow> Inr 0
      | JString s \<Rightarrow> (case parseRFC3339Nano s of Some t \<Rightarrow> Inr t | None \<Rightarrow> Inl (ErrJSON ''time''))
      | _ \<Rightarrow> Inl (ErrJSON ''time''))"

lemma printable_parse: "printable te t \<Longrightarrow> parseRFC3339Nano (fmtRFC3339Nano (te_zone te t) t) = Some t"
  by (simp add: printable_def yearInRange_def parse_fmt)

lemma mustParseTime_fmt: "printable te t \<Longrightarrow> mustParseTime (fmtRFC3339Nano (te_zone te t) t) = Inr t"
  by (simp add: mustParseTime_def printable_parse)

lemma decTime_encTime: "encTime te t = Inr j \<Longrightarrow> decTime j = Inr t"
  by (auto simp: decTime_def encTime_def yearInRange_def parse_fmt split: if_splits)

text \<open>\<^verbatim>\<open>INTEGER\<close> columns hold 32 bits; the driver refuses a larger value.\<close>

definition int4 :: "int \<Rightarrow> gov_error + int" where
  "int4 i = (if - (2 ^ 31) \<le> i \<and> i < 2 ^ 31 then Inr i else Inl (ErrDB ''integer out of range''))"

section \<open>tasks\<close>

record taskRow =
  tk_id :: string
  tk_parent_task_id :: "string option"
  tk_type :: string
  tk_title :: string
  tk_scope :: string
  tk_priority :: string
  tk_risk_level :: string
  tk_status :: string
  tk_metadata :: json
  tk_created_at :: gotime
  tk_updated_at :: gotime

definition encTask :: "TimeEnv \<Rightarrow> Task \<Rightarrow> taskRow" where
  "encTask te t =
     \<lparr>tk_id = t_id t, tk_parent_task_id = t_parentTaskID t, tk_type = TaskType_String (t_taskType t),
      tk_title = t_title t, tk_scope = TaskScope_String (t_scope t),
      tk_priority = Priority_String (t_priority t), tk_risk_level = RiskLevel_String (t_riskLevel t),
      tk_status = TaskStatus_String (t_status t), tk_metadata = encMap (t_metadata t),
      tk_created_at = te_pgTime te (t_createdAt t), tk_updated_at = te_pgTime te (t_updatedAt t)\<rparr>"

definition scanTask :: "taskRow \<Rightarrow> gov_error + Task" where
  "scanTask r =
     andThen (wrapErr ''unmarshaling task metadata'' (decMap (tk_metadata r))) (\<lambda>metadata.
     Inr (Reconstruct (tk_id r) (tk_parent_task_id r) (TaskType (tk_type r)) (tk_title r)
            (TaskScope (tk_scope r)) (Priority (tk_priority r)) (RiskLevel (tk_risk_level r))
            (TaskStatus (tk_status r)) metadata (tk_created_at r) (tk_updated_at r)))"

text \<open>What comes back: the same task with the dynamic values as JSON gives them and stored times.\<close>

definition storedTask :: "TimeEnv \<Rightarrow> Task \<Rightarrow> Task" where
  "storedTask te t =
     t\<lparr>t_metadata := (\<lambda>k. map_option asDecoded (t_metadata t k)),
       t_createdAt := te_pgTime te (t_createdAt t), t_updatedAt := te_pgTime te (t_updatedAt t)\<rparr>"

lemma scanTask_encTask: "scanTask (encTask te t) = Inr (storedTask te t)"
  by (simp add: scanTask_def encTask_def storedTask_def decMap_encMap Reconstruct_def)

section \<open>routing_decisions\<close>

definition encAdjustment :: "AdaptiveAdjustment \<Rightarrow> json" where
  "encAdjustment a =
     jObj [(''raw_adjustment'', JNum (aa_RawAdjustment a)), (''confidence'', JNum (aa_Confidence a)),
           (''final_adjustment'', JNum (aa_FinalAdjustment a)), (''failure_rate'', JNum (aa_FailureRate a)),
           (''sample_size'', JNum (of_int (aa_SampleSize a))), (''granularity'', JString (aa_Granularity a)),
           (''window'', JString (aa_Window a))]"

definition decAdjustment :: "json \<Rightarrow> gov_error + AdaptiveAdjustment" where
  "decAdjustment =
     decStruct (\<lambda>f.
       andThen (decFloat (f ''raw_adjustment'')) (\<lambda>raw.
       andThen (decFloat (f ''confidence'')) (\<lambda>conf.
       andThen (decFloat (f ''final_adjustment'')) (\<lambda>fin.
       andThen (decFloat (f ''failure_rate'')) (\<lambda>rate.
       andThen (decInt (f ''sample_size'')) (\<lambda>n.
       andThen (decString (f ''granularity'')) (\<lambda>g.
       andThen (decString (f ''window'')) (\<lambda>w.
       Inr \<lparr>aa_RawAdjustment = raw, aa_Confidence = conf, aa_FinalAdjustment = fin, aa_FailureRate = rate,
            aa_SampleSize = n, aa_Granularity = g, aa_Window = w\<rparr>))))))))"

definition encEvaluation :: "StrategyEvaluation \<Rightarrow> json" where
  "encEvaluation e =
     jObj ([(''strategy'', JString (RoutingStrategy_String (se_Strategy e))), (''score'', JNum (se_Score e)),
            (''adjusted_score'', JNum (se_AdjustedScore e)), (''factor_scores'', encFloats (se_FactorScores e)),
            (''overridden'', JBool (se_Overridden e)), (''reason'', JString (se_Reason e))]
           @ omitEmpty ''adaptive_adjustment'' encAdjustment (se_AdaptiveAdjustment e))"

definition decEvaluation :: "json \<Rightarrow> gov_error + StrategyEvaluation" where
  "decEvaluation =
     decStruct (\<lambda>f.
       andThen (decString (f ''strategy'')) (\<lambda>s.
       andThen (decFloat (f ''score'')) (\<lambda>sc.
       andThen (decFloat (f ''adjusted_score'')) (\<lambda>adj.
       andThen (decFloats (f ''factor_scores'')) (\<lambda>fs.
       andThen (decBool (f ''overridden'')) (\<lambda>ov.
       andThen (decString (f ''reason'')) (\<lambda>r.
       andThen (decPtr decAdjustment (f ''adaptive_adjustment'')) (\<lambda>aa.
       Inr \<lparr>se_Strategy = RoutingStrategy s, se_Score = sc, se_AdjustedScore = adj, se_FactorScores = fs,
            se_Overridden = ov, se_Reason = r, se_AdaptiveAdjustment = aa\<rparr>))))))))"

definition encRoutingConstraint :: "RoutingConstraint \<Rightarrow> json" where
  "encRoutingConstraint c = jObj [(''type'', JString (rc_Type c)), (''value'', JString (rc_Value c))]"

definition decRoutingConstraint :: "json \<Rightarrow> gov_error + RoutingConstraint" where
  "decRoutingConstraint =
     decStruct (\<lambda>f.
       andThen (decString (f ''type'')) (\<lambda>ty.
       andThen (decString (f ''value'')) (\<lambda>v.
       Inr \<lparr>rc_Type = ty, rc_Value = v\<rparr>)))"

record routingRow =
  rt_id :: string
  rt_task_id :: string
  rt_evaluated_strategies :: json
  rt_selected_strategy :: string
  rt_selected_agent_role :: string
  rt_reason :: string
  rt_constraints :: json
  rt_created_at :: gotime

definition encRoutingDecision :: "TimeEnv \<Rightarrow> RoutingDecision \<Rightarrow> routingRow" where
  "encRoutingDecision te rd =
     \<lparr>rt_id = rd_id rd, rt_task_id = rd_taskID rd,
      rt_evaluated_strategies = JArr (map encEvaluation (rd_evaluatedStrategies rd)),
      rt_selected_strategy = RoutingStrategy_String (rd_selectedStrategy rd),
      rt_selected_agent_role = AgentRole_String (rd_selectedAgentRole rd),
      rt_reason = rd_reason rd, rt_constraints = JArr (map encRoutingConstraint (rd_constraints rd)),
      rt_created_at = te_pgTime te (rd_createdAt rd)\<rparr>"

definition scanRoutingDecision :: "routingRow \<Rightarrow> gov_error + RoutingDecision" where
  "scanRoutingDecision r =
     andThen (wrapErr ''unmarshaling evaluated strategies'' (decSlice decEvaluation (rt_evaluated_strategies r))) (\<lambda>evals.
     andThen (wrapErr ''unmarshaling routing constraints'' (decSlice decRoutingConstraint (rt_constraints r))) (\<lambda>cs.
     Inr (ReconstructRoutingDecision (rt_id r) (rt_task_id r) evals (RoutingStrategy (rt_selected_strategy r))
            (AgentRole (rt_selected_agent_role r)) (rt_reason r) cs (rt_created_at r))))"

text \<open>Values a float column or an \<^verbatim>\<open>int\<close> can carry exactly.\<close>

definition adjustmentExact :: "AdaptiveAdjustment \<Rightarrow> bool" where
  "adjustmentExact a \<longleftrightarrow>
     rnd64 (aa_RawAdjustment a) = aa_RawAdjustment a \<and> rnd64 (aa_Confidence a) = aa_Confidence a \<and>
     rnd64 (aa_FinalAdjustment a) = aa_FinalAdjustment a \<and> rnd64 (aa_FailureRate a) = aa_FailureRate a \<and>
     - (2 ^ 63) \<le> aa_SampleSize a \<and> aa_SampleSize a < 2 ^ 63"

definition evaluationExact :: "StrategyEvaluation \<Rightarrow> bool" where
  "evaluationExact e \<longleftrightarrow>
     rnd64 (se_Score e) = se_Score e \<and> rnd64 (se_AdjustedScore e) = se_AdjustedScore e \<and>
     (\<forall>r\<in>ran (se_FactorScores e). rnd64 r = r) \<and> pred_option adjustmentExact (se_AdaptiveAdjustment e)"

lemma decAdjustment_enc: "adjustmentExact a \<Longrightarrow> decAdjustment (encAdjustment a) = Inr a"
  by (simp add: decAdjustment_def encAdjustment_def adjustmentExact_def)

lemma decPtr_encAdjustment: "adjustmentExact a \<Longrightarrow> decPtr decAdjustment (encAdjustment a) = Inr (Some a)"
  using decAdjustment_enc [of a] by (simp add: encAdjustment_def)

lemma decEvaluation_enc: "evaluationExact e \<Longrightarrow> decEvaluation (encEvaluation e) = Inr e"
  by (cases "se_AdaptiveAdjustment e")
     (simp_all add: decEvaluation_def encEvaluation_def evaluationExact_def decFloats_encFloats omitEmpty_def
        decPtr_encAdjustment)

lemma decRoutingConstraint_enc: "decRoutingConstraint (encRoutingConstraint c) = Inr c"
  by (simp add: decRoutingConstraint_def encRoutingConstraint_def)

lemma scanRoutingDecision_enc:
  assumes "\<forall>e\<in>set (rd_evaluatedStrategies rd). evaluationExact e"
  shows "scanRoutingDecision (encRoutingDecision te rd) = Inr (rd\<lparr>rd_createdAt := te_pgTime te (rd_createdAt rd)\<rparr>)"
proof -
  have "mapE decEvaluation (map encEvaluation (rd_evaluatedStrategies rd)) = Inr (rd_evaluatedStrategies rd)"
    by (rule mapE_id) (simp add: decEvaluation_enc assms)
  moreover have "mapE decRoutingConstraint (map encRoutingConstraint (rd_constraints rd)) = Inr (rd_constraints rd)"
    by (rule mapE_id) (simp add: decRoutingConstraint_enc)
  ultimately show ?thesis
    by (simp add: scanRoutingDecision_def encRoutingDecision_def ReconstructRoutingDecision_def)
qed

section \<open>policy_decisions\<close>

definition policyOutcomeToString :: "PolicyOutcome \<Rightarrow> string" where
  "policyOutcomeToString oc = PolicyOutcome_String oc"

definition policyOutcomeFromString :: "string \<Rightarrow> PolicyOutcome" where
  "policyOutcomeFromString s =
     (if s = ''allow'' then OutcomeAllow
      else if s = ''allow_with_constraints'' then OutcomeAllowWithConstraints
      else if s = ''require_approval'' then OutcomeRequireApproval
      else if s = ''deny'' then OutcomeDeny
      else OutcomeAllow)"

definition encPolicyConstraint :: "PolicyConstraint \<Rightarrow> json" where
  "encPolicyConstraint c =
     jObj [(''Type'', JString (pc_Type c)), (''Value'', JString (pc_Value c)), (''Reason'', JString (pc_Reason c))]"

definition decPolicyConstraint :: "json \<Rightarrow> gov_error + PolicyConstraint" where
  "decPolicyConstraint =
     decStruct (\<lambda>f.
       andThen (decString (f ''Type'')) (\<lambda>ty.
       andThen (decString (f ''Value'')) (\<lambda>v.
       andThen (decString (f ''Reason'')) (\<lambda>r.
       Inr \<lparr>pc_Type = ty, pc_Value = v, pc_Reason = r\<rparr>))))"

definition encApprovalRequirement :: "ApprovalRequirement \<Rightarrow> json" where
  "encApprovalRequirement ar =
     jObj [(''ApproverRole'', JString (ar_ApproverRole ar)), (''Reason'', JString (ar_Reason ar)),
           (''TimeoutSecs'', encPtr (\<lambda>i. JNum (of_int i)) (ar_TimeoutSecs ar))]"

definition decApprovalRequirement :: "json \<Rightarrow> gov_error + ApprovalRequirement" where
  "decApprovalRequirement =
     decStruct (\<lambda>f.
       andThen (decString (f ''ApproverRole'')) (\<lambda>role.
       andThen (decString (f ''Reason'')) (\<lambda>r.
       andThen (decPtr decInt (f ''TimeoutSecs'')) (\<lambda>secs.
       Inr \<lparr>ar_ApproverRole = role, ar_Reason = r, ar_TimeoutSecs = secs\<rparr>))))"

definition encRuleEvaluation :: "RuleEvaluation \<Rightarrow> json" where
  "encRuleEvaluation e =
     jObj ([(''rule_id'', JString (re_RuleID e)), (''passed'', JBool (re_Passed e)), (''reason'', JString (re_Reason e))]
           @ omitEmpty ''outcome'' (\<lambda>oc. JString (PolicyOutcome_String oc)) (re_Outcome e))"

definition decRuleEvaluation :: "json \<Rightarrow> gov_error + RuleEvaluation" where
  "decRuleEvaluation =
     decStruct (\<lambda>f.
       andThen (decString (f ''rule_id'')) (\<lambda>i.
       andThen (decBool (f ''passed'')) (\<lambda>p.
       andThen (decPtr decString (f ''outcome'')) (\<lambda>oc.
       andThen (decString (f ''reason'')) (\<lambda>r.
       Inr \<lparr>re_RuleID = i, re_Passed = p, re_Outcome = map_option policyOutcomeFromString oc, re_Reason = r\<rparr>)))))"

definition marshalRuleEvaluations :: "RuleEvaluation list \<Rightarrow> json" where
  "marshalRuleEvaluations evals = JArr (map encRuleEvaluation evals)"

definition unmarshalRuleEvaluations :: "json \<Rightarrow> gov_error + RuleEvaluation list" where
  "unmarshalRuleEvaluations data =
     wrapErr ''unmarshaling rule evaluations'' (decSlice decRuleEvaluation data)"

record policyRow =
  po_id :: string
  po_task_id :: string
  po_evaluated_action :: string
  po_outcome :: string
  po_constraints :: json
  po_approval_requirement :: "json option"
  po_rules_evaluated :: json
  po_reason :: string
  po_created_at :: gotime

definition encPolicyDecision :: "TimeEnv \<Rightarrow> PolicyDecision \<Rightarrow> policyRow" where
  "encPolicyDecision te pd =
     \<lparr>po_id = pd_id pd, po_task_id = pd_taskID pd, po_evaluated_action = pd_evaluatedAction pd,
      po_outcome = policyOutcomeToString (pd_outcome pd),
      po_constraints = JArr (map encPolicyConstraint (pd_constraints pd)),
      po_approval_requirement = map_option encApprovalRequirement (pd_approvalRequirement pd),
      po_rules_evaluated = marshalRuleEvaluations (pd_rulesEvaluated pd),
      po_reason = pd_reason pd, po_created_at = te_pgTime te (pd_createdAt pd)\<rparr>"

definition scanPolicyDecision :: "policyRow \<Rightarrow> gov_error + PolicyDecision" where
  "scanPolicyDecision r =
     andThen (wrapErr ''unmarshaling policy constraints'' (decSlice decPolicyConstraint (po_constraints r))) (\<lambda>cs.
     andThen (case po_approval_requirement r of
                None \<Rightarrow> Inr None
              | Some j \<Rightarrow> andThen (wrapErr ''unmarshaling approval requirement'' (decApprovalRequirement j)) (\<lambda>ar. Inr (Some ar))) (\<lambda>ar.
     andThen (unmarshalRuleEvaluations (po_rules_evaluated r)) (\<lambda>evals.
     Inr (ReconstructPolicyDecision (po_id r) (po_task_id r) (po_evaluated_action r)
            (policyOutcomeFromString (po_outcome r)) cs ar evals (po_reason r) (po_created_at r)))))"

definition knownOutcome :: "PolicyOutcome \<Rightarrow> bool" where
  "knownOutcome oc \<longleftrightarrow> oc \<in> {OutcomeAllow, OutcomeAllowWithConstraints, OutcomeRequireApproval, OutcomeDeny}"

definition policyExact :: "PolicyDecision \<Rightarrow> bool" where
  "policyExact pd \<longleftrightarrow>
     knownOutcome (pd_outcome pd) \<and>
     (\<forall>e\<in>set (pd_rulesEvaluated pd). pred_option knownOutcome (re_Outcome e)) \<and>
     pred_option (\<lambda>ar. pred_option (\<lambda>i. - (2 ^ 63) \<le> i \<and> i < 2 ^ 63) (ar_TimeoutSecs ar)) (pd_approvalRequirement pd)"

lemma policyOutcome_roundtrip: "knownOutcome oc \<Longrightarrow> policyOutcomeFromString (PolicyOutcome_String oc) = oc"
  by (auto simp: knownOutcome_def policyOutcomeFromString_def PolicyOutcome_String_def outcomeNames_def)

lemma decPolicyConstraint_enc: "decPolicyConstraint (encPolicyConstraint c) = Inr c"
  by (simp add: decPolicyConstraint_def encPolicyConstraint_def)

lemma decRuleEvaluation_enc: "pred_option knownOutcome (re_Outcome e) \<Longrightarrow> decRuleEvaluation (encRuleEvaluation e) = Inr e"
  by (cases "re_Outcome e")
     (simp_all add: decRuleEvaluation_def encRuleEvaluation_def omitEmpty_def policyOutcome_roundtrip)

lemma decApprovalRequirement_enc:
  "pred_option (\<lambda>i. - (2 ^ 63) \<le> i \<and> i < 2 ^ 63) (ar_TimeoutSecs ar) \<Longrightarrow>
   decApprovalRequirement (encApprovalRequirement ar) = Inr ar"
  by (cases "ar_TimeoutSecs ar") (simp_all add: decApprovalRequirement_def encApprovalRequirement_def encPtr_def)

lemma scanPolicyDecision_enc:
  assumes "policyExact pd"
  shows "scanPolicyDecision (encPolicyDecision te pd) = Inr (pd\<lparr>pd_createdAt := te_pgTime te (pd_createdAt pd)\<rparr>)"
proof -
  have "mapE decPolicyConstraint (map encPolicyConstraint (pd_constraints pd)) = Inr (pd_constraints pd)"
    by (rule mapE_id) (simp add: decPolicyConstraint_enc)
  moreover have "mapE decRuleEvaluation (map encRuleEvaluation (pd_rulesEvaluated pd)) = Inr (pd_rulesEvaluated pd)"
    by (rule mapE_id) (use assms in \<open>simp add: policyExact_def decRuleEvaluation_enc\<close>)
  ultimately show ?thesis
    using assms
    by (cases "pd_approvalRequirement pd")
       (simp_all add: scanPolicyDecision_def encPolicyDecision_def ReconstructPolicyDecision_def policyExact_def
          marshalRuleEvaluations_def unmarshalRuleEvaluations_def policyOutcomeToString_def policyOutcome_roundtrip
          decApprovalRequirement_enc)
qed

section \<open>workflow_runs\<close>

definition encTransition :: "TimeEnv \<Rightarrow> WorkflowTransition \<Rightarrow> json" where
  "encTransition te t =
     jObj [(''from'', JString (WorkflowStatus_String (tr_From t))), (''to'', JString (WorkflowStatus_String (tr_To t))),
           (''reason'', JString (tr_Reason t)), (''actor'', JString (tr_Actor t)),
           (''timestamp'', JString (fmtRFC3339Nano (te_zone te (tr_Timestamp t)) (tr_Timestamp t)))]"

definition decTransition :: "json \<Rightarrow> gov_error + (string \<times> string \<times> string \<times> string \<times> string)" where
  "decTransition =
     decStruct (\<lambda>f.
       andThen (decString (f ''from'')) (\<lambda>from.
       andThen (decString (f ''to'')) (\<lambda>to.
       andThen (decString (f ''reason'')) (\<lambda>r.
       andThen (decString (f ''actor'')) (\<lambda>a.
       andThen (decString (f ''timestamp'')) (\<lambda>ts.
       Inr (from, to, r, a, ts)))))))"

definition marshalTransitions :: "TimeEnv \<Rightarrow> WorkflowTransition list \<Rightarrow> json" where
  "marshalTransitions te ts = JArr (map (encTransition te) ts)"

definition unmarshalTransition :: "string \<times> string \<times> string \<times> string \<times> string \<Rightarrow> gov_error + WorkflowTransition" where
  "unmarshalTransition item =
     (case item of (from, to, r, a, ts) \<Rightarrow>
        andThen (mustParseTime ts) (\<lambda>t.
        andThen (wrapErr ''parsing transition timestamp'' (NewTimestamp t)) (\<lambda>t.
        Inr \<lparr>tr_From = WorkflowStatus from, tr_To = WorkflowStatus to, tr_Reason = r, tr_Actor = a, tr_Timestamp = t\<rparr>)))"

definition unmarshalTransitions :: "json \<Rightarrow> gov_error + WorkflowTransition list" where
  "unmarshalTransitions data =
     andThen (wrapErr ''unmarshaling transitions'' (decSlice decTransition data)) (mapE unmarshalTransition)"

record workflowRow =
  wr_id :: string
  wr_task_id :: string
  wr_status :: string
  wr_routing_decision_id :: "string option"
  wr_policy_decision_id :: "string option"
  wr_current_step_index :: int
  wr_transitions :: json
  wr_created_at :: gotime
  wr_updated_at :: gotime

definition encWorkflowRun :: "TimeEnv \<Rightarrow> WorkflowRun \<Rightarrow> gov_error + workflowRow" where
  "encWorkflowRun te w =
     andThen (int4 (w_CurrentStepIndex w)) (\<lambda>step.
     Inr \<lparr>wr_id = w_ID w, wr_task_id = w_TaskID w, wr_status = WorkflowStatus_String (w_Status w),
          wr_routing_decision_id = w_RoutingDecisionID w, wr_policy_decision_id = w_PolicyDecisionID w,
          wr_current_step_index = step, wr_transitions = marshalTransitions te (w_Transitions w),
          wr_created_at = te_pgTime te (w_CreatedAt w), wr_updated_at = te_pgTime te (w_UpdatedAt w)\<rparr>)"

definition scanWorkflowRun :: "workflowRow \<Rightarrow> gov_error + WorkflowRun" where
  "scanWorkflowRun r =
     andThen (unmarshalTransitions (wr_transitions r)) (\<lambda>transitions.
     Inr (ReconstructWorkflowRun (wr_id r) (wr_task_id r) (WorkflowStatus (wr_status r))
            (wr_routing_decision_id r) (wr_policy_decision_id r) (wr_current_step_index r) transitions
            (wr_created_at r) (wr_updated_at r)))"

definition historyPrintable :: "TimeEnv \<Rightarrow> WorkflowRun \<Rightarrow> bool" where
  "historyPrintable te w \<longleftrightarrow> (\<forall>t\<in>set (w_Transitions w). printable te (tr_Timestamp t))"

lemma unmarshal_marshal_transitions:
  assumes "\<forall>t\<in>set ts. printable te (tr_Timestamp t)"
  shows "unmarshalTransitions (marshalTransitions te ts) = Inr ts"
proof -
  let ?item = "\<lambda>t. (WorkflowStatus_String (tr_From t), WorkflowStatus_String (tr_To t), tr_Reason t, tr_Actor t,
    fmtRFC3339Nano (te_zone te (tr_Timestamp t)) (tr_Timestamp t))"
  have "mapE decTransition (map (encTransition te) ts) = Inr (map ?item ts)"
    by (rule mapE_map) (simp add: decTransition_def encTransition_def)
  moreover have "mapE unmarshalTransition (map ?item ts) = Inr ts"
  proof (rule mapE_id)
    fix t assume "t \<in> set ts"
    then have "printable te (tr_Timestamp t)" using assms by blast
    then show "unmarshalTransition (?item t) = Inr t"
      by (simp add: unmarshalTransition_def mustParseTime_fmt NewTimestamp_def printable_def)
  qed
  ultimately show ?thesis by (simp add: unmarshalTransitions_def marshalTransitions_def)
qed

lemma scanWorkflowRun_enc:
  assumes "encWorkflowRun te w = Inr r" "historyPrintable te w"
  shows "scanWorkflowRun r = Inr (w\<lparr>w_CreatedAt := te_pgTime te (w_CreatedAt w), w_UpdatedAt := te_pgTime te (w_UpdatedAt w)\<rparr>)"
  using assms
  by (auto simp: encWorkflowRun_def scanWorkflowRun_def historyPrintable_def unmarshal_marshal_transitions
      ReconstructWorkflowRun_def andThen_Inr int4_def split: if_splits)

section \<open>execution_leases\<close>

text \<open>\<^verbatim>\<open>Duration.Milliseconds\<close> truncates toward zero.\<close>

definition Milliseconds :: "duration \<Rightarrow> int" where
  "Milliseconds d = sgn d * (\<bar>d\<bar> div Millisecond)"

record leaseRow =
  lr_id :: string
  lr_workflow_run_id :: string
  lr_timeout_budget_ms :: int
  lr_retry_budget :: int
  lr_attempts_used :: int
  lr_time_elapsed_ms :: int
  lr_status :: string
  lr_created_at :: gotime

definition encLease :: "TimeEnv \<Rightarrow> ExecutionLease \<Rightarrow> gov_error + leaseRow" where
  "encLease te l =
     andThen (int4 (rb_MaxAttempts (l_RetryBudget l))) (\<lambda>budget.
     andThen (int4 (l_AttemptsUsed l)) (\<lambda>used.
     Inr \<lparr>lr_id = l_ID l, lr_workflow_run_id = l_WorkflowRunID l,
          lr_timeout_budget_ms = Milliseconds (l_TimeoutBudget l), lr_retry_budget = budget,
          lr_attempts_used = used, lr_time_elapsed_ms = Milliseconds (l_TimeElapsed l),
          lr_status = LeaseStatus_String (l_Status l), lr_created_at = te_pgTime te (l_CreatedAt l)\<rparr>))"

definition scanExecutionLease :: "leaseRow \<Rightarrow> gov_error + ExecutionLease" where
  "scanExecutionLease r =
     Inr (ReconstructExecutionLease (lr_id r) (lr_workflow_run_id r) (lr_timeout_budget_ms r * Millisecond)
            \<lparr>rb_MaxAttempts = lr_retry_budget r\<rparr> (lr_attempts_used r) (lr_time_elapsed_ms r * Millisecond)
            (LeaseStatus (lr_status r)) (lr_created_at r))"

lemma Milliseconds_exact: "Milliseconds (k * Millisecond) * Millisecond = k * Millisecond"
  by (simp add: Milliseconds_def Millisecond_def abs_mult sgn_mult mult_sgn_abs)

lemma scanExecutionLease_enc:
  assumes "encLease te l = Inr r"
  shows "scanExecutionLease r =
    Inr (l\<lparr>l_TimeoutBudget := Milliseconds (l_TimeoutBudget l) * Millisecond,
           l_TimeElapsed := Milliseconds (l_TimeElapsed l) * Millisecond,
           l_CreatedAt := te_pgTime te (l_CreatedAt l)\<rparr>)"
  using assms
  by (auto simp: encLease_def scanExecutionLease_def ReconstructExecutionLease_def andThen_Inr int4_def split: if_splits)

section \<open>approval_requests\<close>

definition encApproverSpec :: "ApproverSpec \<Rightarrow> json" where
  "encApproverSpec a = jObj [(''Role'', JString (as_Role a)), (''ActorID'', encPtr JString (as_ActorID a))]"

definition decApproverSpec :: "json \<Rightarrow> gov_error + ApproverSpec" where
  "decApproverSpec =
     decStruct (\<lambda>f.
       andThen (decString (f ''Role'')) (\<lambda>role.
       andThen (decPtr decString (f ''ActorID'')) (\<lambda>actor.
       Inr \<lparr>as_Role = role, as_ActorID = actor\<rparr>)))"

definition encResolution :: "TimeEnv \<Rightarrow> ApprovalResolution \<Rightarrow> gov_error + json" where
  "encResolution te res =
     andThen (encTime te (res_ResolvedAt res)) (\<lambda>ts.
     Inr (jObj [(''ResolvedBy'', JString (res_ResolvedBy res)), (''ResolvedAt'', ts),
                (''Reason'', JString (res_Reason res)),
                (''Status'', JString (ApprovalStatus_String (res_Status res)))]))"

definition decResolution :: "json \<Rightarrow> gov_error + ApprovalResolution" where
  "decResolution =
     decStruct (\<lambda>f.
       andThen (decString (f ''ResolvedBy'')) (\<lambda>by.
       andThen (decTime (f ''ResolvedAt'')) (\<lambda>ts.
       andThen (decString (f ''Reason'')) (\<lambda>r.
       andThen (decString (f ''Status'')) (\<lambda>st.
       Inr \<lparr>res_ResolvedBy = by, res_ResolvedAt = ts, res_Reason = r, res_Status = ApprovalStatus st\<rparr>)))))"

record approvalRow =
  ap_id :: string
  ap_task_id :: string
  ap_workflow_run_id :: string
  ap_reason :: string
  ap_required_approver :: json
  ap_status :: string
  ap_resolution :: "json option"
  ap_expires_at :: "gotime option"
  ap_created_at :: gotime

text \<open>The JSON of the resolution, as both \<^verbatim>\<open>Save\<close> and \<^verbatim>\<open>Update\<close> make it.\<close>

definition resolutionJSON :: "TimeEnv \<Rightarrow> ApprovalRequest \<Rightarrow> gov_error + json option" where
  "resolutionJSON te req =
     (case a_resolution req of
        None \<Rightarrow> Inr None
      | Some res \<Rightarrow> andThen (wrapErr ''marshaling resolution'' (encResolution te res)) (\<lambda>j. Inr (Some j)))"

definition nullableTimestamp :: "TimeEnv \<Rightarrow> Timestamp option \<Rightarrow> gotime option" where
  "nullableTimestamp te ts = (case ts of None \<Rightarrow> None | Some t \<Rightarrow> Some (te_pgTime te t))"

definition encApproval :: "TimeEnv \<Rightarrow> ApprovalRequest \<Rightarrow> gov_error + approvalRow" where
  "encApproval te req =
     andThen (resolutionJSON te req) (\<lambda>res.
     Inr \<lparr>ap_id = a_id req, ap_task_id = a_taskID req, ap_workflow_run_id = a_workflowRunID req,
          ap_reason = a_reason req, ap_required_approver = encApproverSpec (a_requiredApprover req),
          ap_status = ApprovalStatus_String (a_status req), ap_resolution = res,
          ap_expires_at = nullableTimestamp te (a_expiresAt req), ap_created_at = te_pgTime te (a_createdAt req)\<rparr>)"

definition scanApprovalRequest :: "approvalRow \<Rightarrow> gov_error + ApprovalRequest" where
  "scanApprovalRequest r =
     andThen (wrapErr ''unmarshaling required approver'' (decApproverSpec (ap_required_approver r))) (\<lambda>approver.
     andThen (case ap_resolution r of
                None \<Rightarrow> Inr None
              | Some j \<Rightarrow> andThen (wrapErr ''unmarshaling resolution'' (decResolution j)) (\<lambda>res. Inr (Some res))) (\<lambda>res.
     Inr (ReconstructApprovalRequest (ap_id r) (ap_task_id r) (ap_workflow_run_id r) (ap_reason r) approver
            (ApprovalStatus (ap_status r)) res (ap_expires_at r) (ap_created_at r))))"

lemma decApproverSpec_enc: "decApproverSpec (encApproverSpec a) = Inr a"
  by (cases "as_ActorID a") (simp_all add: decApproverSpec_def encApproverSpec_def encPtr_def)

lemma decResolution_enc: "encResolution te res = Inr j \<Longrightarrow> decResolution j = Inr res"
  by (auto simp: decResolution_def encResolution_def andThen_Inr decTime_encTime)

lemma scanApprovalRequest_enc:
  assumes "encApproval te req = Inr r"
  shows "scanApprovalRequest r =
    Inr (req\<lparr>a_expiresAt := map_option (te_pgTime te) (a_expiresAt req), a_createdAt := te_pgTime te (a_createdAt req)\<rparr>)"
  using assms
  by (cases "a_resolution req"; cases "a_expiresAt req")
     (auto simp: encApproval_def scanApprovalRequest_def resolutionJSON_def nullableTimestamp_def andThen_Inr
        decApproverSpec_enc decResolution_enc ReconstructApprovalRequest_def)

section \<open>escalation_triggers\<close>

definition encCondition :: "EscalationCondition \<Rightarrow> json" where
  "encCondition c = jObj [(''Type'', JString (ec_Type c)), (''Parameters'', encMap (ec_Parameters c))]"

definition decCondition :: "json \<Rightarrow> gov_error + EscalationCondition" where
  "decCondition =
     decStruct (\<lambda>f.
       andThen (decString (f ''Type'')) (\<lambda>ty.
       andThen (decMap (f ''Parameters'')) (\<lambda>ps.
       Inr \<lparr>ec_Type = ty, ec_Parameters = ps\<rparr>)))"

record escalationRow =
  es_id :: string
  es_task_id :: string
  es_condition :: json
  es_target :: string
  es_status :: string
  es_triggered_at :: "gotime option"
  es_created_at :: gotime

definition encEscalation :: "TimeEnv \<Rightarrow> EscalationTrigger \<Rightarrow> escalationRow" where
  "encEscalation te et =
     \<lparr>es_id = e_id et, es_task_id = e_taskID et, es_condition = encCondition (e_condition et),
      es_target = EscalationTarget_String (e_target et), es_status = EscalationStatus_String (e_status et),
      es_triggered_at = map_option (te_pgTime te) (e_triggeredAt et), es_created_at = te_pgTime te (e_createdAt et)\<rparr>"

definition scanEscalationTrigger :: "escalationRow \<Rightarrow> gov_error + EscalationTrigger" where
  "scanEscalationTrigger r =
     andThen (wrapErr ''unmarshaling escalation condition'' (decCondition (es_condition r))) (\<lambda>c.
     Inr (ReconstructEscalationTrigger (es_id r) (es_task_id r) c (EscalationTarget (es_target r))
            (EscalationStatus (es_status r)) (es_triggered_at r) (es_created_at r)))"

lemma scanEscalationTrigger_enc:
  "scanEscalationTrigger (encEscalation te et) =
     Inr (et\<lparr>e_condition := (e_condition et)\<lparr>ec_Parameters := (\<lambda>k. map_option asDecoded (ec_Parameters (e_condition et) k))\<rparr>,
             e_triggeredAt := map_option (te_pgTime te) (e_triggeredAt et), e_createdAt := te_pgTime te (e_createdAt et)\<rparr>)"
  by (simp add: scanEscalationTrigger_def encEscalation_def decCondition_def encCondition_def decMap_encMap
      ReconstructEscalationTrigger_def)

section \<open>audit_entries\<close>

record auditRow =
  au_id :: string
  au_task_id :: "string option"
  au_workflow_run_id :: "string option"
  au_actor :: string
  au_action :: string
  au_outcome :: string
  au_context :: json
  au_created_at :: gotime

definition encAuditEntry :: "TimeEnv \<Rightarrow> AuditEntry \<Rightarrow> auditRow" where
  "encAuditEntry te ae =
     \<lparr>au_id = ae_id ae, au_task_id = ae_taskID ae, au_workflow_run_id = ae_workflowRunID ae,
      au_actor = ae_actor ae, au_action = ae_action ae, au_outcome = ae_outcome ae,
      au_context = encMap (ae_context ae), au_created_at = te_pgTime te (ae_createdAt ae)\<rparr>"

definition scanAuditEntry :: "auditRow \<Rightarrow> gov_error + AuditEntry" where
  "scanAuditEntry r =
     andThen (wrapErr ''unmarshaling audit context'' (decMap (au_context r))) (\<lambda>ctx.
     Inr (ReconstructAuditEntry (au_id r) (au_task_id r) (au_workflow_run_id r) (au_actor r) (au_action r)
            (au_outcome r) ctx (au_created_at r)))"

lemma scanAuditEntry_enc:
  "scanAuditEntry (encAuditEntry te ae) =
     Inr (ae\<lparr>ae_context := (\<lambda>k. map_option asDecoded (ae_context ae k)), ae_createdAt := te_pgTime te (ae_createdAt ae)\<rparr>)"
  by (simp add: scanAuditEntry_def encAuditEntry_def decMap_encMap ReconstructAuditEntry_def)

section \<open>phase_decisions and phase_approvals\<close>

record PhaseDecisionRecord =
  pdr_ID :: string
  pdr_ChangeID :: string
  pdr_PhaseType :: string
  pdr_Capability :: string
  pdr_Sensitive :: bool
  pdr_Decision :: string
  pdr_AgentRole :: string
  pdr_Strategy :: string
  pdr_Reason :: string
  pdr_CreatedAt :: gotime

record PhaseApprovalRecord =
  par_ChangeID :: string
  par_PhaseID :: string
  par_Status :: string
  par_Reason :: string
  par_DecidedBy :: string
  par_DecidedAt :: "gotime option"
  par_CreatedAt :: gotime

record phaseDecisionRow =
  ph_id :: string
  ph_change_id :: string
  ph_phase_type :: string
  ph_capability :: "string option"
  ph_sensitive :: bool
  ph_decision :: string
  ph_agent_role :: "string option"
  ph_strategy :: "string option"
  ph_reason :: string
  ph_created_at :: gotime

record phaseApprovalRow =
  pa_change_id :: string
  pa_phase_id :: string
  pa_status :: string
  pa_reason :: "string option"
  pa_decided_by :: "string option"
  pa_decided_at :: "gotime option"
  pa_created_at :: gotime

definition nullIfEmpty :: "string \<Rightarrow> string option" where
  "nullIfEmpty s = (if s = [] then None else Some s)"

definition encPhaseDecision :: "TimeEnv \<Rightarrow> PhaseDecisionRecord \<Rightarrow> phaseDecisionRow" where
  "encPhaseDecision te rec =
     \<lparr>ph_id = pdr_ID rec, ph_change_id = pdr_ChangeID rec, ph_phase_type = pdr_PhaseType rec,
      ph_capability = nullIfEmpty (pdr_Capability rec), ph_sensitive = pdr_Sensitive rec,
      ph_decision = pdr_Decision rec, ph_agent_role = nullIfEmpty (pdr_AgentRole rec),
      ph_strategy = nullIfEmpty (pdr_Strategy rec), ph_reason = pdr_Reason rec,
      ph_created_at = te_pgTime te (pdr_CreatedAt rec)\<rparr>"

definition scanPhaseApproval :: "phaseApprovalRow \<Rightarrow> PhaseApprovalRecord" where
  "scanPhaseApproval r =
     \<lparr>par_ChangeID = pa_change_id r, par_PhaseID = pa_phase_id r, par_Status = pa_status r,
      par_Reason = (case pa_reason r of None \<Rightarrow> [] | Some s \<Rightarrow> s),
      par_DecidedBy = (case pa_decided_by r of None \<Rightarrow> [] | Some s \<Rightarrow> s),
      par_DecidedAt = pa_decided_at r, par_CreatedAt = pa_created_at r\<rparr>"

end
