(* ===== verification/Database.thy ===== *)
theory Database
  imports Rows Resilience "HOL-Library.Multiset"
begin

text \<open>
  The database and everything else the services act on. The tables hold rows in the order they were
  inserted; the statements of the repositories are functions on the tables with the constraints of the
  migrations (primary keys, foreign keys, the unique index on a lease's workflow run). PostgreSQL, the
  clock, the identifier generator, the memory engine and the registered callbacks are parameters, the
  fields of \<open>Env\<close>:

  \<^item> \<open>env_fault n\<close> is the fate of the \<open>n\<close>-th statement: carried out, refused, or carried out with the
    answer lost, so that the program sees an error although the change was made;
  \<^item> \<open>env_pick n\<close> and \<open>env_rank n\<close> choose the row and the order of rows where a statement leaves them open;
  \<^item> \<open>env_now n\<close> and \<open>env_ulid n\<close> are the \<open>n\<close>-th reading of the clock and the \<open>n\<close>-th identifier;
  \<^item> \<open>env_memory\<close> is the memory provider, absent when nil;
  \<^item> \<open>env_callback\<close> is the outcome of the registered callback for a notification, absent when none is
    registered; a callback does not call back into the services;
  \<^item> \<open>env_adaptive\<close> and \<open>env_otel\<close> are the two switches of the configuration.
\<close>

datatype fault = Done | Refused | Lost

record DB =
  db_tasks :: "taskRow list"
  db_routings :: "routingRow list"
  db_policies :: "policyRow list"
  db_workflows :: "workflowRow list"
  db_leases :: "leaseRow list"
  db_approvals :: "approvalRow list"
  db_escalations :: "escalationRow list"
  db_audits :: "auditRow list"
  db_phaseDecisions :: "phaseDecisionRow list"
  db_phaseApprovals :: "phaseApprovalRow list"

datatype Notification =
    ExecutionReady WorkflowRun ExecutionLease
  | ApprovalRequired WorkflowRun ApprovalRequest
  | WorkflowTerminated WorkflowRun string

datatype MetricEvent =
    TasksCompleted string
  | WorkflowDuration string rat
  | ExecutionFailures string string bool
  | ApprovalWait string rat
  | BreakerTransitions string string string string
  | BreakerTrips string string string
  | TasksSubmitted string string string
  | RoutingDuration string string rat
  | PolicyDuration string rat
  | PolicyOutcomes string
  | WorkflowTransitions string
  | ExecutionAttempts "(string \<times> string) list"

record World =
  db :: DB
  breakerRegistry :: breakers
  statsStore :: "FailureStats option"
  notified :: "Notification list"
  metered :: "MetricEvent list"
  n_stmt :: nat
  n_now :: nat
  n_id :: nat
  n_mem :: nat

record Env = TimeEnv +
  env_fault :: "nat \<Rightarrow> fault"
  env_pick :: "nat \<Rightarrow> nat"
  env_rank :: "nat \<Rightarrow> nat \<Rightarrow> nat"
  env_now :: "nat \<Rightarrow> gotime"
  env_ulid :: "nat \<Rightarrow> string"
  env_memory :: "(nat \<Rightarrow> TaskID \<Rightarrow> string \<Rightarrow> gov_error + MemoryContext option) option"
  env_callback :: "Notification \<Rightarrow> (gov_error + unit) option"
  env_adaptive :: bool
  env_otel :: bool

abbreviation te :: "Env \<Rightarrow> TimeEnv" where
  "te env \<equiv> TimeEnv.truncate env"

section \<open>Statements\<close>

text \<open>
  \<^verbatim>\<open>pool.Exec\<close>: a statement that changes the tables, or is refused because of a constraint.
\<close>

definition exec :: "Env \<Rightarrow> (DB \<Rightarrow> gov_error + DB) \<Rightarrow> (World, unit) go" where
  "exec env stmt s =
     (let n = n_stmt s; s1 = s\<lparr>n_stmt := Suc n\<rparr>
      in case env_fault env n of
           Refused \<Rightarrow> (Inl (ErrDB ''statement failed''), s1)
         | Done \<Rightarrow> (case stmt (db s) of Inl e \<Rightarrow> (Inl e, s1) | Inr d \<Rightarrow> (Inr (), s1\<lparr>db := d\<rparr>))
         | Lost \<Rightarrow> (case stmt (db s) of Inl e \<Rightarrow> (Inl e, s1) | Inr d \<Rightarrow> (Inl (ErrDB ''connection lost''), s1\<lparr>db := d\<rparr>)))"

text \<open>\<^verbatim>\<open>pool.QueryRow\<close> and \<^verbatim>\<open>Scan\<close>: some matching row, or \<^verbatim>\<open>pgx.ErrNoRows\<close>.\<close>

definition queryRow :: "Env \<Rightarrow> string \<Rightarrow> (DB \<Rightarrow> 'r list) \<Rightarrow> ('r \<Rightarrow> gov_error + 'a) \<Rightarrow> (World, 'a) go" where
  "queryRow env what sel scan s =
     (let n = n_stmt s; s1 = s\<lparr>n_stmt := Suc n\<rparr>; rows = sel (db s)
      in if env_fault env n \<noteq> Done then (Inl (Wrap (''scanning '' @ what) (ErrDB ''statement failed'')), s1)
         else if rows = [] then (Inl (ErrNotFound what), s1)
         else (scan (rows ! (env_pick env n mod length rows)), s1))"

text \<open>\<^verbatim>\<open>pool.Query\<close>: the matching rows in an order the statement leaves open.\<close>

definition shuffle :: "(nat \<Rightarrow> nat) \<Rightarrow> 'r list \<Rightarrow> 'r list" where
  "shuffle rank rows = map snd (sort_key fst (zip (map rank [0..<length rows]) rows))"

definition query :: "Env \<Rightarrow> string \<Rightarrow> (DB \<Rightarrow> 'r list) \<Rightarrow> ('r list \<Rightarrow> gov_error + 'a) \<Rightarrow> (World, 'a) go" where
  "query env what sel scan s =
     (let n = n_stmt s; s1 = s\<lparr>n_stmt := Suc n\<rparr>
      in if env_fault env n \<noteq> Done then (Inl (Wrap what (ErrDB ''statement failed'')), s1)
         else (scan (shuffle (env_rank env n) (sel (db s))), s1))"

lemma mset_shuffle: "mset (shuffle rank rows) = mset rows"
proof -
  have "mset (shuffle rank rows) = image_mset snd (mset (sort_key fst (zip (map rank [0..<length rows]) rows)))"
    by (simp add: shuffle_def)
  also have "\<dots> = mset (map snd (zip (map rank [0..<length rows]) rows))" by (simp only: mset_sort mset_map)
  also have "map snd (zip (map rank [0..<length rows]) rows) = rows" by simp
  finally show ?thesis .
qed

lemma set_shuffle [simp]: "set (shuffle rank rows) = set rows"
  using mset_shuffle [of rank rows] mset_eq_setD by blast

lemma length_shuffle [simp]: "length (shuffle rank rows) = length rows"
  using mset_shuffle [of rank rows] mset_eq_length by blast

section \<open>Clock and identifiers\<close>

text \<open>\<^verbatim>\<open>RealClock.Now\<close>; the instrumentation reads \<^verbatim>\<open>time.Now\<close> directly.\<close>

definition timeNow :: "Env \<Rightarrow> (World, gotime) go" where
  "timeNow env s = (Inr (env_now env (n_now s)), s\<lparr>n_now := Suc (n_now s)\<rparr>)"

definition Now :: "Env \<Rightarrow> (World, Timestamp) go" where
  "Now env = bindE (timeNow env) (\<lambda>t. lift (MustTimestamp t))"

text \<open>\<^verbatim>\<open>ULIDGenerator.generate\<close>: every kind of identifier is the next ULID.\<close>

definition generate :: "Env \<Rightarrow> (World, string) go" where
  "generate env s = (Inr (env_ulid env (n_id s)), s\<lparr>n_id := Suc (n_id s)\<rparr>)"

section \<open>Tables\<close>

definition hasTask :: "DB \<Rightarrow> string \<Rightarrow> bool" where
  "hasTask d i \<longleftrightarrow> i \<in> tk_id ` set (db_tasks d)"
definition hasRouting :: "DB \<Rightarrow> string \<Rightarrow> bool" where
  "hasRouting d i \<longleftrightarrow> i \<in> rt_id ` set (db_routings d)"
definition hasPolicy :: "DB \<Rightarrow> string \<Rightarrow> bool" where
  "hasPolicy d i \<longleftrightarrow> i \<in> po_id ` set (db_policies d)"
definition hasWorkflow :: "DB \<Rightarrow> string \<Rightarrow> bool" where
  "hasWorkflow d i \<longleftrightarrow> i \<in> wr_id ` set (db_workflows d)"

abbreviation duplicateKey :: "gov_error + DB" where
  "duplicateKey \<equiv> Inl (ErrDB ''duplicate key value violates unique constraint'')"
abbreviation foreignKey :: "gov_error + DB" where
  "foreignKey \<equiv> Inl (ErrDB ''insert or update violates foreign key constraint'')"

definition insertTask :: "taskRow \<Rightarrow> DB \<Rightarrow> gov_error + DB" where
  "insertTask r d =
     (if hasTask d (tk_id r) then duplicateKey
      else if \<not> pred_option (\<lambda>p. p = tk_id r \<or> hasTask d p) (tk_parent_task_id r) then foreignKey
      else Inr (d\<lparr>db_tasks := db_tasks d @ [r]\<rparr>))"

definition updateTask :: "string \<Rightarrow> (taskRow \<Rightarrow> taskRow) \<Rightarrow> DB \<Rightarrow> gov_error + DB" where
  "updateTask i f d = Inr (d\<lparr>db_tasks := map (\<lambda>r. if tk_id r = i then f r else r) (db_tasks d)\<rparr>)"

definition insertRouting :: "routingRow \<Rightarrow> DB \<Rightarrow> gov_error + DB" where
  "insertRouting r d =
     (if hasRouting d (rt_id r) then duplicateKey
      else if \<not> hasTask d (rt_task_id r) then foreignKey
      else Inr (d\<lparr>db_routings := db_routings d @ [r]\<rparr>))"

definition insertPolicy :: "policyRow \<Rightarrow> DB \<Rightarrow> gov_error + DB" where
  "insertPolicy r d =
     (if hasPolicy d (po_id r) then duplicateKey
      else if \<not> hasTask d (po_task_id r) then foreignKey
      else Inr (d\<lparr>db_policies := db_policies d @ [r]\<rparr>))"

text \<open>The references of a workflow run to its decisions.\<close>

definition decisionsExist :: "DB \<Rightarrow> workflowRow \<Rightarrow> bool" where
  "decisionsExist d r \<longleftrightarrow>
     pred_option (hasRouting d) (wr_routing_decision_id r) \<and> pred_option (hasPolicy d) (wr_policy_decision_id r)"

definition insertWorkflow :: "workflowRow \<Rightarrow> DB \<Rightarrow> gov_error + DB" where
  "insertWorkflow r d =
     (if hasWorkflow d (wr_id r) then duplicateKey
      else if \<not> hasTask d (wr_task_id r) \<or> \<not> decisionsExist d r then foreignKey
      else Inr (d\<lparr>db_workflows := db_workflows d @ [r]\<rparr>))"

text \<open>The update keeps the columns \<^verbatim>\<open>id\<close>, \<^verbatim>\<open>task_id\<close> and \<^verbatim>\<open>created_at\<close> of the row it finds.\<close>

definition setWorkflow :: "workflowRow \<Rightarrow> workflowRow \<Rightarrow> workflowRow" where
  "setWorkflow new r =
     r\<lparr>wr_status := wr_status new, wr_routing_decision_id := wr_routing_decision_id new,
       wr_policy_decision_id := wr_policy_decision_id new, wr_current_step_index := wr_current_step_index new,
       wr_transitions := wr_transitions new, wr_updated_at := wr_updated_at new\<rparr>"

definition updateWorkflow :: "workflowRow \<Rightarrow> DB \<Rightarrow> gov_error + DB" where
  "updateWorkflow new d =
     (if hasWorkflow d (wr_id new) \<and> \<not> decisionsExist d new then foreignKey
      else Inr (d\<lparr>db_workflows := map (\<lambda>r. if wr_id r = wr_id new then setWorkflow new r else r) (db_workflows d)\<rparr>))"

definition insertLease :: "leaseRow \<Rightarrow> DB \<Rightarrow> gov_error + DB" where
  "insertLease r d =
     (if lr_id r \<in> lr_id ` set (db_leases d) \<or> lr_workflow_run_id r \<in> lr_workflow_run_id ` set (db_leases d)
      then duplicateKey
      else if \<not> hasWorkflow d (lr_workflow_run_id r) then foreignKey
      else Inr (d\<lparr>db_leases := db_leases d @ [r]\<rparr>))"

definition setLease :: "leaseRow \<Rightarrow> leaseRow \<Rightarrow> leaseRow" where
  "setLease new r =
     r\<lparr>lr_timeout_budget_ms := lr_timeout_budget_ms new, lr_retry_budget := lr_retry_budget new,
       lr_attempts_used := lr_attempts_used new, lr_time_elapsed_ms := lr_time_elapsed_ms new,
       lr_status := lr_status new\<rparr>"

definition updateLease :: "leaseRow \<Rightarrow> DB \<Rightarrow> gov_error + DB" where
  "updateLease new d =
     Inr (d\<lparr>db_leases := map (\<lambda>r. if lr_id r = lr_id new then setLease new r else r) (db_leases d)\<rparr>)"

definition insertApproval :: "approvalRow \<Rightarrow> DB \<Rightarrow> gov_error + DB" where
  "insertApproval r d =
     (if ap_id r \<in> ap_id ` set (db_approvals d) then duplicateKey
      else if \<not> hasTask d (ap_task_id r) \<or> \<not> hasWorkflow d (ap_workflow_run_id r) then foreignKey
      else Inr (d\<lparr>db_approvals := db_approvals d @ [r]\<rparr>))"

definition updateApproval :: "string \<Rightarrow> string \<Rightarrow> json option \<Rightarrow> DB \<Rightarrow> gov_error + DB" where
  "updateApproval i status res d =
     Inr (d\<lparr>db_approvals :=
       map (\<lambda>r. if ap_id r = i then r\<lparr>ap_status := status, ap_resolution := res\<rparr> else r) (db_approvals d)\<rparr>)"

definition insertEscalation :: "escalationRow \<Rightarrow> DB \<Rightarrow> gov_error + DB" where
  "insertEscalation r d =
     (if es_id r \<in> es_id ` set (db_escalations d) then duplicateKey
      else if \<not> hasTask d (es_task_id r) then foreignKey
      else Inr (d\<lparr>db_escalations := db_escalations d @ [r]\<rparr>))"

definition updateEscalation :: "string \<Rightarrow> string \<Rightarrow> gotime option \<Rightarrow> DB \<Rightarrow> gov_error + DB" where
  "updateEscalation i status triggered d =
     Inr (d\<lparr>db_escalations :=
       map (\<lambda>r. if es_id r = i then r\<lparr>es_status := status, es_triggered_at := triggered\<rparr> else r) (db_escalations d)\<rparr>)"

definition insertAudit :: "auditRow \<Rightarrow> DB \<Rightarrow> gov_error + DB" where
  "insertAudit r d =
     (if au_id r \<in> au_id ` set (db_audits d) then duplicateKey
      else Inr (d\<lparr>db_audits := db_audits d @ [r]\<rparr>))"

definition insertPhaseDecision :: "phaseDecisionRow \<Rightarrow> DB \<Rightarrow> gov_error + DB" where
  "insertPhaseDecision r d =
     (if ph_id r \<in> ph_id ` set (db_phaseDecisions d) then duplicateKey
      else if ph_decision r \<notin> {''allow'', ''deny'', ''require_approval''}
      then Inl (ErrDB ''new row violates check constraint'')
      else Inr (d\<lparr>db_phaseDecisions := db_phaseDecisions d @ [r]\<rparr>))"

end
