(* ===== verification/Repos.thy ===== *)
theory Repos
  imports Database
begin

text \<open>
  The repositories of \<^verbatim>\<open>internal/adapters/outbound/persistence\<close>, one definition per method, over the
  statements of \<open>Database\<close> and the rows of \<open>Rows\<close>.
\<close>

section \<open>Tasks\<close>

definition TaskSave :: "Env \<Rightarrow> Task \<Rightarrow> (World, unit) go" where
  "TaskSave env t = bindW ''inserting task'' (exec env (insertTask (encTask (te env) t))) ret"

definition TaskFindByID :: "Env \<Rightarrow> TaskID \<Rightarrow> (World, Task) go" where
  "TaskFindByID env i = queryRow env ''task'' (\<lambda>d. filter (\<lambda>r. tk_id r = i) (db_tasks d)) scanTask"

definition TaskFindByParentID :: "Env \<Rightarrow> TaskID \<Rightarrow> (World, Task list) go" where
  "TaskFindByParentID env parent =
     query env ''querying tasks by parent''
       (\<lambda>d. filter (\<lambda>r. tk_parent_task_id r = Some parent) (db_tasks d)) (mapE scanTask)"

definition TaskUpdateStatus :: "Env \<Rightarrow> Task \<Rightarrow> (World, unit) go" where
  "TaskUpdateStatus env t =
     bindW ''updating task status''
       (exec env (updateTask (t_id t)
          (\<lambda>r. r\<lparr>tk_status := TaskStatus_String (t_status t), tk_updated_at := te_pgTime env (t_updatedAt t)\<rparr>))) ret"

section \<open>Decisions\<close>

definition RoutingSave :: "Env \<Rightarrow> RoutingDecision \<Rightarrow> (World, unit) go" where
  "RoutingSave env rd =
     bindW ''inserting routing decision'' (exec env (insertRouting (encRoutingDecision (te env) rd))) ret"

definition RoutingFindByTaskID :: "Env \<Rightarrow> TaskID \<Rightarrow> (World, RoutingDecision) go" where
  "RoutingFindByTaskID env taskID =
     queryRow env ''routing decision'' (\<lambda>d. filter (\<lambda>r. rt_task_id r = taskID) (db_routings d)) scanRoutingDecision"

definition PolicySave :: "Env \<Rightarrow> PolicyDecision \<Rightarrow> (World, unit) go" where
  "PolicySave env pd =
     bindW ''inserting policy decision'' (exec env (insertPolicy (encPolicyDecision (te env) pd))) ret"

definition PolicyFindByTaskID :: "Env \<Rightarrow> TaskID \<Rightarrow> (World, PolicyDecision) go" where
  "PolicyFindByTaskID env taskID =
     queryRow env ''policy decision'' (\<lambda>d. filter (\<lambda>r. po_task_id r = taskID) (db_policies d)) scanPolicyDecision"

section \<open>Workflow runs\<close>

definition WorkflowSave :: "Env \<Rightarrow> WorkflowRun \<Rightarrow> (World, unit) go" where
  "WorkflowSave env w =
     bindW ''inserting workflow run''
       (bindE (lift (encWorkflowRun (te env) w)) (\<lambda>r. exec env (insertWorkflow r))) ret"

definition WorkflowFindByID :: "Env \<Rightarrow> WorkflowRunID \<Rightarrow> (World, WorkflowRun) go" where
  "WorkflowFindByID env i =
     queryRow env ''workflow run'' (\<lambda>d. filter (\<lambda>r. wr_id r = i) (db_workflows d)) scanWorkflowRun"

definition WorkflowFindByTaskID :: "Env \<Rightarrow> TaskID \<Rightarrow> (World, WorkflowRun) go" where
  "WorkflowFindByTaskID env taskID =
     queryRow env ''workflow run'' (\<lambda>d. filter (\<lambda>r. wr_task_id r = taskID) (db_workflows d)) scanWorkflowRun"

definition WorkflowUpdate :: "Env \<Rightarrow> WorkflowRun \<Rightarrow> (World, unit) go" where
  "WorkflowUpdate env w =
     bindW ''updating workflow run''
       (bindE (lift (encWorkflowRun (te env) w)) (\<lambda>r. exec env (updateWorkflow r))) ret"

text \<open>
  The page of an ordered result: \<^verbatim>\<open>LIMIT\<close> and \<^verbatim>\<open>OFFSET\<close> apply only for a positive limit. The total is
  taken from the window count of the rows of the page, so it is 0 when the page is empty.
\<close>

definition page :: "int \<Rightarrow> int \<Rightarrow> 'r list \<Rightarrow> gov_error + 'r list" where
  "page limit offset rows =
     (if 0 < limit
      then if offset < 0 then Inl (ErrDB ''OFFSET must not be negative'')
           else Inr (take (nat limit) (drop (nat offset) rows))
      else Inr rows)"

definition pageTotal :: "'r list \<Rightarrow> 'r list \<Rightarrow> nat" where
  "pageTotal rows pg = (if pg = [] then 0 else length rows)"

record WorkflowListFilter =
  wlf_Status :: "WorkflowStatus option"
  wlf_TaskID :: "TaskID option"
  wlf_Limit :: int
  wlf_Offset :: int

definition workflowMatches :: "WorkflowListFilter \<Rightarrow> workflowRow \<Rightarrow> bool" where
  "workflowMatches f r \<longleftrightarrow>
     (case wlf_Status f of None \<Rightarrow> True | Some st \<Rightarrow> wr_status r = WorkflowStatus_String st) \<and>
     (case wlf_TaskID f of None \<Rightarrow> True | Some i \<Rightarrow> wr_task_id r = i)"

definition WorkflowList :: "Env \<Rightarrow> WorkflowListFilter \<Rightarrow> (World, WorkflowRun list \<times> nat) go" where
  "WorkflowList env f =
     query env ''listing workflow runs'' (\<lambda>d. filter (workflowMatches f) (db_workflows d)) (\<lambda>rows.
       let sorted = sort_key (\<lambda>r. - wr_updated_at r) rows
       in andThen (wrapErr ''listing workflow runs'' (page (wlf_Limit f) (wlf_Offset f) sorted)) (\<lambda>pg.
          andThen (mapE scanWorkflowRun pg) (\<lambda>ws. Inr (ws, pageTotal sorted pg))))"

section \<open>Leases\<close>

definition LeaseSave :: "Env \<Rightarrow> ExecutionLease \<Rightarrow> (World, unit) go" where
  "LeaseSave env l =
     bindW ''inserting execution lease''
       (bindE (lift (encLease (te env) l)) (\<lambda>r. exec env (insertLease r))) ret"

definition LeaseFindByWorkflowRunID :: "Env \<Rightarrow> WorkflowRunID \<Rightarrow> (World, ExecutionLease) go" where
  "LeaseFindByWorkflowRunID env wfID =
     queryRow env ''execution lease'' (\<lambda>d. filter (\<lambda>r. lr_workflow_run_id r = wfID) (db_leases d)) scanExecutionLease"

definition LeaseUpdate :: "Env \<Rightarrow> ExecutionLease \<Rightarrow> (World, unit) go" where
  "LeaseUpdate env l =
     bindW ''updating execution lease''
       (bindE (lift (encLease (te env) l)) (\<lambda>r. exec env (updateLease r))) ret"

section \<open>Approval requests\<close>

definition ApprovalSave :: "Env \<Rightarrow> ApprovalRequest \<Rightarrow> (World, unit) go" where
  "ApprovalSave env req =
     bindE (lift (encApproval (te env) req)) (\<lambda>r.
     bindW ''inserting approval request'' (exec env (insertApproval r)) ret)"

definition ApprovalFindByID :: "Env \<Rightarrow> ApprovalRequestID \<Rightarrow> (World, ApprovalRequest) go" where
  "ApprovalFindByID env i =
     queryRow env ''approval request'' (\<lambda>d. filter (\<lambda>r. ap_id r = i) (db_approvals d)) scanApprovalRequest"

definition ApprovalFindByTaskID :: "Env \<Rightarrow> TaskID \<Rightarrow> (World, ApprovalRequest list) go" where
  "ApprovalFindByTaskID env taskID =
     query env ''querying approval requests by task''
       (\<lambda>d. filter (\<lambda>r. ap_task_id r = taskID) (db_approvals d)) (mapE scanApprovalRequest)"

definition ApprovalFindPending :: "Env \<Rightarrow> (World, ApprovalRequest list) go" where
  "ApprovalFindPending env =
     query env ''querying pending approval requests''
       (\<lambda>d. filter (\<lambda>r. ap_status r = ''pending'') (db_approvals d)) (mapE scanApprovalRequest)"

definition ApprovalUpdate :: "Env \<Rightarrow> ApprovalRequest \<Rightarrow> (World, unit) go" where
  "ApprovalUpdate env req =
     bindE (lift (resolutionJSON (te env) req)) (\<lambda>res.
     bindW ''updating approval request''
       (exec env (updateApproval (a_id req) (ApprovalStatus_String (a_status req)) res)) ret)"

section \<open>Escalation triggers\<close>

definition EscalationSave :: "Env \<Rightarrow> EscalationTrigger \<Rightarrow> (World, unit) go" where
  "EscalationSave env et =
     bindW ''inserting escalation trigger'' (exec env (insertEscalation (encEscalation (te env) et))) ret"

definition EscalationFindByTaskID :: "Env \<Rightarrow> TaskID \<Rightarrow> (World, EscalationTrigger list) go" where
  "EscalationFindByTaskID env taskID =
     query env ''querying escalation triggers by task''
       (\<lambda>d. filter (\<lambda>r. es_task_id r = taskID) (db_escalations d)) (mapE scanEscalationTrigger)"

definition EscalationUpdate :: "Env \<Rightarrow> EscalationTrigger \<Rightarrow> (World, unit) go" where
  "EscalationUpdate env et =
     bindW ''updating escalation trigger''
       (exec env (updateEscalation (e_id et) (EscalationStatus_String (e_status et))
          (map_option (te_pgTime env) (e_triggeredAt et)))) ret"

section \<open>Audit entries\<close>

definition AuditAppend :: "Env \<Rightarrow> AuditEntry \<Rightarrow> (World, unit) go" where
  "AuditAppend env ae =
     bindW ''appending audit entry'' (exec env (insertAudit (encAuditEntry (te env) ae))) ret"

record AuditFilter =
  af_TaskID :: "TaskID option"
  af_WorkflowRunID :: "WorkflowRunID option"
  af_Actor :: "ActorID option"
  af_Action :: "string option"
  af_CreatedAfter :: "gotime option"
  af_CreatedBefore :: "gotime option"
  af_Limit :: int
  af_Offset :: int

text \<open>
  A comparison with a null column is not true, so an entry without a task never matches a filter on
  the task. The bounds on the time are passed through the precision of the column type.
\<close>

definition auditMatches :: "Env \<Rightarrow> AuditFilter \<Rightarrow> auditRow \<Rightarrow> bool" where
  "auditMatches env f r \<longleftrightarrow>
     (case af_TaskID f of None \<Rightarrow> True | Some i \<Rightarrow> au_task_id r = Some i) \<and>
     (case af_WorkflowRunID f of None \<Rightarrow> True | Some i \<Rightarrow> au_workflow_run_id r = Some i) \<and>
     (case af_Actor f of None \<Rightarrow> True | Some a \<Rightarrow> au_actor r = a) \<and>
     (case af_Action f of None \<Rightarrow> True | Some a \<Rightarrow> au_action r = a) \<and>
     (case af_CreatedAfter f of None \<Rightarrow> True | Some t \<Rightarrow> te_pgTime env t < au_created_at r) \<and>
     (case af_CreatedBefore f of None \<Rightarrow> True | Some t \<Rightarrow> au_created_at r < te_pgTime env t)"

definition AuditQuery :: "Env \<Rightarrow> AuditFilter \<Rightarrow> (World, AuditEntry list \<times> nat) go" where
  "AuditQuery env f =
     query env ''querying audit entries'' (\<lambda>d. filter (auditMatches env f) (db_audits d)) (\<lambda>rows.
       let sorted = sort_key (\<lambda>r. - au_created_at r) rows
       in andThen (wrapErr ''querying audit entries'' (page (af_Limit f) (af_Offset f) sorted)) (\<lambda>pg.
          andThen (mapE scanAuditEntry pg) (\<lambda>entries. Inr (entries, pageTotal sorted pg))))"

section \<open>Phase decisions\<close>

definition PhaseDecisionSave :: "Env \<Rightarrow> PhaseDecisionRecord \<Rightarrow> (World, unit) go" where
  "PhaseDecisionSave env rec =
     bindW ''inserting phase decision'' (exec env (insertPhaseDecision (encPhaseDecision (te env) rec))) ret"

text \<open>A missing row is no error: the result is then nil.\<close>

definition PhaseApprovalFind :: "Env \<Rightarrow> string \<Rightarrow> string \<Rightarrow> (World, PhaseApprovalRecord option) go" where
  "PhaseApprovalFind env changeID phaseID =
     bindR (queryRow env ''phase approval''
              (\<lambda>d. filter (\<lambda>r. pa_change_id r = changeID \<and> pa_phase_id r = phaseID) (db_phaseApprovals d))
              (\<lambda>r. Inr (scanPhaseApproval r))) (\<lambda>res.
     case res of
       Inr rec \<Rightarrow> ret (Some rec)
     | Inl (ErrNotFound _) \<Rightarrow> ret None
     | Inl e \<Rightarrow> throw e)"

end
