(* ===== verification/Recording.thy ===== *)
theory Recording
  imports Repos
begin

text \<open>
  What the services leave behind besides their own rows: audit entries
  (\<^verbatim>\<open>internal/application/audit\<close>), notifications to callbacks
  (\<^verbatim>\<open>internal/adapters/outbound/events\<close>), lifecycle metrics (\<^verbatim>\<open>workflowrun/metrics.go\<close>,
  \<^verbatim>\<open>approvals/metrics.go\<close>), and the observation of circuit breakers with its listeners
  (\<^verbatim>\<open>internal/application/resilience\<close>). The context of a request is reduced to the identifiers of
  its OpenTelemetry span, when it carries a valid one.
\<close>

type_synonym goctx = "(string \<times> string) option"

section \<open>Audit\<close>

definition RecordAudit ::
  "Env \<Rightarrow> goctx \<Rightarrow> ActorID \<Rightarrow> string \<Rightarrow> string \<Rightarrow> AuditContext \<Rightarrow> TaskID option \<Rightarrow> WorkflowRunID option \<Rightarrow> (World, unit) go" where
  "RecordAudit env ctx actor action oc auditCtx taskID wfID =
     bindE (generate env) (\<lambda>i.
     bindE (Now env) (\<lambda>now.
     bindE (lift (NewAuditEntry i actor action oc (WithTraceInfo ctx auditCtx) now)) (\<lambda>entry.
     let entry = (case taskID of None \<Rightarrow> entry | Some t \<Rightarrow> WithTaskID t entry);
         entry = (case wfID of None \<Rightarrow> entry | Some w \<Rightarrow> WithWorkflowRunID w entry)
     in AuditAppend env entry)))"

definition QueryAuditTrail :: "Env \<Rightarrow> AuditFilter \<Rightarrow> (World, AuditEntry list \<times> nat) go" where
  "QueryAuditTrail env f = AuditQuery env f"

section \<open>Notifications\<close>

definition notify :: "Env \<Rightarrow> Notification \<Rightarrow> (World, unit) go" where
  "notify env n =
     (case env_callback env n of
        None \<Rightarrow> ret ()
      | Some r \<Rightarrow> bindE (modify (\<lambda>s. s\<lparr>notified := notified s @ [n]\<rparr>)) (\<lambda>_. lift r))"

definition OnExecutionReady :: "Env \<Rightarrow> WorkflowRun \<Rightarrow> ExecutionLease \<Rightarrow> (World, unit) go" where
  "OnExecutionReady env w l = notify env (ExecutionReady w l)"
definition OnApprovalRequired :: "Env \<Rightarrow> WorkflowRun \<Rightarrow> ApprovalRequest \<Rightarrow> (World, unit) go" where
  "OnApprovalRequired env w req = notify env (ApprovalRequired w req)"
definition OnWorkflowTerminated :: "Env \<Rightarrow> WorkflowRun \<Rightarrow> string \<Rightarrow> (World, unit) go" where
  "OnWorkflowTerminated env w reason = notify env (WorkflowTerminated w reason)"

section \<open>Metrics\<close>

text \<open>The instruments exist only when OpenTelemetry is enabled; without them nothing is emitted.\<close>

definition meter :: "Env \<Rightarrow> MetricEvent list \<Rightarrow> (World, unit) go" where
  "meter env es = (if env_otel env then modify (\<lambda>s. s\<lparr>metered := metered s @ es\<rparr>) else ret ())"

definition emitTerminal :: "Env \<Rightarrow> string \<Rightarrow> rat \<Rightarrow> (World, unit) go" where
  "emitTerminal env finalStatus durationMs =
     meter env [TasksCompleted finalStatus, WorkflowDuration finalStatus durationMs]"

definition emitFailure :: "Env \<Rightarrow> string \<Rightarrow> string \<Rightarrow> bool \<Rightarrow> (World, unit) go" where
  "emitFailure env stage category retryable = meter env [ExecutionFailures stage category retryable]"

definition emitApprovalWait :: "Env \<Rightarrow> rat \<Rightarrow> string \<Rightarrow> (World, unit) go" where
  "emitApprovalWait env waitMs resolution = meter env [ApprovalWait resolution waitMs]"

definition extractCategory :: "string \<Rightarrow> string" where
  "extractCategory code = beforeByte (CHR ''/'') code"

text \<open>\<^verbatim>\<open>float64(time.Since(t).Milliseconds())\<close>\<close>

definition sinceMs :: "Env \<Rightarrow> gotime \<Rightarrow> (World, rat) go" where
  "sinceMs env t = bindE (timeNow env) (\<lambda>now. ret (rnd64 (of_int (Milliseconds (timeSub now t)))))"

section \<open>Circuit breakers\<close>

definition breakerAuditContext :: "StateTransition \<Rightarrow> AuditContext" where
  "breakerAuditContext t =
     (let actx = auditSet ''to_state'' (AString (BreakerState_String (st_To t)))
                (auditSet ''from_state'' (AString (BreakerState_String (st_From t)))
                (auditSet ''agent_role'' (AString (bk_AgentRole (st_Key t)))
                (auditSet ''tool_name'' (AString (bk_ToolName (st_Key t))) NewAuditContext)));
          actx = (if st_From t = StateClosed \<and> st_To t = StateOpen
                  then auditSet ''trip_reason'' (AString (TripReason_String (st_TripReason t)))
                      (auditSet ''sample_size'' (AInt (int (st_SampleSize t)))
                      (auditSet ''failure_rate'' (AFloat (st_FailureRate t))
                      (auditSet ''consecutive_failures'' (AInt (st_ConsecutiveFailures t)) actx)))
                  else actx)
      in if st_To t = StateClosed
         then auditSet ''consecutive_successes'' (AInt (st_ConsecutiveSuccesses t)) actx else actx)"

definition AuditListener :: "Env \<Rightarrow> StateTransition \<Rightarrow> (World, unit) go" where
  "AuditListener env t =
     (let (action, oc) = actionAndOutcome t
      in discard (RecordAudit env None ''system'' action oc (breakerAuditContext t) None None) (ret ()))"

definition MetricsListener :: "Env \<Rightarrow> StateTransition \<Rightarrow> (World, unit) go" where
  "MetricsListener env t =
     bindE (meter env [BreakerTransitions (bk_ToolName (st_Key t)) (bk_AgentRole (st_Key t))
                         (BreakerState_String (st_From t)) (BreakerState_String (st_To t))]) (\<lambda>_.
     if st_From t = StateClosed \<and> st_To t = StateOpen
     then meter env [BreakerTrips (bk_ToolName (st_Key t)) (bk_AgentRole (st_Key t)) (TripReason_String (st_TripReason t))]
     else ret ())"

text \<open>
  The registry of the running program: a new breaker takes the current time; the listeners run after
  the breaker has been updated, audit first. The metrics listener is attached only with
  OpenTelemetry, without which \<open>meter\<close> does nothing.
\<close>

definition ObserveBreaker :: "Env \<Rightarrow> string \<Rightarrow> string \<Rightarrow> bool \<Rightarrow> gotime \<Rightarrow> (World, StateTransition option) go" where
  "ObserveBreaker env tool role success now =
     bindE (gets breakerRegistry) (\<lambda>r.
     bindE (if tool \<noteq> [] \<and> role \<noteq> [] \<and> map_of r \<lparr>bk_ToolName = tool, bk_AgentRole = role\<rparr> = None
            then timeNow env else ret 0) (\<lambda>created.
     let (r', transition) = ObserveAttempt created tool role success now r
     in bindE (modify (\<lambda>s. s\<lparr>breakerRegistry := r'\<rparr>)) (\<lambda>_.
        case transition of
          None \<Rightarrow> ret None
        | Some t \<Rightarrow> bindE (AuditListener env t) (\<lambda>_. bindE (MetricsListener env t) (\<lambda>_. ret (Some t))))))"

end
