(* ===== verification/Pipeline.thy ===== *)
theory Pipeline
  imports Recording
begin

text \<open>
  The governance pipeline: \<^verbatim>\<open>internal/application/intake\<close>, \<^verbatim>\<open>routing/route_task.go\<close>,
  \<^verbatim>\<open>policyeval\<close> and \<^verbatim>\<open>workflowrun/start_workflow.go\<close>. Each service method is a computation over the
  world; \<open>bindW\<close> stands for the wrapped error returns, \<open>discard\<close> for the calls whose error is dropped.
\<close>

section \<open>Intake\<close>

record SubmitTaskInput =
  si_Type :: TaskType
  si_Title :: string
  si_Scope :: TaskScope
  si_Priority :: Priority
  si_Metadata :: metadata

definition classifyRisk :: "TaskType \<Rightarrow> TaskScope \<Rightarrow> RiskLevel" where
  "classifyRisk taskType scope =
     (if taskType = TypeDeployment \<and> scope = ScopeSystem then RiskLevelCritical
      else if taskType = TypeDeployment \<and> scope = ScopeRepo then RiskLevelHigh
      else if scope = ScopeSystem then RiskLevelHigh
      else if taskType = TypeRefactor \<and> scope = ScopeRepo then RiskLevelMedium
      else if taskType = TypeBugfix \<and> scope = ScopeFile then RiskLevelLow
      else RiskLevelMedium)"

text \<open>
  The memory engine is a parameter; the program itself is wired to a stub that always returns an
  empty context.
\<close>

definition stubGetRelevantContext :: "nat \<Rightarrow> TaskID \<Rightarrow> string \<Rightarrow> gov_error + MemoryContext option" where
  "stubGetRelevantContext n taskID q =
     Inr (Some \<lparr>mc_SimilarTaskFailureRate = 0, mc_HasRelevantHeuristics = False\<rparr>)"

definition GetRelevantContext :: "Env \<Rightarrow> TaskID \<Rightarrow> string \<Rightarrow> (World, MemoryContext option) go" where
  "GetRelevantContext env taskID q s =
     (case env_memory env of
        None \<Rightarrow> (Inr None, s)
      | Some f \<Rightarrow> (f (n_mem s) taskID q, s\<lparr>n_mem := Suc (n_mem s)\<rparr>))"

definition SubmitTask :: "Env \<Rightarrow> goctx \<Rightarrow> SubmitTaskInput \<Rightarrow> (World, Task) go" where
  "SubmitTask env ctx input =
     bindE (generate env) (\<lambda>i.
     bindE (Now env) (\<lambda>now.
     discard (GetRelevantContext env i (si_Title input)) (
     bindW ''creating task''
       (lift (NewTask i None (si_Type input) (si_Title input) (si_Scope input) (si_Priority input)
                (classifyRisk (si_Type input) (si_Scope input)) (si_Metadata input) now)) (\<lambda>t.
     bindW ''persisting task'' (TaskSave env t) (\<lambda>_.
     bindW ''recording audit''
       (RecordAudit env ctx ''system'' ''task_submitted'' ''created'' NewAuditContext (Some (t_id t)) None) (\<lambda>_.
     ret t))))))"

section \<open>Routing\<close>

definition childScope :: "TaskScope \<Rightarrow> TaskScope" where
  "childScope parent =
     (if parent = ScopeSystem then ScopeRepo
      else if parent = ScopeRepo then ScopeModule
      else if parent = ScopeModule then ScopeFile
      else ScopeFile)"

definition subtaskSuffixes :: "TaskScope \<Rightarrow> string \<times> string" where
  "subtaskSuffixes parent =
     (if parent = ScopeSystem then (''implementation'', ''review'')
      else if parent = ScopeRepo then (''implementation'', ''testing'')
      else (''part 1'', ''part 2''))"

definition subtaskTitle :: "Task \<Rightarrow> string \<Rightarrow> string" where
  "subtaskTitle parent suffix = ''[decompose] '' @ t_title parent @ '' - '' @ suffix"

fun createSubtasks :: "Env \<Rightarrow> goctx \<Rightarrow> Task \<Rightarrow> Timestamp \<Rightarrow> string list \<Rightarrow> (World, unit) go" where
  "createSubtasks env ctx parent now [] = ret ()"
| "createSubtasks env ctx parent now (suffix # rest) =
     bindE (generate env) (\<lambda>subID.
     bindW (''creating subtask '' @ suffix)
       (lift (NewTask subID (Some (t_id parent)) (t_taskType parent) (subtaskTitle parent suffix)
                (childScope (t_scope parent)) (t_priority parent) (t_riskLevel parent) Map.empty now)) (\<lambda>sub.
     bindW (''persisting subtask '' @ suffix) (TaskSave env sub) (\<lambda>_.
     bindW (''auditing subtask '' @ suffix)
       (RecordAudit env ctx ''system'' ''subtask_created'' suffix
          (auditSet ''parent_task_id'' (AString (t_id parent)) NewAuditContext) (Some subID) None) (\<lambda>_.
     createSubtasks env ctx parent now rest))))"

definition createDecomposeSubtasks :: "Env \<Rightarrow> goctx \<Rightarrow> Task \<Rightarrow> Timestamp \<Rightarrow> (World, unit) go" where
  "createDecomposeSubtasks env ctx parent now =
     (let (suffix1, suffix2) = subtaskSuffixes (t_scope parent)
      in createSubtasks env ctx parent now [suffix1, suffix2])"

text \<open>An error of the memory engine is ignored: routing goes on without its context.\<close>

definition memoryContext :: "Env \<Rightarrow> TaskID \<Rightarrow> string \<Rightarrow> (World, MemoryContext option) go" where
  "memoryContext env taskID q =
     bindR (GetRelevantContext env taskID q) (\<lambda>r. case r of Inl _ \<Rightarrow> ret None | Inr c \<Rightarrow> ret c)"

text \<open>The snapshot of the failure statistics, nil when adaptive routing is disabled.\<close>

definition currentStats :: "Env \<Rightarrow> World \<Rightarrow> FailureStats option" where
  "currentStats env s = (if env_adaptive env then statsStore s else None)"

text \<open>Any error of the lookup, not only a missing row, leads to a new run.\<close>

definition loadOrCreateRun :: "Env \<Rightarrow> TaskID \<Rightarrow> Timestamp \<Rightarrow> (World, WorkflowRun) go" where
  "loadOrCreateRun env taskID now =
     bindR (WorkflowFindByTaskID env taskID) (\<lambda>r.
     case r of
       Inr w \<Rightarrow> ret w
     | Inl _ \<Rightarrow>
         bindE (generate env) (\<lambda>wfID.
         bindW ''saving new workflow run'' (WorkflowSave env (NewWorkflowRun wfID taskID now)) (\<lambda>_.
         ret (NewWorkflowRun wfID taskID now))))"

definition RouteTask :: "Env \<Rightarrow> goctx \<Rightarrow> TaskID \<Rightarrow> (World, RoutingDecision) go" where
  "RouteTask env ctx taskID =
     bindW ''loading task'' (TaskFindByID env taskID) (\<lambda>t.
     bindE (memoryContext env taskID (t_title t)) (\<lambda>memCtx.
     bindE (gets (currentStats env)) (\<lambda>failureStats.
     bindE (lift (Evaluate \<lparr>ei_Task = t, ei_MemoryContext = memCtx, ei_FailureStats = failureStats\<rparr>)) (\<lambda>result.
     bindE (Now env) (\<lambda>now.
     bindE (generate env) (\<lambda>rdID.
     bindW ''creating routing decision''
       (lift (NewRoutingDecision rdID taskID (rr_Evaluations result) (rr_SelectedStrategy result)
                (rr_SelectedRole result) (rr_Reason result) [] now)) (\<lambda>rd.
     bindW ''saving routing decision'' (RoutingSave env rd) (\<lambda>_.
     bindE (loadOrCreateRun env taskID now) (\<lambda>w.
     bindW ''marking workflow routed'' (lift (MarkRouted rdID (rr_Reason result) ''system'' now w)) (\<lambda>w.
     bindW ''updating workflow run'' (WorkflowUpdate env w) (\<lambda>_.
     bindW ''recording audit''
       (RecordAudit env ctx ''system'' ''task_routed'' (RoutingStrategy_String (rr_SelectedStrategy result))
          (auditWithAgentRole (AgentRole_String (rr_SelectedRole result))
            (auditWithStrategy (RoutingStrategy_String (rr_SelectedStrategy result)) NewAuditContext))
          (Some taskID) (Some (w_ID w))) (\<lambda>_.
     if rr_SelectedStrategy result = StrategyDecompose
     then bindW ''creating decompose subtasks'' (createDecomposeSubtasks env ctx t now) (\<lambda>_. ret rd)
     else ret rd))))))))))))"

section \<open>Policy evaluation\<close>

definition EvaluatePolicySvc :: "Env \<Rightarrow> goctx \<Rightarrow> TaskID \<Rightarrow> string \<Rightarrow> (World, PolicyDecision) go" where
  "EvaluatePolicySvc env ctx taskID action =
     bindW ''loading task'' (TaskFindByID env taskID) (\<lambda>t.
     bindW ''routing decision required before policy evaluation'' (RoutingFindByTaskID env taskID) (\<lambda>_.
     let result = EvaluatePolicy DefaultRules \<lparr>pctx_Task = t, pctx_Action = action\<rparr> in
     bindE (Now env) (\<lambda>now.
     bindE (generate env) (\<lambda>pdID.
     bindW ''creating policy decision''
       (lift (NewPolicyDecision pdID taskID action (er_Outcome result) (er_Constraints result)
                (er_ApprovalRequirement result) (er_RulesEvaluated result) (er_Reason result) now)) (\<lambda>pd.
     bindW ''saving policy decision'' (PolicySave env pd) (\<lambda>_.
     bindW ''loading workflow run'' (WorkflowFindByTaskID env taskID) (\<lambda>w.
     bindW ''marking workflow policy_checked'' (lift (MarkPolicyChecked pdID ''system'' now w)) (\<lambda>w.
     bindW ''updating workflow run'' (WorkflowUpdate env w) (\<lambda>_.
     bindW ''recording audit''
       (RecordAudit env ctx ''system'' ''policy_evaluated'' (PolicyOutcome_String (er_Outcome result))
          (auditSet ''policy_outcome'' (AString (PolicyOutcome_String (er_Outcome result)))
            (auditSet ''evaluated_action'' (AString action) NewAuditContext))
          (Some taskID) (Some (w_ID w))) (\<lambda>_.
     ret pd))))))))))"

section \<open>Starting a workflow\<close>

definition defaultTimeout :: duration where "defaultTimeout = 5 * 60 * Second"
definition defaultMaxRetries :: int where "defaultMaxRetries = 3"

text \<open>A new lease with the default budgets, persisted; used here and by the approval service.\<close>

definition grantLease :: "Env \<Rightarrow> WorkflowRunID \<Rightarrow> Timestamp \<Rightarrow> (World, ExecutionLease) go" where
  "grantLease env wfID now =
     bindW ''creating retry budget'' (lift (NewRetryBudget defaultMaxRetries)) (\<lambda>retryBudget.
     bindE (generate env) (\<lambda>leaseID.
     bindW ''creating execution lease'' (lift (NewExecutionLease leaseID wfID defaultTimeout retryBudget now)) (\<lambda>lease.
     bindW ''persisting lease'' (LeaseSave env lease) (\<lambda>_.
     ret lease))))"

definition startDenied :: "Env \<Rightarrow> goctx \<Rightarrow> PolicyDecision \<Rightarrow> TaskID \<Rightarrow> Timestamp \<Rightarrow> WorkflowRun \<Rightarrow> (World, WorkflowRun) go" where
  "startDenied env ctx pd tID now w =
     bindW ''transitioning to failed'' (lift (Fail (''policy denied: '' @ pd_reason pd) ''system'' now w)) (\<lambda>w.
     bindW ''persisting workflow'' (WorkflowUpdate env w) (\<lambda>_.
     discard (RecordAudit env ctx ''system'' ''workflow_started'' ''denied'' NewAuditContext (Some tID) (Some (w_ID w))) (
     discard (OnWorkflowTerminated env w ''policy denied'') (
     bindE (sinceMs env (w_CreatedAt w)) (\<lambda>durationMs.
     bindE (emitTerminal env ''failed'' durationMs) (\<lambda>_.
     ret w))))))"

definition startAwaitingApproval :: "Env \<Rightarrow> goctx \<Rightarrow> PolicyDecision \<Rightarrow> TaskID \<Rightarrow> Timestamp \<Rightarrow> WorkflowRun \<Rightarrow> (World, WorkflowRun) go" where
  "startAwaitingApproval env ctx pd tID now w =
     bindW ''transitioning to awaiting_approval''
       (lift (TransitionTo StatusAwaitingApproval (''approval required: '' @ pd_reason pd) ''system'' now w)) (\<lambda>w.
     bindE (generate env) (\<lambda>reqID.
     bindW ''creating approval request''
       (lift (NewApprovalRequest reqID tID (w_ID w) (pd_reason pd)
                \<lparr>as_Role = (case pd_approvalRequirement pd of None \<Rightarrow> [] | Some ar \<Rightarrow> ar_ApproverRole ar),
                 as_ActorID = None\<rparr> None now)) (\<lambda>req.
     bindW ''persisting approval request'' (ApprovalSave env req) (\<lambda>_.
     bindW ''persisting workflow'' (WorkflowUpdate env w) (\<lambda>_.
     discard (RecordAudit env ctx ''system'' ''workflow_started'' ''awaiting_approval'' NewAuditContext (Some tID) (Some (w_ID w))) (
     discard (OnApprovalRequired env w req) (
     ret w)))))))"

definition startRunning :: "Env \<Rightarrow> goctx \<Rightarrow> TaskID \<Rightarrow> Timestamp \<Rightarrow> WorkflowRun \<Rightarrow> (World, WorkflowRun) go" where
  "startRunning env ctx tID now w =
     bindW ''transitioning to running'' (lift (TransitionTo StatusRunning ''policy allowed'' ''system'' now w)) (\<lambda>w.
     bindE (grantLease env (w_ID w) now) (\<lambda>lease.
     bindW ''persisting workflow'' (WorkflowUpdate env w) (\<lambda>_.
     discard (RecordAudit env ctx ''system'' ''workflow_started'' ''running'' NewAuditContext (Some tID) (Some (w_ID w))) (
     discard (OnExecutionReady env w lease) (
     ret w)))))"

text \<open>\<^verbatim>\<open>fmt.Errorf("%w: %v", ErrX, err)\<close> on the error of a lookup.\<close>

definition orElse :: "(gov_error \<Rightarrow> gov_error) \<Rightarrow> (World, 'a) go \<Rightarrow> ('a \<Rightarrow> (World, 'b) go) \<Rightarrow> (World, 'b) go" where
  "orElse f m k = bindR m (\<lambda>r. case r of Inl e \<Rightarrow> throw (f e) | Inr x \<Rightarrow> k x)"

definition StartWorkflow :: "Env \<Rightarrow> goctx \<Rightarrow> TaskID \<Rightarrow> (World, WorkflowRun) go" where
  "StartWorkflow env ctx taskID =
     bindW ''loading task'' (TaskFindByID env taskID) (\<lambda>tk.
     orElse ErrNoRoutingDecision (RoutingFindByTaskID env taskID) (\<lambda>_.
     orElse ErrNoPolicyDecision (PolicyFindByTaskID env taskID) (\<lambda>pd.
     orElse ErrNoWorkflowRun (WorkflowFindByTaskID env taskID) (\<lambda>w.
     bindE (Now env) (\<lambda>now.
     if pd_outcome pd = OutcomeDeny then startDenied env ctx pd (t_id tk) now w
     else if pd_outcome pd = OutcomeRequireApproval then startAwaitingApproval env ctx pd (t_id tk) now w
     else if pd_outcome pd = OutcomeAllow \<or> pd_outcome pd = OutcomeAllowWithConstraints
     then startRunning env ctx (t_id tk) now w
     else throw (ErrUnknownPolicyOutcome (PolicyOutcome_String (pd_outcome pd))))))))"

section \<open>The coordinator\<close>

record ProcessTaskResult =
  ptr_Task :: Task
  ptr_RoutingDecision :: RoutingDecision
  ptr_PolicyDecision :: PolicyDecision
  ptr_WorkflowRun :: WorkflowRun

definition ProcessTask :: "Env \<Rightarrow> goctx \<Rightarrow> SubmitTaskInput \<Rightarrow> string \<Rightarrow> (World, ProcessTaskResult) go" where
  "ProcessTask env ctx input action =
     bindW ''submit task'' (SubmitTask env ctx input) (\<lambda>t.
     bindW ''route task'' (RouteTask env ctx (t_id t)) (\<lambda>rd.
     bindW ''evaluate policy'' (EvaluatePolicySvc env ctx (t_id t) action) (\<lambda>pd.
     bindW ''start workflow'' (StartWorkflow env ctx (t_id t)) (\<lambda>w.
     ret \<lparr>ptr_Task = t, ptr_RoutingDecision = rd, ptr_PolicyDecision = pd, ptr_WorkflowRun = w\<rparr>))))"

end
