(* ===== verification/Control.thy ===== *)
theory Control
  imports Pipeline
begin

text \<open>
  Operational control: registering attempts, pausing, resuming and killing a run
  (\<^verbatim>\<open>internal/application/workflowrun\<close>), resolving approvals (\<^verbatim>\<open>approvals\<close>), escalations
  (\<^verbatim>\<open>escalation\<close>), the queries, and the orchestrator-facing decisions (\<^verbatim>\<open>govdecisions\<close>).
\<close>

section \<open>Attempts\<close>

text \<open>The transition of the run that the result of an attempt asks for.\<close>

definition attemptTransition :: "AttemptResult \<Rightarrow> ExecutionLease \<Rightarrow> Timestamp \<Rightarrow> WorkflowRun \<Rightarrow> gov_error + WorkflowRun" where
  "attemptTransition result lease now w =
     (if at_Status result = AttemptStatusSuccess
      then wrapErr ''completing workflow'' (Complete ''attempt succeeded'' ''system'' now w)
      else if at_Status result = AttemptStatusFailure
      then if HasRetryBudget lease then Inr w
           else wrapErr ''quarantining workflow'' (Quarantine ''retry budget exhausted'' ''system'' now w)
      else Inr w)"

text \<open>
  The failure fields of a result. The code dereferences the code and the retryable flag whenever a
  failure stage is present; a nil pointer there would be a panic.
\<close>

definition failureFields :: "AttemptResult \<Rightarrow> gov_error + (string \<times> string \<times> bool) option" where
  "failureFields result =
     (case at_FailureStage result of
        None \<Rightarrow> Inr None
      | Some stage \<Rightarrow>
          (case at_FailureCode result of
             None \<Rightarrow> Inl (ErrPanic ''invalid memory address or nil pointer dereference'')
           | Some code \<Rightarrow>
               (case at_Retryable result of
                  None \<Rightarrow> Inl (ErrPanic ''invalid memory address or nil pointer dereference'')
                | Some retryable \<Rightarrow> Inr (Some (FailureStage_String stage, code, retryable)))))"

definition attemptContext :: "AttemptResult \<Rightarrow> ExecutionLease \<Rightarrow> (string \<times> string \<times> bool) option \<Rightarrow> AuditContext" where
  "attemptContext result lease failure =
     (let c = WithLeaseState (l_AttemptsUsed lease) (rb_MaxAttempts (l_RetryBudget lease))
                (Milliseconds (l_TimeElapsed lease)) NewAuditContext;
          c = (case at_StrategyUsed result of None \<Rightarrow> c | Some s \<Rightarrow> auditWithStrategy s c);
          c = (case at_AgentRole result of None \<Rightarrow> c | Some r \<Rightarrow> auditWithAgentRole r c);
          c = (case failure of None \<Rightarrow> c | Some (stage, code, retryable) \<Rightarrow> WithFailure stage code retryable c)
      in case at_ToolName result of None \<Rightarrow> c | Some t \<Rightarrow> auditWithToolName t c)"

text \<open>Steps 8 to 11: audit, notification, metrics and breaker, none of which can fail the call.\<close>

definition afterAttempt ::
  "Env \<Rightarrow> goctx \<Rightarrow> AttemptResult \<Rightarrow> AuditContext \<Rightarrow> (string \<times> string \<times> bool) option \<Rightarrow> Timestamp \<Rightarrow> WorkflowRun \<Rightarrow> (World, WorkflowRun) go" where
  "afterAttempt env ctx result auditCtx failure now w =
     discard (RecordAudit env ctx ''system'' ''attempt_registered'' (AttemptStatus_String (at_Status result)) auditCtx None (Some (w_ID w))) (
     discard (if w_Status w = StatusQuarantined
              then RecordAudit env ctx ''system'' ''workflow_quarantined'' ''budget_exhausted'' auditCtx None (Some (w_ID w))
              else ret ()) (
     discard (if IsTerminal (w_Status w)
              then OnWorkflowTerminated env w
                     (if w_Status w = StatusQuarantined then ''quarantined:budget_exhausted''
                      else WorkflowStatus_String (w_Status w))
              else ret ()) (
     bindE (if IsTerminal (w_Status w)
            then bindE (sinceMs env (w_CreatedAt w)) (emitTerminal env (WorkflowStatus_String (w_Status w)))
            else ret ()) (\<lambda>_.
     bindE (case failure of
              None \<Rightarrow> ret ()
            | Some (stage, code, retryable) \<Rightarrow> emitFailure env stage (extractCategory code) retryable) (\<lambda>_.
     discard (case (at_ToolName result, at_AgentRole result) of
                (Some tool, Some role) \<Rightarrow>
                  ObserveBreaker env tool role (at_Status result = AttemptStatusSuccess) now
              | _ \<Rightarrow> ret None) (
     ret w))))))"

definition RegisterAttempt :: "Env \<Rightarrow> goctx \<Rightarrow> WorkflowRunID \<Rightarrow> AttemptResult \<Rightarrow> (World, WorkflowRun) go" where
  "RegisterAttempt env ctx i result =
     bindW ''loading workflow'' (WorkflowFindByID env i) (\<lambda>w.
     if IsTerminal (w_Status w) then throw (ErrTerminalWorkflow (WorkflowStatus_String (w_Status w)))
     else
     bindW ''invalid attempt result'' (lift (Validate result)) (\<lambda>_.
     bindW ''loading lease'' (LeaseFindByWorkflowRunID env i) (\<lambda>lease.
     bindW ''recording attempt on lease'' (lift (RecordAttempt lease)) (\<lambda>lease.
     bindE (Now env) (\<lambda>now.
     bindE (lift (attemptTransition result lease now w)) (\<lambda>w.
     bindW ''persisting lease'' (LeaseUpdate env lease) (\<lambda>_.
     bindW ''persisting workflow'' (WorkflowUpdate env w) (\<lambda>_.
     bindE (lift (failureFields result)) (\<lambda>failure.
     afterAttempt env ctx result (attemptContext result lease failure) failure now w)))))))))"

section \<open>Pause, resume, kill\<close>

definition PauseWorkflow :: "Env \<Rightarrow> goctx \<Rightarrow> WorkflowRunID \<Rightarrow> string \<Rightarrow> ActorID \<Rightarrow> (World, unit) go" where
  "PauseWorkflow env ctx i reason actor =
     bindW ''loading workflow'' (WorkflowFindByID env i) (\<lambda>w.
     bindE (Now env) (\<lambda>now.
     bindW ''pausing workflow'' (lift (Pause reason actor now w)) (\<lambda>w.
     bindW ''persisting workflow'' (WorkflowUpdate env w) (\<lambda>_.
     discard (RecordAudit env ctx actor ''workflow_paused'' ''paused'' NewAuditContext None (Some (w_ID w))) (
     ret ())))))"

definition ResumeWorkflow :: "Env \<Rightarrow> goctx \<Rightarrow> WorkflowRunID \<Rightarrow> string \<Rightarrow> ActorID \<Rightarrow> (World, unit) go" where
  "ResumeWorkflow env ctx i reason actor =
     bindW ''loading workflow'' (WorkflowFindByID env i) (\<lambda>w.
     bindW ''loading lease'' (LeaseFindByWorkflowRunID env i) (\<lambda>lease.
     if \<not> HasRetryBudget lease then throw ErrLeaseExhausted
     else
     bindE (Now env) (\<lambda>now.
     bindW ''resuming workflow'' (lift (Resume reason actor now w)) (\<lambda>w.
     bindW ''persisting workflow'' (WorkflowUpdate env w) (\<lambda>_.
     discard (RecordAudit env ctx actor ''workflow_resumed'' ''running'' NewAuditContext None (Some (w_ID w))) (
     discard (OnExecutionReady env w lease) (
     ret ())))))))"

text \<open>Revoking the lease is best effort: a missing lease or a failing update is ignored.\<close>

definition revokeLease :: "Env \<Rightarrow> WorkflowRunID \<Rightarrow> (World, unit) go" where
  "revokeLease env i =
     bindR (LeaseFindByWorkflowRunID env i) (\<lambda>r.
     case r of
       Inl _ \<Rightarrow> ret ()
     | Inr lease \<Rightarrow>
         (case Revoke lease of
            Inl _ \<Rightarrow> ret ()
          | Inr lease \<Rightarrow> discard (LeaseUpdate env lease) (ret ())))"

definition KillWorkflow :: "Env \<Rightarrow> goctx \<Rightarrow> WorkflowRunID \<Rightarrow> string \<Rightarrow> ActorID \<Rightarrow> (World, unit) go" where
  "KillWorkflow env ctx i reason actor =
     bindW ''loading workflow'' (WorkflowFindByID env i) (\<lambda>w.
     bindE (Now env) (\<lambda>now.
     bindW ''killing workflow'' (lift (Kill reason actor now w)) (\<lambda>w.
     bindE (revokeLease env i) (\<lambda>_.
     bindW ''persisting workflow'' (WorkflowUpdate env w) (\<lambda>_.
     discard (RecordAudit env ctx actor ''workflow_killed'' ''killed'' NewAuditContext None (Some (w_ID w))) (
     discard (OnWorkflowTerminated env w reason) (
     bindE (sinceMs env (w_CreatedAt w)) (\<lambda>durationMs.
     bindE (emitTerminal env ''killed'' durationMs) (\<lambda>_.
     ret ())))))))))"

section \<open>Approvals\<close>

record ResolveApprovalInput =
  ra_ApprovalRequestID :: ApprovalRequestID
  ra_Approved :: bool
  ra_ResolvedBy :: ActorID
  ra_Reason :: string

definition resolveRequest :: "ResolveApprovalInput \<Rightarrow> Timestamp \<Rightarrow> ApprovalRequest \<Rightarrow> gov_error + ApprovalRequest" where
  "resolveRequest input now req =
     (if ra_Approved input
      then wrapErr ''approving request'' (Approve (ra_ResolvedBy input) (ra_Reason input) now req)
      else wrapErr ''denying request'' (Deny (ra_ResolvedBy input) (ra_Reason input) now req))"

definition runApproved :: "Env \<Rightarrow> ResolveApprovalInput \<Rightarrow> Timestamp \<Rightarrow> WorkflowRun \<Rightarrow> (World, WorkflowRun) go" where
  "runApproved env input now w =
     bindW ''transitioning to approved''
       (lift (TransitionTo StatusApproved ''approval granted'' (ra_ResolvedBy input) now w)) (\<lambda>w.
     bindW ''transitioning to running''
       (lift (TransitionTo StatusRunning ''starting execution'' (ra_ResolvedBy input) now w)) (\<lambda>w.
     bindE (grantLease env (w_ID w) now) (\<lambda>lease.
     bindW ''persisting workflow'' (WorkflowUpdate env w) (\<lambda>_.
     discard (OnExecutionReady env w lease) (
     ret w)))))"

definition runDenied :: "Env \<Rightarrow> ResolveApprovalInput \<Rightarrow> Timestamp \<Rightarrow> WorkflowRun \<Rightarrow> (World, WorkflowRun) go" where
  "runDenied env input now w =
     bindW ''transitioning to failed''
       (lift (Fail (''approval denied: '' @ ra_Reason input) (ra_ResolvedBy input) now w)) (\<lambda>w.
     bindW ''persisting workflow'' (WorkflowUpdate env w) (\<lambda>_.
     discard (OnWorkflowTerminated env w ''approval denied'') (
     ret w)))"

definition ResolveApproval :: "Env \<Rightarrow> goctx \<Rightarrow> ResolveApprovalInput \<Rightarrow> (World, ApprovalRequest) go" where
  "ResolveApproval env ctx input =
     bindW ''loading approval request'' (ApprovalFindByID env (ra_ApprovalRequestID input)) (\<lambda>req.
     bindE (Now env) (\<lambda>now.
     bindE (lift (resolveRequest input now req)) (\<lambda>req.
     bindW ''persisting approval'' (ApprovalUpdate env req) (\<lambda>_.
     bindW ''loading workflow'' (WorkflowFindByID env (a_workflowRunID req)) (\<lambda>w.
     bindE (if ra_Approved input then runApproved env input now w else runDenied env input now w) (\<lambda>w.
     let oc = (if ra_Approved input then ''approved'' else ''denied'') in
     discard (RecordAudit env ctx (ra_ResolvedBy input) ''approval_resolved'' oc NewAuditContext None (Some (w_ID w))) (
     bindE (sinceMs env (a_createdAt req)) (\<lambda>waitMs.
     bindE (emitApprovalWait env waitMs oc) (\<lambda>_.
     bindE (if ra_Approved input then ret ()
            else bindE (sinceMs env (w_CreatedAt w)) (emitTerminal env ''failed'')) (\<lambda>_.
     ret req))))))))))"

definition GetPendingApprovals :: "Env \<Rightarrow> (World, ApprovalRequest list) go" where
  "GetPendingApprovals env = bindW ''querying pending approvals'' (ApprovalFindPending env) ret"

section \<open>Escalation\<close>

definition TriggerEscalation :: "Env \<Rightarrow> goctx \<Rightarrow> TaskID \<Rightarrow> EscalationCondition \<Rightarrow> EscalationTarget \<Rightarrow> (World, EscalationTrigger) go" where
  "TriggerEscalation env ctx taskID condition target =
     bindE (Now env) (\<lambda>now.
     bindE (generate env) (\<lambda>i.
     bindW ''triggering escalation'' (lift (Trigger now (NewEscalationTrigger i taskID condition target now))) (\<lambda>trigger.
     bindW ''persisting escalation'' (EscalationSave env trigger) (\<lambda>_.
     discard (RecordAudit env ctx ''system'' ''escalation_triggered'' ''triggered'' NewAuditContext (Some taskID) None) (
     ret trigger)))))"

section \<open>Queries\<close>

definition GetTask :: "Env \<Rightarrow> TaskID \<Rightarrow> (World, Task) go" where
  "GetTask env i = TaskFindByID env i"

definition GetWorkflowStatus :: "Env \<Rightarrow> WorkflowRunID \<Rightarrow> (World, WorkflowRun) go" where
  "GetWorkflowStatus env i = bindW ''loading workflow'' (WorkflowFindByID env i) ret"

definition GetWorkflowByTask :: "Env \<Rightarrow> TaskID \<Rightarrow> (World, WorkflowRun) go" where
  "GetWorkflowByTask env taskID = bindW ''loading workflow by task'' (WorkflowFindByTaskID env taskID) ret"

definition ListWorkflows :: "Env \<Rightarrow> WorkflowListFilter \<Rightarrow> (World, WorkflowRun list \<times> nat) go" where
  "ListWorkflows env f = WorkflowList env f"

definition GetBreakerState :: "string \<Rightarrow> string \<Rightarrow> (World, BreakerSnapshot option) go" where
  "GetBreakerState tool role = gets (\<lambda>s. GetBreaker tool role (breakerRegistry s))"

section \<open>Phase decisions\<close>

record PhaseDecisionInput =
  pi_ChangeID :: string
  pi_PhaseType :: string
  pi_TaskDescription :: string
  pi_Sensitive :: bool

record SensitiveDecisionInput =
  sd_ChangeID :: string
  sd_Capability :: string

record Decision =
  de_ID :: string
  de_Decision :: string
  de_AgentRole :: string
  de_Strategy :: string
  de_Reason :: string

abbreviation "DecisionAllow \<equiv> ''allow''"
abbreviation "DecisionDeny \<equiv> ''deny''"
abbreviation "DecisionRequireApproval \<equiv> ''require_approval''"
definition defaultAgentRolePhase :: string where "defaultAgentRolePhase = ''team-lead''"
definition defaultReasonPhase :: string where "defaultReasonPhase = ''M-E0 default-allow policy''"
definition defaultReasonSensitive :: string where "defaultReasonSensitive = ''M-E0 default-allow sensitive policy''"

definition EvaluatePhase :: "Env \<Rightarrow> PhaseDecisionInput \<Rightarrow> (World, Decision) go" where
  "EvaluatePhase env input =
     (if pi_ChangeID input = [] then throw (ErrInvalidInput ''change_id is required'')
      else if pi_PhaseType input = [] then throw (ErrInvalidInput ''phase_type is required'')
      else
      bindE (generate env) (\<lambda>i.
      bindE (Now env) (\<lambda>now.
      bindW ''persisting phase decision''
        (PhaseDecisionSave env
           \<lparr>pdr_ID = i, pdr_ChangeID = pi_ChangeID input, pdr_PhaseType = pi_PhaseType input, pdr_Capability = [],
            pdr_Sensitive = pi_Sensitive input, pdr_Decision = DecisionAllow, pdr_AgentRole = defaultAgentRolePhase,
            pdr_Strategy = [], pdr_Reason = defaultReasonPhase, pdr_CreatedAt = now\<rparr>) (\<lambda>_.
      ret \<lparr>de_ID = i, de_Decision = DecisionAllow, de_AgentRole = defaultAgentRolePhase, de_Strategy = [],
           de_Reason = defaultReasonPhase\<rparr>))))"

definition EvaluateSensitive :: "Env \<Rightarrow> SensitiveDecisionInput \<Rightarrow> (World, Decision) go" where
  "EvaluateSensitive env input =
     (if sd_ChangeID input = [] then throw (ErrInvalidInput ''change_id is required'')
      else if sd_Capability input = [] then throw (ErrInvalidInput ''capability is required'')
      else
      bindE (generate env) (\<lambda>i.
      bindE (Now env) (\<lambda>now.
      bindW ''persisting sensitive decision''
        (PhaseDecisionSave env
           \<lparr>pdr_ID = i, pdr_ChangeID = sd_ChangeID input, pdr_PhaseType = ''sensitive'',
            pdr_Capability = sd_Capability input, pdr_Sensitive = True, pdr_Decision = DecisionAllow,
            pdr_AgentRole = [], pdr_Strategy = [], pdr_Reason = defaultReasonSensitive, pdr_CreatedAt = now\<rparr>) (\<lambda>_.
      ret \<lparr>de_ID = i, de_Decision = DecisionAllow, de_AgentRole = [], de_Strategy = [],
           de_Reason = defaultReasonSensitive\<rparr>))))"

definition ApprovalStatusFor :: "Env \<Rightarrow> string \<Rightarrow> string \<Rightarrow> (World, string) go" where
  "ApprovalStatusFor env changeID phaseID =
     (if changeID = [] \<or> phaseID = [] then throw (ErrInvalidInput ''change_id and phase_id are required'')
      else
      bindW ''looking up phase approval'' (PhaseApprovalFind env changeID phaseID) (\<lambda>rec.
      case rec of
        None \<Rightarrow> ret ''granted''
      | Some r \<Rightarrow> ret (par_Status r)))"

end
