(* ===== verification/Stats.thy ===== *)
theory Stats
  imports Control "HOL-Library.AList"
begin

text \<open>
  The failure statistics behind adaptive routing: \<^verbatim>\<open>internal/application/routing/failure_stats_store.go\<close>
  and \<^verbatim>\<open>failure_stats_collector.go\<close>. The collector reads the audit trail of registered attempts and
  counts them at three levels. A Go map is an association list without duplicate keys.
\<close>

definition DefaultRefreshInterval :: duration where "DefaultRefreshInterval = 5 * 60 * Second"
definition DefaultStatsWindow :: duration where "DefaultStatsWindow = 48 * 3600 * Second"

definition ExtractCategory :: "string \<Rightarrow> string" where
  "ExtractCategory code = beforeByte (CHR ''/'') code"

text \<open>\<^verbatim>\<open>fr := m[k]; fr.Total++; if isFailure { fr.Failures++ }; m[k] = fr\<close>\<close>

definition bump :: "'k \<Rightarrow> bool \<Rightarrow> ('k \<times> FailureRate) list \<Rightarrow> ('k \<times> FailureRate) list" where
  "bump k failed m =
     (let fr = (case map_of m k of None \<Rightarrow> \<lparr>fr_Total = 0, fr_Failures = 0, fr_Rate = 0\<rparr> | Some fr \<Rightarrow> fr);
          fr = fr\<lparr>fr_Total := inc64 (fr_Total fr)\<rparr>;
          fr = (if failed then fr\<lparr>fr_Failures := inc64 (fr_Failures fr)\<rparr> else fr)
      in AList.update k fr m)"

record Tally =
  byStratRoleCat :: "(StatsKey \<times> FailureRate) list"
  byStratCat :: "(StatsKey \<times> FailureRate) list"
  byStrat :: "(RoutingStrategy \<times> FailureRate) list"

definition emptyTally :: Tally where
  "emptyTally = \<lparr>byStratRoleCat = [], byStratCat = [], byStrat = []\<rparr>"

definition entryStrategy :: "AuditEntry \<Rightarrow> string" where
  "entryStrategy e = asString (ae_context e ''strategy_used'')"
definition entryRole :: "AuditEntry \<Rightarrow> string" where
  "entryRole e = asString (ae_context e ''agent_role'')"
definition entryCategory :: "AuditEntry \<Rightarrow> string" where
  "entryCategory e = ExtractCategory (asString (ae_context e ''failure_code''))"
definition entryFailed :: "AuditEntry \<Rightarrow> bool" where
  "entryFailed e \<longleftrightarrow> ae_outcome e = ''failure'' \<or> ae_outcome e = ''retry''"

text \<open>The body of the loop over the entries.\<close>

definition tallyEntry :: "AuditEntry \<Rightarrow> Tally \<Rightarrow> Tally" where
  "tallyEntry e ta =
     (if entryStrategy e = [] then ta
      else
        let strategy = RoutingStrategy (entryStrategy e); role = entryRole e; category = entryCategory e;
            isFailure = entryFailed e;
            ta = ta\<lparr>byStrat := bump strategy isFailure (byStrat ta)\<rparr>;
            ta = (if category \<noteq> []
                  then ta\<lparr>byStratCat := bump \<lparr>sk_Strategy = strategy, sk_Role = [], sk_Category = category\<rparr> isFailure (byStratCat ta)\<rparr>
                  else ta)
        in if role \<noteq> [] \<and> category \<noteq> []
           then ta\<lparr>byStratRoleCat :=
                  bump \<lparr>sk_Strategy = strategy, sk_Role = role, sk_Category = category\<rparr> isFailure (byStratRoleCat ta)\<rparr>
           else ta)"

definition computeRate :: "FailureRate \<Rightarrow> FailureRate" where
  "computeRate v =
     (if 0 < fr_Total v then v\<lparr>fr_Rate := fdiv (of_int (fr_Failures v)) (of_int (fr_Total v))\<rparr> else v)"

definition computeRates :: "('k \<times> FailureRate) list \<Rightarrow> ('k \<times> FailureRate) list" where
  "computeRates m = map (\<lambda>(k, v). (k, computeRate v)) m"

definition buildStats :: "AuditEntry list \<Rightarrow> gotime \<Rightarrow> duration \<Rightarrow> FailureStats" where
  "buildStats entries now window =
     (let ta = fold tallyEntry entries emptyTally
      in \<lparr>fs_ByStrategyRoleCategory = Some (computeRates (byStratRoleCat ta)),
          fs_ByStrategyCategory = Some (computeRates (byStratCat ta)),
          fs_ByStrategy = Some (computeRates (byStrat ta)), fs_ComputedAt = now, fs_Window = window\<rparr>)"

text \<open>A failing query leaves the previous snapshot in place.\<close>

definition refreshStats :: "Env \<Rightarrow> duration \<Rightarrow> (World, unit) go" where
  "refreshStats env window =
     bindE (timeNow env) (\<lambda>t.
     bindR (AuditQuery env
              \<lparr>af_TaskID = None, af_WorkflowRunID = None, af_Actor = None, af_Action = Some ''attempt_registered'',
               af_CreatedAfter = Some (t - window), af_CreatedBefore = None, af_Limit = 0, af_Offset = 0\<rparr>) (\<lambda>r.
     case r of
       Inl _ \<Rightarrow> ret ()
     | Inr (entries, _) \<Rightarrow>
         bindE (timeNow env) (\<lambda>now.
         modify (\<lambda>s. s\<lparr>statsStore := Some (buildStats entries now window)\<rparr>))))"

section \<open>Counting\<close>













section \<open>Exactness\<close>









section \<open>What the category levels measure\<close>










lemma computeRate_counts [simp]: "fr_Total (computeRate v) = fr_Total v" "fr_Failures (computeRate v) = fr_Failures v"
  by (simp_all add: computeRate_def)









end
