(* ===== verification/Guarantee.thy ===== *)
theory Guarantee
  imports Prelude
begin

text \<open>
  Reasoning about computations of type \<open>go\<close> that may stop with an error at any statement. A triple
  \<open>triple P m Q E\<close> says that \<open>m\<close>, started in a state with the invariant and \<open>P\<close>, keeps the invariant
  and the guarantee \<open>R\<close> between the two states on every outcome, and ends with \<open>Q\<close> or, with an error, \<open>E\<close>.
  Computations that only touch what a frame relation \<open>F\<close> permits keep every assertion stable under \<open>F\<close>.
\<close>

locale guarantee = step_preorder R for R :: "'s \<Rightarrow> 's \<Rightarrow> bool" +
  fixes I :: "'s \<Rightarrow> bool"
begin

definition triple :: "('s \<Rightarrow> bool) \<Rightarrow> ('s, 'a) go \<Rightarrow> ('a \<Rightarrow> 's \<Rightarrow> bool) \<Rightarrow> ('s \<Rightarrow> bool) \<Rightarrow> bool" where
  "triple P m Q E \<longleftrightarrow>
     (\<forall>s. I s \<longrightarrow> P s \<longrightarrow> wp m (\<lambda>x t. I t \<and> R s t \<and> Q x t) (\<lambda>_ t. I t \<and> R s t \<and> E t) s)"

lemma tripleI:
  "(\<And>s. I s \<Longrightarrow> P s \<Longrightarrow> wp m (\<lambda>x t. I t \<and> R s t \<and> Q x t) (\<lambda>_ t. I t \<and> R s t \<and> E t) s) \<Longrightarrow> triple P m Q E"
  by (simp add: triple_def)

lemma tripleD:
  "triple P m Q E \<Longrightarrow> I s \<Longrightarrow> P s \<Longrightarrow> wp m (\<lambda>x t. I t \<and> R s t \<and> Q x t) (\<lambda>_ t. I t \<and> R s t \<and> E t) s"
  by (simp add: triple_def)

text \<open>The outcome of a whole computation.\<close>

lemma triple_final: "triple P m Q E \<Longrightarrow> I s \<Longrightarrow> P s \<Longrightarrow> I (snd (m s)) \<and> R s (snd (m s))"
  by (rule wp_snd [where P = "\<lambda>t. I t \<and> R s t"]) (rule wp_mono [OF tripleD], blast+)

lemma triple_conseq:
  assumes "triple P' m Q' E'" "\<And>s. I s \<Longrightarrow> P s \<Longrightarrow> P' s" "\<And>x s. Q' x s \<Longrightarrow> Q x s" "\<And>s. E' s \<Longrightarrow> E s"
  shows "triple P m Q E"
  using assms by (intro tripleI) (rule wp_mono [OF tripleD], blast+)

lemma triple_pre: "triple P' m Q E \<Longrightarrow> (\<And>s. I s \<Longrightarrow> P s \<Longrightarrow> P' s) \<Longrightarrow> triple P m Q E"
  by (rule triple_conseq)

lemma triple_weaken: "triple P m Q E \<Longrightarrow> triple P m (\<lambda>_ _. True) (\<lambda>_. True)"
  by (erule triple_conseq) simp_all

lemma triple_pure: "(b \<Longrightarrow> triple P m Q E) \<Longrightarrow> triple (\<lambda>s. P s \<and> b) m Q E"
  by (cases b) (simp_all add: triple_def)

text \<open>Sequencing: the guarantee is transitive.\<close>

lemma wp_step:
  assumes "wp m (\<lambda>x t. I t \<and> R s t \<and> M x t) N s"
    and "\<And>x t. I t \<Longrightarrow> M x t \<Longrightarrow> wp (k x) (\<lambda>y u. I u \<and> R t u \<and> Q y u) (\<lambda>_ u. I u \<and> R t u \<and> E u) t"
  shows "wp m (\<lambda>x. wp (k x) (\<lambda>y u. I u \<and> R s u \<and> Q y u) (\<lambda>_ u. I u \<and> R s u \<and> E u)) N s"
proof (rule wp_mono [OF assms(1)])
  fix x t
  assume "I t \<and> R s t \<and> M x t"
  then show "wp (k x) (\<lambda>y u. I u \<and> R s u \<and> Q y u) (\<lambda>_ u. I u \<and> R s u \<and> E u) t"
    by (intro wp_mono [OF assms(2)]) (auto intro: R_trans)
qed

lemma triple_bindR:
  assumes m: "triple P m M N" and k: "\<And>x. triple (M x) (k (Inr x)) Q E" and n: "\<And>e. triple N (k (Inl e)) Q E"
    and p: "\<And>s. N s \<Longrightarrow> E s"
  shows "triple P (bindR m k) Q E"
proof (rule tripleI)
  fix s
  assume s: "I s" "P s"
  have err: "wp (k (Inl e)) (\<lambda>y u. I u \<and> R s u \<and> Q y u) (\<lambda>_ u. I u \<and> R s u \<and> E u) t" if "I t \<and> R s t \<and> N t" for e t
    by (rule wp_mono [OF tripleD [OF n, of t e]]) (use that in \<open>auto intro: R_trans\<close>)
  show "wp (bindR m k) (\<lambda>x t. I t \<and> R s t \<and> Q x t) (\<lambda>_ t. I t \<and> R s t \<and> E t) s"
    unfolding wp_bindR
    by (rule wp_mono [OF wp_step [where k = "\<lambda>x. k (Inr x)" and Q = Q and E = E, OF tripleD [OF m s] tripleD [OF k]]])
       (use err p in auto)
qed

lemma triple_throw: "(\<And>s. P s \<Longrightarrow> E s) \<Longrightarrow> triple P (throw e) Q E"
  by (rule tripleI) (simp add: wps R_refl)

lemma triple_ret: "(\<And>s. P s \<Longrightarrow> Q x s) \<Longrightarrow> triple P (ret x) Q E"
  by (rule tripleI) (simp add: wps R_refl)

lemma triple_skip: "triple P (ret x) (\<lambda>_. P) E"
  by (rule triple_ret)

lemma triple_done: "triple P (ret x) (\<lambda>_ _. True) E"
  by (rule triple_ret) simp

lemma triple_lift: "(\<And>x s. r = Inr x \<Longrightarrow> P s \<Longrightarrow> Q x s) \<Longrightarrow> (\<And>s. P s \<Longrightarrow> E s) \<Longrightarrow> triple P (lift r) Q E"
  by (rule tripleI) (cases r; simp add: wps R_refl)

text \<open>
  After an error nothing is claimed but the invariant and the guarantee; the following rules are the
  ones the services are verified with.
\<close>

lemma triple_bindE:
  assumes "triple P m M N" "\<And>x. triple (M x) (k x) Q (\<lambda>_. True)"
  shows "triple P (bindE m k) Q (\<lambda>_. True)"
  unfolding bindE_bindR
  by (rule triple_bindR [OF assms(1)]) (use assms(2) in \<open>auto intro: triple_throw\<close>)

lemma triple_bindW:
  assumes "triple P m M N" "\<And>x. triple (M x) (k x) Q (\<lambda>_. True)"
  shows "triple P (bindW c m k) Q (\<lambda>_. True)"
  unfolding bindW_bindR
  by (rule triple_bindR [OF assms(1)]) (use assms(2) in \<open>auto intro: triple_throw\<close>)

text \<open>Where the state after an error matters, because the caller goes on.\<close>

lemma triple_bindW_error:
  assumes "triple P m M E" "\<And>x. triple (M x) (k x) Q E"
  shows "triple P (bindW c m k) Q E"
  unfolding bindW_bindR
  by (rule triple_bindR [OF assms(1)]) (use assms(2) in \<open>auto intro: triple_throw\<close>)

lemma triple_lift_error:
  "(\<And>s. P s \<Longrightarrow> E s) \<Longrightarrow> (\<And>x. r = Inr x \<Longrightarrow> triple P (k x) Q E) \<Longrightarrow> triple P (bindE (lift r) k) Q E"
  by (cases r) (auto simp: triple_def wps R_refl)

lemma triple_discard:
  assumes "triple P m (\<lambda>_. P') P'" "triple P' k Q (\<lambda>_. True)"
  shows "triple P (discard m k) Q (\<lambda>_. True)"
  unfolding discard_bindR by (rule triple_bindR [OF assms(1)]) (use assms(2) in simp_all)

lemma triple_lift_bindE:
  "(\<And>x. r = Inr x \<Longrightarrow> triple P (k x) Q (\<lambda>_. True)) \<Longrightarrow> triple P (bindE (lift r) k) Q (\<lambda>_. True)"
  by (cases r) (auto simp: triple_def wps R_refl)

lemma triple_lift_bindW:
  "(\<And>x. r = Inr x \<Longrightarrow> triple P (k x) Q (\<lambda>_. True)) \<Longrightarrow> triple P (bindW c (lift r) k) Q (\<lambda>_. True)"
  by (cases r) (auto simp: triple_def wps R_refl)

lemma triple_if: "(b \<Longrightarrow> triple P m Q E) \<Longrightarrow> (\<not> b \<Longrightarrow> triple P n Q E) \<Longrightarrow> triple P (if b then m else n) Q E"
  by simp

lemma triple_gets_bindE:
  "(\<And>x. triple P (k x) Q (\<lambda>_. True)) \<Longrightarrow> triple P (bindE (gets f) k) Q (\<lambda>_. True)"
  by (auto simp: triple_def wps R_refl)

end

section \<open>Frames\<close>

locale framed = guarantee R I + frame: step_preorder F
  for R :: "'s \<Rightarrow> 's \<Rightarrow> bool" and I :: "'s \<Rightarrow> bool" and F :: "'s \<Rightarrow> 's \<Rightarrow> bool" +
  assumes F_keeps: "F s t \<Longrightarrow> I s \<Longrightarrow> I t \<and> R s t"
begin

definition stable :: "('s \<Rightarrow> bool) \<Rightarrow> bool" where
  "stable P \<longleftrightarrow> (\<forall>s t. F s t \<longrightarrow> P s \<longrightarrow> P t)"

lemma stableI: "(\<And>s t. F s t \<Longrightarrow> P s \<Longrightarrow> P t) \<Longrightarrow> stable P"
  by (simp add: stable_def)

lemma stable_const: "stable (\<lambda>_. b)"
  by (simp add: stable_def)

lemma stable_conj: "stable P \<Longrightarrow> stable Q \<Longrightarrow> stable (\<lambda>s. P s \<and> Q s)"
  by (auto simp: stable_def)

lemmas stable_rules = stable_const stable_conj

lemma triple_frame: "frame.steps m \<Longrightarrow> stable P \<Longrightarrow> triple P m (\<lambda>_. P) P"
proof (rule tripleI)
  fix s
  assume m: "frame.steps m" and P: "stable P" and s: "I s" "P s"
  from m have "F s (snd (m s))" by (rule frame.stepsD)
  with P s F_keeps have "I (snd (m s)) \<and> R s (snd (m s)) \<and> P (snd (m s))" by (auto simp: stable_def)
  then show "wp m (\<lambda>x t. I t \<and> R s t \<and> P t) (\<lambda>_ t. I t \<and> R s t \<and> P t) s"
    by (auto simp: wp_def split: prod.splits sum.splits)
qed

lemma triple_frame_True: "frame.steps m \<Longrightarrow> triple P m (\<lambda>_ _. True) (\<lambda>_. True)"
  by (rule triple_conseq [OF triple_frame [where P = "\<lambda>_. True"]]) (simp_all add: stable_const)

end

section \<open>Tables with a key\<close>

text \<open>A table read as a finite map from its key to the columns of interest.\<close>

definition keyed :: "('r \<Rightarrow> 'k) \<Rightarrow> ('r \<Rightarrow> 'v) \<Rightarrow> 'r list \<Rightarrow> 'k \<Rightarrow> 'v option" where
  "keyed key view rows = map_of (map (\<lambda>r. (key r, view r)) rows)"

lemma dom_keyed: "dom (keyed key view rows) = key ` set rows"
  by (simp add: keyed_def dom_map_of_conv_image_fst image_image)

lemma keyed_None: "keyed key view rows k = None \<longleftrightarrow> k \<notin> key ` set rows"
  by (metis dom_keyed domIff)

lemma keyed_Some: "distinct (map key rows) \<Longrightarrow> r \<in> set rows \<Longrightarrow> keyed key view rows (key r) = Some (view r)"
  unfolding keyed_def by (rule map_of_is_SomeI) (auto simp: o_def)

lemma keyed_SomeD: "keyed key view rows k = Some v \<Longrightarrow> \<exists>r\<in>set rows. key r = k \<and> view r = v"
  unfolding keyed_def by (drule map_of_SomeD) auto

lemma keyed_insert:
  "key r \<notin> key ` set rows \<Longrightarrow> keyed key view (rows @ [r]) = (keyed key view rows)(key r \<mapsto> view r)"
proof (rule ext)
  fix k
  assume "key r \<notin> key ` set rows"
  then have "keyed key view rows (key r) = None" by (simp add: keyed_None)
  then show "keyed key view (rows @ [r]) k = ((keyed key view rows)(key r \<mapsto> view r)) k"
    by (auto simp: keyed_def map_add_def split: option.splits)
qed

lemma keyed_update:
  assumes "distinct (map key rows)" "r \<in> set rows" "key r = k" "\<And>x. key (f x) = key x"
  shows "keyed key view (map (\<lambda>x. if key x = k then f x else x) rows) = (keyed key view rows)(k \<mapsto> view (f r))"
  using assms(1,2)
proof (induction rows)
  case (Cons x xs)
  show ?case
  proof (cases "x = r")
    case True
    then have "map (\<lambda>x. if key x = k then f x else x) xs = xs"
      using Cons.prems assms(3) by (intro map_idI) (auto simp: rev_image_eqI)
    then show ?thesis using True assms(3,4) by (simp add: keyed_def fun_eq_iff)
  next
    case False
    then have "key x \<noteq> k" using Cons.prems assms(3) by auto
    with False Cons assms(3) show ?thesis by (auto simp: keyed_def)
  qed
qed simp

lemma keyed_update_absent:
  "k \<notin> key ` set rows \<Longrightarrow> map (\<lambda>x. if key x = k then f x else x) rows = rows"
  by (induction rows) auto

lemma keys_update: "(\<And>x. key (f x) = key x) \<Longrightarrow> map key (map (\<lambda>x. if key' x = k then f x else x) rows) = map key rows"
  by (induction rows) auto

end
