(* ===== verification/Frames.thy ===== *)
theory Frames
  imports Control Stats Guarantee "HOL-Library.Sublist"
begin

text \<open>
  What the services can do to the tables, whatever the faults. A relation between two states of the
  database that every statement respects is respected by every service; the locale \<open>db_frame\<close> asks this
  of the insertion of tasks, audit entries, escalations and phase decisions only, which is all that the
  recording services do, and \<open>db_history\<close> of every statement the services send. The interpretation
  \<open>record\<close> shows that the record is append-only.
\<close>

section \<open>Services that only add to the record\<close>

locale db_frame =
  fixes D :: "DB \<Rightarrow> DB \<Rightarrow> bool"
  assumes D_refl: "D d d"
    and D_trans: "D d d' \<Longrightarrow> D d' d'' \<Longrightarrow> D d d''"
    and D_task: "insertTask t d = Inr d' \<Longrightarrow> D d d'"
    and D_audit: "insertAudit a d = Inr d' \<Longrightarrow> D d d'"
    and D_escalation: "insertEscalation e d = Inr d' \<Longrightarrow> D d d'"
    and D_phase: "insertPhaseDecision p d = Inr d' \<Longrightarrow> D d d'"

sublocale db_frame \<subseteq> step_preorder "\<lambda>s t. D (db s) (db t)"
  by unfold_locales (blast intro: D_refl D_trans)+

context db_frame
begin

lemma steps_exec: "(\<And>d d'. stmt d = Inr d' \<Longrightarrow> D d d') \<Longrightarrow> steps (exec env stmt)"
  by (rule stepsI) (auto simp: exec_def Let_def D_refl split: fault.splits sum.splits)

lemma steps_queryRow: "steps (queryRow env what sel scan)"
  by (rule stepsI) (simp add: queryRow_def Let_def D_refl)

lemma steps_query: "steps (query env what sel scan)"
  by (rule stepsI) (simp add: query_def Let_def D_refl)

lemma steps_timeNow: "steps (timeNow env)"
  by (rule stepsI) (simp add: timeNow_def D_refl)

lemma steps_generate: "steps (generate env)"
  by (rule stepsI) (simp add: generate_def D_refl)

lemma steps_memory: "steps (GetRelevantContext env t q)"
  by (rule stepsI) (simp add: GetRelevantContext_def D_refl split: option.splits)

lemma steps_notes: "steps (modify (\<lambda>s. s\<lparr>notified := f s\<rparr>))" "steps (modify (\<lambda>s. s\<lparr>metered := g s\<rparr>))"
  "steps (modify (\<lambda>s. s\<lparr>breakerRegistry := b\<rparr>))" "steps (modify (\<lambda>s. s\<lparr>statsStore := st\<rparr>))"
  by (rule steps_modify, simp add: D_refl)+

lemma steps_case_prod: "(\<And>a b. steps (f a b)) \<Longrightarrow> steps (case p of (a, b) \<Rightarrow> f a b)"
  by (simp split: prod.splits)

lemma steps_Let: "(\<And>x. steps (f x)) \<Longrightarrow> steps (let x = v in f x)"
  by simp

lemmas steps_prims =
  steps_rules steps_case_prod steps_Let steps_exec steps_queryRow steps_query steps_timeNow steps_generate
  steps_memory steps_notes

lemma steps_Now: "steps (Now env)"
  unfolding Now_def by (intro steps_prims)

lemma steps_lookups:
  "steps (TaskFindByID env t)" "steps (RoutingFindByTaskID env t)" "steps (PolicyFindByTaskID env t)"
  "steps (WorkflowFindByID env w)" "steps (WorkflowFindByTaskID env t)" "steps (LeaseFindByWorkflowRunID env w)"
  "steps (ApprovalFindByID env a)" "steps (ApprovalFindPending env)" "steps (AuditQuery env af)"
  "steps (WorkflowList env wlf)"
  unfolding TaskFindByID_def RoutingFindByTaskID_def PolicyFindByTaskID_def WorkflowFindByID_def
    WorkflowFindByTaskID_def LeaseFindByWorkflowRunID_def ApprovalFindByID_def ApprovalFindPending_def
    AuditQuery_def WorkflowList_def
  by (rule steps_queryRow steps_query)+

lemma steps_PhaseApprovalFind: "steps (PhaseApprovalFind env c p)"
  unfolding PhaseApprovalFind_def
  by (intro steps_prims) (auto intro: steps_prims split: sum.split gov_error.split)

lemma steps_saves:
  "steps (TaskSave env t)" "steps (AuditAppend env ae)" "steps (EscalationSave env et)" "steps (PhaseDecisionSave env rec)"
  unfolding TaskSave_def AuditAppend_def EscalationSave_def PhaseDecisionSave_def
  by (intro steps_prims; erule D_task D_audit D_escalation D_phase)+

lemma steps_RecordAudit: "steps (RecordAudit env ctx actor action oc actx t w)"
  unfolding RecordAudit_def by (intro steps_prims steps_Now steps_saves)

lemma steps_notify: "steps (notify env n)"
  unfolding notify_def by (intro steps_prims)

lemma steps_On:
  "steps (OnExecutionReady env w l)" "steps (OnApprovalRequired env w req)" "steps (OnWorkflowTerminated env w r)"
  unfolding OnExecutionReady_def OnApprovalRequired_def OnWorkflowTerminated_def by (rule steps_notify)+

lemma steps_meter: "steps (meter env es)"
  unfolding meter_def by (intro steps_prims)

lemma steps_emit:
  "steps (emitTerminal env st d)" "steps (emitFailure env stage cat rt)" "steps (emitApprovalWait env wait res)"
  "steps (sinceMs env tm)"
  unfolding emitTerminal_def emitFailure_def emitApprovalWait_def sinceMs_def by (intro steps_prims steps_meter)+

lemma steps_ObserveBreaker: "steps (ObserveBreaker env tool role ok now)"
  unfolding ObserveBreaker_def AuditListener_def MetricsListener_def
  by (intro steps_prims steps_RecordAudit steps_meter)

lemmas steps_recording =
  steps_prims steps_Now steps_lookups steps_saves steps_RecordAudit steps_On steps_emit steps_ObserveBreaker

lemma steps_afterAttempt: "steps (afterAttempt env ctx result actx failure now w)"
  unfolding afterAttempt_def by (intro steps_recording)

lemma steps_createSubtasks: "steps (createSubtasks env ctx parent now sfs)"
  by (induction sfs) (auto intro!: steps_recording)

lemma steps_createDecomposeSubtasks: "steps (createDecomposeSubtasks env ctx parent now)"
  unfolding createDecomposeSubtasks_def by (intro steps_prims steps_createSubtasks)

lemma steps_memoryContext: "steps (memoryContext env t q)"
  unfolding memoryContext_def by (intro steps_prims)

lemma steps_SubmitTask: "steps (SubmitTask env ctx input)"
  unfolding SubmitTask_def by (intro steps_recording)

lemma steps_TriggerEscalation: "steps (TriggerEscalation env ctx t c tgt)"
  unfolding TriggerEscalation_def by (intro steps_recording)

lemma steps_phase:
  "steps (EvaluatePhase env pinput)" "steps (EvaluateSensitive env sinput)" "steps (ApprovalStatusFor env c p)"
  unfolding EvaluatePhase_def EvaluateSensitive_def ApprovalStatusFor_def
  by (intro steps_recording steps_PhaseApprovalFind)+

lemma steps_queries:
  "steps (GetTask env t)" "steps (GetWorkflowStatus env w)" "steps (GetWorkflowByTask env t)"
  "steps (ListWorkflows env wlf)" "steps (QueryAuditTrail env af)" "steps (GetPendingApprovals env)"
  "steps (GetBreakerState tool role)"
  unfolding GetTask_def GetWorkflowStatus_def GetWorkflowByTask_def ListWorkflows_def QueryAuditTrail_def
    GetPendingApprovals_def GetBreakerState_def
  by (intro steps_recording)+

lemma steps_refreshStats: "steps (refreshStats env window)"
  unfolding refreshStats_def by (intro steps_recording)

end

section \<open>All services\<close>

locale db_history = db_frame +
  assumes D_routing: "insertRouting rr d = Inr d' \<Longrightarrow> D d d'"
    and D_policy: "insertPolicy pr d = Inr d' \<Longrightarrow> D d d'"
    and D_workflow: "insertWorkflow wr d = Inr d' \<Longrightarrow> D d d'"
    and D_workflowUpdate: "updateWorkflow wr d = Inr d' \<Longrightarrow> D d d'"
    and D_lease: "insertLease lr d = Inr d' \<Longrightarrow> D d d'"
    and D_leaseUpdate: "updateLease lr d = Inr d' \<Longrightarrow> D d d'"
    and D_approval: "insertApproval ar d = Inr d' \<Longrightarrow> D d d'"
    and D_approvalUpdate: "updateApproval ai ast ares d = Inr d' \<Longrightarrow> D d d'"
begin

lemmas D_decisions = D_routing D_policy D_workflow D_workflowUpdate D_lease D_leaseUpdate D_approval D_approvalUpdate

lemma steps_repos:
  "steps (RoutingSave env rd)" "steps (PolicySave env pd)" "steps (WorkflowSave env w)" "steps (WorkflowUpdate env w)"
  "steps (LeaseSave env l)" "steps (LeaseUpdate env l)" "steps (ApprovalSave env req)" "steps (ApprovalUpdate env req)"
  unfolding RoutingSave_def PolicySave_def WorkflowSave_def WorkflowUpdate_def LeaseSave_def LeaseUpdate_def
    ApprovalSave_def ApprovalUpdate_def
  by (intro steps_prims; erule D_decisions)+

lemma steps_orElse: "steps m \<Longrightarrow> (\<And>x. steps (k x)) \<Longrightarrow> steps (orElse f m k)"
  unfolding orElse_def by (intro steps_prims)

lemmas steps_services = steps_recording steps_repos steps_orElse steps_memoryContext steps_createDecomposeSubtasks

lemma steps_loadOrCreateRun: "steps (loadOrCreateRun env t now)"
  unfolding loadOrCreateRun_def by (intro steps_services)

lemma steps_RouteTask: "steps (RouteTask env ctx t)"
  unfolding RouteTask_def by (intro steps_services steps_loadOrCreateRun)

lemma steps_EvaluatePolicySvc: "steps (EvaluatePolicySvc env ctx t action)"
  unfolding EvaluatePolicySvc_def by (intro steps_services)

lemma steps_grantLease: "steps (grantLease env w now)"
  unfolding grantLease_def by (intro steps_services)

lemma steps_StartWorkflow: "steps (StartWorkflow env ctx t)"
  unfolding StartWorkflow_def startDenied_def startAwaitingApproval_def startRunning_def
  by (intro steps_services steps_grantLease)

lemma steps_ProcessTask: "steps (ProcessTask env ctx input action)"
  unfolding ProcessTask_def
  by (intro steps_rules steps_SubmitTask steps_RouteTask steps_EvaluatePolicySvc steps_StartWorkflow)

lemma steps_RegisterAttempt: "steps (RegisterAttempt env ctx w result)"
  unfolding RegisterAttempt_def by (intro steps_services steps_afterAttempt)

lemma steps_control:
  "steps (PauseWorkflow env ctx w r a)" "steps (ResumeWorkflow env ctx w r a)" "steps (KillWorkflow env ctx w r a)"
  unfolding PauseWorkflow_def ResumeWorkflow_def KillWorkflow_def revokeLease_def by (intro steps_services)+

lemma steps_ResolveApproval: "steps (ResolveApproval env ctx rin)"
  unfolding ResolveApproval_def runApproved_def runDenied_def by (intro steps_services steps_grantLease)

end

section \<open>The interface of the control plane\<close>

text \<open>
  The methods of the inbound ports that reach the tables, and the background refresh of the failure
  statistics. \<open>callApi\<close> is the state after a call; its result is dropped.
\<close>

datatype ApiCall =
    CallSubmitTask goctx SubmitTaskInput
  | CallProcessTask goctx SubmitTaskInput string
  | CallRouteTask goctx TaskID
  | CallEvaluatePolicy goctx TaskID string
  | CallStartWorkflow goctx TaskID
  | CallRegisterAttempt goctx WorkflowRunID AttemptResult
  | CallPauseWorkflow goctx WorkflowRunID string ActorID
  | CallResumeWorkflow goctx WorkflowRunID string ActorID
  | CallKillWorkflow goctx WorkflowRunID string ActorID
  | CallResolveApproval goctx ResolveApprovalInput
  | CallGetPendingApprovals
  | CallTriggerEscalation goctx TaskID EscalationCondition EscalationTarget
  | CallGetTask TaskID
  | CallGetWorkflowStatus WorkflowRunID
  | CallGetWorkflowByTask TaskID
  | CallListWorkflows WorkflowListFilter
  | CallQueryAuditTrail AuditFilter
  | CallGetBreakerState string string
  | CallEvaluatePhase PhaseDecisionInput
  | CallEvaluateSensitive SensitiveDecisionInput
  | CallApprovalStatus string string
  | CallRefreshStats duration

fun callApi :: "Env \<Rightarrow> ApiCall \<Rightarrow> World \<Rightarrow> World" where
  "callApi env (CallSubmitTask ctx input) s = snd (SubmitTask env ctx input s)"
| "callApi env (CallProcessTask ctx input action) s = snd (ProcessTask env ctx input action s)"
| "callApi env (CallRouteTask ctx t) s = snd (RouteTask env ctx t s)"
| "callApi env (CallEvaluatePolicy ctx t action) s = snd (EvaluatePolicySvc env ctx t action s)"
| "callApi env (CallStartWorkflow ctx t) s = snd (StartWorkflow env ctx t s)"
| "callApi env (CallRegisterAttempt ctx w result) s = snd (RegisterAttempt env ctx w result s)"
| "callApi env (CallPauseWorkflow ctx w r a) s = snd (PauseWorkflow env ctx w r a s)"
| "callApi env (CallResumeWorkflow ctx w r a) s = snd (ResumeWorkflow env ctx w r a s)"
| "callApi env (CallKillWorkflow ctx w r a) s = snd (KillWorkflow env ctx w r a s)"
| "callApi env (CallResolveApproval ctx input) s = snd (ResolveApproval env ctx input s)"
| "callApi env CallGetPendingApprovals s = snd (GetPendingApprovals env s)"
| "callApi env (CallTriggerEscalation ctx t c tgt) s = snd (TriggerEscalation env ctx t c tgt s)"
| "callApi env (CallGetTask t) s = snd (GetTask env t s)"
| "callApi env (CallGetWorkflowStatus w) s = snd (GetWorkflowStatus env w s)"
| "callApi env (CallGetWorkflowByTask t) s = snd (GetWorkflowByTask env t s)"
| "callApi env (CallListWorkflows f) s = snd (ListWorkflows env f s)"
| "callApi env (CallQueryAuditTrail f) s = snd (QueryAuditTrail env f s)"
| "callApi env (CallGetBreakerState tool role) s = snd (GetBreakerState tool role s)"
| "callApi env (CallEvaluatePhase input) s = snd (EvaluatePhase env input s)"
| "callApi env (CallEvaluateSensitive input) s = snd (EvaluateSensitive env input s)"
| "callApi env (CallApprovalStatus c p) s = snd (ApprovalStatusFor env c p s)"
| "callApi env (CallRefreshStats window) s = snd (refreshStats env window s)"

definition runCalls :: "Env \<Rightarrow> ApiCall list \<Rightarrow> World \<Rightarrow> World" where
  "runCalls env calls s = fold (callApi env) calls s"

context db_history
begin

lemma callApi_D: "D (db s) (db (callApi env c s))"
  by (cases c)
     (simp_all add: stepsD steps_SubmitTask steps_ProcessTask steps_RouteTask steps_EvaluatePolicySvc
       steps_StartWorkflow steps_RegisterAttempt steps_control steps_ResolveApproval steps_TriggerEscalation
       steps_queries steps_phase steps_refreshStats)

lemma runCalls_D: "D (db s) (db (runCalls env calls s))"
  by (induction calls arbitrary: s) (auto simp: runCalls_def intro: D_refl D_trans [OF callApi_D])

end

section \<open>The record is append-only\<close>

definition runIdentity :: "workflowRow \<Rightarrow> string \<times> string \<times> gotime" where
  "runIdentity r = (wr_id r, wr_task_id r, wr_created_at r)"

definition leaseIdentity :: "leaseRow \<Rightarrow> string \<times> string \<times> gotime" where
  "leaseIdentity r = (lr_id r, lr_workflow_run_id r, lr_created_at r)"

definition requestIdentity :: "approvalRow \<Rightarrow> approvalRow" where
  "requestIdentity r = r\<lparr>ap_status := [], ap_resolution := None\<rparr>"

definition appendOnly :: "DB \<Rightarrow> DB \<Rightarrow> bool" where
  "appendOnly d d' \<longleftrightarrow>
     prefix (db_tasks d) (db_tasks d') \<and> prefix (db_routings d) (db_routings d') \<and>
     prefix (db_policies d) (db_policies d') \<and> prefix (db_escalations d) (db_escalations d') \<and>
     prefix (db_audits d) (db_audits d') \<and> prefix (db_phaseDecisions d) (db_phaseDecisions d') \<and>
     db_phaseApprovals d' = db_phaseApprovals d \<and>
     prefix (map runIdentity (db_workflows d)) (map runIdentity (db_workflows d')) \<and>
     prefix (map leaseIdentity (db_leases d)) (map leaseIdentity (db_leases d')) \<and>
     prefix (map requestIdentity (db_approvals d)) (map requestIdentity (db_approvals d'))"

lemmas statement_defs =
  insertTask_def insertRouting_def insertPolicy_def insertWorkflow_def updateWorkflow_def insertLease_def
  updateLease_def insertApproval_def updateApproval_def insertEscalation_def insertAudit_def insertPhaseDecision_def

lemma identity_updates:
  "map runIdentity (map (\<lambda>r. if wr_id r = i then setWorkflow wnew r else r) wrows) = map runIdentity wrows"
  "map leaseIdentity (map (\<lambda>r. if lr_id r = i then setLease lnew r else r) lrows) = map leaseIdentity lrows"
  "map requestIdentity (map (\<lambda>r. if ap_id r = i then r\<lparr>ap_status := st, ap_resolution := res\<rparr> else r) arows) =
   map requestIdentity arows"
  by (rule keys_update, simp add: runIdentity_def setWorkflow_def leaseIdentity_def setLease_def requestIdentity_def)+

interpretation ledger: db_history appendOnly
proof
  show "appendOnly d d" for d by (simp add: appendOnly_def)
  show "appendOnly d d' \<Longrightarrow> appendOnly d' d'' \<Longrightarrow> appendOnly d d''" for d d' d''
    by (auto simp: appendOnly_def intro: prefix_order.trans)
qed (auto simp: appendOnly_def statement_defs identity_updates simp del: map_map split: if_splits)

text \<open>
  C6. The record of the control plane is append-only. Whatever sequence of calls the services receive,
  and whatever statements the database refuses or carries out without answering, no task, routing
  decision, policy decision, escalation, audit entry or phase decision that was once stored is ever
  changed, removed or reordered; runs, leases and approval requests are never removed and keep their
  identity, the run or task they belong to, their creation time and, for requests, what was asked.
\<close>

theorem record_append_only: "appendOnly (db s) (db (runCalls env calls s))"
  by (rule ledger.runCalls_D)

end
