(* ===== verification/Contract.thy ===== *)
theory Contract
  imports Workflow Policy Execution Approval
begin

text \<open>
  What the control plane promises, without its services, tables and faults: an abstract machine whose
  state is the set of decisions made, the runs with their statuses, the approval requests and the
  leases. A run moves only along the table of \<open>Workflow\<close>, and only when the evidence for the new
  status is there. The refinement of this machine by the services is in \<open>Governance\<close>.
\<close>

section \<open>The abstract machine\<close>

record GovState =
  gs_tasks :: "TaskID set"
  gs_routed :: "TaskID set"
  gs_policy :: "(TaskID \<times> PolicyOutcome) set"
  gs_runs :: "WorkflowRunID \<Rightarrow> (TaskID \<times> WorkflowStatus) option"
  gs_approvals :: "ApprovalRequestID \<Rightarrow> (WorkflowRunID \<times> ApprovalStatus) option"
  gs_leases :: "WorkflowRunID \<Rightarrow> (int \<times> int \<times> LeaseStatus) option"

definition allowed :: "GovState \<Rightarrow> TaskID \<Rightarrow> bool" where
  "allowed g t \<longleftrightarrow> (t, OutcomeAllow) \<in> gs_policy g \<or> (t, OutcomeAllowWithConstraints) \<in> gs_policy g"

definition requestWith :: "GovState \<Rightarrow> WorkflowRunID \<Rightarrow> ApprovalStatus \<Rightarrow> bool" where
  "requestWith g i st \<longleftrightarrow> (\<exists>a. gs_approvals g a = Some (i, st))"

text \<open>Who lets a run of a task execute: the policy itself, or somebody who granted the request.\<close>

definition authorised :: "GovState \<Rightarrow> WorkflowRunID \<Rightarrow> TaskID \<Rightarrow> bool" where
  "authorised g i t \<longleftrightarrow> allowed g t \<or> requestWith g i ApprovalApproved"

text \<open>What must be on record before a run may enter a status.\<close>

definition evidence :: "GovState \<Rightarrow> WorkflowRunID \<Rightarrow> TaskID \<Rightarrow> WorkflowStatus \<Rightarrow> bool" where
  "evidence g i t to \<longleftrightarrow>
     (if to = StatusRouted then t \<in> gs_routed g
      else if to = StatusPolicyChecked then t \<in> fst ` gs_policy g
      else if to = StatusAwaitingApproval
      then (t, OutcomeRequireApproval) \<in> gs_policy g \<and> requestWith g i ApprovalPending
      else if to = StatusApproved then requestWith g i ApprovalApproved
      else if to = StatusRunning
      then \<exists>m u. gs_leases g i = Some (m, u, LeaseStatusActive) \<and> u < m
      else if to = StatusCompleted then \<exists>m u st. gs_leases g i = Some (m, u, st) \<and> 1 \<le> u
      else if to = StatusQuarantined then \<exists>m. gs_leases g i = Some (m, m, LeaseStatusExhausted)
      else if to = StatusFailed then (t, OutcomeDeny) \<in> gs_policy g \<or> requestWith g i ApprovalDenied
      else True)"

inductive govStep :: "GovState \<Rightarrow> GovState \<Rightarrow> bool" where
  Submit: "t \<notin> gs_tasks g \<Longrightarrow> govStep g (g\<lparr>gs_tasks := insert t (gs_tasks g)\<rparr>)"
| Route: "t \<in> gs_tasks g \<Longrightarrow> govStep g (g\<lparr>gs_routed := insert t (gs_routed g)\<rparr>)"
| Judge: "t \<in> gs_tasks g \<Longrightarrow> govStep g (g\<lparr>gs_policy := insert (t, oc) (gs_policy g)\<rparr>)"
| Create: "i \<notin> dom (gs_runs g) \<Longrightarrow> t \<in> gs_tasks g \<Longrightarrow>
    govStep g (g\<lparr>gs_runs := (gs_runs g)(i \<mapsto> (t, StatusCreated))\<rparr>)"
| Move: "gs_runs g i = Some (t, st) \<Longrightarrow> IsValidTransition st st' \<Longrightarrow> evidence g i t st' \<Longrightarrow>
    govStep g (g\<lparr>gs_runs := (gs_runs g)(i \<mapsto> (t, st'))\<rparr>)"
| Request: "a \<notin> dom (gs_approvals g) \<Longrightarrow> i \<in> dom (gs_runs g) \<Longrightarrow>
    govStep g (g\<lparr>gs_approvals := (gs_approvals g)(a \<mapsto> (i, ApprovalPending))\<rparr>)"
| Settle: "gs_approvals g a = Some (i, ApprovalPending) \<Longrightarrow> st = ApprovalApproved \<or> st = ApprovalDenied \<Longrightarrow>
    govStep g (g\<lparr>gs_approvals := (gs_approvals g)(a \<mapsto> (i, st))\<rparr>)"
| Grant: "gs_runs g i = Some (t, st) \<Longrightarrow> authorised g i t \<Longrightarrow> gs_leases g i = None \<Longrightarrow> 0 < m \<Longrightarrow>
    govStep g (g\<lparr>gs_leases := (gs_leases g)(i \<mapsto> (m, 0, LeaseStatusActive))\<rparr>)"
| Use: "gs_leases g i = Some (m, u, LeaseStatusActive) \<Longrightarrow>
    govStep g (g\<lparr>gs_leases := (gs_leases g)(i \<mapsto>
      (m, u + 1, if u + 1 = m then LeaseStatusExhausted else LeaseStatusActive))\<rparr>)"
| Withdraw: "gs_leases g i = Some (m, u, LeaseStatusActive) \<Longrightarrow>
    govStep g (g\<lparr>gs_leases := (gs_leases g)(i \<mapsto> (m, u, LeaseStatusRevoked))\<rparr>)"

abbreviation govSteps :: "GovState \<Rightarrow> GovState \<Rightarrow> bool" where
  "govSteps \<equiv> govStep\<^sup>*\<^sup>*"

definition govInit :: GovState where
  "govInit = \<lparr>gs_tasks = {}, gs_routed = {}, gs_policy = {}, gs_runs = Map.empty,
              gs_approvals = Map.empty, gs_leases = Map.empty\<rparr>"

section \<open>What every history of the machine guarantees\<close>

text \<open>The evidence behind the current status of a run, however it was reached.\<close>

definition backed :: "GovState \<Rightarrow> WorkflowRunID \<Rightarrow> TaskID \<Rightarrow> WorkflowStatus \<Rightarrow> bool" where
  "backed g i t st \<longleftrightarrow>
     (st \<notin> {StatusCreated, StatusKilled} \<longrightarrow> t \<in> gs_routed g) \<and>
     (st \<notin> {StatusCreated, StatusRouted, StatusKilled} \<longrightarrow> t \<in> fst ` gs_policy g) \<and>
     (st \<in> {StatusAwaitingApproval, StatusApproved} \<longrightarrow>
        (t, OutcomeRequireApproval) \<in> gs_policy g \<and> (\<exists>ast. requestWith g i ast)) \<and>
     (st = StatusApproved \<longrightarrow> requestWith g i ApprovalApproved) \<and>
     (st \<in> {StatusRunning, StatusPaused, StatusCompleted, StatusQuarantined} \<longrightarrow>
        (\<exists>m u ls. gs_leases g i = Some (m, u, ls) \<and> (st = StatusCompleted \<longrightarrow> 1 \<le> u) \<and>
                  (st = StatusQuarantined \<longrightarrow> u = m \<and> ls = LeaseStatusExhausted)) \<and>
        authorised g i t) \<and>
     (st = StatusFailed \<longrightarrow> (t, OutcomeDeny) \<in> gs_policy g \<or> requestWith g i ApprovalDenied)"

definition leaseOK :: "int \<times> int \<times> LeaseStatus \<Rightarrow> bool" where
  "leaseOK l \<longleftrightarrow>
     (case l of (m, u, ls) \<Rightarrow> 0 < m \<and> 0 \<le> u \<and> u \<le> m \<and>
        (ls = LeaseStatusActive \<and> u < m \<or> ls = LeaseStatusExhausted \<and> u = m \<or> ls = LeaseStatusRevoked \<and> u < m))"

definition govInv :: "GovState \<Rightarrow> bool" where
  "govInv g \<longleftrightarrow>
     (\<forall>i t st. gs_runs g i = Some (t, st) \<longrightarrow> t \<in> gs_tasks g \<and> st \<in> set workflowStatuses \<and> backed g i t st) \<and>
     (\<forall>a i st. gs_approvals g a = Some (i, st) \<longrightarrow>
        i \<in> dom (gs_runs g) \<and> st \<in> {ApprovalPending, ApprovalApproved, ApprovalDenied}) \<and>
     (\<forall>i l. gs_leases g i = Some l \<longrightarrow> leaseOK l \<and> (\<exists>t st. gs_runs g i = Some (t, st) \<and> authorised g i t))"

text \<open>How the record grows: nothing on record is withdrawn, a settled request and a spent lease stay.\<close>

definition gsLe :: "GovState \<Rightarrow> GovState \<Rightarrow> bool" where
  "gsLe g g' \<longleftrightarrow>
     gs_tasks g \<subseteq> gs_tasks g' \<and> gs_routed g \<subseteq> gs_routed g' \<and> gs_policy g \<subseteq> gs_policy g' \<and>
     dom (gs_runs g) \<subseteq> dom (gs_runs g') \<and>
     (\<forall>a i st. gs_approvals g a = Some (i, st) \<longrightarrow>
        (\<exists>st'. gs_approvals g' a = Some (i, st') \<and> (st \<noteq> ApprovalPending \<longrightarrow> st' = st))) \<and>
     (\<forall>i m u ls. gs_leases g i = Some (m, u, ls) \<longrightarrow>
        (\<exists>u' ls'. gs_leases g' i = Some (m, u', ls') \<and> u \<le> u' \<and>
                  (ls \<noteq> LeaseStatusActive \<longrightarrow> u' = u \<and> ls' = ls)))"

lemma gsLe_refl: "gsLe g g"
  by (simp add: gsLe_def)

lemma gsLe_step: "govStep g g' \<Longrightarrow> gsLe g g'"
  by (erule govStep.cases) (simp_all add: gsLe_def subset_insertI dom_def Collect_mono)

lemma gsLe_sub:
  assumes "gsLe g g'"
  shows "gs_tasks g \<subseteq> gs_tasks g'" "gs_routed g \<subseteq> gs_routed g'" "gs_policy g \<subseteq> gs_policy g'"
    "dom (gs_runs g) \<subseteq> dom (gs_runs g')"
  using assms by (simp_all only: gsLe_def)

lemma requestWith_mono: "gsLe g g' \<Longrightarrow> requestWith g i st \<Longrightarrow> \<exists>st'. requestWith g' i st' \<and> (st \<noteq> ApprovalPending \<longrightarrow> st' = st)"
  unfolding gsLe_def requestWith_def by blast

lemma settled_mono:
  "gsLe g g' \<Longrightarrow> requestWith g i ApprovalApproved \<Longrightarrow> requestWith g' i ApprovalApproved"
  "gsLe g g' \<Longrightarrow> requestWith g i ApprovalDenied \<Longrightarrow> requestWith g' i ApprovalDenied"
  using requestWith_mono by fastforce+

lemma policy_mono: "gsLe g g' \<Longrightarrow> x \<in> gs_policy g \<Longrightarrow> x \<in> gs_policy g'"
  by (auto simp: gsLe_def)

lemma allowed_mono: "gsLe g g' \<Longrightarrow> allowed g t \<Longrightarrow> allowed g' t"
  using policy_mono by (fastforce simp: allowed_def)

lemma authorised_mono: "gsLe g g' \<Longrightarrow> authorised g i t \<Longrightarrow> authorised g' i t"
  using allowed_mono settled_mono(1) unfolding authorised_def by blast

lemma lease_mono:
  assumes "gsLe g g'" "gs_leases g i = Some (m, u, ls)"
  obtains u' ls' where "gs_leases g' i = Some (m, u', ls')" "u \<le> u'" "ls \<noteq> LeaseStatusActive \<Longrightarrow> u' = u \<and> ls' = ls"
  using assms unfolding gsLe_def by blast

lemma approval_mono:
  assumes "gsLe g g'" "gs_approvals g a = Some (i, st)"
  obtains st' where "gs_approvals g' a = Some (i, st')" "st \<noteq> ApprovalPending \<Longrightarrow> st' = st"
  using assms unfolding gsLe_def by blast

lemma backed_lease_mono:
  assumes le: "gsLe g g'"
    and b: "\<exists>m u ls. gs_leases g i = Some (m, u, ls) \<and> (st = StatusCompleted \<longrightarrow> 1 \<le> u) \<and>
                  (st = StatusQuarantined \<longrightarrow> u = m \<and> ls = LeaseStatusExhausted)"
  shows "\<exists>m u ls. gs_leases g' i = Some (m, u, ls) \<and> (st = StatusCompleted \<longrightarrow> 1 \<le> u) \<and>
                  (st = StatusQuarantined \<longrightarrow> u = m \<and> ls = LeaseStatusExhausted)"
proof -
  from b obtain m u ls where l: "gs_leases g i = Some (m, u, ls)" "st = StatusCompleted \<longrightarrow> 1 \<le> u"
    "st = StatusQuarantined \<longrightarrow> u = m \<and> ls = LeaseStatusExhausted" by blast
  obtain u' ls' where l': "gs_leases g' i = Some (m, u', ls')" "u \<le> u'" "ls \<noteq> LeaseStatusActive \<Longrightarrow> u' = u \<and> ls' = ls"
    by (rule lease_mono [OF le l(1)]) blast
  have "st = StatusCompleted \<longrightarrow> 1 \<le> u'" using l(2) l'(2) by linarith
  moreover have "st = StatusQuarantined \<longrightarrow> u' = m \<and> ls' = LeaseStatusExhausted"
  proof
    assume "st = StatusQuarantined"
    with l(3) have "u = m" "ls = LeaseStatusExhausted" by blast+
    moreover from this(2) have "u' = u \<and> ls' = ls" by (intro l'(3)) simp
    ultimately show "u' = m \<and> ls' = LeaseStatusExhausted" by simp
  qed
  ultimately show ?thesis using l'(1) by blast
qed

lemmas backed_dest =
  conjunct1
  conjunct2 [THEN conjunct1]
  conjunct2 [THEN conjunct2, THEN conjunct1]
  conjunct2 [THEN conjunct2, THEN conjunct2, THEN conjunct1]
  conjunct2 [THEN conjunct2, THEN conjunct2, THEN conjunct2, THEN conjunct1]
  conjunct2 [THEN conjunct2, THEN conjunct2, THEN conjunct2, THEN conjunct2]

lemma backed_mono:
  assumes le: "gsLe g g'" and b: "backed g i t st"
  shows "backed g' i t st"
proof -
  note sub = gsLe_sub(2,3) [OF le]
  note bs = b [unfolded backed_def]
  show ?thesis
    unfolding backed_def
  proof (intro conjI impI)
    show "t \<in> gs_routed g'" if "st \<notin> {StatusCreated, StatusKilled}"
      using mp [OF backed_dest(1) [OF bs] that] sub(1) by (rule rev_subsetD)
    show "t \<in> fst ` gs_policy g'" if "st \<notin> {StatusCreated, StatusRouted, StatusKilled}"
      using mp [OF backed_dest(2) [OF bs] that] image_mono [OF sub(2)] by (rule rev_subsetD)
    show "(t, OutcomeRequireApproval) \<in> gs_policy g'" if "st \<in> {StatusAwaitingApproval, StatusApproved}"
      using mp [OF backed_dest(3) [OF bs] that] policy_mono [OF le] by simp
    show "\<exists>ast. requestWith g' i ast" if "st \<in> {StatusAwaitingApproval, StatusApproved}"
      using mp [OF backed_dest(3) [OF bs] that] requestWith_mono [OF le] by metis
    show "requestWith g' i ApprovalApproved" if "st = StatusApproved"
      using mp [OF backed_dest(4) [OF bs] that] by (rule settled_mono(1) [OF le])
    show "\<exists>m u ls. gs_leases g' i = Some (m, u, ls) \<and> (st = StatusCompleted \<longrightarrow> 1 \<le> u) \<and>
                  (st = StatusQuarantined \<longrightarrow> u = m \<and> ls = LeaseStatusExhausted)"
      if "st \<in> {StatusRunning, StatusPaused, StatusCompleted, StatusQuarantined}"
      using conjunct1 [OF mp [OF backed_dest(5) [OF bs] that]] by (rule backed_lease_mono [OF le])
    show "authorised g' i t" if "st \<in> {StatusRunning, StatusPaused, StatusCompleted, StatusQuarantined}"
      using conjunct2 [OF mp [OF backed_dest(5) [OF bs] that]] by (rule authorised_mono [OF le])
    show "(t, OutcomeDeny) \<in> gs_policy g' \<or> requestWith g' i ApprovalDenied" if "st = StatusFailed"
      using mp [OF backed_dest(6) [OF bs] that] policy_mono [OF le] settled_mono(2) [OF le] by metis
  qed
qed

text \<open>Only the runs change in a move, so the evidence is the same before and after.\<close>

lemma record_runs [simp]:
  "backed (g\<lparr>gs_runs := x\<rparr>) i t st = backed g i t st"
  "evidence (g\<lparr>gs_runs := x\<rparr>) i t st = evidence g i t st"
  by (simp_all add: backed_def evidence_def authorised_def allowed_def requestWith_def)

lemma valid_into_failed: "IsValidTransition s StatusFailed \<longleftrightarrow> s = StatusPolicyChecked \<or> s = StatusAwaitingApproval \<or> s = StatusRunning"
  by (auto simp: IsValidTransition_def transitionTable_def)

lemma backed_move:
  assumes b: "backed g i t st" and v: "IsValidTransition st st'" and e: "evidence g i t st'"
    and auth: "gs_leases g i \<noteq> None \<Longrightarrow> authorised g i t"
  shows "backed g i t st'"
proof -
  have "st' \<in> set workflowStatuses" using v by (rule IsValidTransition_declared)
  then consider "st' = StatusCreated" | "st' = StatusRouted" | "st' = StatusPolicyChecked"
    | "st' = StatusRunning" | "st' = StatusAwaitingApproval" | "st' = StatusApproved" | "st' = StatusPaused"
    | "st' = StatusCompleted" | "st' = StatusFailed" | "st' = StatusKilled" | "st' = StatusQuarantined"
    by (simp only: workflowStatuses_def list.set insert_iff empty_iff) metis
  then show ?thesis
  proof cases
    case 4
    with v have "st = StatusPolicyChecked \<or> st = StatusApproved \<or> st = StatusPaused"
      by (simp add: IsValidTransition_into)
    then show ?thesis using 4 b e auth by (elim disjE) (simp_all add: backed_def evidence_def, blast+)
  next
    case 9
    with v have "st = StatusPolicyChecked \<or> st = StatusAwaitingApproval \<or> st = StatusRunning"
      by (simp add: valid_into_failed)
    then show ?thesis using 9 b e by (elim disjE) (simp_all add: backed_def evidence_def)
  qed (use b v e in \<open>simp_all add: IsValidTransition_into backed_def evidence_def, blast?\<close>)
qed

text \<open>A run keeps its task for ever, and in a terminal status it stays.\<close>

lemma govStep_terminal:
  assumes "govStep g g'" "gs_runs g i = Some (t, st)"
  shows "\<exists>st'. gs_runs g' i = Some (t, st') \<and> (IsTerminal st \<longrightarrow> st' = st)"
  using assms
proof cases
  case (Create j u)
  with assms(2) show ?thesis by (auto simp: dom_def)
next
  case (Move j u s s')
  with assms(2) show ?thesis by (cases "i = j") (auto simp: terminal_no_transition)
qed simp_all

lemma runs_step:
  assumes "govStep g g'" "gs_runs g' i = Some (t, st)"
  shows "gs_runs g i = Some (t, st) \<or> (gs_runs g i = None \<and> st = StatusCreated \<and> t \<in> gs_tasks g) \<or>
    (\<exists>st0. gs_runs g i = Some (t, st0) \<and> IsValidTransition st0 st \<and> evidence g i t st)"
  using assms by (induction rule: govStep.induct) (simp_all split: if_splits, blast+)

lemma govInv_runs:
  assumes inv: "govInv g" and step: "govStep g g'" and r: "gs_runs g' i = Some (t, st)"
  shows "t \<in> gs_tasks g' \<and> st \<in> set workflowStatuses \<and> backed g' i t st"
proof -
  have le: "gsLe g g'" using step by (rule gsLe_step)
  then have "gs_tasks g \<subseteq> gs_tasks g'" by (rule gsLe_sub)
  moreover have run: "t \<in> gs_tasks g \<and> st0 \<in> set workflowStatuses \<and> backed g i t st0" if "gs_runs g i = Some (t, st0)" for st0
    using inv that unfolding govInv_def by presburger
  consider "gs_runs g i = Some (t, st)" | "st = StatusCreated" "t \<in> gs_tasks g"
    | st0 where "gs_runs g i = Some (t, st0)" "IsValidTransition st0 st" "evidence g i t st"
    using runs_step [OF step r] by metis
  then have "t \<in> gs_tasks g \<and> st \<in> set workflowStatuses \<and> backed g i t st"
  proof cases
    case 1 then show ?thesis by (rule run)
  next
    case 2 then show ?thesis by (simp add: workflowStatuses_def backed_def)
  next
    case 3
    have "authorised g i t" if "gs_leases g i \<noteq> None"
      using inv that 3(1) unfolding govInv_def by fastforce
    then have "backed g i t st" using backed_move [OF _ 3(2,3)] run [OF 3(1)] by blast
    then show ?thesis using run [OF 3(1)] IsValidTransition_declared [OF 3(2)] by blast
  qed
  ultimately show ?thesis using backed_mono [OF le] by blast
qed

lemma govInv_approvals:
  assumes inv: "govInv g" and step: "govStep g g'" and r: "gs_approvals g' a = Some (i, st)"
  shows "i \<in> dom (gs_runs g') \<and> st \<in> {ApprovalPending, ApprovalApproved, ApprovalDenied}"
proof -
  have "dom (gs_runs g) \<subseteq> dom (gs_runs g')" by (rule gsLe_sub(4) [OF gsLe_step [OF step]])
  moreover have old: "j \<in> dom (gs_runs g) \<and> s \<in> {ApprovalPending, ApprovalApproved, ApprovalDenied}"
    if "gs_approvals g b = Some (j, s)" for b j s
    using inv that unfolding govInv_def by blast
  have "i \<in> dom (gs_runs g) \<and> st \<in> {ApprovalPending, ApprovalApproved, ApprovalDenied}"
    using step
  proof cases
    case (Request b j)
    with r old [of a] show ?thesis by (cases "a = b") auto
  next
    case (Settle b j s)
    with r old [of a] old [OF Settle(2)] show ?thesis by (cases "a = b") auto
  qed (use r old [of a] in simp_all)
  ultimately show ?thesis by blast
qed

lemma govInv_leases:
  assumes inv: "govInv g" and step: "govStep g g'" and r: "gs_leases g' i = Some l"
  shows "leaseOK l \<and> (\<exists>t st. gs_runs g' i = Some (t, st) \<and> authorised g' i t)"
proof -
  have old: "leaseOK k \<and> (\<exists>t st. gs_runs g j = Some (t, st) \<and> authorised g j t)" if "gs_leases g j = Some k" for j k
    using inv that unfolding govInv_def by blast
  have "leaseOK l \<and> (\<exists>t st. gs_runs g i = Some (t, st) \<and> authorised g i t)"
    using step
  proof cases
    case (Grant j t st m)
    then have "leaseOK (m, 0, LeaseStatusActive)" by (simp add: leaseOK_def)
    with r old [of i] Grant show ?thesis by (cases "i = j") auto
  next
    case (Use j m u)
    then have "leaseOK (m, u + 1, if u + 1 = m then LeaseStatusExhausted else LeaseStatusActive)"
      using old [OF Use(2)] by (simp add: leaseOK_def)
    with r old [of i] old [OF Use(2)] Use show ?thesis by (cases "i = j") auto
  next
    case (Withdraw j m u)
    then have "leaseOK (m, u, LeaseStatusRevoked)" using old [OF Withdraw(2)] by (simp add: leaseOK_def)
    with r old [of i] old [OF Withdraw(2)] Withdraw show ?thesis by (cases "i = j") auto
  qed (use r old [of i] in simp_all)
  then show ?thesis
    using govStep_terminal [OF step] authorised_mono [OF gsLe_step [OF step]] by metis
qed

lemma govInv_step: "govInv g \<Longrightarrow> govStep g g' \<Longrightarrow> govInv g'"
  unfolding govInv_def [of g'] by (blast dest: govInv_runs govInv_approvals govInv_leases)

lemma govInv_init: "govInv govInit"
  by (simp add: govInv_def govInit_def)

lemma govSteps_inv: "govSteps g g' \<Longrightarrow> govInv g \<Longrightarrow> govInv g'"
  by (induction rule: rtranclp_induct) (auto intro: govInv_step)

lemma govSteps_trans: "govSteps g g' \<Longrightarrow> govSteps g' g'' \<Longrightarrow> govSteps g g''"
  by (rule rtranclp_trans)

lemma gsLe_trans:
  assumes a: "gsLe g g'" and b: "gsLe g' g''"
  shows "gsLe g g''"
  unfolding gsLe_def
proof (intro conjI allI impI)
  show "\<exists>st'. gs_approvals g'' x = Some (i, st') \<and> (st \<noteq> ApprovalPending \<longrightarrow> st' = st)"
    if r: "gs_approvals g x = Some (i, st)" for x i st
  proof -
    obtain st' where 1: "gs_approvals g' x = Some (i, st')" "st \<noteq> ApprovalPending \<Longrightarrow> st' = st"
      by (rule approval_mono [OF a r]) blast
    obtain st'' where "gs_approvals g'' x = Some (i, st'')" "st' \<noteq> ApprovalPending \<Longrightarrow> st'' = st'"
      by (rule approval_mono [OF b 1(1)]) blast
    with 1(2) show ?thesis by metis
  qed
  show "\<exists>u' ls'. gs_leases g'' i = Some (m, u', ls') \<and> u \<le> u' \<and> (ls \<noteq> LeaseStatusActive \<longrightarrow> u' = u \<and> ls' = ls)"
    if l: "gs_leases g i = Some (m, u, ls)" for i m u ls
  proof -
    obtain u' ls' where 1: "gs_leases g' i = Some (m, u', ls')" "u \<le> u'" "ls \<noteq> LeaseStatusActive \<Longrightarrow> u' = u \<and> ls' = ls"
      by (rule lease_mono [OF a l]) blast
    obtain u'' ls'' where 2: "gs_leases g'' i = Some (m, u'', ls'')" "u' \<le> u''" "ls' \<noteq> LeaseStatusActive \<Longrightarrow> u'' = u' \<and> ls'' = ls'"
      by (rule lease_mono [OF b 1(1)]) blast
    have "u \<le> u''" using 1(2) 2(2) by (rule order_trans)
    moreover have "ls \<noteq> LeaseStatusActive \<longrightarrow> u'' = u \<and> ls'' = ls" using 1(3) 2(3) by metis
    ultimately show ?thesis using 2(1) by blast
  qed
qed (use gsLe_sub [OF a] gsLe_sub [OF b] in \<open>blast+\<close>)

lemma govSteps_gsLe: "govSteps g g' \<Longrightarrow> gsLe g g'"
  by (induction rule: rtranclp_induct) (auto intro: gsLe_refl gsLe_step gsLe_trans)

lemma govSteps_terminal:
  assumes "govSteps g g'" "gs_runs g i = Some (t, st)"
  shows "\<exists>st'. gs_runs g' i = Some (t, st') \<and> (IsTerminal st \<longrightarrow> st' = st)"
  using assms by (induction rule: rtranclp_induct) (auto dest: govStep_terminal)

end
