(* ===== verification/Simulation.thy ===== *)
theory Simulation
  imports Frames Contract
begin

text \<open>
  The tables as a state of the abstract machine of \<open>Contract\<close>, the invariant of the tables, and what
  each statement of the repositories does to both. The rules of this theory carry the verification of
  the services in \<open>Governance\<close>.
\<close>

section \<open>Abstraction\<close>

abbreviation leaseView :: "leaseRow \<Rightarrow> int \<times> int \<times> LeaseStatus" where
  "leaseView r \<equiv> (lr_retry_budget r, lr_attempts_used r, LeaseStatus (lr_status r))"
abbreviation runView :: "workflowRow \<Rightarrow> TaskID \<times> WorkflowStatus" where
  "runView r \<equiv> (wr_task_id r, WorkflowStatus (wr_status r))"
abbreviation requestView :: "approvalRow \<Rightarrow> WorkflowRunID \<times> ApprovalStatus" where
  "requestView r \<equiv> (ap_workflow_run_id r, ApprovalStatus (ap_status r))"
abbreviation policyView :: "policyRow \<Rightarrow> TaskID \<times> PolicyOutcome" where
  "policyView r \<equiv> (po_task_id r, policyOutcomeFromString (po_outcome r))"

definition absDB :: "DB \<Rightarrow> GovState" where
  "absDB d =
     \<lparr>gs_tasks = tk_id ` set (db_tasks d),
      gs_routed = rt_task_id ` set (db_routings d),
      gs_policy = policyView ` set (db_policies d),
      gs_runs = keyed wr_id runView (db_workflows d),
      gs_approvals = keyed ap_id requestView (db_approvals d),
      gs_leases = keyed lr_workflow_run_id leaseView (db_leases d)\<rparr>"

section \<open>Invariant and guarantee\<close>

text \<open>
  The clock only has to give times that the JSON of a transition can carry; this is needed for the
  history alone.
\<close>

definition clockOK :: "Env \<Rightarrow> bool" where
  "clockOK env \<longleftrightarrow> (\<forall>n. printable (te env) (env_now env n))"

definition historyOK :: "Env \<Rightarrow> workflowRow \<Rightarrow> bool" where
  "historyOK env r \<longleftrightarrow>
     (\<exists>w. scanWorkflowRun r = Inr w \<and> historyPrintable (te env) w \<and>
          chain StatusCreated (w_Transitions w) (w_Status w))"

definition dbInv :: "Env \<Rightarrow> DB \<Rightarrow> bool" where
  "dbInv env d \<longleftrightarrow>
     distinct (map wr_id (db_workflows d)) \<and> distinct (map ap_id (db_approvals d)) \<and>
     distinct (map lr_id (db_leases d)) \<and> distinct (map lr_workflow_run_id (db_leases d)) \<and>
     (\<forall>r\<in>set (db_leases d). leaseOK (leaseView r) \<and> lr_retry_budget r < 2 ^ 31) \<and>
     (clockOK env \<longrightarrow> (\<forall>r\<in>set (db_workflows d). historyOK env r))"

text \<open>Rows that are final: a run in a terminal status, a settled request, a lease that is not active.\<close>

definition settledKept :: "DB \<Rightarrow> DB \<Rightarrow> bool" where
  "settledKept d d' \<longleftrightarrow>
     (\<forall>r\<in>set (db_workflows d). IsTerminal (WorkflowStatus (wr_status r)) \<longrightarrow> r \<in> set (db_workflows d')) \<and>
     (\<forall>r\<in>set (db_approvals d). ap_status r \<noteq> ''pending'' \<longrightarrow> r \<in> set (db_approvals d')) \<and>
     (\<forall>r\<in>set (db_leases d). lr_status r \<noteq> ''active'' \<longrightarrow> r \<in> set (db_leases d'))"

definition dbGuar :: "DB \<Rightarrow> DB \<Rightarrow> bool" where
  "dbGuar d d' \<longleftrightarrow> govSteps (absDB d) (absDB d') \<and> settledKept d d'"

definition guar :: "World \<Rightarrow> World \<Rightarrow> bool" where
  "guar s t \<longleftrightarrow> dbGuar (db s) (db t)"

definition worldInv :: "Env \<Rightarrow> World \<Rightarrow> bool" where
  "worldInv env s \<longleftrightarrow> dbInv env (db s)"

text \<open>What the recording services may touch: they only add tasks, audit entries and the like.\<close>

definition frameDB :: "DB \<Rightarrow> DB \<Rightarrow> bool" where
  "frameDB d d' \<longleftrightarrow>
     db_workflows d' = db_workflows d \<and> db_approvals d' = db_approvals d \<and> db_leases d' = db_leases d \<and>
     db_routings d' = db_routings d \<and> db_policies d' = db_policies d \<and> prefix (db_tasks d) (db_tasks d')"

interpretation fr: db_frame frameDB
  by unfold_locales (auto simp: frameDB_def statement_defs split: if_splits intro: prefix_order.trans)

lemma govSteps_submit: "govSteps g (g\<lparr>gs_tasks := gs_tasks g \<union> set ts\<rparr>)"
proof (induction ts arbitrary: g)
  case (Cons t ts)
  let ?g = "g\<lparr>gs_tasks := insert t (gs_tasks g)\<rparr>"
  have "govSteps g ?g"
  proof (cases "t \<in> gs_tasks g")
    case True
    then have "?g = g" by (simp add: insert_absorb)
    then show ?thesis by simp
  qed (simp add: Submit r_into_rtranclp)
  also have "govSteps ?g (?g\<lparr>gs_tasks := gs_tasks ?g \<union> set ts\<rparr>)" by (rule Cons)
  finally show ?case by simp
qed simp

lemma frame_keeps:
  assumes "frameDB d d'"
  shows "dbInv env d \<Longrightarrow> dbInv env d'" "dbGuar d d'"
proof -
  from assms obtain ts where ts: "db_tasks d' = db_tasks d @ ts" by (auto simp: frameDB_def prefix_def)
  have "absDB d' = (absDB d)\<lparr>gs_tasks := gs_tasks (absDB d) \<union> set (map tk_id ts)\<rparr>"
    using assms ts by (simp add: frameDB_def absDB_def image_Un)
  then have "govSteps (absDB d) (absDB d')" by (simp only: govSteps_submit)
  then show "dbGuar d d'" using assms by (simp add: dbGuar_def settledKept_def frameDB_def)
  show "dbInv env d'" if "dbInv env d" using assms that by (simp add: dbInv_def frameDB_def)
qed

interpretation gov: framed guar "worldInv env" "\<lambda>s t. frameDB (db s) (db t)" for env
proof
  show "guar s s" for s by (simp add: guar_def dbGuar_def settledKept_def)
  show "guar s u" if "guar s t" "guar t u" for s t u
    using that by (auto simp: guar_def dbGuar_def settledKept_def)
  show "worldInv env t \<and> guar s t" if "frameDB (db s) (db t)" "worldInv env s" for s t
    using frame_keeps [OF that(1)] that(2) by (simp add: worldInv_def guar_def)
qed

section \<open>Assertions about the tables\<close>

text \<open>
  The run, lease or request that was read is still what the table holds. Times that passed through the
  database may have lost precision, so a run is compared up to its two timestamps.
\<close>

definition sameRun :: "WorkflowRun \<Rightarrow> WorkflowRun \<Rightarrow> bool" where
  "sameRun w0 w \<longleftrightarrow>
     w_ID w0 = w_ID w \<and> w_TaskID w0 = w_TaskID w \<and> w_Status w0 = w_Status w \<and> w_Transitions w0 = w_Transitions w"

definition hasRun :: "WorkflowRun \<Rightarrow> World \<Rightarrow> bool" where
  "hasRun w s \<longleftrightarrow> (\<exists>r\<in>set (db_workflows (db s)). \<exists>w0. scanWorkflowRun r = Inr w0 \<and> sameRun w0 w)"

definition hasLease :: "ExecutionLease \<Rightarrow> World \<Rightarrow> bool" where
  "hasLease l s \<longleftrightarrow> (\<exists>r\<in>set (db_leases (db s)). scanExecutionLease r = Inr l)"

definition hasRequest :: "ApprovalRequest \<Rightarrow> World \<Rightarrow> bool" where
  "hasRequest req s \<longleftrightarrow> (\<exists>r\<in>set (db_approvals (db s)). scanApprovalRequest r = Inr req)"

definition onRouted :: "TaskID \<Rightarrow> World \<Rightarrow> bool" where
  "onRouted t s \<longleftrightarrow> t \<in> gs_routed (absDB (db s))"

definition onPolicy :: "TaskID \<Rightarrow> PolicyOutcome \<Rightarrow> World \<Rightarrow> bool" where
  "onPolicy t oc s \<longleftrightarrow> (t, oc) \<in> gs_policy (absDB (db s))"

definition onLease :: "WorkflowRunID \<Rightarrow> int \<times> int \<times> LeaseStatus \<Rightarrow> World \<Rightarrow> bool" where
  "onLease i x s \<longleftrightarrow> gs_leases (absDB (db s)) i = Some x"

definition onRequest :: "WorkflowRunID \<Rightarrow> ApprovalStatus \<Rightarrow> World \<Rightarrow> bool" where
  "onRequest i st s \<longleftrightarrow> requestWith (absDB (db s)) i st"

definition onJudged :: "TaskID \<Rightarrow> World \<Rightarrow> bool" where
  "onJudged t s \<longleftrightarrow> t \<in> fst ` gs_policy (absDB (db s))"

lemmas assertion_defs =
  onJudged_def hasRun_def hasLease_def hasRequest_def onRouted_def onPolicy_def onLease_def onRequest_def

lemma stable_atoms:
  "gov.stable (hasRun w)" "gov.stable (hasLease l)" "gov.stable (hasRequest req)" "gov.stable (onRouted t)"
  "gov.stable (onPolicy t oc)" "gov.stable (onLease i x)" "gov.stable (onRequest i st)" "gov.stable (onJudged t)"
  by (rule gov.stableI; simp add: assertion_defs frameDB_def absDB_def requestWith_def)+

lemmas stables = gov.stable_rules stable_atoms

section \<open>Reading\<close>

text \<open>A step that leaves the tables alone.\<close>

lemma quiet_step:
  assumes "db t = db s" "gov.stable P" "worldInv env s" "P s"
  shows "worldInv env t \<and> guar s t \<and> P t"
proof -
  have f: "frameDB (db s) (db t)" by (simp add: assms(1) frameDB_def)
  then have "P t" using assms(2,4) unfolding gov.stable_def by blast
  with gov.F_keeps [OF f assms(3)] show ?thesis by blast
qed

lemma triple_queryRow:
  assumes "gov.stable P"
  shows "gov.triple env P (queryRow env what sel scan) (\<lambda>x s. P s \<and> (\<exists>r\<in>set (sel (db s)). scan r = Inr x)) P"
proof (rule gov.tripleI)
  fix s
  assume s: "worldInv env s" "P s"
  have st: "worldInv env (s\<lparr>n_stmt := n\<rparr>) \<and> guar s (s\<lparr>n_stmt := n\<rparr>) \<and> P (s\<lparr>n_stmt := n\<rparr>)" for n
    by (rule quiet_step) (use assms s in simp_all)
  have "sel (db s) ! (env_pick env (n_stmt s) mod length (sel (db s))) \<in> set (sel (db s))" if "sel (db s) \<noteq> []"
    using that by (intro nth_mem mod_less_divisor) simp
  then show "wp (queryRow env what sel scan)
      (\<lambda>x t. worldInv env t \<and> guar s t \<and> P t \<and> (\<exists>r\<in>set (sel (db t)). scan r = Inr x))
      (\<lambda>_ t. worldInv env t \<and> guar s t \<and> P t) s"
    using st by (auto simp: wp_def queryRow_def Let_def split: sum.split)
qed

lemma triple_lookup:
  assumes "gov.stable P" "\<And>r x s. r \<in> set (sel (db s)) \<Longrightarrow> scan r = Inr x \<Longrightarrow> Q x s"
  shows "gov.triple env P (queryRow env what sel scan) (\<lambda>x s. P s \<and> Q x s) P"
  by (rule gov.triple_conseq [OF triple_queryRow [OF assms(1)]]) (use assms(2) in blast)+

lemma scanWorkflowRun_Inr:
  "scanWorkflowRun r = Inr w \<Longrightarrow> w_ID w = wr_id r \<and> w_TaskID w = wr_task_id r \<and> w_Status w = WorkflowStatus (wr_status r)"
  by (auto simp: scanWorkflowRun_def andThen_Inr ReconstructWorkflowRun_def)

lemma scanExecutionLease_Inr:
  "scanExecutionLease r = Inr l \<Longrightarrow> l_ID l = lr_id r \<and> l_WorkflowRunID l = lr_workflow_run_id r \<and>
     rb_MaxAttempts (l_RetryBudget l) = lr_retry_budget r \<and> l_AttemptsUsed l = lr_attempts_used r \<and>
     l_Status l = LeaseStatus (lr_status r)"
  by (auto simp: scanExecutionLease_def ReconstructExecutionLease_def)

lemma scanApprovalRequest_Inr:
  "scanApprovalRequest r = Inr req \<Longrightarrow> a_id req = ap_id r \<and> a_workflowRunID req = ap_workflow_run_id r \<and>
     a_status req = ApprovalStatus (ap_status r)"
  by (auto simp: scanApprovalRequest_def andThen_Inr ReconstructApprovalRequest_def split: option.splits)

lemma triple_WorkflowFindByID:
  "gov.stable P \<Longrightarrow> gov.triple env P (WorkflowFindByID env i) (\<lambda>w s. P s \<and> hasRun w s \<and> w_ID w = i) P"
  unfolding WorkflowFindByID_def
  by (rule triple_lookup) (auto simp: hasRun_def sameRun_def dest: scanWorkflowRun_Inr)

lemma triple_WorkflowFindByTaskID:
  "gov.stable P \<Longrightarrow> gov.triple env P (WorkflowFindByTaskID env t) (\<lambda>w s. P s \<and> hasRun w s \<and> w_TaskID w = t) P"
  unfolding WorkflowFindByTaskID_def
  by (rule triple_lookup) (auto simp: hasRun_def sameRun_def dest: scanWorkflowRun_Inr)

lemma triple_LeaseFind:
  "gov.stable P \<Longrightarrow>
   gov.triple env P (LeaseFindByWorkflowRunID env i) (\<lambda>l s. P s \<and> hasLease l s \<and> l_WorkflowRunID l = i) P"
  unfolding LeaseFindByWorkflowRunID_def
  by (rule triple_lookup) (auto simp: hasLease_def dest: scanExecutionLease_Inr)

lemma triple_ApprovalFind:
  "gov.stable P \<Longrightarrow> gov.triple env P (ApprovalFindByID env i) (\<lambda>req s. P s \<and> hasRequest req s) P"
  unfolding ApprovalFindByID_def by (rule triple_lookup) (auto simp: hasRequest_def)

lemma triple_RoutingFind:
  "gov.stable P \<Longrightarrow> gov.triple env P (RoutingFindByTaskID env t) (\<lambda>_ s. P s \<and> onRouted t s) P"
  unfolding RoutingFindByTaskID_def by (rule triple_lookup) (auto simp: onRouted_def absDB_def)

lemma scanPolicyDecision_Inr: "scanPolicyDecision r = Inr pd \<Longrightarrow> pd_outcome pd = policyOutcomeFromString (po_outcome r)"
  by (auto simp: scanPolicyDecision_def andThen_Inr ReconstructPolicyDecision_def split: option.splits)

lemma triple_PolicyFind:
  "gov.stable P \<Longrightarrow> gov.triple env P (PolicyFindByTaskID env t) (\<lambda>pd s. P s \<and> onPolicy t (pd_outcome pd) s) P"
  unfolding PolicyFindByTaskID_def
  by (rule triple_lookup) (auto simp: onPolicy_def absDB_def dest: scanPolicyDecision_Inr)

lemma triple_Now:
  assumes "gov.stable P"
  shows "gov.triple env P (Now env) (\<lambda>now s. P s \<and> (clockOK env \<longrightarrow> printable (te env) now)) P"
proof (rule gov.tripleI)
  fix s
  assume s: "worldInv env s" "P s"
  have "worldInv env (s\<lparr>n_now := n\<rparr>) \<and> guar s (s\<lparr>n_now := n\<rparr>) \<and> P (s\<lparr>n_now := n\<rparr>)" for n
    by (rule quiet_step) (use assms s in simp_all)
  then show "wp (Now env) (\<lambda>now t. worldInv env t \<and> guar s t \<and> P t \<and> (clockOK env \<longrightarrow> printable (te env) now))
      (\<lambda>_ t. worldInv env t \<and> guar s t \<and> P t) s"
    by (auto simp: Now_def wps wp_def [of "timeNow env"] timeNow_def MustTimestamp_def NewTimestamp_def
        clockOK_def split: sum.splits if_splits)
qed

section \<open>Writing decisions and requests\<close>

lemma triple_exec:
  assumes P: "gov.stable P" and Q: "gov.stable Q"
    and stmt: "\<And>s d. dbInv env (db s) \<Longrightarrow> P s \<Longrightarrow> stmt (db s) = Inr d \<Longrightarrow>
      dbInv env d \<and> dbGuar (db s) d \<and> Q (s\<lparr>db := d\<rparr>)"
  shows "gov.triple env P (exec env stmt) (\<lambda>_. Q) (\<lambda>s. P s \<or> Q s)"
proof (rule gov.tripleI)
  fix s
  assume s: "worldInv env s" "P s"
  have quiet: "worldInv env (s\<lparr>n_stmt := n\<rparr>) \<and> guar s (s\<lparr>n_stmt := n\<rparr>) \<and> P (s\<lparr>n_stmt := n\<rparr>)" for n
    using quiet_step [of "s\<lparr>n_stmt := n\<rparr>" s P env] P s by simp
  have put: "worldInv env (s\<lparr>n_stmt := n, db := d\<rparr>) \<and> guar s (s\<lparr>n_stmt := n, db := d\<rparr>) \<and> Q (s\<lparr>n_stmt := n, db := d\<rparr>)"
    if "stmt (db s) = Inr d" for n d
  proof -
    have d: "dbInv env d" "dbGuar (db s) d" "Q (s\<lparr>db := d\<rparr>)"
      using stmt [OF _ s(2) that] s(1) by (simp_all add: worldInv_def)
    have "Q (s\<lparr>n_stmt := n, db := d\<rparr>)"
      using quiet_step [of "s\<lparr>n_stmt := n, db := d\<rparr>" "s\<lparr>db := d\<rparr>" Q env] Q d by (simp add: worldInv_def)
    with d show ?thesis by (simp add: worldInv_def guar_def)
  qed
  show "wp (exec env stmt) (\<lambda>_ t. worldInv env t \<and> guar s t \<and> Q t) (\<lambda>_ t. worldInv env t \<and> guar s t \<and> (P t \<or> Q t)) s"
    using quiet put by (auto simp: wp_def exec_def Let_def split: fault.split sum.split)
qed

lemma triple_save:
  assumes "gov.stable P" "gov.stable Q"
    "\<And>s d. dbInv env (db s) \<Longrightarrow> P s \<Longrightarrow> stmt (db s) = Inr d \<Longrightarrow> dbInv env d \<and> dbGuar (db s) d \<and> Q (s\<lparr>db := d\<rparr>)"
  shows "gov.triple env P (bindW c (exec env stmt) ret) (\<lambda>_. Q) (\<lambda>_. True)"
  by (rule gov.triple_bindW [OF triple_exec [OF assms]]) (auto intro: gov.triple_ret)

text \<open>Statements that are one step of the machine and leave the runs and leases alone.\<close>

lemma guar_step: "govStep (absDB d) (absDB d') \<Longrightarrow> settledKept d d' \<Longrightarrow> dbGuar d d'"
  by (simp add: dbGuar_def r_into_rtranclp)

lemma settled_same:
  "db_workflows d' = db_workflows d \<Longrightarrow> set (db_approvals d) \<subseteq> set (db_approvals d') \<Longrightarrow> set (db_leases d) \<subseteq> set (db_leases d') \<Longrightarrow>
   settledKept d d'"
  by (auto simp: settledKept_def)

lemma insertRouting_sim:
  assumes "insertRouting r d = Inr d'" "dbInv env d"
  shows "dbInv env d' \<and> dbGuar d d' \<and> rt_task_id r \<in> gs_routed (absDB d')"
proof -
  from assms(1) have d': "d' = d\<lparr>db_routings := db_routings d @ [r]\<rparr>" and t: "hasTask d (rt_task_id r)"
    by (auto simp: insertRouting_def split: if_splits)
  have "absDB d' = (absDB d)\<lparr>gs_routed := insert (rt_task_id r) (gs_routed (absDB d))\<rparr>"
    by (simp add: d' absDB_def)
  moreover have "rt_task_id r \<in> gs_tasks (absDB d)" using t by (simp add: absDB_def hasTask_def)
  ultimately have "govStep (absDB d) (absDB d')" by (simp only: Route)
  then show ?thesis using assms(2) by (simp add: guar_step settled_same d' dbInv_def absDB_def)
qed

lemma triple_RoutingSave:
  "gov.triple env (\<lambda>_. True) (RoutingSave env rd) (\<lambda>_. onRouted (rd_taskID rd)) (\<lambda>_. True)"
proof -
  have "rt_task_id (encRoutingDecision (te env) rd) = rd_taskID rd" by (simp add: encRoutingDecision_def)
  then show ?thesis
    unfolding RoutingSave_def
    by (intro triple_save stables)
       (use insertRouting_sim [of "encRoutingDecision (te env) rd"] in \<open>fastforce simp: onRouted_def\<close>)
qed

lemma insertPolicy_sim:
  assumes "insertPolicy r d = Inr d'" "dbInv env d"
  shows "dbInv env d' \<and> dbGuar d d' \<and> po_task_id r \<in> fst ` gs_policy (absDB d')"
proof -
  from assms(1) have d': "d' = d\<lparr>db_policies := db_policies d @ [r]\<rparr>" and t: "hasTask d (po_task_id r)"
    by (auto simp: insertPolicy_def split: if_splits)
  have "absDB d' = (absDB d)\<lparr>gs_policy := insert (policyView r) (gs_policy (absDB d))\<rparr>"
    by (simp add: d' absDB_def)
  moreover have "po_task_id r \<in> gs_tasks (absDB d)" using t by (simp add: absDB_def hasTask_def)
  ultimately have "govStep (absDB d) (absDB d')" by (simp only: Judge)
  then show ?thesis using assms(2) by (simp add: guar_step settled_same d' dbInv_def absDB_def)
qed

lemma triple_PolicySave:
  "gov.triple env (\<lambda>_. True) (PolicySave env pd) (\<lambda>_. onJudged (pd_taskID pd)) (\<lambda>_. True)"
proof -
  have "po_task_id (encPolicyDecision (te env) pd) = pd_taskID pd" by (simp add: encPolicyDecision_def)
  then show ?thesis
    unfolding PolicySave_def
    by (intro triple_save stables)
       (use insertPolicy_sim [of "encPolicyDecision (te env) pd"] in \<open>fastforce simp: onJudged_def\<close>)
qed

lemma insertApproval_sim:
  assumes "insertApproval r d = Inr d'" "ap_status r = ''pending''" "dbInv env d"
  shows "d' = d\<lparr>db_approvals := db_approvals d @ [r]\<rparr> \<and> dbInv env d' \<and> dbGuar d d' \<and>
    requestWith (absDB d') (ap_workflow_run_id r) ApprovalPending"
proof -
  from assms(1) have d': "d' = d\<lparr>db_approvals := db_approvals d @ [r]\<rparr>"
    and new: "ap_id r \<notin> ap_id ` set (db_approvals d)" and w: "hasWorkflow d (ap_workflow_run_id r)"
    by (auto simp: insertApproval_def split: if_splits)
  have abs: "absDB d' = (absDB d)\<lparr>gs_approvals := (gs_approvals (absDB d))(ap_id r \<mapsto> (ap_workflow_run_id r, ApprovalPending))\<rparr>"
    using new assms(2) by (simp add: d' absDB_def keyed_insert)
  moreover have "ap_id r \<notin> dom (gs_approvals (absDB d))" "ap_workflow_run_id r \<in> dom (gs_runs (absDB d))"
    using new w by (simp_all add: absDB_def dom_keyed hasWorkflow_def)
  ultimately have "govStep (absDB d) (absDB d')" by (simp only: Request not_False_eq_True)
  moreover have "requestWith (absDB d') (ap_workflow_run_id r) ApprovalPending"
    unfolding abs requestWith_def by (intro exI [of _ "ap_id r"]) simp
  ultimately show ?thesis using assms(3) new by (simp add: guar_step settled_same subset_insertI d' dbInv_def)
qed

lemma triple_ApprovalSave:
  assumes new: "NewApprovalRequest i t wid reason spec expires now = Inr req" and P: "gov.stable P"
    and keep: "\<And>s x. P s \<Longrightarrow> P (s\<lparr>db := (db s)\<lparr>db_approvals := x\<rparr>\<rparr>)"
  shows "gov.triple env P (ApprovalSave env req) (\<lambda>_ s. P s \<and> onRequest wid ApprovalPending s) (\<lambda>_. True)"
  unfolding ApprovalSave_def
proof (intro gov.triple_lift_bindE triple_save stables P)
  fix r s d
  assume "encApproval (te env) req = Inr r" "dbInv env (db s)" "P s" "insertApproval r (db s) = Inr d"
  moreover from this(1) new have "ap_status r = ''pending''" "ap_workflow_run_id r = wid"
    by (auto simp: encApproval_def andThen_Inr NewApprovalRequest_def split: if_splits)
  ultimately show "dbInv env d \<and> dbGuar (db s) d \<and> P (s\<lparr>db := d\<rparr>) \<and> onRequest wid ApprovalPending (s\<lparr>db := d\<rparr>)"
    using insertApproval_sim [of r "db s" d env] keep [of s] by (auto simp: onRequest_def)
qed

lemma updateApproval_sim:
  assumes r: "r \<in> set (db_approvals d)" "ap_status r = ''pending''" and inv: "dbInv env d"
    and st: "ApprovalStatus st = ApprovalApproved \<or> ApprovalStatus st = ApprovalDenied"
    and u: "updateApproval (ap_id r) st res d = Inr d'"
  shows "dbInv env d' \<and> dbGuar d d' \<and> requestWith (absDB d') (ap_workflow_run_id r) (ApprovalStatus st)"
proof -
  let ?f = "\<lambda>r. r\<lparr>ap_status := st, ap_resolution := res\<rparr>"
  have dist: "distinct (map ap_id (db_approvals d))" using inv by (simp add: dbInv_def)
  have d': "d' = d\<lparr>db_approvals := map (\<lambda>x. if ap_id x = ap_id r then ?f x else x) (db_approvals d)\<rparr>"
    using u by (simp add: updateApproval_def)
  have abs: "absDB d' = (absDB d)\<lparr>gs_approvals := (gs_approvals (absDB d))(ap_id r \<mapsto> (ap_workflow_run_id r, ApprovalStatus st))\<rparr>"
    using keyed_update [OF dist r(1), of "ap_id r" ?f requestView] by (simp add: d' absDB_def)
  moreover have "gs_approvals (absDB d) (ap_id r) = Some (ap_workflow_run_id r, ApprovalPending)"
    using keyed_Some [OF dist r(1), of requestView] r(2) by (simp add: absDB_def)
  ultimately have "govStep (absDB d) (absDB d')" using st by (simp only: Settle)
  moreover have "requestWith (absDB d') (ap_workflow_run_id r) (ApprovalStatus st)"
    unfolding abs requestWith_def by (intro exI [of _ "ap_id r"]) simp
  moreover have "map ap_id (db_approvals d') = map ap_id (db_approvals d)"
    using keys_update [of ap_id ?f ap_id "ap_id r" "db_approvals d"] by (simp add: d')
  moreover have "settledKept d d'"
  proof -
    have "x \<in> set (db_approvals d')" if "x \<in> set (db_approvals d)" "ap_status x \<noteq> ''pending''" for x
    proof -
      have "ap_id x \<noteq> ap_id r" using that r dist by (auto simp: distinct_map dest: inj_onD)
      with that(1) show ?thesis by (force simp: d')
    qed
    then show ?thesis by (simp add: settledKept_def d')
  qed
  ultimately show ?thesis using inv by (simp add: guar_step d' dbInv_def del: map_map)
qed

lemma triple_ApprovalUpdate:
  assumes res: "resolveRequest input now req = Inr req'"
  shows "gov.triple env (hasRequest req) (ApprovalUpdate env req')
     (\<lambda>_. onRequest (a_workflowRunID req') (if ra_Approved input then ApprovalApproved else ApprovalDenied)) (\<lambda>_. True)"
  unfolding ApprovalUpdate_def
proof (intro gov.triple_lift_bindE triple_save stables)
  fix j s d
  assume s: "dbInv env (db s)" "hasRequest req s"
    and u: "updateApproval (a_id req') (ApprovalStatus_String (a_status req')) j (db s) = Inr d"
  from s(2) obtain r where r: "r \<in> set (db_approvals (db s))" "scanApprovalRequest r = Inr req"
    by (auto simp: hasRequest_def)
  have req': "a_status req = ApprovalPending" "a_id req' = a_id req" "a_workflowRunID req' = a_workflowRunID req"
    "a_status req' = (if ra_Approved input then ApprovalApproved else ApprovalDenied)"
    using res by (auto simp: resolveRequest_def approval_op_defs resolve_def split: if_splits sum.splits)
  note row = scanApprovalRequest_Inr [OF r(2)]
  from updateApproval_sim [OF r(1) _ s(1), of "ApprovalStatus_String (a_status req')" j d] u row req'
  show "dbInv env d \<and> dbGuar (db s) d \<and>
    onRequest (a_workflowRunID req') (if ra_Approved input then ApprovalApproved else ApprovalDenied) (s\<lparr>db := d\<rparr>)"
    by (cases "ra_Approved input") (simp_all add: onRequest_def)
qed

section \<open>Writing leases\<close>

lemma dbInv_leases:
  assumes "dbInv env d"
  shows "distinct (map lr_id (db_leases d))" "distinct (map lr_workflow_run_id (db_leases d))"
    "\<And>r. r \<in> set (db_leases d) \<Longrightarrow> leaseOK (leaseView r) \<and> lr_retry_budget r < 2 ^ 31"
  using assms by (simp_all add: dbInv_def)

lemma gs_leases_row:
  "dbInv env d \<Longrightarrow> r \<in> set (db_leases d) \<Longrightarrow> gs_leases (absDB d) (lr_workflow_run_id r) = Some (leaseView r)"
  using keyed_Some [OF dbInv_leases(2), of env d r leaseView] by (simp add: absDB_def)

lemma hasLease_onLease:
  assumes "worldInv env s" "hasLease l s"
  shows "onLease (l_WorkflowRunID l) (rb_MaxAttempts (l_RetryBudget l), l_AttemptsUsed l, l_Status l) s"
  using assms gs_leases_row [of env "db s"]
  by (auto simp: worldInv_def hasLease_def onLease_def dest!: scanExecutionLease_Inr)

lemma insertLease_sim:
  assumes ins: "insertLease r d = Inr d'" and inv: "dbInv env d"
    and new: "leaseView r = (m, 0, LeaseStatusActive)" "0 < m" "m < 2 ^ 31"
    and auth: "gs_runs (absDB d) (lr_workflow_run_id r) = Some (t, st)" "authorised (absDB d) (lr_workflow_run_id r) t"
  shows "d' = d\<lparr>db_leases := db_leases d @ [r]\<rparr> \<and> dbInv env d' \<and> dbGuar d d' \<and>
    gs_leases (absDB d') (lr_workflow_run_id r) = Some (m, 0, LeaseStatusActive)"
proof -
  from ins have d': "d' = d\<lparr>db_leases := db_leases d @ [r]\<rparr>"
    and fresh: "lr_id r \<notin> lr_id ` set (db_leases d)" "lr_workflow_run_id r \<notin> lr_workflow_run_id ` set (db_leases d)"
    by (auto simp: insertLease_def split: if_splits)
  have abs: "absDB d' = (absDB d)\<lparr>gs_leases := (gs_leases (absDB d))(lr_workflow_run_id r \<mapsto> (m, 0, LeaseStatusActive))\<rparr>"
    using fresh(2) new(1) by (simp add: d' absDB_def keyed_insert)
  have none: "gs_leases (absDB d) (lr_workflow_run_id r) = None"
    using fresh(2) by (simp add: absDB_def keyed_None)
  have "govStep (absDB d) (absDB d')"
    unfolding abs by (rule Grant [OF auth none new(2)])
  moreover have "dbInv env d'"
    using inv fresh new by (simp add: d' dbInv_def leaseOK_def)
  ultimately show ?thesis by (simp add: guar_step settled_same subset_insertI d') (simp add: abs [unfolded d'])
qed

text \<open>The row of a lease is found by its identifier, which singles out the run it belongs to.\<close>

lemma updateLease_rows:
  assumes inv: "dbInv env d" and r: "r \<in> set (db_leases d)" and new: "lr_id new = lr_id r"
    and u: "updateLease new d = Inr d'"
  shows "d' = d\<lparr>db_leases := map (\<lambda>x. if lr_workflow_run_id x = lr_workflow_run_id r then setLease new x else x) (db_leases d)\<rparr>"
proof -
  have "lr_id x = lr_id r \<longleftrightarrow> lr_workflow_run_id x = lr_workflow_run_id r" if "x \<in> set (db_leases d)" for x
    using that r dbInv_leases(1,2) [OF inv] by (auto simp: distinct_map dest: inj_onD)
  then have "map (\<lambda>r. if lr_id r = lr_id new then setLease new r else r) (db_leases d) =
      map (\<lambda>x. if lr_workflow_run_id x = lr_workflow_run_id r then setLease new x else x) (db_leases d)"
    using new by (intro map_cong) simp_all
  then show ?thesis using u by (simp only: updateLease_def sum.inject)
qed

lemma updateLease_sim:
  assumes inv: "dbInv env d" and r: "r \<in> set (db_leases d)" and new: "lr_id new = lr_id r"
    and u: "updateLease new d = Inr d'"
    and ok: "leaseOK (leaseView new)" "lr_retry_budget new = lr_retry_budget r" and active: "lr_status r = ''active''"
    and step: "\<And>g. gs_leases g (lr_workflow_run_id r) = Some (leaseView r) \<Longrightarrow>
      govStep g (g\<lparr>gs_leases := (gs_leases g)(lr_workflow_run_id r \<mapsto> leaseView new)\<rparr>)"
  shows "(\<exists>x. d' = d\<lparr>db_leases := x\<rparr>) \<and> dbInv env d' \<and> dbGuar d d' \<and>
    gs_leases (absDB d') (lr_workflow_run_id r) = Some (leaseView new)"
proof -
  note d' = updateLease_rows [OF inv r new u]
  have view: "leaseView (setLease new r) = leaseView new" by (simp add: setLease_def)
  have key: "lr_workflow_run_id (setLease new x) = lr_workflow_run_id x" for x by (simp add: setLease_def)
  have abs: "absDB d' = (absDB d)\<lparr>gs_leases := (gs_leases (absDB d))(lr_workflow_run_id r \<mapsto> leaseView new)\<rparr>"
    using keyed_update [OF dbInv_leases(2) [OF inv] r refl, of "setLease new" leaseView] key
    by (simp add: d' absDB_def view)
  have same: "db_workflows d' = db_workflows d" "db_approvals d' = db_approvals d" by (simp_all add: d')
  have "govStep (absDB d) (absDB d')"
    unfolding abs by (rule step [OF gs_leases_row [OF inv r]])
  moreover have "settledKept d d'"
  proof -
    have "x \<in> set (db_leases d')" if x: "x \<in> set (db_leases d)" "lr_status x \<noteq> ''active''" for x
    proof -
      have "lr_workflow_run_id x \<noteq> lr_workflow_run_id r"
        using x r active dbInv_leases(2) [OF inv] by (auto simp: distinct_map dest: inj_onD)
      with x(1) show ?thesis by (force simp: d')
    qed
    then show ?thesis by (simp add: settledKept_def same)
  qed
  ultimately have guar: "dbGuar d d'" by (rule guar_step)
  have keys: "map lr_id (db_leases d') = map lr_id (db_leases d)"
    "map lr_workflow_run_id (db_leases d') = map lr_workflow_run_id (db_leases d)"
    by (simp_all add: d' setLease_def)
  have "leaseOK (leaseView x) \<and> lr_retry_budget x < 2 ^ 31" if x: "x \<in> set (db_leases d')" for x
  proof -
    from x consider "x \<in> set (db_leases d)" | y where "y \<in> set (db_leases d)"
      "lr_workflow_run_id y = lr_workflow_run_id r" "x = setLease new y"
      by (auto simp: d' split: if_splits)
    then show ?thesis
    proof cases
      case 2
      then show ?thesis using dbInv_leases(3) [OF inv r] ok by (simp add: setLease_def)
    qed (rule dbInv_leases(3) [OF inv])
  qed
  then have "dbInv env d'" using inv unfolding dbInv_def same keys by blast
  moreover have "gs_leases (absDB d') (lr_workflow_run_id r) = Some (leaseView new)" by (simp add: abs)
  ultimately show ?thesis using d' guar by blast
qed

lemma encLease_Inr:
  "encLease tm l = Inr r \<Longrightarrow> lr_id r = l_ID l \<and> lr_workflow_run_id r = l_WorkflowRunID l \<and>
     leaseView r = (rb_MaxAttempts (l_RetryBudget l), l_AttemptsUsed l, l_Status l)"
  by (auto simp: encLease_def andThen_Inr int4_def split: if_splits)

lemma triple_LeaseUpdate:
  assumes P: "gov.stable P"
    and keep: "\<And>s x. P s \<Longrightarrow> P (s\<lparr>db := (db s)\<lparr>db_leases := x\<rparr>\<rparr>)"
    and l': "l_ID l' = l_ID l" "l_WorkflowRunID l' = l_WorkflowRunID l" "l_RetryBudget l' = l_RetryBudget l"
    and active: "l_Status l = LeaseStatusActive"
    and step: "\<And>m u. leaseOK (m, u, l_Status l) \<Longrightarrow> m < 2 ^ 31 \<Longrightarrow> m = rb_MaxAttempts (l_RetryBudget l) \<Longrightarrow>
      u = l_AttemptsUsed l \<Longrightarrow> leaseOK (m, l_AttemptsUsed l', l_Status l') \<and>
      (\<forall>g. gs_leases g (l_WorkflowRunID l) = Some (m, u, l_Status l) \<longrightarrow>
         govStep g (g\<lparr>gs_leases := (gs_leases g)(l_WorkflowRunID l \<mapsto> (m, l_AttemptsUsed l', l_Status l'))\<rparr>))"
  shows "gov.triple env (\<lambda>s. P s \<and> hasLease l s) (LeaseUpdate env l')
    (\<lambda>_ s. P s \<and> onLease (l_WorkflowRunID l) (rb_MaxAttempts (l_RetryBudget l'), l_AttemptsUsed l', l_Status l') s \<and>
       leaseOK (rb_MaxAttempts (l_RetryBudget l'), l_AttemptsUsed l', l_Status l')) P"
    (is "gov.triple env ?P _ (\<lambda>_. ?Q) P")
  unfolding LeaseUpdate_def
proof (rule gov.triple_bindW_error)
  show "gov.triple env ?P (bindE (lift (encLease (te env) l')) (\<lambda>r. exec env (updateLease r))) (\<lambda>_. ?Q) P"
  proof (rule gov.triple_lift_error)
    fix new
    assume enc: "encLease (te env) l' = Inr new"
    have "gov.triple env ?P (exec env (updateLease new)) (\<lambda>_. ?Q) (\<lambda>s. ?P s \<or> ?Q s)"
    proof (intro triple_exec stables P)
      fix s d
      assume inv: "dbInv env (db s)" and s: "?P s" and u: "updateLease new (db s) = Inr d"
      from s obtain r where r: "r \<in> set (db_leases (db s))" "scanExecutionLease r = Inr l" by (auto simp: hasLease_def)
      note row = scanExecutionLease_Inr [OF r(2)] and nw = encLease_Inr [OF enc]
      have views: "leaseView r = (lr_retry_budget r, l_AttemptsUsed l, l_Status l)"
        "leaseView new = (lr_retry_budget r, l_AttemptsUsed l', l_Status l')"
        using row nw l' by simp_all
      have run: "lr_workflow_run_id r = l_WorkflowRunID l" using row by simp
      have st: "leaseOK (leaseView new) \<and> (\<forall>g. gs_leases g (lr_workflow_run_id r) = Some (leaseView r) \<longrightarrow>
         govStep g (g\<lparr>gs_leases := (gs_leases g)(lr_workflow_run_id r \<mapsto> leaseView new)\<rparr>))"
        unfolding views run
        by (rule step) (use dbInv_leases(3) [OF inv r(1), unfolded views] row in \<open>simp_all only:\<close>)
      have "lr_id new = lr_id r" "lr_retry_budget new = lr_retry_budget r" "lr_status r = ''active''"
        using row nw l' active by simp_all
      from updateLease_sim [OF inv r(1) this(1) u conjunct1 [OF st] this(2,3)] st
      have upd: "(\<exists>x. d = (db s)\<lparr>db_leases := x\<rparr>) \<and> dbInv env d \<and> dbGuar (db s) d \<and>
        gs_leases (absDB d) (lr_workflow_run_id r) = Some (leaseView new)" by blast
      then obtain x where x: "d = (db s)\<lparr>db_leases := x\<rparr>" by blast
      have "P (s\<lparr>db := d\<rparr>)" unfolding x by (rule keep) (use s in blast)
      moreover have "rb_MaxAttempts (l_RetryBudget l') = lr_retry_budget r" "l_WorkflowRunID l = lr_workflow_run_id r"
        using row l' by simp_all
      ultimately show "dbInv env d \<and> dbGuar (db s) d \<and> ?Q (s\<lparr>db := d\<rparr>)"
        using upd st unfolding views onLease_def by simp
    qed
    then show "gov.triple env ?P (exec env (updateLease new)) (\<lambda>_. ?Q) P"
      by (rule gov.triple_conseq) auto
  qed auto
qed (auto intro: gov.triple_ret)

lemma keep_run: "hasRun w s \<Longrightarrow> hasRun w (s\<lparr>db := (db s)\<lparr>db_leases := x\<rparr>\<rparr>)"
  "hasRun w s \<Longrightarrow> hasRun w (s\<lparr>db := (db s)\<lparr>db_approvals := y\<rparr>\<rparr>)"
  by (simp_all add: hasRun_def)

lemma triple_recorded:
  assumes rec: "RecordAttempt l = Inr l'"
  shows "gov.triple env (\<lambda>s. hasRun w s \<and> hasLease l s) (LeaseUpdate env l')
    (\<lambda>_ s. hasRun w s \<and> onLease (l_WorkflowRunID l) (rb_MaxAttempts (l_RetryBudget l'), l_AttemptsUsed l', l_Status l') s \<and>
       leaseOK (rb_MaxAttempts (l_RetryBudget l'), l_AttemptsUsed l', l_Status l')) (hasRun w)"
proof (rule triple_LeaseUpdate [OF stable_atoms(1) keep_run(1)])
  from rec have act: "l_Status l = LeaseStatusActive" by (auto simp: RecordAttempt_def split: if_splits)
  from rec show "l_ID l' = l_ID l" "l_WorkflowRunID l' = l_WorkflowRunID l" "l_RetryBudget l' = l_RetryBudget l"
    by (auto simp: RecordAttempt_def Let_def split: if_splits)
  show "l_Status l = LeaseStatusActive" by (rule act)
  fix m u
  assume ok: "leaseOK (m, u, l_Status l)" "m < 2 ^ 31" "m = rb_MaxAttempts (l_RetryBudget l)" "u = l_AttemptsUsed l"
  then have "leaseInv l" using act by (simp add: leaseInv_def leaseOK_def)
  from RecordAttempt_inv [OF this act] rec ok have l':
    "l_AttemptsUsed l' = u + 1" "l_Status l' = (if u + 1 = m then LeaseStatusExhausted else LeaseStatusActive)"
    by auto
  have "leaseOK (m, u + 1, if u + 1 = m then LeaseStatusExhausted else LeaseStatusActive)"
    using ok(1) act by (simp add: leaseOK_def)
  then show "leaseOK (m, l_AttemptsUsed l', l_Status l') \<and>
      (\<forall>g. gs_leases g (l_WorkflowRunID l) = Some (m, u, l_Status l) \<longrightarrow>
         govStep g (g\<lparr>gs_leases := (gs_leases g)(l_WorkflowRunID l \<mapsto> (m, l_AttemptsUsed l', l_Status l'))\<rparr>))"
    unfolding act l' by (blast intro: Use)
qed

lemma triple_revoked:
  assumes rev: "Revoke l = Inr l'"
  shows "gov.triple env (\<lambda>s. hasRun w s \<and> hasLease l s) (LeaseUpdate env l') (\<lambda>_. hasRun w) (hasRun w)"
proof (rule gov.triple_conseq [OF triple_LeaseUpdate [OF stable_atoms(1) keep_run(1)]])
  from rev have l': "l_Status l = LeaseStatusActive" "l' = l\<lparr>l_Status := LeaseStatusRevoked\<rparr>"
    by (auto simp: Revoke_def split: if_splits)
  then show "l_ID l' = l_ID l" "l_WorkflowRunID l' = l_WorkflowRunID l" "l_RetryBudget l' = l_RetryBudget l"
    "l_Status l = LeaseStatusActive"
    by simp_all
  show "leaseOK (m, l_AttemptsUsed l', l_Status l') \<and>
      (\<forall>g. gs_leases g (l_WorkflowRunID l) = Some (m, u, l_Status l) \<longrightarrow>
         govStep g (g\<lparr>gs_leases := (gs_leases g)(l_WorkflowRunID l \<mapsto> (m, l_AttemptsUsed l', l_Status l'))\<rparr>))"
    if "leaseOK (m, u, l_Status l)" "u = l_AttemptsUsed l" for m u
    using that l' by (simp add: leaseOK_def Withdraw)
qed auto

section \<open>Writing runs\<close>

lemma gs_runs_row:
  "dbInv env d \<Longrightarrow> r \<in> set (db_workflows d) \<Longrightarrow> gs_runs (absDB d) (wr_id r) = Some (runView r)"
  using keyed_Some [of wr_id "db_workflows d" r runView] by (simp add: absDB_def dbInv_def)

lemma hasRun_onRun:
  assumes "dbInv env (db s)" "hasRun w s"
  shows "gs_runs (absDB (db s)) (w_ID w) = Some (w_TaskID w, w_Status w)"
proof -
  from assms(2) obtain r w0 where r: "r \<in> set (db_workflows (db s))" "scanWorkflowRun r = Inr w0" "sameRun w0 w"
    by (auto simp: hasRun_def)
  with gs_runs_row [OF assms(1) r(1)] scanWorkflowRun_Inr [OF r(2)] show ?thesis by (simp add: sameRun_def)
qed

text \<open>A new run.\<close>

lemma scan_new_run:
  assumes "encWorkflowRun (te env) (NewWorkflowRun i t now) = Inr r"
  shows "\<exists>w0. scanWorkflowRun r = Inr w0 \<and> sameRun w0 (NewWorkflowRun i t now)"
proof -
  have "historyPrintable (te env) (NewWorkflowRun i t now)" by (simp add: historyPrintable_def NewWorkflowRun_def)
  from scanWorkflowRun_enc [OF assms this] show ?thesis by (simp add: sameRun_def)
qed

lemma insertWorkflow_sim:
  assumes enc: "encWorkflowRun (te env) (NewWorkflowRun i t now) = Inr r"
    and ins: "insertWorkflow r d = Inr d'" and inv: "dbInv env d"
  shows "d' = d\<lparr>db_workflows := db_workflows d @ [r]\<rparr> \<and> dbInv env d' \<and> dbGuar d d'"
proof -
  from ins have d': "d' = d\<lparr>db_workflows := db_workflows d @ [r]\<rparr>"
    and fresh: "wr_id r \<notin> wr_id ` set (db_workflows d)" and task: "wr_task_id r \<in> tk_id ` set (db_tasks d)"
    by (auto simp: insertWorkflow_def hasWorkflow_def hasTask_def split: if_splits)
  have view: "runView r = (wr_task_id r, StatusCreated)"
    using enc by (auto simp: encWorkflowRun_def andThen_Inr NewWorkflowRun_def)
  have "historyOK env r"
    using scan_new_run [OF enc]
    by (auto simp: historyOK_def sameRun_def NewWorkflowRun_def historyPrintable_def)
  then have "dbInv env d'" using inv fresh by (simp add: d' dbInv_def)
  moreover have abs: "absDB d' = (absDB d)\<lparr>gs_runs := (gs_runs (absDB d))(wr_id r \<mapsto> (wr_task_id r, StatusCreated))\<rparr>"
    using fresh view by (simp add: d' absDB_def keyed_insert)
  have "govStep (absDB d) (absDB d')"
    unfolding abs by (rule Create) (use fresh task in \<open>simp_all add: absDB_def dom_keyed\<close>)
  then have "dbGuar d d'" by (simp add: dbGuar_def settledKept_def d' r_into_rtranclp)
  ultimately show ?thesis using d' by blast
qed

lemma triple_WorkflowSave:
  assumes P: "gov.stable P" and keep: "\<And>s x. P s \<Longrightarrow> P (s\<lparr>db := (db s)\<lparr>db_workflows := x\<rparr>\<rparr>)"
  shows "gov.triple env P (WorkflowSave env (NewWorkflowRun i t now)) (\<lambda>_ s. P s \<and> hasRun (NewWorkflowRun i t now) s) (\<lambda>_. True)"
  unfolding WorkflowSave_def
proof (rule gov.triple_bindW [OF gov.triple_lift_bindE gov.triple_skip])
  fix r
  assume enc: "encWorkflowRun (te env) (NewWorkflowRun i t now) = Inr r"
  show "gov.triple env P (exec env (insertWorkflow r)) (\<lambda>_ s. P s \<and> hasRun (NewWorkflowRun i t now) s) (\<lambda>_. True)"
  proof (rule gov.triple_conseq [OF triple_exec])
    fix s d
    assume "dbInv env (db s)" "P s" "insertWorkflow r (db s) = Inr d"
    then show "dbInv env d \<and> dbGuar (db s) d \<and> P (s\<lparr>db := d\<rparr>) \<and> hasRun (NewWorkflowRun i t now) (s\<lparr>db := d\<rparr>)"
      using insertWorkflow_sim [OF enc, of "db s" d] scan_new_run [OF enc] keep [of s] by (auto simp: hasRun_def)
  qed (auto intro: P stables)
qed

text \<open>
  A run that was read and moved on by one or more calls is stored. The moves are the transitions that
  were appended to the history; each needs its evidence, and the times must be printable for the history
  to be read back.
\<close>

definition movedOn :: "Env \<Rightarrow> WorkflowRun \<Rightarrow> WorkflowTransition list \<Rightarrow> WorkflowRun \<Rightarrow> bool" where
  "movedOn env w ts w' \<longleftrightarrow>
     \<not> IsTerminal (w_Status w) \<and> chain (w_Status w) ts (w_Status w') \<and>
     w_ID w' = w_ID w \<and> w_TaskID w' = w_TaskID w \<and> w_Transitions w' = w_Transitions w @ ts \<and>
     (clockOK env \<longrightarrow> (\<forall>t\<in>set ts. printable (te env) (tr_Timestamp t)))"

lemma chain_append: "chain s ts u \<Longrightarrow> chain u ts' v \<Longrightarrow> chain s (ts @ ts') v"
  by (induction ts arbitrary: s) auto

lemma govSteps_chain:
  assumes "gs_runs g i = Some (t, st)" "chain st ts st'" "\<And>x. x \<in> set ts \<Longrightarrow> evidence g i t (tr_To x)"
  shows "govSteps g (g\<lparr>gs_runs := (gs_runs g)(i \<mapsto> (t, st'))\<rparr>)"
  using assms
proof (induction ts arbitrary: g st)
  case Nil
  then have "g\<lparr>gs_runs := (gs_runs g)(i \<mapsto> (t, st'))\<rparr> = g" by (simp add: map_upd_triv)
  then show ?case by (simp only: rtranclp.rtrancl_refl)
next
  case (Cons x xs)
  let ?g = "g\<lparr>gs_runs := (gs_runs g)(i \<mapsto> (t, tr_To x))\<rparr>"
  have "govStep g ?g" using Cons.prems by (intro Move) auto
  moreover have "govSteps ?g (?g\<lparr>gs_runs := (gs_runs ?g)(i \<mapsto> (t, st'))\<rparr>)"
    using Cons.prems by (intro Cons.IH) auto
  moreover have "?g\<lparr>gs_runs := (gs_runs ?g)(i \<mapsto> (t, st'))\<rparr> = g\<lparr>gs_runs := (gs_runs g)(i \<mapsto> (t, st'))\<rparr>" by simp
  ultimately show ?case by (metis converse_rtranclp_into_rtranclp)
qed

lemma updateWorkflow_history:
  assumes new: "encWorkflowRun (te env) w' = Inr new" and moved: "movedOn env w ts w'"
    and row: "historyOK env r" "scanWorkflowRun r = Inr w0" "sameRun w0 w" and clock: "clockOK env"
  shows "historyOK env (setWorkflow new r)"
proof -
  from row have w0: "historyPrintable (te env) w0" "chain StatusCreated (w_Transitions w0) (w_Status w0)"
    by (auto simp: historyOK_def)
  have print: "\<forall>t\<in>set (w_Transitions w'). printable (te env) (tr_Timestamp t)"
    using w0(1) row(3) moved clock by (auto simp: historyPrintable_def sameRun_def movedOn_def)
  have nw: "wr_transitions new = marshalTransitions (te env) (w_Transitions w')" "wr_status new = WorkflowStatus_String (w_Status w')"
    using new by (auto simp: encWorkflowRun_def andThen_Inr)
  have "chain StatusCreated (w_Transitions w') (w_Status w')"
    using w0(2) row(3) moved chain_append by (fastforce simp: sameRun_def movedOn_def)
  with print show ?thesis
    by (simp add: historyOK_def scanWorkflowRun_def setWorkflow_def nw unmarshal_marshal_transitions
        ReconstructWorkflowRun_def historyPrintable_def)
qed

lemma updateWorkflow_sim:
  assumes enc: "encWorkflowRun (te env) w' = Inr new" and upd: "updateWorkflow new (db s) = Inr d"
    and inv: "dbInv env (db s)" and run: "hasRun w s" and moved: "movedOn env w ts w'"
    and ev: "\<And>x. x \<in> set ts \<Longrightarrow> evidence (absDB (db s)) (w_ID w) (w_TaskID w) (tr_To x)"
  shows "dbInv env d \<and> dbGuar (db s) d"
proof -
  from run obtain r w0 where r: "r \<in> set (db_workflows (db s))" "scanWorkflowRun r = Inr w0" "sameRun w0 w"
    by (auto simp: hasRun_def)
  have ids: "wr_id new = wr_id r" "w_ID w = wr_id r" "w_TaskID w = wr_task_id r" "w_Status w = WorkflowStatus (wr_status r)"
    using enc moved r scanWorkflowRun_Inr [OF r(2)] by (auto simp: encWorkflowRun_def andThen_Inr sameRun_def movedOn_def)
  have dist: "distinct (map wr_id (db_workflows (db s)))" using inv by (simp add: dbInv_def)
  have d: "d = (db s)\<lparr>db_workflows := map (\<lambda>x. if wr_id x = wr_id r then setWorkflow new x else x) (db_workflows (db s))\<rparr>"
    using upd ids by (auto simp: updateWorkflow_def split: if_splits)
  have key: "wr_id (setWorkflow new x) = wr_id x" for x by (simp add: setWorkflow_def)
  have view: "runView (setWorkflow new r) = (w_TaskID w, w_Status w')"
    using enc ids by (auto simp: setWorkflow_def encWorkflowRun_def andThen_Inr)
  have abs: "absDB d = (absDB (db s))\<lparr>gs_runs := (gs_runs (absDB (db s)))(w_ID w \<mapsto> (w_TaskID w, w_Status w'))\<rparr>"
    using keyed_update [OF dist r(1) refl, of "setWorkflow new" runView] key ids by (simp add: d absDB_def view)
  have "govSteps (absDB (db s)) (absDB d)"
    unfolding abs by (rule govSteps_chain [OF hasRun_onRun [OF inv run] _ ev]) (use moved in \<open>simp_all add: movedOn_def\<close>)
  moreover have only: "x = r" if "x \<in> set (db_workflows (db s))" "wr_id x = wr_id r" for x
    using that r(1) dist by (auto simp: distinct_map dest: inj_onD)
  have "\<forall>x\<in>set (db_workflows (db s)). IsTerminal (WorkflowStatus (wr_status x)) \<longrightarrow> x \<in> set (db_workflows d)"
  proof (intro ballI impI)
    fix x
    assume x: "x \<in> set (db_workflows (db s))" "IsTerminal (WorkflowStatus (wr_status x))"
    then have "wr_id x \<noteq> wr_id r" using only [OF x(1)] moved ids by (auto simp: movedOn_def)
    with x(1) show "x \<in> set (db_workflows d)" by (force simp: d)
  qed
  then have "settledKept (db s) d" by (simp add: settledKept_def d)
  moreover have "dbInv env d"
  proof -
    have "historyOK env y" if y: "y \<in> set (db_workflows d)" and c: "clockOK env" for y
    proof -
      have old: "historyOK env x" if "x \<in> set (db_workflows (db s))" for x
        using inv c that by (simp add: dbInv_def)
      from y consider "y \<in> set (db_workflows (db s))" | "y = setWorkflow new r"
        using only by (auto simp: d split: if_splits)
      then show ?thesis
        using old updateWorkflow_history [OF enc moved old [OF r(1)] r(2,3) c] by cases auto
    qed
    moreover have "map wr_id (db_workflows d) = map wr_id (db_workflows (db s))"
      unfolding d using keys_update [of wr_id "setWorkflow new" wr_id "wr_id r"] key by simp
    moreover have "db_approvals d = db_approvals (db s)" "db_leases d = db_leases (db s)" by (simp_all add: d)
    ultimately show ?thesis using inv unfolding dbInv_def by (metis (no_types, lifting))
  qed
  ultimately show ?thesis by (simp add: dbGuar_def)
qed

lemma triple_WorkflowUpdate:
  assumes "gov.stable P" and moved: "movedOn env w ts w'"
    and ev: "\<And>s x. worldInv env s \<Longrightarrow> P s \<Longrightarrow> x \<in> set ts \<Longrightarrow> evidence (absDB (db s)) (w_ID w) (w_TaskID w) (tr_To x)"
  shows "gov.triple env (\<lambda>s. hasRun w s \<and> P s) (WorkflowUpdate env w') (\<lambda>_ _. True) (\<lambda>_. True)"
  unfolding WorkflowUpdate_def
proof (rule gov.triple_bindW [OF gov.triple_lift_bindE gov.triple_skip])
  fix new
  assume enc: "encWorkflowRun (te env) w' = Inr new"
  show "gov.triple env (\<lambda>s. hasRun w s \<and> P s) (exec env (updateWorkflow new)) (\<lambda>_ _. True) (\<lambda>_. True)"
  proof (rule gov.triple_conseq [OF triple_exec [where Q = "\<lambda>_. True"]])
    show "gov.stable (\<lambda>s. hasRun w s \<and> P s)" by (intro stables assms(1))
    fix s d
    assume "dbInv env (db s)" "hasRun w s \<and> P s" "updateWorkflow new (db s) = Inr d"
    then show "dbInv env d \<and> dbGuar (db s) d \<and> True"
      using updateWorkflow_sim [OF enc _ _ _ moved] ev [of s] by (simp add: worldInv_def)
  qed (auto intro: stables)
qed

end
