(* ===== verification/Governance.thy ===== *)
theory Governance
  imports Simulation
begin

text \<open>
  The services refine the abstract machine of \<open>Contract\<close>: every call, with any faults of the database,
  any clock and any identifiers, is a sequence of steps of that machine on the tables, and keeps their
  invariant. The properties of the machine carry over to the program.
\<close>

section \<open>Rules for the statements of a service\<close>

abbreviation kept :: "Env \<Rightarrow> (World \<Rightarrow> bool) \<Rightarrow> (World, 'a) go \<Rightarrow> bool" where
  "kept env P m \<equiv> gov.triple env P m (\<lambda>_ _. True) (\<lambda>_. True)"

lemma kept_quiet:
  assumes "fr.steps m" "gov.stable P"
  shows "(\<And>x. kept env P (k x)) \<Longrightarrow> kept env P (bindE m k)"
    "(\<And>x. kept env P (k x)) \<Longrightarrow> kept env P (bindW c m k)"
    "kept env P n \<Longrightarrow> kept env P (discard m n)"
  using gov.triple_frame [OF assms, of env]
  by (blast intro: gov.triple_bindE gov.triple_bindW gov.triple_discard)+

lemma kept_tail: "fr.steps m \<Longrightarrow> kept env P m"
  by (rule gov.triple_frame_True)

lemma kept_Now:
  assumes "gov.stable P" "\<And>now. (clockOK env \<longrightarrow> printable (te env) now) \<Longrightarrow> kept env P (k now)"
  shows "kept env P (bindE (Now env) k)"
  by (rule gov.triple_bindE [OF triple_Now [OF assms(1)] gov.triple_pure [OF assms(2)]])

lemma kept_runByID:
  assumes "gov.stable P" "\<And>w. w_ID w = i \<Longrightarrow> kept env (\<lambda>s. hasRun w s \<and> P s) (k w)"
  shows "kept env P (bindW c (WorkflowFindByID env i) k)"
proof (rule gov.triple_bindW [OF triple_WorkflowFindByID [OF assms(1)]])
  fix w
  show "kept env (\<lambda>s. P s \<and> hasRun w s \<and> w_ID w = i) (k w)"
    by (rule gov.triple_pre [OF gov.triple_pure [where b = "w_ID w = i", OF assms(2)]]) auto
qed

lemma kept_runByTask:
  assumes "gov.stable P" "\<And>w. w_TaskID w = t \<Longrightarrow> kept env (\<lambda>s. hasRun w s \<and> P s) (k w)"
  shows "kept env P (bindW c (WorkflowFindByTaskID env t) k)"
proof (rule gov.triple_bindW [OF triple_WorkflowFindByTaskID [OF assms(1)]])
  fix w
  show "kept env (\<lambda>s. P s \<and> hasRun w s \<and> w_TaskID w = t) (k w)"
    by (rule gov.triple_pre [OF gov.triple_pure [where b = "w_TaskID w = t", OF assms(2)]]) auto
qed

lemma kept_lease:
  assumes "gov.stable P" "\<And>l. l_WorkflowRunID l = i \<Longrightarrow> kept env (\<lambda>s. P s \<and> hasLease l s) (k l)"
  shows "kept env P (bindW c (LeaseFindByWorkflowRunID env i) k)"
proof (rule gov.triple_bindW [OF triple_LeaseFind [OF assms(1)]])
  fix l
  show "kept env (\<lambda>s. P s \<and> hasLease l s \<and> l_WorkflowRunID l = i) (k l)"
    by (rule gov.triple_pre [OF gov.triple_pure [where b = "l_WorkflowRunID l = i", OF assms(2)]]) auto
qed

lemma kept_orElse:
  assumes "gov.triple env P m M N" "\<And>x. kept env (M x) (k x)"
  shows "kept env P (orElse f m k)"
  unfolding orElse_def
  by (rule gov.triple_bindR [OF assms(1)]) (use assms(2) in \<open>auto intro: gov.triple_throw\<close>)

lemmas kept_lift = gov.triple_lift_bindE gov.triple_lift_bindW

text \<open>Storing a run after one of its operations.\<close>

lemma movedOn_op:
  assumes "applyWorkflowOp (op, a, now) w = Inr w'" "clockOK env \<longrightarrow> printable (te env) now"
  shows "\<exists>t. movedOn env w [t] w' \<and> tr_To t = w_Status w'"
proof -
  note eff = applyWorkflowOp_Inr [OF assms(1)]
  from eff(1) obtain t where t: "w_Transitions w' = w_Transitions w @ [t]" "tr_From t = w_Status w"
    "tr_To t = w_Status w'" "tr_Timestamp t = now" by blast
  moreover have "\<not> IsTerminal (w_Status w)" using eff(3) terminal_no_transition by blast
  ultimately have "movedOn env w [t] w'"
    using eff(3-5) assms(2) unfolding movedOn_def by (simp del: IsValidTransition_simps)
  with t(3) show ?thesis by blast
qed

lemma kept_move:
  assumes op: "applyWorkflowOp (op, a, now) w = Inr w'" and clock: "clockOK env \<longrightarrow> printable (te env) now"
    and P: "gov.stable P"
    and ev: "\<And>s. worldInv env s \<Longrightarrow> P s \<Longrightarrow> evidence (absDB (db s)) (w_ID w) (w_TaskID w) (w_Status w')"
  shows "kept env (\<lambda>s. hasRun w s \<and> P s) (WorkflowUpdate env w')"
proof -
  from movedOn_op [OF op clock] obtain t where t: "movedOn env w [t] w'" "tr_To t = w_Status w'" by blast
  show ?thesis by (rule triple_WorkflowUpdate [OF P t(1)]) (use ev t(2) in auto)
qed

lemma kept_move_then:
  assumes "kept env P (WorkflowUpdate env w')" "fr.steps k"
  shows "kept env P (bindW c (WorkflowUpdate env w') (\<lambda>_. k))"
  by (rule gov.triple_bindW [OF assms(1) kept_tail [OF assms(2)]])

lemma evidence_simps [simp]:
  "evidence g i t StatusRouted \<longleftrightarrow> t \<in> gs_routed g"
  "evidence g i t StatusPolicyChecked \<longleftrightarrow> t \<in> fst ` gs_policy g"
  "evidence g i t StatusAwaitingApproval \<longleftrightarrow> (t, OutcomeRequireApproval) \<in> gs_policy g \<and> requestWith g i ApprovalPending"
  "evidence g i t StatusApproved \<longleftrightarrow> requestWith g i ApprovalApproved"
  "evidence g i t StatusRunning \<longleftrightarrow> (\<exists>m u. gs_leases g i = Some (m, u, LeaseStatusActive) \<and> u < m)"
  "evidence g i t StatusCompleted \<longleftrightarrow> (\<exists>m u st. gs_leases g i = Some (m, u, st) \<and> 1 \<le> u)"
  "evidence g i t StatusQuarantined \<longleftrightarrow> (\<exists>m. gs_leases g i = Some (m, m, LeaseStatusExhausted))"
  "evidence g i t StatusFailed \<longleftrightarrow> (t, OutcomeDeny) \<in> gs_policy g \<or> requestWith g i ApprovalDenied"
  "evidence g i t StatusPaused" "evidence g i t StatusKilled"
  by (simp_all add: evidence_def)

lemma op_status:
  "MarkRouted rd r a now w = Inr w' \<Longrightarrow> w_Status w' = StatusRouted"
  "MarkPolicyChecked pd a now w = Inr w' \<Longrightarrow> w_Status w' = StatusPolicyChecked"
  "TransitionTo st r a now w = Inr w' \<Longrightarrow> w_Status w' = st"
  "Kill r a now w = Inr w' \<Longrightarrow> w_Status w' = StatusKilled"
  "Pause r a now w = Inr w' \<Longrightarrow> w_Status w' = StatusPaused"
  "Resume r a now w = Inr w' \<Longrightarrow> w_Status w' = StatusRunning"
  "Complete r a now w = Inr w' \<Longrightarrow> w_Status w' = StatusCompleted"
  "Fail r a now w = Inr w' \<Longrightarrow> w_Status w' = StatusFailed"
  "Quarantine r a now w = Inr w' \<Longrightarrow> w_Status w' = StatusQuarantined"
  by (auto simp: workflow_op_defs transitionTo_Inr split: sum.splits if_splits)

text \<open>The operations as instances of \<open>applyWorkflowOp\<close>.\<close>

lemmas kept_ops =
  kept_move [where op = "OpMarkRouted rd r" for rd r, unfolded applyWorkflowOp.simps]
  kept_move [where op = "OpMarkPolicyChecked pd" for pd, unfolded applyWorkflowOp.simps]
  kept_move [where op = "OpTransitionTo st r" for st r, unfolded applyWorkflowOp.simps]
  kept_move [where op = "OpKill r" for r, unfolded applyWorkflowOp.simps]
  kept_move [where op = "OpPause r" for r, unfolded applyWorkflowOp.simps]
  kept_move [where op = "OpResume r" for r, unfolded applyWorkflowOp.simps]
  kept_move [where op = "OpComplete r" for r, unfolded applyWorkflowOp.simps]
  kept_move [where op = "OpFail r" for r, unfolded applyWorkflowOp.simps]
  kept_move [where op = "OpQuarantine r" for r, unfolded applyWorkflowOp.simps]

section \<open>Operational control\<close>

lemma kept_PauseWorkflow: "kept env (\<lambda>_. True) (PauseWorkflow env ctx i reason actor)"
  unfolding PauseWorkflow_def
proof (intro kept_runByID kept_Now kept_lift stables)
  fix w now w'
  assume "clockOK env \<longrightarrow> printable (te env) now" "Pause reason actor now w = Inr w'"
  then show "kept env (\<lambda>s. hasRun w s \<and> True) (bindW ''persisting workflow'' (WorkflowUpdate env w') (\<lambda>_.
      discard (RecordAudit env ctx actor ''workflow_paused'' ''paused'' NewAuditContext None (Some (w_ID w'))) (ret ())))"
    by (intro kept_move_then kept_ops(5) fr.steps_recording stables) (simp_all add: op_status)
qed

lemma kept_ResumeWorkflow: "kept env (\<lambda>_. True) (ResumeWorkflow env ctx i reason actor)"
  unfolding ResumeWorkflow_def
proof (intro kept_runByID kept_lease gov.triple_if gov.triple_throw kept_Now kept_lift stables)
  fix w l now w'
  assume w: "w_ID w = i" and l: "l_WorkflowRunID l = i" "\<not> \<not> HasRetryBudget l"
    and now: "clockOK env \<longrightarrow> printable (te env) now" and op: "Resume reason actor now w = Inr w'"
  have "kept env (\<lambda>s. hasRun w s \<and> hasLease l s) (WorkflowUpdate env w')"
  proof (intro kept_ops(6) [OF op now] stables)
    fix s
    assume "worldInv env s" "hasLease l s"
    from hasLease_onLease [OF this] w l show "evidence (absDB (db s)) (w_ID w) (w_TaskID w) (w_Status w')"
      by (simp add: op_status(6) [OF op] onLease_def HasRetryBudget_def)
  qed
  then show "kept env (\<lambda>s. (hasRun w s \<and> True) \<and> hasLease l s) (bindW ''persisting workflow'' (WorkflowUpdate env w') (\<lambda>_.
      discard (RecordAudit env ctx actor ''workflow_resumed'' ''running'' NewAuditContext None (Some (w_ID w')))
       (discard (OnExecutionReady env w' l) (ret ()))))"
    by (intro kept_move_then fr.steps_recording) simp
qed simp

lemma triple_revokeLease: "gov.triple env (hasRun w) (revokeLease env i) (\<lambda>_. hasRun w) (\<lambda>_. True)"
  unfolding revokeLease_def
proof (rule gov.triple_bindR [OF triple_LeaseFind [OF stable_atoms(1)]])
  fix l
  have "gov.triple env (\<lambda>s. hasRun w s \<and> hasLease l s) (discard (LeaseUpdate env l') (ret ())) (\<lambda>_. hasRun w) (\<lambda>_. True)"
    if "Revoke l = Inr l'" for l'
    by (rule gov.triple_discard [OF triple_revoked [OF that] gov.triple_skip])
  then show "gov.triple env (\<lambda>s. hasRun w s \<and> hasLease l s \<and> l_WorkflowRunID l = i)
      (case Inr l of Inl _ \<Rightarrow> ret () | Inr lease \<Rightarrow> (case Revoke lease of Inl _ \<Rightarrow> ret ()
         | Inr lease \<Rightarrow> discard (LeaseUpdate env lease) (ret ()))) (\<lambda>_. hasRun w) (\<lambda>_. True)"
    by (cases "Revoke l") (auto intro: gov.triple_ret gov.triple_pre)
qed (auto intro: gov.triple_ret)

lemma kept_KillWorkflow: "kept env (\<lambda>_. True) (KillWorkflow env ctx i reason actor)"
  unfolding KillWorkflow_def
proof (intro kept_runByID kept_Now kept_lift stables)
  fix w now w'
  assume now: "clockOK env \<longrightarrow> printable (te env) now" and op: "Kill reason actor now w = Inr w'"
  have upd: "kept env (\<lambda>s. hasRun w s \<and> True) (WorkflowUpdate env w')"
    by (intro kept_ops(4) [OF op now] stables) (simp add: op_status(4) [OF op])
  show "kept env (\<lambda>s. hasRun w s \<and> True) (bindE (revokeLease env i) (\<lambda>_.
      bindW ''persisting workflow'' (WorkflowUpdate env w') (\<lambda>_.
      discard (RecordAudit env ctx actor ''workflow_killed'' ''killed'' NewAuditContext None (Some (w_ID w'))) (
      discard (OnWorkflowTerminated env w' reason) (
      bindE (sinceMs env (w_CreatedAt w')) (\<lambda>durationMs.
      bindE (emitTerminal env ''killed'' durationMs) (\<lambda>_. ret ())))))))"
    by (rule gov.triple_bindE [OF gov.triple_pre [OF triple_revokeLease]])
       (use upd in \<open>auto intro!: kept_move_then fr.steps_recording\<close>)
qed

text \<open>The transition an attempt asks for, with the evidence that the recorded lease gives.\<close>

lemma attemptTransition_cases:
  assumes "attemptTransition result l now w = Inr w'"
  shows "w' = w \<or> Complete ''attempt succeeded'' ''system'' now w = Inr w' \<or>
    (Quarantine ''retry budget exhausted'' ''system'' now w = Inr w' \<and> \<not> HasRetryBudget l)"
proof -
  consider "at_Status result = AttemptStatusSuccess" | "at_Status result = AttemptStatusFailure"
    | "at_Status result \<noteq> AttemptStatusSuccess" "at_Status result \<noteq> AttemptStatusFailure" by blast
  then show ?thesis
    using assms unfolding attemptTransition_def by cases (simp_all split: if_splits)
qed

lemma recorded_lease:
  assumes rec: "RecordAttempt l = Inr l'"
  shows "l_WorkflowRunID l' = l_WorkflowRunID l" "l_Status l' = LeaseStatusActive \<or> l_Status l' = LeaseStatusExhausted"
  using assms by (auto simp: RecordAttempt_def Let_def split: if_splits)

lemma kept_attempt:
  assumes w: "\<not> IsTerminal (w_Status w)" and rec: "RecordAttempt l0 = Inr l"
    and now: "clockOK env \<longrightarrow> printable (te env) now" and tr: "attemptTransition result l now w = Inr w'"
  shows "kept env (\<lambda>s. hasRun w s \<and> onLease (w_ID w) (rb_MaxAttempts (l_RetryBudget l), l_AttemptsUsed l, l_Status l) s \<and>
       leaseOK (rb_MaxAttempts (l_RetryBudget l), l_AttemptsUsed l, l_Status l) \<and> 1 \<le> l_AttemptsUsed l) (WorkflowUpdate env w')"
proof -
  consider "w' = w" | "Complete ''attempt succeeded'' ''system'' now w = Inr w'"
    | "Quarantine ''retry budget exhausted'' ''system'' now w = Inr w'" "\<not> HasRetryBudget l"
    using attemptTransition_cases [OF tr] by blast
  then show ?thesis
  proof cases
    case 1
    then have "movedOn env w [] w'" using w by (simp add: movedOn_def)
    then show ?thesis by (rule triple_WorkflowUpdate [rotated]) (auto intro: stables)
  next
    case 2
    show ?thesis
      by (intro kept_ops(7) [OF 2 now] stables) (auto simp: op_status(7) [OF 2] onLease_def)
  next
    case 3
    show ?thesis
    proof (intro kept_ops(9) [OF 3(1) now] stables)
      fix s
      assume s: "onLease (w_ID w) (rb_MaxAttempts (l_RetryBudget l), l_AttemptsUsed l, l_Status l) s \<and>
        leaseOK (rb_MaxAttempts (l_RetryBudget l), l_AttemptsUsed l, l_Status l) \<and> 1 \<le> l_AttemptsUsed l"
      then have "l_Status l = LeaseStatusExhausted \<and> l_AttemptsUsed l = rb_MaxAttempts (l_RetryBudget l)"
        using recorded_lease(2) [OF rec] 3(2) by (auto simp: leaseOK_def HasRetryBudget_def)
      with s show "evidence (absDB (db s)) (w_ID w) (w_TaskID w) (w_Status w')"
        by (simp add: op_status(9) [OF 3(1)] onLease_def)
    qed
  qed
qed

lemma recorded_counts:
  assumes "RecordAttempt l = Inr l'" "leaseOK (rb_MaxAttempts (l_RetryBudget l), l_AttemptsUsed l, l_Status l)"
    "rb_MaxAttempts (l_RetryBudget l) < 2 ^ 31"
  shows "1 \<le> l_AttemptsUsed l'"
proof -
  have act: "l_Status l = LeaseStatusActive" using assms(1) by (auto simp: RecordAttempt_def split: if_splits)
  then have "leaseInv l" using assms(2,3) by (simp add: leaseInv_def leaseOK_def)
  from RecordAttempt_inv [OF this act] assms(1) have "l_AttemptsUsed l' = l_AttemptsUsed l + 1" by auto
  then show ?thesis using assms(2) by (simp add: leaseOK_def)
qed

lemma hasLease_OK:
  assumes "worldInv env s" "hasLease l s"
  shows "leaseOK (rb_MaxAttempts (l_RetryBudget l), l_AttemptsUsed l, l_Status l) \<and> rb_MaxAttempts (l_RetryBudget l) < 2 ^ 31"
proof -
  from assms(2) obtain r where r: "r \<in> set (db_leases (db s))" "scanExecutionLease r = Inr l" by (auto simp: hasLease_def)
  from assms(1) have inv: "dbInv env (db s)" by (simp add: worldInv_def)
  from dbInv_leases(3) [OF inv r(1)] scanExecutionLease_Inr [OF r(2)] show ?thesis by simp
qed

lemma kept_RegisterAttempt: "kept env (\<lambda>_. True) (RegisterAttempt env ctx i result)"
  unfolding RegisterAttempt_def
proof (intro kept_runByID gov.triple_if gov.triple_throw kept_lift kept_lease kept_Now stables)
  fix w l0 l now w'
  assume w: "w_ID w = i" "\<not> IsTerminal (w_Status w)" and l0: "l_WorkflowRunID l0 = i" "RecordAttempt l0 = Inr l"
    and now: "clockOK env \<longrightarrow> printable (te env) now" and tr: "attemptTransition result l now w = Inr w'"
  let ?x = "(rb_MaxAttempts (l_RetryBudget l), l_AttemptsUsed l, l_Status l)"
  have "gov.triple env (\<lambda>s. (hasRun w s \<and> True) \<and> hasLease l0 s) (LeaseUpdate env l)
    (\<lambda>_ s. hasRun w s \<and> onLease (w_ID w) ?x s \<and> leaseOK ?x \<and> 1 \<le> l_AttemptsUsed l) (\<lambda>_. True)"
  proof (cases "1 \<le> l_AttemptsUsed l")
    case True
    then show ?thesis
      by (intro gov.triple_conseq [OF triple_recorded [OF l0(2), of env w]]) (use w l0 in auto)
  next
    case False
    then have "\<not> (worldInv env s \<and> hasLease l0 s)" for s
      using hasLease_OK recorded_counts [OF l0(2)] by blast
    then show ?thesis by (auto simp: gov.triple_def)
  qed
  then show "kept env (\<lambda>s. (hasRun w s \<and> True) \<and> hasLease l0 s)
     (bindW ''persisting lease'' (LeaseUpdate env l) (\<lambda>_. bindW ''persisting workflow'' (WorkflowUpdate env w') (\<lambda>_.
      bindE (lift (failureFields result)) (\<lambda>failure.
      afterAttempt env ctx result (attemptContext result l failure) failure now w'))))"
    by (rule gov.triple_bindW)
       (intro kept_move_then kept_attempt [OF w(2) l0(2) now tr] fr.steps_rules fr.steps_afterAttempt)
qed auto

section \<open>The pipeline\<close>

lemma kept_loadOrCreateRun:
  assumes "\<And>w. w_TaskID w = t \<Longrightarrow> kept env (\<lambda>s. hasRun w s \<and> onRouted t s) (k w)"
  shows "kept env (onRouted t) (bindE (loadOrCreateRun env t now) k)"
proof -
  have keep: "onRouted t s \<Longrightarrow> onRouted t (s\<lparr>db := (db s)\<lparr>db_workflows := x\<rparr>\<rparr>)" for s x
    by (simp add: onRouted_def absDB_def)
  have new: "gov.triple env (onRouted t) (bindE (generate env) (\<lambda>wfID.
        bindW ''saving new workflow run'' (WorkflowSave env (NewWorkflowRun wfID t now)) (\<lambda>_.
        ret (NewWorkflowRun wfID t now))))
      (\<lambda>w s. (hasRun w s \<and> onRouted t s) \<and> w_TaskID w = t) (\<lambda>_. True)"
    by (rule gov.triple_bindE [OF gov.triple_frame [OF fr.steps_generate stable_atoms(4)]],
        rule gov.triple_bindW [OF triple_WorkflowSave [OF stable_atoms(4) keep]], assumption,
        rule gov.triple_ret) (simp add: NewWorkflowRun_def)
  have "gov.triple env (onRouted t) (loadOrCreateRun env t now)
      (\<lambda>w s. (hasRun w s \<and> onRouted t s) \<and> w_TaskID w = t) (\<lambda>_. True)"
    unfolding loadOrCreateRun_def
    by (rule gov.triple_bindR [OF triple_WorkflowFindByTaskID [OF stable_atoms(4)]])
       (use new in \<open>auto intro: gov.triple_ret\<close>)
  then show ?thesis
    by (rule gov.triple_bindE) (rule gov.triple_pure [OF assms])
qed

lemma NewRoutingDecision_task: "NewRoutingDecision i t evs st role reason cs now = Inr rd \<Longrightarrow> rd_taskID rd = t"
  by (auto simp: NewRoutingDecision_def split: if_splits)

lemma NewPolicyDecision_task: "NewPolicyDecision i t action oc cs ar evs reason now = Inr pd \<Longrightarrow> pd_taskID pd = t"
  by (auto simp: NewPolicyDecision_def split: if_splits)

lemma fr_routed: "fr.steps (RecordAudit env ctx actor action oc actx t' w)"
  "fr.steps (if b then bindW c (createDecomposeSubtasks env ctx tk now) (\<lambda>_. ret rd) else ret rd)"
  by (intro fr.steps_recording fr.steps_createDecomposeSubtasks)+

lemma kept_RouteTask: "kept env (\<lambda>_. True) (RouteTask env ctx taskID)"
  unfolding RouteTask_def
proof (intro kept_quiet(1,2) [OF fr.steps_lookups(1)] kept_quiet(1) [OF fr.steps_memoryContext]
    gov.triple_gets_bindE kept_lift kept_Now kept_quiet(1) [OF fr.steps_generate] stables)
  fix tk memCtx stats result now rdID rd
  assume now: "clockOK env \<longrightarrow> printable (te env) now"
    and rd: "NewRoutingDecision rdID taskID (rr_Evaluations result) (rr_SelectedStrategy result)
       (rr_SelectedRole result) (rr_Reason result) [] now = Inr rd"
  have saved: "gov.triple env (\<lambda>_. True) (RoutingSave env rd) (\<lambda>_. onRouted taskID) (\<lambda>_. True)"
    using triple_RoutingSave [of env rd] NewRoutingDecision_task [OF rd] by simp
  have moved: "kept env (\<lambda>s. hasRun w s \<and> onRouted taskID s) (WorkflowUpdate env w')"
    if "w_TaskID w = taskID" "MarkRouted rdID (rr_Reason result) ''system'' now w = Inr w'" for w w'
    by (intro kept_ops(1) [OF that(2) now] stables) (use that in \<open>simp add: op_status onRouted_def\<close>)
  show "kept env (\<lambda>_. True) (bindW ''saving routing decision'' (RoutingSave env rd) (\<lambda>_.
     bindE (loadOrCreateRun env taskID now) (\<lambda>w.
     bindW ''marking workflow routed'' (lift (MarkRouted rdID (rr_Reason result) ''system'' now w)) (\<lambda>w.
     bindW ''updating workflow run'' (WorkflowUpdate env w) (\<lambda>_.
     bindW ''recording audit''
       (RecordAudit env ctx ''system'' ''task_routed'' (RoutingStrategy_String (rr_SelectedStrategy result))
          (auditWithAgentRole (AgentRole_String (rr_SelectedRole result))
            (auditWithStrategy (RoutingStrategy_String (rr_SelectedStrategy result)) NewAuditContext))
          (Some taskID) (Some (w_ID w))) (\<lambda>_.
     if rr_SelectedStrategy result = StrategyDecompose
     then bindW ''creating decompose subtasks'' (createDecomposeSubtasks env ctx tk now) (\<lambda>_. ret rd)
     else ret rd))))))"
    by (rule gov.triple_bindW [OF saved])
       (intro kept_loadOrCreateRun kept_lift kept_move_then moved fr.steps_bindW fr_routed)
qed

lemma kept_EvaluatePolicySvc: "kept env (\<lambda>_. True) (EvaluatePolicySvc env ctx taskID action)"
  unfolding EvaluatePolicySvc_def Let_def
proof (intro kept_quiet(2) [OF fr.steps_lookups(1)] kept_quiet(2) [OF fr.steps_lookups(2)] kept_lift kept_Now
    kept_quiet(1) [OF fr.steps_generate] stables)
  fix tk now pdID pd
  let ?r = "EvaluatePolicy DefaultRules \<lparr>pctx_Task = tk, pctx_Action = action\<rparr>"
  assume now: "clockOK env \<longrightarrow> printable (te env) now"
    and pd: "NewPolicyDecision pdID taskID action (er_Outcome ?r) (er_Constraints ?r) (er_ApprovalRequirement ?r)
       (er_RulesEvaluated ?r) (er_Reason ?r) now = Inr pd"
  have saved: "gov.triple env (\<lambda>_. True) (PolicySave env pd) (\<lambda>_. onJudged taskID) (\<lambda>_. True)"
    using triple_PolicySave [of env pd] NewPolicyDecision_task [OF pd] by simp
  have moved: "kept env (\<lambda>s. hasRun w s \<and> onJudged taskID s) (WorkflowUpdate env w')"
    if "w_TaskID w = taskID" "MarkPolicyChecked pdID ''system'' now w = Inr w'" for w w'
    by (intro kept_ops(2) [OF that(2) now] stables) (use that in \<open>simp add: op_status onJudged_def\<close>)
  show "kept env (\<lambda>_. True) (bindW ''saving policy decision'' (PolicySave env pd) (\<lambda>_.
     bindW ''loading workflow run'' (WorkflowFindByTaskID env taskID) (\<lambda>w.
     bindW ''marking workflow policy_checked'' (lift (MarkPolicyChecked pdID ''system'' now w)) (\<lambda>w.
     bindW ''updating workflow run'' (WorkflowUpdate env w) (\<lambda>_.
     bindW ''recording audit''
       (RecordAudit env ctx ''system'' ''policy_evaluated'' (PolicyOutcome_String (er_Outcome ?r))
          (auditSet ''policy_outcome'' (AString (PolicyOutcome_String (er_Outcome ?r)))
            (auditSet ''evaluated_action'' (AString action) NewAuditContext))
          (Some taskID) (Some (w_ID w))) (\<lambda>_.
     ret pd))))))"
    by (rule gov.triple_bindW [OF saved])
       (intro kept_runByTask kept_lift kept_move_then moved fr.steps_recording stables)
qed

subsection \<open>Starting a run\<close>

lemma triple_LeaseSave:
  assumes P: "gov.stable P" and keep: "\<And>s x. P s \<Longrightarrow> P (s\<lparr>db := (db s)\<lparr>db_leases := x\<rparr>\<rparr>)"
    and auth: "\<And>s. P s \<Longrightarrow> authorised (absDB (db s)) (w_ID w) (w_TaskID w)"
    and l: "l_WorkflowRunID l = w_ID w" "rb_MaxAttempts (l_RetryBudget l) = m" "0 < m" "m < 2 ^ 31"
      "l_AttemptsUsed l = 0" "l_Status l = LeaseStatusActive"
  shows "gov.triple env (\<lambda>s. hasRun w s \<and> P s) (LeaseSave env l)
    (\<lambda>_ s. hasRun w s \<and> P s \<and> onLease (w_ID w) (m, 0, LeaseStatusActive) s) (\<lambda>_. True)"
  unfolding LeaseSave_def
proof (rule gov.triple_bindW [OF gov.triple_lift_bindE gov.triple_skip])
  fix r
  assume enc: "encLease (te env) l = Inr r"
  have r: "lr_workflow_run_id r = w_ID w" "leaseView r = (m, 0, LeaseStatusActive)"
    using encLease_Inr [OF enc] l by simp_all
  show "gov.triple env (\<lambda>s. hasRun w s \<and> P s) (exec env (insertLease r))
    (\<lambda>_ s. hasRun w s \<and> P s \<and> onLease (w_ID w) (m, 0, LeaseStatusActive) s) (\<lambda>_. True)"
  proof (rule gov.triple_conseq [OF triple_exec])
    fix s d
    assume inv: "dbInv env (db s)" and s: "hasRun w s \<and> P s" and ins: "insertLease r (db s) = Inr d"
    from insertLease_sim [OF ins inv r(2) l(3,4), unfolded r(1), OF hasRun_onRun [OF inv] auth] s
    have d: "d = (db s)\<lparr>db_leases := db_leases (db s) @ [r]\<rparr>" "dbInv env d" "dbGuar (db s) d"
      "gs_leases (absDB d) (w_ID w) = Some (m, 0, LeaseStatusActive)" by blast+
    then show "dbInv env d \<and> dbGuar (db s) d \<and> hasRun w (s\<lparr>db := d\<rparr>) \<and> P (s\<lparr>db := d\<rparr>) \<and>
        onLease (w_ID w) (m, 0, LeaseStatusActive) (s\<lparr>db := d\<rparr>)"
      using keep_run(1) [of w s] keep [of s] s by (simp add: onLease_def)
  next
    show "gov.stable (\<lambda>s. hasRun w s \<and> P s)"
      "gov.stable (\<lambda>s. hasRun w s \<and> P s \<and> onLease (w_ID w) (m, 0, LeaseStatusActive) s)"
      by (intro stables P)+
  qed auto
qed

lemma keep_record:
  "onPolicy t oc s \<Longrightarrow> onPolicy t oc (s\<lparr>db := (db s)\<lparr>db_leases := x\<rparr>\<rparr>)"
  "onPolicy t oc s \<Longrightarrow> onPolicy t oc (s\<lparr>db := (db s)\<lparr>db_approvals := y\<rparr>\<rparr>)"
  "onRequest i st s \<Longrightarrow> onRequest i st (s\<lparr>db := (db s)\<lparr>db_leases := x\<rparr>\<rparr>)"
  by (simp_all add: onPolicy_def onRequest_def requestWith_def absDB_def)

lemma triple_grantLease:
  assumes P: "gov.stable P" and keep: "\<And>s x. P s \<Longrightarrow> P (s\<lparr>db := (db s)\<lparr>db_leases := x\<rparr>\<rparr>)"
    and auth: "\<And>s. P s \<Longrightarrow> authorised (absDB (db s)) (w_ID w) (w_TaskID w)"
  shows "gov.triple env (\<lambda>s. hasRun w s \<and> P s) (grantLease env (w_ID w) now)
    (\<lambda>_ s. hasRun w s \<and> P s \<and> onLease (w_ID w) (defaultMaxRetries, 0, LeaseStatusActive) s) (\<lambda>_. True)"
  unfolding grantLease_def
proof (intro kept_lift gov.triple_bindE [OF gov.triple_frame [OF fr.steps_generate]] stables P)
  fix budget leaseID l
  assume "NewRetryBudget defaultMaxRetries = Inr budget"
    "NewExecutionLease leaseID (w_ID w) defaultTimeout budget now = Inr l"
  then have "l_WorkflowRunID l = w_ID w" "rb_MaxAttempts (l_RetryBudget l) = defaultMaxRetries"
    "l_AttemptsUsed l = 0" "l_Status l = LeaseStatusActive"
    by (auto simp: NewRetryBudget_def NewExecutionLease_def split: if_splits)
  then show "gov.triple env (\<lambda>s. hasRun w s \<and> P s) (bindW ''persisting lease'' (LeaseSave env l) (\<lambda>_. ret l))
    (\<lambda>_ s. hasRun w s \<and> P s \<and> onLease (w_ID w) (defaultMaxRetries, 0, LeaseStatusActive) s) (\<lambda>_. True)"
    by (intro gov.triple_bindW [OF triple_LeaseSave [OF P keep auth] gov.triple_skip])
       (simp_all add: defaultMaxRetries_def)
qed

lemma TransitionTo_same: "TransitionTo st r a now w = Inr w' \<Longrightarrow> w_ID w' = w_ID w \<and> w_TaskID w' = w_TaskID w"
  by (auto simp: TransitionTo_def transitionTo_Inr)

lemma kept_startDenied:
  assumes "w_TaskID w = t" "clockOK env \<longrightarrow> printable (te env) now" "pd_outcome pd = OutcomeDeny"
  shows "kept env (\<lambda>s. hasRun w s \<and> onPolicy t (pd_outcome pd) s) (startDenied env ctx pd tID now w)"
  unfolding startDenied_def
proof (intro kept_lift kept_move_then fr.steps_recording)
  fix w'
  assume "Fail (''policy denied: '' @ pd_reason pd) ''system'' now w = Inr w'"
  then show "kept env (\<lambda>s. hasRun w s \<and> onPolicy t (pd_outcome pd) s) (WorkflowUpdate env w')"
    by (intro kept_ops(8) stables assms(2)) (use assms in \<open>simp_all add: op_status onPolicy_def\<close>)
qed

lemma kept_startAwaitingApproval:
  assumes "w_TaskID w = t" "clockOK env \<longrightarrow> printable (te env) now" "pd_outcome pd = OutcomeRequireApproval"
  shows "kept env (\<lambda>s. hasRun w s \<and> onPolicy t (pd_outcome pd) s) (startAwaitingApproval env ctx pd tID now w)"
  unfolding startAwaitingApproval_def
proof (intro kept_lift kept_quiet(1) [OF fr.steps_generate] stables)
  fix w' reqID req
  assume op: "TransitionTo StatusAwaitingApproval (''approval required: '' @ pd_reason pd) ''system'' now w = Inr w'"
    and req: "NewApprovalRequest reqID tID (w_ID w') (pd_reason pd)
       \<lparr>as_Role = (case pd_approvalRequirement pd of None \<Rightarrow> [] | Some ar \<Rightarrow> ar_ApproverRole ar), as_ActorID = None\<rparr> None now = Inr req"
  have upd: "kept env (\<lambda>s. hasRun w s \<and> onPolicy t (pd_outcome pd) s \<and> onRequest (w_ID w') ApprovalPending s) (WorkflowUpdate env w')"
    by (intro kept_ops(3) [OF op assms(2)] stables)
       (use assms TransitionTo_same [OF op] in \<open>simp add: op_status(3) [OF op] onPolicy_def onRequest_def\<close>)
  have "gov.triple env (\<lambda>s. hasRun w s \<and> onPolicy t (pd_outcome pd) s) (ApprovalSave env req)
      (\<lambda>_ s. (hasRun w s \<and> onPolicy t (pd_outcome pd) s) \<and> onRequest (w_ID w') ApprovalPending s) (\<lambda>_. True)"
    by (rule triple_ApprovalSave [OF req]) (intro stables, blast intro: keep_run(2) keep_record(2))
  then show "kept env (\<lambda>s. hasRun w s \<and> onPolicy t (pd_outcome pd) s)
     (bindW ''persisting approval request'' (ApprovalSave env req) (\<lambda>_.
      bindW ''persisting workflow'' (WorkflowUpdate env w') (\<lambda>_.
      discard (RecordAudit env ctx ''system'' ''workflow_started'' ''awaiting_approval'' NewAuditContext (Some tID) (Some (w_ID w'))) (
      discard (OnApprovalRequired env w' req) (ret w')))))"
    by (rule gov.triple_bindW) (intro kept_move_then fr.steps_recording gov.triple_pre [OF upd], blast)
qed

lemma kept_startRunning:
  assumes w: "w_TaskID w = t" and now: "clockOK env \<longrightarrow> printable (te env) now"
    and oc: "pd_outcome pd = OutcomeAllow \<or> pd_outcome pd = OutcomeAllowWithConstraints"
  shows "kept env (\<lambda>s. hasRun w s \<and> onPolicy t (pd_outcome pd) s) (startRunning env ctx tID now w)"
  unfolding startRunning_def
proof (intro kept_lift)
  fix w'
  assume op: "TransitionTo StatusRunning ''policy allowed'' ''system'' now w = Inr w'"
  note same = TransitionTo_same [OF op]
  let ?x = "(defaultMaxRetries, 0, LeaseStatusActive)"
  have grant: "gov.triple env (\<lambda>s. hasRun w s \<and> onPolicy t (pd_outcome pd) s) (grantLease env (w_ID w) now)
    (\<lambda>_ s. hasRun w s \<and> onPolicy t (pd_outcome pd) s \<and> onLease (w_ID w) ?x s) (\<lambda>_. True)"
    by (rule triple_grantLease [OF stable_atoms(5) keep_record(1)])
       (use w oc in \<open>auto simp: onPolicy_def authorised_def allowed_def\<close>)
  have upd: "kept env (\<lambda>s. hasRun w s \<and> onPolicy t (pd_outcome pd) s \<and> onLease (w_ID w) ?x s) (WorkflowUpdate env w')"
    by (intro kept_ops(3) [OF op now] stables) (simp add: op_status(3) [OF op] onLease_def defaultMaxRetries_def)
  show "kept env (\<lambda>s. hasRun w s \<and> onPolicy t (pd_outcome pd) s)
     (bindE (grantLease env (w_ID w') now) (\<lambda>lease.
      bindW ''persisting workflow'' (WorkflowUpdate env w') (\<lambda>_.
      discard (RecordAudit env ctx ''system'' ''workflow_started'' ''running'' NewAuditContext (Some tID) (Some (w_ID w'))) (
      discard (OnExecutionReady env w' lease) (ret w')))))"
    unfolding conjunct1 [OF same] by (rule gov.triple_bindE [OF grant]) (intro kept_move_then fr.steps_recording upd)
qed

lemma kept_StartWorkflow: "kept env (\<lambda>_. True) (StartWorkflow env ctx taskID)"
  unfolding StartWorkflow_def
proof (intro kept_quiet(2) [OF fr.steps_lookups(1)] stables)
  fix tk
  have start: "kept env (\<lambda>s. hasRun w s \<and> onPolicy taskID (pd_outcome pd) s) (bindE (Now env) (\<lambda>now.
     if pd_outcome pd = OutcomeDeny then startDenied env ctx pd (t_id tk) now w
     else if pd_outcome pd = OutcomeRequireApproval then startAwaitingApproval env ctx pd (t_id tk) now w
     else if pd_outcome pd = OutcomeAllow \<or> pd_outcome pd = OutcomeAllowWithConstraints
     then startRunning env ctx (t_id tk) now w
     else throw (ErrUnknownPolicyOutcome (PolicyOutcome_String (pd_outcome pd)))))" if w: "w_TaskID w = taskID" for w pd
    by (intro kept_Now gov.triple_if kept_startDenied kept_startAwaitingApproval kept_startRunning gov.triple_throw
        stables w) simp_all
  show "kept env (\<lambda>_. True) (orElse ErrNoRoutingDecision (RoutingFindByTaskID env taskID) (\<lambda>_.
     orElse ErrNoPolicyDecision (PolicyFindByTaskID env taskID) (\<lambda>pd.
     orElse ErrNoWorkflowRun (WorkflowFindByTaskID env taskID) (\<lambda>w.
     bindE (Now env) (\<lambda>now.
     if pd_outcome pd = OutcomeDeny then startDenied env ctx pd (t_id tk) now w
     else if pd_outcome pd = OutcomeRequireApproval then startAwaitingApproval env ctx pd (t_id tk) now w
     else if pd_outcome pd = OutcomeAllow \<or> pd_outcome pd = OutcomeAllowWithConstraints
     then startRunning env ctx (t_id tk) now w
     else throw (ErrUnknownPolicyOutcome (PolicyOutcome_String (pd_outcome pd))))))))"
  proof (rule kept_orElse [OF gov.triple_frame_True [OF fr.steps_lookups(2)]],
      rule kept_orElse [OF triple_PolicyFind], rule stables,
      rule kept_orElse [OF triple_WorkflowFindByTaskID], intro stables)
    fix pd w
    show "kept env (\<lambda>s. (True \<and> onPolicy taskID (pd_outcome pd) s) \<and> hasRun w s \<and> w_TaskID w = taskID) (bindE (Now env) (\<lambda>now.
     if pd_outcome pd = OutcomeDeny then startDenied env ctx pd (t_id tk) now w
     else if pd_outcome pd = OutcomeRequireApproval then startAwaitingApproval env ctx pd (t_id tk) now w
     else if pd_outcome pd = OutcomeAllow \<or> pd_outcome pd = OutcomeAllowWithConstraints
     then startRunning env ctx (t_id tk) now w
     else throw (ErrUnknownPolicyOutcome (PolicyOutcome_String (pd_outcome pd)))))"
      by (rule gov.triple_pre [OF gov.triple_pure [where b = "w_TaskID w = taskID", OF start]]) auto
  qed
qed

lemma kept_ProcessTask: "kept env (\<lambda>_. True) (ProcessTask env ctx input action)"
  unfolding ProcessTask_def
  by (intro gov.triple_bindW [OF kept_tail [OF fr.steps_SubmitTask]] gov.triple_bindW [OF kept_RouteTask]
      gov.triple_bindW [OF kept_EvaluatePolicySvc] gov.triple_bindW [OF kept_StartWorkflow] gov.triple_done)

section \<open>Approvals\<close>

lemma movedOn_trans: "movedOn env w ts u \<Longrightarrow> movedOn env u ts' v \<Longrightarrow> movedOn env w (ts @ ts') v"
  by (auto simp: movedOn_def chain_append)

lemma kept_runApproved:
  assumes now: "clockOK env \<longrightarrow> printable (te env) now"
  shows "kept env (\<lambda>s. hasRun w s \<and> onRequest (w_ID w) ApprovalApproved s) (runApproved env input now w)"
  unfolding runApproved_def
proof (intro kept_lift)
  fix u w'
  assume op1: "TransitionTo StatusApproved ''approval granted'' (ra_ResolvedBy input) now w = Inr u"
    and op2: "TransitionTo StatusRunning ''starting execution'' (ra_ResolvedBy input) now u = Inr w'"
  let ?x = "(defaultMaxRetries, 0, LeaseStatusActive)"
  obtain t1 t2 where m: "movedOn env w [t1] u" "tr_To t1 = StatusApproved" "movedOn env u [t2] w'" "tr_To t2 = StatusRunning"
    using movedOn_op [of "OpTransitionTo StatusApproved ''approval granted''", OF _ now]
      movedOn_op [of "OpTransitionTo StatusRunning ''starting execution''", OF _ now] op1 op2
      op_status(3) [OF op1] op_status(3) [OF op2] by (metis applyWorkflowOp.simps(3))
  have id: "w_ID w' = w_ID w" using TransitionTo_same [OF op1] TransitionTo_same [OF op2] by simp
  have grant: "gov.triple env (\<lambda>s. hasRun w s \<and> onRequest (w_ID w) ApprovalApproved s) (grantLease env (w_ID w) now)
    (\<lambda>_ s. hasRun w s \<and> onRequest (w_ID w) ApprovalApproved s \<and> onLease (w_ID w) ?x s) (\<lambda>_. True)"
    by (rule triple_grantLease [OF stable_atoms(7) keep_record(3)]) (auto simp: onRequest_def authorised_def)
  have upd: "kept env (\<lambda>s. hasRun w s \<and> onRequest (w_ID w) ApprovalApproved s \<and> onLease (w_ID w) ?x s) (WorkflowUpdate env w')"
    by (rule triple_WorkflowUpdate [OF gov.stable_conj [OF stable_atoms(7,6)] movedOn_trans [OF m(1,3)]])
       (auto simp: m(2,4) onRequest_def onLease_def defaultMaxRetries_def)
  show "kept env (\<lambda>s. hasRun w s \<and> onRequest (w_ID w) ApprovalApproved s)
     (bindE (grantLease env (w_ID w') now) (\<lambda>lease. bindW ''persisting workflow'' (WorkflowUpdate env w') (\<lambda>_.
      discard (OnExecutionReady env w' lease) (ret w'))))"
    unfolding id by (rule gov.triple_bindE [OF grant]) (intro kept_move_then fr.steps_recording upd)
qed

lemma kept_runDenied:
  assumes now: "clockOK env \<longrightarrow> printable (te env) now"
  shows "kept env (\<lambda>s. hasRun w s \<and> onRequest (w_ID w) ApprovalDenied s) (runDenied env input now w)"
  unfolding runDenied_def
proof (intro kept_lift kept_move_then fr.steps_recording)
  fix w'
  assume op: "Fail (''approval denied: '' @ ra_Reason input) (ra_ResolvedBy input) now w = Inr w'"
  show "kept env (\<lambda>s. hasRun w s \<and> onRequest (w_ID w) ApprovalDenied s) (WorkflowUpdate env w')"
    by (intro kept_ops(8) [OF op now] stables) (simp add: op_status(8) [OF op] onRequest_def)
qed

lemma kept_ResolveApproval: "kept env (\<lambda>_. True) (ResolveApproval env ctx input)"
  unfolding ResolveApproval_def Let_def
proof (rule gov.triple_bindW [OF triple_ApprovalFind], intro stables, intro kept_Now kept_lift stables)
  fix req now req'
  assume now: "clockOK env \<longrightarrow> printable (te env) now" and res: "resolveRequest input now req = Inr req'"
  let ?st = "if ra_Approved input then ApprovalApproved else ApprovalDenied"
  let ?run = "\<lambda>w. if ra_Approved input then runApproved env input now w else runDenied env input now w"
  let ?oc = "if ra_Approved input then ''approved'' else ''denied''"
  have run: "kept env (\<lambda>s. hasRun w s \<and> onRequest (a_workflowRunID req') ?st s) (?run w)"
    if "w_ID w = a_workflowRunID req'" for w
    using kept_runApproved [OF now, of w input] kept_runDenied [OF now, of w input] that by simp
  show "kept env (\<lambda>s. True \<and> hasRequest req s) (bindW ''persisting approval'' (ApprovalUpdate env req') (\<lambda>_.
     bindW ''loading workflow'' (WorkflowFindByID env (a_workflowRunID req')) (\<lambda>w. bindE (?run w) (\<lambda>w.
     discard (RecordAudit env ctx (ra_ResolvedBy input) ''approval_resolved'' ?oc NewAuditContext None (Some (w_ID w))) (
     bindE (sinceMs env (a_createdAt req')) (\<lambda>waitMs.
     bindE (emitApprovalWait env waitMs ?oc) (\<lambda>_.
     bindE (if ra_Approved input then ret () else bindE (sinceMs env (w_CreatedAt w)) (emitTerminal env ''failed'')) (\<lambda>_.
     ret req'))))))))"
    by (rule gov.triple_bindW [OF gov.triple_pre [OF triple_ApprovalUpdate [OF res]]], blast,
        intro kept_runByID gov.triple_bindE [OF run] kept_tail fr.steps_recording stables)
qed

section \<open>Every call\<close>

lemmas kept_services =
  kept_ProcessTask kept_RouteTask kept_EvaluatePolicySvc kept_StartWorkflow kept_RegisterAttempt
  kept_PauseWorkflow kept_ResumeWorkflow kept_KillWorkflow kept_ResolveApproval
  kept_tail [OF fr.steps_SubmitTask] kept_tail [OF fr.steps_TriggerEscalation] kept_tail [OF fr.steps_queries(1)]
  kept_tail [OF fr.steps_queries(2)] kept_tail [OF fr.steps_queries(3)] kept_tail [OF fr.steps_queries(4)]
  kept_tail [OF fr.steps_queries(5)] kept_tail [OF fr.steps_queries(6)] kept_tail [OF fr.steps_queries(7)]
  kept_tail [OF fr.steps_phase(1)] kept_tail [OF fr.steps_phase(2)] kept_tail [OF fr.steps_phase(3)]
  kept_tail [OF fr.steps_refreshStats]

lemma kept_final: "kept env (\<lambda>_. True) m \<Longrightarrow> worldInv env s \<Longrightarrow> worldInv env (snd (m s)) \<and> guar s (snd (m s))"
  by (rule gov.triple_final) simp_all

lemma callApi_kept: "worldInv env s \<Longrightarrow> worldInv env (callApi env c s) \<and> guar s (callApi env c s)"
  by (cases c; simp only: callApi.simps; rule kept_final, rule kept_services, assumption)

lemma runCalls_kept:
  assumes "worldInv env s"
  shows "worldInv env (runCalls env calls s) \<and> guar s (runCalls env calls s)"
  using assms unfolding runCalls_def
proof (induction calls arbitrary: s)
  case Nil
  then show ?case by (simp add: gov.R_refl)
next
  case (Cons c cs)
  from callApi_kept [OF Cons.prems, of c] Cons.IH [of "callApi env c s"] show ?case
    by (auto intro: gov.R_trans)
qed

section \<open>Worlds the program can be in\<close>

definition emptyDB :: DB where
  "emptyDB = \<lparr>db_tasks = [], db_routings = [], db_policies = [], db_workflows = [], db_leases = [], db_approvals = [],
              db_escalations = [], db_audits = [], db_phaseDecisions = [], db_phaseApprovals = []\<rparr>"

definition freshWorld :: World where
  "freshWorld = \<lparr>db = emptyDB, breakerRegistry = [], statsStore = None, notified = [], metered = [],
                 n_stmt = 0, n_now = 0, n_id = 0, n_mem = 0\<rparr>"

definition governed :: "Env \<Rightarrow> World \<Rightarrow> bool" where
  "governed env s \<longleftrightarrow> worldInv env s \<and> govInv (absDB (db s))"

lemma governed_fresh: "governed env freshWorld"
proof -
  have "absDB (db freshWorld) = govInit"
    by (simp add: absDB_def freshWorld_def emptyDB_def govInit_def keyed_def)
  then show ?thesis
    by (simp add: governed_def govInv_init worldInv_def dbInv_def freshWorld_def emptyDB_def)
qed

lemma governed_runCalls: "governed env s \<Longrightarrow> governed env (runCalls env calls s)"
  using runCalls_kept [of env s calls] govSteps_inv by (auto simp: governed_def guar_def dbGuar_def)

subsection \<open>An example\<close>

text \<open>
  An environment without faults, whose clock advances by a second per reading for the first million readings, and a database with one
  task, a run of it that is executing under an active lease, and a run that was killed while it waited
  for an approval that was then denied.
\<close>

definition calmEnv :: Env where
  "calmEnv = \<lparr>te_pgTime = (\<lambda>t. t), te_zone = (\<lambda>_. 0), env_fault = (\<lambda>_. Done), env_pick = (\<lambda>_. 0), env_rank = (\<lambda>_ i. i),
     env_now = (\<lambda>n. 63000000000 * Second + int (min n 1000000) * Second), env_ulid = (\<lambda>n. ''id'' @ showNat n),
     env_memory = Some stubGetRelevantContext, env_callback = (\<lambda>_. None), env_adaptive = False, env_otel = False\<rparr>"

abbreviation sampleTime :: gotime where "sampleTime \<equiv> 63000000000000000000"

definition sampleTransition :: "WorkflowStatus \<times> WorkflowStatus \<Rightarrow> WorkflowTransition" where
  "sampleTransition e = \<lparr>tr_From = fst e, tr_To = snd e, tr_Reason = [], tr_Actor = ''system'', tr_Timestamp = sampleTime\<rparr>"

definition sampleRow :: "string \<Rightarrow> WorkflowStatus \<Rightarrow> (WorkflowStatus \<times> WorkflowStatus) list \<Rightarrow> workflowRow" where
  "sampleRow i st es =
     \<lparr>wr_id = i, wr_task_id = ''t1'', wr_status = WorkflowStatus_String st, wr_routing_decision_id = Some ''r1'',
      wr_policy_decision_id = Some ''p1'', wr_current_step_index = 0,
      wr_transitions = marshalTransitions (te calmEnv) (map sampleTransition es), wr_created_at = sampleTime, wr_updated_at = sampleTime\<rparr>"

abbreviation runningRow :: workflowRow where
  "runningRow \<equiv> sampleRow ''w1'' StatusRunning
     [(StatusCreated, StatusRouted), (StatusRouted, StatusPolicyChecked), (StatusPolicyChecked, StatusRunning)]"
abbreviation killedRow :: workflowRow where
  "killedRow \<equiv> sampleRow ''w2'' StatusKilled
     [(StatusCreated, StatusRouted), (StatusRouted, StatusPolicyChecked), (StatusPolicyChecked, StatusAwaitingApproval),
      (StatusAwaitingApproval, StatusKilled)]"

definition sampleLease :: leaseRow where
  "sampleLease = \<lparr>lr_id = ''l1'', lr_workflow_run_id = ''w1'', lr_timeout_budget_ms = 300000, lr_retry_budget = 3,
     lr_attempts_used = 1, lr_time_elapsed_ms = 0, lr_status = ''active'', lr_created_at = sampleTime\<rparr>"

definition sampleRequest :: approvalRow where
  "sampleRequest = \<lparr>ap_id = ''a1'', ap_task_id = ''t1'', ap_workflow_run_id = ''w2'', ap_reason = ''review'',
     ap_required_approver = JNull, ap_status = ''denied'', ap_resolution = None, ap_expires_at = None, ap_created_at = sampleTime\<rparr>"

definition sampleDB :: DB where
  "sampleDB = emptyDB\<lparr>
     db_tasks := [\<lparr>tk_id = ''t1'', tk_parent_task_id = None, tk_type = ''bugfix'', tk_title = ''fix'', tk_scope = ''file'',
       tk_priority = ''normal'', tk_risk_level = ''low'', tk_status = ''submitted'', tk_metadata = JNull,
       tk_created_at = sampleTime, tk_updated_at = sampleTime\<rparr>],
     db_routings := [\<lparr>rt_id = ''r1'', rt_task_id = ''t1'', rt_evaluated_strategies = JArr [], rt_selected_strategy = ''direct'',
       rt_selected_agent_role = ''coder'', rt_reason = ''simple'', rt_constraints = JArr [], rt_created_at = sampleTime\<rparr>],
     db_policies := [\<lparr>po_id = ''p1'', po_task_id = ''t1'', po_evaluated_action = ''edit'', po_outcome = ''allow_with_constraints'',
       po_constraints = JArr [], po_approval_requirement = None, po_rules_evaluated = JArr [], po_reason = ''ok'',
       po_created_at = sampleTime\<rparr>],
     db_workflows := [runningRow, killedRow], db_leases := [sampleLease], db_approvals := [sampleRequest]\<rparr>"

abbreviation sampleWorld :: World where "sampleWorld \<equiv> freshWorld\<lparr>db := sampleDB\<rparr>"

lemma calm_clock: "clockOK calmEnv"
  by (auto simp: clockOK_def printable_def yearInRange_def calmEnv_def TimeEnv.defs Second_def)

lemma sample_printable: "printable (te calmEnv) sampleTime"
  by (simp add: printable_def yearInRange_def calmEnv_def TimeEnv.defs Second_def)

lemma sample_history: "chain StatusCreated (map sampleTransition es) st \<Longrightarrow> historyOK calmEnv (sampleRow i st es)"
  by (simp add: historyOK_def scanWorkflowRun_def sampleRow_def unmarshal_marshal_transitions sampleTransition_def
      sample_printable historyPrintable_def ReconstructWorkflowRun_def)

lemma sample_chains:
  "historyOK calmEnv runningRow" "historyOK calmEnv killedRow"
  by (rule sample_history; simp add: sampleTransition_def)+

lemma sample_inv: "worldInv calmEnv sampleWorld"
proof -
  have "leaseOK (leaseView sampleLease)" by (simp add: leaseOK_def sampleLease_def)
  then show ?thesis
    by (simp add: worldInv_def dbInv_def sampleDB_def emptyDB_def sample_chains sampleLease_def) (simp add: sampleRow_def)
qed

lemma sample_governed: "governed calmEnv sampleWorld"
proof -
  have abs: "absDB sampleDB =
    \<lparr>gs_tasks = {''t1''}, gs_routed = {''t1''}, gs_policy = {(''t1'', OutcomeAllowWithConstraints)},
     gs_runs = [''w1'' \<mapsto> (''t1'', StatusRunning), ''w2'' \<mapsto> (''t1'', StatusKilled)],
     gs_approvals = [''a1'' \<mapsto> (''w2'', ApprovalDenied)], gs_leases = [''w1'' \<mapsto> (3, 1, LeaseStatusActive)]\<rparr>"
    by (auto simp: absDB_def sampleDB_def emptyDB_def keyed_def sampleRow_def sampleLease_def sampleRequest_def
        policyOutcomeFromString_def)
  have "govInv (absDB sampleDB)"
    unfolding abs govInv_def
    by (auto simp: backed_def authorised_def allowed_def leaseOK_def workflowStatuses_def requestWith_def split: if_splits)
  with sample_inv show ?thesis by (simp add: governed_def)
qed

section \<open>Properties\<close>

text \<open>
  C1. The services refine the contract. On a process that starts with empty tables the contract starts
  in its initial state, and whatever call is made in a world that satisfies the invariant of the tables,
  with whatever faults, clock and identifiers, the tables move by steps of the abstract machine only:
  tasks and decisions are added, a run is created or moved along the transition table with the evidence
  its new status needs, a request is opened and settled once, a lease is granted on authority, used up or
  withdrawn. The invariant is kept, also when the call stops half way.
\<close>

theorem services_refine_contract:
  "absDB (db freshWorld) = govInit \<and> worldInv env freshWorld \<and>
   (\<forall>s c. worldInv env s \<longrightarrow>
      worldInv env (callApi env c s) \<and> govSteps (absDB (db s)) (absDB (db (callApi env c s))))"
proof -
  have "absDB (db freshWorld) = govInit"
    by (simp add: absDB_def freshWorld_def emptyDB_def govInit_def keyed_def)
  then show ?thesis
    using governed_fresh callApi_kept by (simp add: governed_def guar_def dbGuar_def)
qed

theorem services_refine_contract_witness:
  "worldInv calmEnv sampleWorld \<and>
   govSteps (absDB sampleDB) (absDB (db (callApi calmEnv (CallKillWorkflow None ''w1'' ''stop'' ''ana'') sampleWorld)))"
proof -
  have "worldInv calmEnv sampleWorld \<longrightarrow>
    govSteps (absDB (db sampleWorld)) (absDB (db (callApi calmEnv (CallKillWorkflow None ''w1'' ''stop'' ''ana'') sampleWorld)))"
    using services_refine_contract [of calmEnv] by blast
  then show ?thesis using sample_inv by simp
qed

text \<open>
  C2. Governance cannot be bypassed. In every world the program can reach, whatever calls were made and
  whatever failed on the way, a run that executes or has executed belongs to a task with a stored routing
  decision, holds a lease, and was authorised: by a policy decision for the task that allows it, or by an
  approval request for the run that was granted. A completed run has used its lease at least once, and a
  quarantined one has used it up.
\<close>

theorem never_bypassed:
  assumes "governed env s" "d = db (runCalls env calls s)" "r \<in> set (db_workflows d)"
    "wr_status r \<in> {''running'', ''paused'', ''completed'', ''quarantined''}"
  shows "(\<exists>rt\<in>set (db_routings d). rt_task_id rt = wr_task_id r) \<and>
    (\<exists>l\<in>set (db_leases d). lr_workflow_run_id l = wr_id r \<and>
       (wr_status r = ''completed'' \<longrightarrow> 1 \<le> lr_attempts_used l) \<and>
       (wr_status r = ''quarantined'' \<longrightarrow> lr_attempts_used l = lr_retry_budget l \<and> lr_status l = ''exhausted'')) \<and>
    ((\<exists>po\<in>set (db_policies d). po_task_id po = wr_task_id r \<and>
        policyOutcomeFromString (po_outcome po) \<in> {OutcomeAllow, OutcomeAllowWithConstraints}) \<or>
     (\<exists>a\<in>set (db_approvals d). ap_workflow_run_id a = wr_id r \<and> ap_status a = ''approved''))"
proof -
  have gov: "dbInv env d" "govInv (absDB d)"
    using governed_runCalls [OF assms(1), of calls] by (simp_all add: governed_def worldInv_def assms(2))
  have "gs_runs (absDB d) (wr_id r) = Some (runView r)" by (rule gs_runs_row [OF gov(1) assms(3)])
  then have b: "backed (absDB d) (wr_id r) (wr_task_id r) (WorkflowStatus (wr_status r))"
    using gov(2) unfolding govInv_def by blast
  note bs = b [unfolded backed_def]
  have st: "WorkflowStatus (wr_status r) \<in> {StatusRunning, StatusPaused, StatusCompleted, StatusQuarantined}"
    "WorkflowStatus (wr_status r) \<notin> {StatusCreated, StatusKilled}"
    using assms(4) by auto
  have "wr_task_id r \<in> gs_routed (absDB d)" by (rule mp [OF backed_dest(1) [OF bs] st(2)])
  moreover have "\<exists>m u ls. gs_leases (absDB d) (wr_id r) = Some (m, u, ls) \<and> (wr_status r = ''completed'' \<longrightarrow> 1 \<le> u) \<and>
      (wr_status r = ''quarantined'' \<longrightarrow> u = m \<and> ls = LeaseStatusExhausted)"
    using conjunct1 [OF mp [OF backed_dest(5) [OF bs] st(1)]] by simp
  then have "\<exists>l\<in>set (db_leases d). lr_workflow_run_id l = wr_id r \<and>
       (wr_status r = ''completed'' \<longrightarrow> 1 \<le> lr_attempts_used l) \<and>
       (wr_status r = ''quarantined'' \<longrightarrow> lr_attempts_used l = lr_retry_budget l \<and> lr_status l = ''exhausted'')"
    by (fastforce simp: absDB_def dest!: keyed_SomeD)
  moreover have "authorised (absDB d) (wr_id r) (wr_task_id r)"
    by (rule conjunct2 [OF mp [OF backed_dest(5) [OF bs] st(1)]])
  then have "(\<exists>po\<in>set (db_policies d). po_task_id po = wr_task_id r \<and>
        policyOutcomeFromString (po_outcome po) \<in> {OutcomeAllow, OutcomeAllowWithConstraints}) \<or>
     (\<exists>a\<in>set (db_approvals d). ap_workflow_run_id a = wr_id r \<and> ap_status a = ''approved'')"
    by (fastforce simp: authorised_def allowed_def requestWith_def absDB_def dest!: keyed_SomeD)
  ultimately show ?thesis by (auto simp: absDB_def)
qed

theorem never_bypassed_witness:
  "governed calmEnv sampleWorld \<and> runningRow \<in> set (db_workflows (db (runCalls calmEnv [CallGetTask ''t1''] sampleWorld))) \<and>
   (\<exists>l\<in>set (db_leases (db (runCalls calmEnv [CallGetTask ''t1''] sampleWorld))). lr_workflow_run_id l = ''w1'')"
proof -
  have d: "db (runCalls calmEnv [CallGetTask ''t1''] sampleWorld) = sampleDB"
    by (simp add: runCalls_def GetTask_def TaskFindByID_def queryRow_def Let_def)
  have r: "runningRow \<in> set (db_workflows sampleDB)" "wr_status runningRow = ''running''" "wr_id runningRow = ''w1''"
    by (simp_all add: sampleDB_def sampleRow_def)
  from never_bypassed [OF sample_governed refl, of runningRow "[CallGetTask ''t1'']", unfolded d, OF r(1)] r
  show ?thesis unfolding d using sample_governed by auto
qed

text \<open>
  C5. What is settled stays. No call, and no fault on the way, ever changes the row of a run in a
  terminal status, of an approval request that was resolved, or of a lease that is used up or revoked:
  after any further calls the row is still there, with the same content.
\<close>

theorem settled_rows_frozen:
  assumes "worldInv env s" "d = db (runCalls env calls s)"
  shows "(\<forall>r\<in>set (db_workflows (db s)). IsTerminal (WorkflowStatus (wr_status r)) \<longrightarrow> r \<in> set (db_workflows d)) \<and>
    (\<forall>r\<in>set (db_approvals (db s)). ap_status r \<noteq> ''pending'' \<longrightarrow> r \<in> set (db_approvals d)) \<and>
    (\<forall>r\<in>set (db_leases (db s)). lr_status r \<noteq> ''active'' \<longrightarrow> r \<in> set (db_leases d)) \<and>
    distinct (map wr_id (db_workflows d)) \<and> distinct (map ap_id (db_approvals d)) \<and> distinct (map lr_id (db_leases d))"
  using runCalls_kept [OF assms(1), of calls]
  by (simp add: assms(2) guar_def dbGuar_def settledKept_def worldInv_def dbInv_def)

theorem settled_rows_frozen_witness:
  "killedRow \<in> set (db_workflows (db (runCalls calmEnv [CallResumeWorkflow None ''w2'' ''again'' ''ana''] sampleWorld))) \<and>
   sampleRequest \<in> set (db_approvals (db (runCalls calmEnv [CallResumeWorkflow None ''w2'' ''again'' ''ana''] sampleWorld)))"
proof -
  have "killedRow \<in> set (db_workflows sampleDB)" "sampleRequest \<in> set (db_approvals sampleDB)"
    "IsTerminal (WorkflowStatus (wr_status killedRow))" "ap_status sampleRequest \<noteq> ''pending''"
    by (simp_all add: sampleDB_def sampleRequest_def) (simp add: sampleRow_def)
  then show ?thesis
    using settled_rows_frozen [OF sample_inv refl, of "[CallResumeWorkflow None ''w2'' ''again'' ''ana'']"] by simp
qed

text \<open>
  C7. Stored runs are well typed. With a clock whose times can be printed, every row of the table of runs
  can be read back in every reachable world, without an error and without the panic of the timestamp
  parser; it gives a run in one of the declared statuses, and its history is an unbroken chain of legal
  transitions from creation to that status.
\<close>

theorem stored_runs_well_typed:
  assumes "governed env s" "clockOK env" "r \<in> set (db_workflows (db (runCalls env calls s)))"
  shows "\<exists>w. scanWorkflowRun r = Inr w \<and> w_ID w = wr_id r \<and> w_TaskID w = wr_task_id r \<and>
    w_Status w = WorkflowStatus (wr_status r) \<and> w_Status w \<in> set workflowStatuses \<and>
    chain StatusCreated (w_Transitions w) (w_Status w)"
proof -
  have "dbInv env (db (runCalls env calls s))"
    using governed_runCalls [OF assms(1), of calls] by (simp add: governed_def worldInv_def)
  then obtain w where w: "scanWorkflowRun r = Inr w" "chain StatusCreated (w_Transitions w) (w_Status w)"
    using assms(2,3) by (auto simp: dbInv_def historyOK_def)
  moreover have "w_Status w \<in> set workflowStatuses"
    by (rule chain_declared [OF w(2)]) (simp add: workflowStatuses_def)
  ultimately show ?thesis using scanWorkflowRun_Inr [OF w(1)] by blast
qed

theorem stored_runs_well_typed_witness:
  "clockOK calmEnv \<and> (\<exists>w. scanWorkflowRun runningRow = Inr w \<and> w_Status w = StatusRunning)"
proof -
  have r: "runningRow \<in> set (db_workflows (db (runCalls calmEnv [] sampleWorld)))" "wr_status runningRow = ''running''"
    by (simp_all add: runCalls_def sampleDB_def sampleRow_def)
  show ?thesis
    using stored_runs_well_typed [OF sample_governed calm_clock r(1)] r(2) calm_clock by auto
qed

text \<open>
  C8. Budgets are kept in the tables. In every reachable world a run has at most one lease; its attempts
  lie between 0 and its budget; it is active only below the budget, exhausted exactly at it, and revoked
  only below it. Calls never take an attempt back, never change a budget, and never lose a lease.
\<close>

theorem lease_accounting:
  assumes "worldInv env s" "d = db (runCalls env calls s)"
  shows "distinct (map lr_workflow_run_id (db_leases d)) \<and>
    (\<forall>l\<in>set (db_leases d). 0 < lr_retry_budget l \<and> 0 \<le> lr_attempts_used l \<and> lr_attempts_used l \<le> lr_retry_budget l \<and>
       (lr_status l = ''active'' \<and> lr_attempts_used l < lr_retry_budget l \<or>
        lr_status l = ''exhausted'' \<and> lr_attempts_used l = lr_retry_budget l \<or>
        lr_status l = ''revoked'' \<and> lr_attempts_used l < lr_retry_budget l)) \<and>
    (\<forall>l\<in>set (db_leases (db s)). \<exists>l'\<in>set (db_leases d). lr_workflow_run_id l' = lr_workflow_run_id l \<and>
       lr_retry_budget l' = lr_retry_budget l \<and> lr_attempts_used l \<le> lr_attempts_used l')"
proof -
  have inv: "dbInv env d" "govSteps (absDB (db s)) (absDB d)" "dbInv env (db s)"
    using runCalls_kept [OF assms(1), of calls] assms(1) by (simp_all add: assms(2) guar_def dbGuar_def worldInv_def)
  have "\<exists>l'\<in>set (db_leases d). lr_workflow_run_id l' = lr_workflow_run_id l \<and>
       lr_retry_budget l' = lr_retry_budget l \<and> lr_attempts_used l \<le> lr_attempts_used l'" if "l \<in> set (db_leases (db s))" for l
  proof (rule lease_mono [OF govSteps_gsLe [OF inv(2)] gs_leases_row [OF inv(3) that]])
    fix u' ls'
    assume "gs_leases (absDB d) (lr_workflow_run_id l) = Some (lr_retry_budget l, u', ls')" "lr_attempts_used l \<le> u'"
    then show ?thesis by (auto simp: absDB_def dest!: keyed_SomeD)
  qed
  moreover have "\<forall>l\<in>set (db_leases d). leaseOK (leaseView l)" using dbInv_leases(3) [OF inv(1)] by blast
  ultimately show ?thesis
    using dbInv_leases(2) [OF inv(1)] by (simp add: leaseOK_def)
qed

theorem lease_accounting_witness:
  "worldInv calmEnv sampleWorld \<and>
   distinct (map lr_workflow_run_id (db_leases (db (runCalls calmEnv [CallKillWorkflow None ''w1'' ''stop'' ''ana''] sampleWorld))))"
  using lease_accounting [OF sample_inv refl, of "[CallKillWorkflow None ''w1'' ''stop'' ''ana'']"] sample_inv by simp

end
