(* ===== verification/Partial.thy ===== *)
theory Partial
  imports Governance
begin

text \<open>
  Calls that stop half way. The services write several rows one after the other, without a transaction, so a
  call that returns an error may have changed the tables. This theory follows one such call.
\<close>

lemma filter_oneD: "filter P xs = [x] \<Longrightarrow> P x \<and> x \<in> set xs"
proof -
  assume "filter P xs = [x]"
  then have "x \<in> set (filter P xs)" by simp
  then show ?thesis by simp
qed

lemma queryRow_one:
  "env_fault env (n_stmt s) = Done \<Longrightarrow> sel (db s) = [r] \<Longrightarrow>
   queryRow env what sel scan s = (scan r, s\<lparr>n_stmt := Suc (n_stmt s)\<rparr>)"
  by (simp add: queryRow_def Let_def)

lemma Now_ok:
  "env_now env (n_now s) \<noteq> 0 \<Longrightarrow> Now env s = (Inr (env_now env (n_now s)), s\<lparr>n_now := Suc (n_now s)\<rparr>)"
  by (simp add: Now_def timeNow_def MustTimestamp_def NewTimestamp_def bindE_def lift_def)

lemma resolutionJSON_ok:
  "a_resolution req = Some res \<Longrightarrow> printable z (res_ResolvedAt res) \<Longrightarrow> \<exists>j. resolutionJSON z req = Inr j"
  by (auto simp: resolutionJSON_def encResolution_def encTime_def printable_def)

text \<open>The status a resolution gives to a request.\<close>

abbreviation verdict :: "ResolveApprovalInput \<Rightarrow> ApprovalStatus" where
  "verdict input \<equiv> (if ra_Approved input then ApprovalApproved else ApprovalDenied)"

lemma resolveRequest_pending:
  assumes "a_status req = ApprovalPending"
  shows "resolveRequest input now req = Inr (req\<lparr>a_status := verdict input, a_resolution :=
    Some \<lparr>res_ResolvedBy = ra_ResolvedBy input, res_ResolvedAt = now, res_Reason = ra_Reason input, res_Status = verdict input\<rparr>\<rparr>)"
  using assms by (simp add: resolveRequest_def Approve_def Deny_def resolve_def)

lemma ApprovalUpdate_done:
  assumes "env_fault env (n_stmt s) = Done" "a_resolution req = Some res" "printable (te env) (res_ResolvedAt res)"
    "filter (\<lambda>r. ap_id r = a_id req) (db_approvals (db s)) = [row]"
  shows "\<exists>t row'. ApprovalUpdate env req s = (Inr (), t) \<and> db_workflows (db t) = db_workflows (db s) \<and>
    db_leases (db t) = db_leases (db s) \<and>
    filter (\<lambda>r. ap_id r = a_id req) (db_approvals (db t)) = [row'] \<and> ap_status row' = ApprovalStatus_String (a_status req)"
proof -
  obtain j where j: "resolutionJSON (te env) req = Inr j" using resolutionJSON_ok assms(2,3) by blast
  have id: "ap_id row = a_id req" using filter_oneD [OF assms(4)] by simp
  let ?f = "\<lambda>r. if ap_id r = a_id req then r\<lparr>ap_status := ApprovalStatus_String (a_status req), ap_resolution := j\<rparr> else r"
  have keep: "(\<lambda>r. ap_id r = a_id req) \<circ> ?f = (\<lambda>r. ap_id r = a_id req)" by (rule ext) simp
  have "filter (\<lambda>r. ap_id r = a_id req) (map ?f (db_approvals (db s))) = [?f row]"
    unfolding filter_map keep assms(4) by simp
  then show ?thesis
    using assms(1) id by (simp add: ApprovalUpdate_def bindE_def bindW_def lift_def ret_def j exec_def updateApproval_def Let_def)
qed

lemma run_ended:
  assumes "IsTerminal (w_Status w)"
  shows "\<exists>e. (if ra_Approved input then runApproved env input now w else runDenied env input now w) s = (Inl e, s) \<and> \<not> isPanic e"
  using assms
  by (simp add: runApproved_def runDenied_def bindW_def lift_def TransitionTo_def Fail_def transitionTo_def isPanic_def)

text \<open>
  C38. A resolution is recorded before the run is looked at. If the run of a pending request has ended in the
  meantime, for instance because it was killed, then resolving the request returns an error and changes no run
  and no lease, although every statement succeeds; but the request is stored as approved or denied from then on.
\<close>

theorem resolution_recorded_though_refused:
  assumes "worldInv env s" "clockOK env" "\<forall>n. env_now env n \<noteq> 0" "\<forall>n. env_fault env n = Done"
    and row: "filter (\<lambda>r. ap_id r = ra_ApprovalRequestID input) (db_approvals (db s)) = [row]"
      "scanApprovalRequest row = Inr req" "a_status req = ApprovalPending"
    and run: "filter (\<lambda>r. wr_id r = ap_workflow_run_id row) (db_workflows (db s)) = [wrow]"
      "IsTerminal (WorkflowStatus (wr_status wrow))"
  shows "\<exists>e t row'. ResolveApproval env ctx input s = (Inl e, t) \<and> \<not> isPanic e \<and>
    db_workflows (db t) = db_workflows (db s) \<and> db_leases (db t) = db_leases (db s) \<and>
    filter (\<lambda>r. ap_id r = ra_ApprovalRequestID input) (db_approvals (db t)) = [row'] \<and>
    ap_status row' = ApprovalStatus_String (verdict input)"
proof -
  have "historyOK env wrow" using filter_oneD [OF run(1)] assms(1,2) by (simp add: worldInv_def dbInv_def)
  then obtain w where w: "scanWorkflowRun wrow = Inr w" by (auto simp: historyOK_def)
  then have ended: "IsTerminal (w_Status w)" using run(2) scanWorkflowRun_Inr [OF w] by simp
  have id: "ap_id row = ra_ApprovalRequestID input" using filter_oneD [OF row(1)] by simp
  let ?s = "s\<lparr>n_stmt := Suc (n_stmt s), n_now := Suc (n_now s)\<rparr>" and ?now = "env_now env (n_now s)"
  obtain req' res where req': "resolveRequest input ?now req = Inr req'" "a_id req' = ra_ApprovalRequestID input"
      "a_workflowRunID req' = ap_workflow_run_id row" "a_status req' = verdict input"
      "a_resolution req' = Some res" "res_ResolvedAt res = ?now"
    using resolveRequest_pending [OF row(3)] scanApprovalRequest_Inr [OF row(2)] id by simp
  have "printable (te env) (res_ResolvedAt res)" using assms(2) req'(6) by (simp add: clockOK_def)
  then obtain t row' where t: "ApprovalUpdate env req' ?s = (Inr (), t)" "db_workflows (db t) = db_workflows (db s)"
      "db_leases (db t) = db_leases (db s)"
      "filter (\<lambda>r. ap_id r = ra_ApprovalRequestID input) (db_approvals (db t)) = [row']"
      "ap_status row' = ApprovalStatus_String (verdict input)"
    using ApprovalUpdate_done [of env ?s req' res row] assms(4) row(1) req'(2,4,5) by auto
  obtain e where e: "(if ra_Approved input then runApproved env input ?now w else runDenied env input ?now w)
      (t\<lparr>n_stmt := Suc (n_stmt t)\<rparr>) = (Inl e, t\<lparr>n_stmt := Suc (n_stmt t)\<rparr>)" "\<not> isPanic e"
    using run_ended [OF ended] by blast
  have "ApprovalFindByID env (ra_ApprovalRequestID input) s = (Inr req, s\<lparr>n_stmt := Suc (n_stmt s)\<rparr>)"
    unfolding ApprovalFindByID_def by (subst queryRow_one) (use assms(4) row(1,2) in simp_all)
  moreover have "WorkflowFindByID env (a_workflowRunID req') t = (Inr w, t\<lparr>n_stmt := Suc (n_stmt t)\<rparr>)"
    unfolding WorkflowFindByID_def req'(3) by (subst queryRow_one) (use assms(4) run(1) t(2) w in simp_all)
  ultimately have "ResolveApproval env ctx input s = (Inl e, t\<lparr>n_stmt := Suc (n_stmt t)\<rparr>)"
    using assms(3) req'(1) t(1) e(1)
    by (simp add: ResolveApproval_def bindW_def bindE_def lift_def Now_ok cong: if_cong split del: if_split)
  then show ?thesis using e(2) t by auto
qed

text \<open>A database in which the request of the killed run was left open.\<close>

definition openRequest :: approvalRow where "openRequest = sampleRequest\<lparr>ap_status := ''pending''\<rparr>"
definition lateWorld :: World where "lateWorld = sampleWorld\<lparr>db := sampleDB\<lparr>db_approvals := [openRequest]\<rparr>\<rparr>"

lemma late_inv: "worldInv calmEnv lateWorld"
  using sample_inv by (simp add: worldInv_def dbInv_def lateWorld_def openRequest_def)

theorem resolution_recorded_though_refused_witness:
  "\<exists>e t row'. ResolveApproval calmEnv None \<lparr>ra_ApprovalRequestID = ''a1'', ra_Approved = True, ra_ResolvedBy = ''ana'', ra_Reason = ''ok''\<rparr>
       lateWorld = (Inl e, t) \<and> \<not> isPanic e \<and> db_workflows (db t) = db_workflows (db lateWorld) \<and>
     filter (\<lambda>r. ap_id r = ''a1'') (db_approvals (db t)) = [row'] \<and> ap_status row' = ''approved''"
proof -
  let ?in = "\<lparr>ra_ApprovalRequestID = ''a1'', ra_Approved = True, ra_ResolvedBy = ''ana'', ra_Reason = ''ok''\<rparr>"
  have calm: "\<forall>n. env_now calmEnv n \<noteq> 0" "\<forall>n. env_fault calmEnv n = Done" by (simp_all add: calmEnv_def Second_def)
  have row: "filter (\<lambda>r. ap_id r = ra_ApprovalRequestID ?in) (db_approvals (db lateWorld)) = [openRequest]"
    by (simp add: lateWorld_def openRequest_def sampleRequest_def)
  obtain req where req: "scanApprovalRequest openRequest = Inr req"
    by (simp add: scanApprovalRequest_def openRequest_def sampleRequest_def decApproverSpec_def decStruct_def)
  then have pending: "a_status req = ApprovalPending"
    using scanApprovalRequest_Inr by (simp add: openRequest_def)
  have run: "filter (\<lambda>r. wr_id r = ap_workflow_run_id openRequest) (db_workflows (db lateWorld)) = [killedRow]"
    by (simp add: lateWorld_def sampleDB_def openRequest_def sampleRequest_def sampleRow_def)
  have ended: "IsTerminal (WorkflowStatus (wr_status killedRow))" by (simp add: sampleRow_def)
  show ?thesis
    using resolution_recorded_though_refused [OF late_inv calm_clock calm row req pending run ended, of None] by auto
qed

end
