(* ===== verification/Cost.thy ===== *)
theory Cost
  imports Frames
begin

text \<open>
  How many statements a call sends to the database. The services retry nothing and their only loop is
  over the two subtasks of a decomposed task, so every call comes back after a bounded number of
  statements, whatever the database answers.
\<close>

definition costs :: "nat \<Rightarrow> (World, 'a) go \<Rightarrow> bool" where
  "costs k m \<longleftrightarrow> (\<forall>s. n_stmt (snd (m s)) \<le> n_stmt s + k)"

lemma costsI: "(\<And>s. n_stmt (snd (m s)) \<le> n_stmt s + k) \<Longrightarrow> costs k m"
  by (simp add: costs_def)

lemma costs_le: "costs a m \<Longrightarrow> a \<le> b \<Longrightarrow> costs b m"
  unfolding costs_def by (meson add_left_mono order_trans)

lemma costs_bindR:
  assumes "costs a m" "\<And>r. costs b (k r)"
  shows "costs (a + b) (bindR m k)"
proof (rule costsI)
  fix s
  obtain r t where m: "m s = (r, t)" by fastforce
  have "n_stmt t \<le> n_stmt s + a" using assms(1) m unfolding costs_def by (metis snd_conv)
  moreover have "n_stmt (snd (k r t)) \<le> n_stmt t + b" using assms(2) by (simp add: costs_def)
  ultimately show "n_stmt (snd (bindR m k s)) \<le> n_stmt s + (a + b)"
    by (cases r) (simp_all add: bindR_def m)
qed

lemma costs_lift: "costs 0 (lift r)" "costs 0 (ret x)" "costs 0 (throw e)" "costs 0 (gets f)"
  by (simp_all add: costs_def lift_def ret_def throw_def gets_def)

lemma costs_case_sum: "(\<And>e. costs a (m e)) \<Longrightarrow> (\<And>x. costs b (f x)) \<Longrightarrow> costs (max a b) (case v of Inl e \<Rightarrow> m e | Inr x \<Rightarrow> f x)"
  by (cases v) (auto intro: costs_le [OF _ max.cobounded1] costs_le [OF _ max.cobounded2])

lemma costs_case_option: "costs a m \<Longrightarrow> (\<And>x. costs b (f x)) \<Longrightarrow> costs (max a b) (case v of None \<Rightarrow> m | Some x \<Rightarrow> f x)"
  by (cases v) (auto intro: costs_le [OF _ max.cobounded1] costs_le [OF _ max.cobounded2])

lemma costs_case_prod: "(\<And>x y. costs a (f x y)) \<Longrightarrow> costs a (case p of (x, y) \<Rightarrow> f x y)"
  by (simp split: prod.splits)

lemma costs_if: "costs a m \<Longrightarrow> costs b n \<Longrightarrow> costs (max a b) (if c then m else n)"
  by (auto intro: costs_le)

lemma costs_Let: "(\<And>x. costs a (f x)) \<Longrightarrow> costs a (let x = v in f x)"
  by simp

lemma costs_bindE: "costs a m \<Longrightarrow> (\<And>x. costs b (k x)) \<Longrightarrow> costs (a + b) (bindE m k)"
  unfolding ledger.bindE_bindR
  by (rule costs_bindR) (auto split: sum.split intro: costs_le [OF costs_lift(3)])

lemma costs_bindW: "costs a m \<Longrightarrow> (\<And>x. costs b (k x)) \<Longrightarrow> costs (a + b) (bindW c m k)"
  unfolding ledger.bindW_bindR
  by (rule costs_bindR) (auto split: sum.split intro: costs_le [OF costs_lift(3)])

lemma costs_discard: "costs a m \<Longrightarrow> costs b k \<Longrightarrow> costs (a + b) (discard m k)"
  unfolding ledger.discard_bindR by (rule costs_bindR)

lemma costs_prims:
  "costs 1 (exec env stmt)" "costs 1 (queryRow env what sel scan)" "costs 1 (query env what sel' scan')"
  "costs 0 (timeNow env)" "costs 0 (generate env)" "costs 0 (GetRelevantContext env t q)"
  "costs 0 (modify (\<lambda>s. s\<lparr>notified := f1 s\<rparr>))" "costs 0 (modify (\<lambda>s. s\<lparr>metered := f2 s\<rparr>))"
  "costs 0 (modify (\<lambda>s. s\<lparr>breakerRegistry := f3 s\<rparr>))" "costs 0 (modify (\<lambda>s. s\<lparr>statsStore := f4 s\<rparr>))"
  by (simp_all add: costs_def exec_def queryRow_def query_def timeNow_def generate_def GetRelevantContext_def
      modify_def Let_def split: fault.splits sum.splits option.splits)

lemmas costs_rules =
  costs_lift costs_prims costs_bindE costs_bindW costs_discard costs_bindR costs_if costs_case_prod
  costs_case_option costs_case_sum costs_Let

lemma costs_repos:
  "costs 1 (TaskSave env t)" "costs 1 (TaskFindByID env ti)" "costs 1 (RoutingSave env rd)" "costs 1 (RoutingFindByTaskID env ti)"
  "costs 1 (PolicySave env pd)" "costs 1 (PolicyFindByTaskID env ti)" "costs 1 (WorkflowSave env w)"
  "costs 1 (WorkflowFindByID env wi)" "costs 1 (WorkflowFindByTaskID env ti)" "costs 1 (WorkflowUpdate env w)"
  "costs 1 (WorkflowList env wlf)" "costs 1 (LeaseSave env l)" "costs 1 (LeaseFindByWorkflowRunID env wi)"
  "costs 1 (LeaseUpdate env l)" "costs 1 (ApprovalSave env req)" "costs 1 (ApprovalFindByID env ai)"
  "costs 1 (ApprovalFindPending env)" "costs 1 (ApprovalUpdate env req)" "costs 1 (EscalationSave env et)"
  "costs 1 (AuditAppend env ae)" "costs 1 (AuditQuery env af)" "costs 1 (PhaseDecisionSave env pr)"
  unfolding TaskSave_def TaskFindByID_def RoutingSave_def RoutingFindByTaskID_def PolicySave_def PolicyFindByTaskID_def
    WorkflowSave_def WorkflowFindByID_def WorkflowFindByTaskID_def WorkflowUpdate_def WorkflowList_def LeaseSave_def
    LeaseFindByWorkflowRunID_def LeaseUpdate_def ApprovalSave_def ApprovalFindByID_def ApprovalFindPending_def
    ApprovalUpdate_def EscalationSave_def AuditAppend_def AuditQuery_def PhaseDecisionSave_def
  by (rule costs_le, (rule costs_rules)+, simp)+

lemma costs_PhaseApprovalFind: "costs 1 (PhaseApprovalFind env c p)"
proof -
  have "costs 0 (case r of Inr rec \<Rightarrow> ret (Some rec) | Inl (ErrNotFound _) \<Rightarrow> ret None | Inl e \<Rightarrow> throw e)" for r
    by (auto split: sum.split gov_error.split intro: costs_lift)
  then show ?thesis unfolding PhaseApprovalFind_def by (rule costs_le [OF costs_bindR [OF costs_prims(2)]]) simp
qed

lemma costs_Now: "costs 0 (Now env)"
  unfolding Now_def by (rule costs_le, (rule costs_rules)+, simp)

lemma costs_RecordAudit: "costs 1 (RecordAudit env ctx actor action oc actx t w)"
  unfolding RecordAudit_def by (rule costs_le, (rule costs_rules costs_Now costs_repos)+, simp)

lemma costs_notes:
  "costs 0 (OnExecutionReady env w l)" "costs 0 (OnApprovalRequired env w req)" "costs 0 (OnWorkflowTerminated env w reason)"
  "costs 0 (emitTerminal env st d)" "costs 0 (emitFailure env stage cat rt)" "costs 0 (emitApprovalWait env wait res)"
  "costs 0 (meter env es)" "costs 0 (sinceMs env tm)" "costs 0 (memoryContext env t q)"
  unfolding OnExecutionReady_def OnApprovalRequired_def OnWorkflowTerminated_def notify_def emitTerminal_def
    emitFailure_def emitApprovalWait_def meter_def sinceMs_def memoryContext_def
  by (rule costs_le, (rule costs_rules)+, simp)+

lemma costs_ObserveBreaker: "costs 1 (ObserveBreaker env tool role ok now)"
  unfolding ObserveBreaker_def AuditListener_def MetricsListener_def
  by (rule costs_le, (rule costs_rules costs_RecordAudit costs_notes)+, simp)

lemmas costs_services = costs_rules costs_repos costs_Now costs_RecordAudit costs_notes costs_ObserveBreaker

lemma costs_orElse: "costs a m \<Longrightarrow> (\<And>x. costs b (k x)) \<Longrightarrow> costs (a + b) (orElse f m k)"
  unfolding orElse_def by (rule costs_le, (rule costs_rules | assumption)+, simp)

lemma costs_createSubtasks: "costs (2 * length sfs) (createSubtasks env ctx parent now sfs)"
proof (induction sfs)
  case (Cons x xs)
  show ?case by (simp only: createSubtasks.simps, rule costs_le, (rule costs_services Cons)+, simp)
qed (simp add: costs_lift)

lemma costs_createDecomposeSubtasks: "costs 4 (createDecomposeSubtasks env ctx parent now)"
proof -
  have "costs 4 (createSubtasks env ctx parent now [x, y])" for x y
    using costs_createSubtasks [of "[x, y]"] by (simp del: createSubtasks.simps)
  then show ?thesis unfolding createDecomposeSubtasks_def by (intro costs_Let costs_case_prod)
qed

lemma costs_SubmitTask: "costs 2 (SubmitTask env ctx input)"
  unfolding SubmitTask_def by (rule costs_le, (rule costs_services)+, simp)

lemma costs_loadOrCreateRun: "costs 2 (loadOrCreateRun env t now)"
  unfolding loadOrCreateRun_def by (rule costs_le, (rule costs_services)+, simp)

lemma costs_RouteTask: "costs 10 (RouteTask env ctx t)"
  unfolding RouteTask_def
  by (rule costs_le, (rule costs_loadOrCreateRun costs_createDecomposeSubtasks costs_services)+, simp)

lemma costs_EvaluatePolicySvc: "costs 6 (EvaluatePolicySvc env ctx t action)"
  unfolding EvaluatePolicySvc_def by (rule costs_le, (rule costs_services)+, simp)

lemma costs_grantLease: "costs 1 (grantLease env w now)"
  unfolding grantLease_def by (rule costs_le, (rule costs_services)+, simp)

lemma costs_StartWorkflow: "costs 7 (StartWorkflow env ctx t)"
  unfolding StartWorkflow_def startDenied_def startAwaitingApproval_def startRunning_def
  by (rule costs_le, (rule costs_grantLease costs_orElse costs_services)+, simp)

lemma costs_ProcessTask: "costs 25 (ProcessTask env ctx input action)"
  unfolding ProcessTask_def
  by (rule costs_le, (rule costs_SubmitTask costs_RouteTask costs_EvaluatePolicySvc costs_StartWorkflow costs_rules)+, simp)

lemma costs_RegisterAttempt: "costs 7 (RegisterAttempt env ctx w result)"
  unfolding RegisterAttempt_def afterAttempt_def by (rule costs_le, (rule costs_services)+, simp)

lemma costs_control:
  "costs 3 (PauseWorkflow env ctx w r a)" "costs 4 (ResumeWorkflow env ctx w r a)" "costs 5 (KillWorkflow env ctx w r a)"
  unfolding PauseWorkflow_def ResumeWorkflow_def KillWorkflow_def revokeLease_def
  by (rule costs_le, (rule costs_services)+, simp)+

lemma costs_ResolveApproval: "costs 6 (ResolveApproval env ctx rin)"
  unfolding ResolveApproval_def runApproved_def runDenied_def
  by (rule costs_le, (rule costs_grantLease costs_services)+, simp)

lemma costs_others:
  "costs 2 (TriggerEscalation env ctx t c tgt)" "costs 1 (GetTask env t)" "costs 1 (GetWorkflowStatus env w)"
  "costs 1 (GetWorkflowByTask env t)" "costs 1 (ListWorkflows env wlf)" "costs 1 (QueryAuditTrail env af)"
  "costs 1 (GetPendingApprovals env)" "costs 0 (GetBreakerState tool role)" "costs 1 (EvaluatePhase env pinput)"
  "costs 1 (EvaluateSensitive env sinput)" "costs 1 (ApprovalStatusFor env cid ph)" "costs 1 (refreshStats env window)"
  unfolding TriggerEscalation_def GetTask_def GetWorkflowStatus_def GetWorkflowByTask_def ListWorkflows_def
    QueryAuditTrail_def GetPendingApprovals_def GetBreakerState_def EvaluatePhase_def EvaluateSensitive_def
    ApprovalStatusFor_def refreshStats_def
  by (rule costs_le, (rule costs_PhaseApprovalFind costs_services)+, simp)+

lemma costs_final: "costs a m \<Longrightarrow> a \<le> k \<Longrightarrow> n_stmt (snd (m s)) \<le> n_stmt s + k"
  unfolding costs_def by (meson add_left_mono order_trans)

lemmas all_costs =
  costs_SubmitTask costs_ProcessTask costs_RouteTask costs_EvaluatePolicySvc costs_StartWorkflow
  costs_RegisterAttempt costs_control costs_ResolveApproval costs_others

text \<open>
  C9. Every call of the interface comes back after a bounded number of statements: the whole pipeline
  sends at most 25, every other call at most 10, whatever the database answers, refuses or loses.
\<close>

theorem calls_return:
  "n_stmt (callApi env c s) \<le> n_stmt s + (case c of CallProcessTask _ _ _ \<Rightarrow> 25 | _ \<Rightarrow> 10)"
  by (cases c; simp only: callApi.simps ApiCall.case; rule costs_final, rule all_costs, simp)

end
