(* ===== verification/Inbound.thy ===== *)
theory Inbound
  imports Control Stats Trace
begin

text \<open>
  The inbound ports (\<^verbatim>\<open>ports/inbound\<close>) and the adapters of \<^verbatim>\<open>bootstrap/wire.go\<close> that provide them. A Go
  interface is a record of its methods, over the state \<open>'s\<close> of whoever implements it, so that a decorator
  is a function from records to records.

  The state of a running process, \<open>Sys\<close>, is the world of the services together with the spans that were
  started and the bytes its random source has left. What stands around the process is a parameter, \<open>Host\<close>:
  the order in which a Go map is visited, the parser of ULIDs, the identifiers the tracer gives its spans,
  and the answer of the database pool to the readiness probe.
\<close>

section \<open>Interfaces\<close>

record 's GovernanceService =
  gs_SubmitTask :: "goctx \<Rightarrow> SubmitTaskInput \<Rightarrow> ('s, Task) go"
  gs_ProcessTask :: "goctx \<Rightarrow> SubmitTaskInput \<Rightarrow> string \<Rightarrow> ('s, ProcessTaskResult) go"
  gs_RouteTask :: "goctx \<Rightarrow> TaskID \<Rightarrow> ('s, RoutingDecision) go"
  gs_EvaluatePolicy :: "goctx \<Rightarrow> TaskID \<Rightarrow> string \<Rightarrow> ('s, PolicyDecision) go"
  gs_StartWorkflow :: "goctx \<Rightarrow> TaskID \<Rightarrow> ('s, WorkflowRun) go"

record 's WorkflowControl =
  wc_KillWorkflow :: "goctx \<Rightarrow> WorkflowRunID \<Rightarrow> string \<Rightarrow> ActorID \<Rightarrow> ('s, unit) go"
  wc_PauseWorkflow :: "goctx \<Rightarrow> WorkflowRunID \<Rightarrow> string \<Rightarrow> ActorID \<Rightarrow> ('s, unit) go"
  wc_ResumeWorkflow :: "goctx \<Rightarrow> WorkflowRunID \<Rightarrow> string \<Rightarrow> ActorID \<Rightarrow> ('s, unit) go"
  wc_RegisterAttempt :: "goctx \<Rightarrow> WorkflowRunID \<Rightarrow> AttemptResult \<Rightarrow> ('s, WorkflowRun) go"

record 's ApprovalService =
  as_ResolveApproval :: "goctx \<Rightarrow> ResolveApprovalInput \<Rightarrow> ('s, ApprovalRequest) go"
  as_GetPendingApprovals :: "goctx \<Rightarrow> ('s, ApprovalRequest list) go"

record 's QueryService =
  qs_GetTask :: "goctx \<Rightarrow> TaskID \<Rightarrow> ('s, Task) go"
  qs_GetWorkflowStatus :: "goctx \<Rightarrow> WorkflowRunID \<Rightarrow> ('s, WorkflowRun) go"
  qs_GetWorkflowByTask :: "goctx \<Rightarrow> TaskID \<Rightarrow> ('s, WorkflowRun) go"
  qs_QueryAuditTrail :: "goctx \<Rightarrow> AuditFilter \<Rightarrow> ('s, AuditEntry list \<times> nat) go"
  qs_ListWorkflows :: "goctx \<Rightarrow> WorkflowListFilter \<Rightarrow> ('s, WorkflowRun list \<times> nat) go"
  qs_ListBreakers :: "goctx \<Rightarrow> BreakerFilter \<Rightarrow> ('s, BreakerSnapshot list) go"
  qs_GetBreakerState :: "goctx \<Rightarrow> string \<Rightarrow> string \<Rightarrow> ('s, BreakerSnapshot option) go"

record 's EscalationPort =
  ep_TriggerEscalation :: "goctx \<Rightarrow> TaskID \<Rightarrow> EscalationCondition \<Rightarrow> EscalationTarget \<Rightarrow> ('s, EscalationTrigger) go"

record 's PhaseDecisionsService =
  ds_EvaluatePhase :: "goctx \<Rightarrow> PhaseDecisionInput \<Rightarrow> ('s, Decision) go"
  ds_EvaluateSensitive :: "goctx \<Rightarrow> SensitiveDecisionInput \<Rightarrow> ('s, Decision) go"
  ds_ApprovalStatusFor :: "goctx \<Rightarrow> string \<Rightarrow> string \<Rightarrow> ('s, string) go"

section \<open>The process\<close>

record Span =
  sp_Name :: string
  sp_Attributes :: "(string \<times> any) list"
  sp_Error :: "gov_error option"
  sp_Ended :: bool

record Sys =
  sys_world :: World
  sys_spans :: "Span list"
  sys_rand :: "byte list"

record Host =
  h_order :: "breakers \<Rightarrow> breakers"
  h_validULID :: "string \<Rightarrow> bool"
  h_tracer :: "nat \<Rightarrow> goctx \<Rightarrow> goctx"
  h_ping :: "gov_error + unit"

definition inWorld :: "(World, 'a) go \<Rightarrow> (Sys, 'a) go" where
  "inWorld m S = (case m (sys_world S) of (r, s) \<Rightarrow> (r, S\<lparr>sys_world := s\<rparr>))"

lemma inWorld_world [simp]: "sys_world (snd (inWorld m S)) = snd (m (sys_world S))"
  and inWorld_result [simp]: "fst (inWorld m S) = fst (m (sys_world S))"
  by (simp_all add: inWorld_def split: prod.splits)

section \<open>Adapters\<close>

definition governanceServiceAdapter :: "Env \<Rightarrow> Sys GovernanceService" where
  "governanceServiceAdapter env =
     \<lparr>gs_SubmitTask = (\<lambda>ctx input. inWorld (SubmitTask env ctx input)),
      gs_ProcessTask = (\<lambda>ctx input action. inWorld (ProcessTask env ctx input action)),
      gs_RouteTask = (\<lambda>ctx taskID. inWorld (RouteTask env ctx taskID)),
      gs_EvaluatePolicy = (\<lambda>ctx taskID action. inWorld (EvaluatePolicySvc env ctx taskID action)),
      gs_StartWorkflow = (\<lambda>ctx taskID. inWorld (StartWorkflow env ctx taskID))\<rparr>"

definition workflowRunService :: "Env \<Rightarrow> Sys WorkflowControl" where
  "workflowRunService env =
     \<lparr>wc_KillWorkflow = (\<lambda>ctx i reason actor. inWorld (KillWorkflow env ctx i reason actor)),
      wc_PauseWorkflow = (\<lambda>ctx i reason actor. inWorld (PauseWorkflow env ctx i reason actor)),
      wc_ResumeWorkflow = (\<lambda>ctx i reason actor. inWorld (ResumeWorkflow env ctx i reason actor)),
      wc_RegisterAttempt = (\<lambda>ctx i result. inWorld (RegisterAttempt env ctx i result))\<rparr>"

definition approvalService :: "Env \<Rightarrow> Sys ApprovalService" where
  "approvalService env =
     \<lparr>as_ResolveApproval = (\<lambda>ctx input. inWorld (ResolveApproval env ctx input)),
      as_GetPendingApprovals = (\<lambda>ctx. inWorld (GetPendingApprovals env))\<rparr>"

definition escalationService :: "Env \<Rightarrow> Sys EscalationPort" where
  "escalationService env =
     \<lparr>ep_TriggerEscalation = (\<lambda>ctx taskID condition target. inWorld (TriggerEscalation env ctx taskID condition target))\<rparr>"

text \<open>The registry is always wired, so the nil checks of the two breaker queries never fire.\<close>

definition ListBreakerStates :: "Host \<Rightarrow> BreakerFilter \<Rightarrow> (World, BreakerSnapshot list) go" where
  "ListBreakerStates host f = gets (\<lambda>s. ListBreakers (h_order host) f (breakerRegistry s))"

definition queryServiceAdapter :: "Host \<Rightarrow> Env \<Rightarrow> Sys QueryService" where
  "queryServiceAdapter host env =
     \<lparr>qs_GetTask = (\<lambda>ctx i. inWorld (GetTask env i)),
      qs_GetWorkflowStatus = (\<lambda>ctx i. inWorld (GetWorkflowStatus env i)),
      qs_GetWorkflowByTask = (\<lambda>ctx taskID. inWorld (GetWorkflowByTask env taskID)),
      qs_QueryAuditTrail = (\<lambda>ctx f. inWorld (QueryAuditTrail env f)),
      qs_ListWorkflows = (\<lambda>ctx f. inWorld (ListWorkflows env f)),
      qs_ListBreakers = (\<lambda>ctx f. inWorld (ListBreakerStates host f)),
      qs_GetBreakerState = (\<lambda>ctx tool role. inWorld (GetBreakerState tool role))\<rparr>"

definition decisionsService :: "Env \<Rightarrow> Sys PhaseDecisionsService" where
  "decisionsService env =
     \<lparr>ds_EvaluatePhase = (\<lambda>ctx input. inWorld (EvaluatePhase env input)),
      ds_EvaluateSensitive = (\<lambda>ctx input. inWorld (EvaluateSensitive env input)),
      ds_ApprovalStatusFor = (\<lambda>ctx changeID phaseID. inWorld (ApprovalStatusFor env changeID phaseID))\<rparr>"

section \<open>The facade of the SDK\<close>

text \<open>
  \<^verbatim>\<open>adapters/inbound/sdk/facade.go\<close>: one object with every operation of the five ports, each passed on
  to the port that has it.
\<close>

record 's GovernanceFacade =
  f_governance :: "'s GovernanceService"
  f_control :: "'s WorkflowControl"
  f_approvals :: "'s ApprovalService"
  f_queries :: "'s QueryService"
  f_escalation :: "'s EscalationPort"

definition NewGovernanceFacade ::
  "'s GovernanceService \<Rightarrow> 's WorkflowControl \<Rightarrow> 's ApprovalService \<Rightarrow> 's QueryService \<Rightarrow> 's EscalationPort \<Rightarrow>
   's GovernanceFacade" where
  "NewGovernanceFacade governance control approvals queries escalation =
     \<lparr>f_governance = governance, f_control = control, f_approvals = approvals, f_queries = queries,
      f_escalation = escalation\<rparr>"

text \<open>The methods of the facade, with the value each returns.\<close>

datatype FacadeCall =
    FSubmitTask SubmitTaskInput
  | FProcessTask SubmitTaskInput string
  | FRouteTask TaskID
  | FEvaluatePolicy TaskID string
  | FStartWorkflow TaskID
  | FKillWorkflow WorkflowRunID string ActorID
  | FPauseWorkflow WorkflowRunID string ActorID
  | FResumeWorkflow WorkflowRunID string ActorID
  | FRegisterAttempt WorkflowRunID AttemptResult
  | FResolveApproval ResolveApprovalInput
  | FGetPendingApprovals
  | FGetTask TaskID
  | FGetWorkflowStatus WorkflowRunID
  | FGetWorkflowByTask TaskID
  | FQueryAuditTrail AuditFilter
  | FListWorkflows WorkflowListFilter
  | FListBreakers BreakerFilter
  | FGetBreakerState string string
  | FTriggerEscalation TaskID EscalationCondition EscalationTarget

datatype FacadeResult =
    RTask Task
  | RProcess ProcessTaskResult
  | RRouting RoutingDecision
  | RPolicy PolicyDecision
  | RRun WorkflowRun
  | RDone
  | RApproval ApprovalRequest
  | RApprovals "ApprovalRequest list"
  | RAudit "AuditEntry list \<times> nat"
  | RRuns "WorkflowRun list \<times> nat"
  | RBreakers "BreakerSnapshot list"
  | RBreaker "BreakerSnapshot option"
  | REscalation EscalationTrigger

definition mapGo :: "('a \<Rightarrow> 'b) \<Rightarrow> ('s, 'a) go \<Rightarrow> ('s, 'b) go" where
  "mapGo f m = bindE m (\<lambda>x. ret (f x))"

fun facadeCall :: "'s GovernanceFacade \<Rightarrow> goctx \<Rightarrow> FacadeCall \<Rightarrow> ('s, FacadeResult) go" where
  "facadeCall f ctx (FSubmitTask input) = mapGo RTask (gs_SubmitTask (f_governance f) ctx input)"
| "facadeCall f ctx (FProcessTask input action) = mapGo RProcess (gs_ProcessTask (f_governance f) ctx input action)"
| "facadeCall f ctx (FRouteTask i) = mapGo RRouting (gs_RouteTask (f_governance f) ctx i)"
| "facadeCall f ctx (FEvaluatePolicy i action) = mapGo RPolicy (gs_EvaluatePolicy (f_governance f) ctx i action)"
| "facadeCall f ctx (FStartWorkflow i) = mapGo RRun (gs_StartWorkflow (f_governance f) ctx i)"
| "facadeCall f ctx (FKillWorkflow i reason actor) = mapGo (\<lambda>_. RDone) (wc_KillWorkflow (f_control f) ctx i reason actor)"
| "facadeCall f ctx (FPauseWorkflow i reason actor) = mapGo (\<lambda>_. RDone) (wc_PauseWorkflow (f_control f) ctx i reason actor)"
| "facadeCall f ctx (FResumeWorkflow i reason actor) = mapGo (\<lambda>_. RDone) (wc_ResumeWorkflow (f_control f) ctx i reason actor)"
| "facadeCall f ctx (FRegisterAttempt i result) = mapGo RRun (wc_RegisterAttempt (f_control f) ctx i result)"
| "facadeCall f ctx (FResolveApproval input) = mapGo RApproval (as_ResolveApproval (f_approvals f) ctx input)"
| "facadeCall f ctx FGetPendingApprovals = mapGo RApprovals (as_GetPendingApprovals (f_approvals f) ctx)"
| "facadeCall f ctx (FGetTask i) = mapGo RTask (qs_GetTask (f_queries f) ctx i)"
| "facadeCall f ctx (FGetWorkflowStatus i) = mapGo RRun (qs_GetWorkflowStatus (f_queries f) ctx i)"
| "facadeCall f ctx (FGetWorkflowByTask i) = mapGo RRun (qs_GetWorkflowByTask (f_queries f) ctx i)"
| "facadeCall f ctx (FQueryAuditTrail q) = mapGo RAudit (qs_QueryAuditTrail (f_queries f) ctx q)"
| "facadeCall f ctx (FListWorkflows q) = mapGo RRuns (qs_ListWorkflows (f_queries f) ctx q)"
| "facadeCall f ctx (FListBreakers q) = mapGo RBreakers (qs_ListBreakers (f_queries f) ctx q)"
| "facadeCall f ctx (FGetBreakerState tool role) = mapGo RBreaker (qs_GetBreakerState (f_queries f) ctx tool role)"
| "facadeCall f ctx (FTriggerEscalation i condition target) =
     mapGo REscalation (ep_TriggerEscalation (f_escalation f) ctx i condition target)"

end
