(* ===== verification/HttpDto.thy ===== *)
theory HttpDto
  imports Inbound
begin

text \<open>
  The transfer objects of the HTTP adapter (\<^verbatim>\<open>adapters/inbound/http/dto.go\<close> and the structs next to the
  handlers): what a request body is decoded into, what a response is built from, and the JSON both have on
  the wire. A nil map and an empty one are not distinguished.
\<close>

section \<open>Request bodies\<close>

text \<open>
  What \<^verbatim>\<open>json.NewDecoder(r.Body).Decode\<close> finds at the start of a body: nothing it can parse, a value
  that is no object, or an object with its members in order. A member sets the field whose name agrees
  with its key up to the case of letters, where U+017F counts as s and U+212A as k; members no field has
  are skipped; \<open>null\<close> leaves a field alone, and sets a pointer or a map to nil. A value of the wrong type is
  an error, which is reported when the object has been read.
\<close>

datatype Body = BodyMalformed | BodyValue json | BodyObject "(string \<times> json) list"

fun foldName :: "nat list \<Rightarrow> nat list" where
  "foldName [] = []"
| "foldName (b # bs) =
     (case bs of
        c # cs \<Rightarrow>
          (if b = 0xC5 \<and> c = 0xBF then 115 # foldName cs
           else case cs of
             d # ds \<Rightarrow>
               (if b = 0xE2 \<and> c = 0x84 \<and> d = 0xAA then 107 # foldName ds
                else (if 65 \<le> b \<and> b \<le> 90 then b + 32 else b) # foldName bs)
           | [] \<Rightarrow> (if 65 \<le> b \<and> b \<le> 90 then b + 32 else b) # foldName bs)
      | [] \<Rightarrow> [if 65 \<le> b \<and> b \<le> 90 then b + 32 else b])"

definition sameName :: "string \<Rightarrow> string \<Rightarrow> bool" where
  "sameName k name \<longleftrightarrow> foldName (map of_char k) = foldName (map of_char name)"

type_synonym 'r setter = "'r \<Rightarrow> json \<Rightarrow> 'r option"

definition setMember :: "(string \<times> 'r setter) list \<Rightarrow> string \<times> json \<Rightarrow> 'r \<Rightarrow> 'r option" where
  "setMember fs m r =
     (case List.find (\<lambda>(name, _). sameName (fst m) name) fs of
        None \<Rightarrow> Some r
      | Some (_, f) \<Rightarrow> f r (snd m))"

fun setMembers :: "(string \<times> 'r setter) list \<Rightarrow> (string \<times> json) list \<Rightarrow> 'r \<Rightarrow> 'r option" where
  "setMembers fs [] r = Some r"
| "setMembers fs (m # ms) r = Option.bind (setMember fs m r) (setMembers fs ms)"

definition Decode :: "(string \<times> 'r setter) list \<Rightarrow> 'r \<Rightarrow> Body \<Rightarrow> 'r option" where
  "Decode fs zero body =
     (case body of
        BodyMalformed \<Rightarrow> None
      | BodyValue j \<Rightarrow> (case j of JNull \<Rightarrow> Some zero | _ \<Rightarrow> None)
      | BodyObject ms \<Rightarrow> setMembers fs ms zero)"

definition setString :: "(string \<Rightarrow> 'r \<Rightarrow> 'r) \<Rightarrow> 'r setter" where
  "setString upd r j = (case j of JString s \<Rightarrow> Some (upd s r) | JNull \<Rightarrow> Some r | _ \<Rightarrow> None)"

definition setBool :: "(bool \<Rightarrow> 'r \<Rightarrow> 'r) \<Rightarrow> 'r setter" where
  "setBool upd r j = (case j of JBool b \<Rightarrow> Some (upd b r) | JNull \<Rightarrow> Some r | _ \<Rightarrow> None)"

definition setStringPtr :: "(string option \<Rightarrow> 'r \<Rightarrow> 'r) \<Rightarrow> 'r setter" where
  "setStringPtr upd r j = (case j of JString s \<Rightarrow> Some (upd (Some s) r) | JNull \<Rightarrow> Some (upd None r) | _ \<Rightarrow> None)"

definition setBoolPtr :: "(bool option \<Rightarrow> 'r \<Rightarrow> 'r) \<Rightarrow> 'r setter" where
  "setBoolPtr upd r j = (case j of JBool b \<Rightarrow> Some (upd (Some b) r) | JNull \<Rightarrow> Some (upd None r) | _ \<Rightarrow> None)"

text \<open>An object decoded into a map adds its members to the ones that are already there.\<close>

definition setMap :: "((metadata \<Rightarrow> metadata) \<Rightarrow> 'r \<Rightarrow> 'r) \<Rightarrow> 'r setter" where
  "setMap upd r j =
     (case j of
        JObj m \<Rightarrow> Some (upd (\<lambda>old. old ++ (\<lambda>k. map_option fromJSON (m k))) r)
      | JNull \<Rightarrow> Some (upd (\<lambda>_. Map.empty) r)
      | _ \<Rightarrow> None)"

record submitTaskRequest =
  sq_Type :: string
  sq_Title :: string
  sq_Scope :: string
  sq_Priority :: string
  sq_Metadata :: metadata
  sq_Action :: string

definition decodeSubmitTask :: "Body \<Rightarrow> submitTaskRequest option" where
  "decodeSubmitTask =
     Decode [(''type'', setString (\<lambda>s. sq_Type_update (\<lambda>_. s))), (''title'', setString (\<lambda>s. sq_Title_update (\<lambda>_. s))),
             (''scope'', setString (\<lambda>s. sq_Scope_update (\<lambda>_. s))), (''priority'', setString (\<lambda>s. sq_Priority_update (\<lambda>_. s))),
             (''metadata'', setMap sq_Metadata_update), (''action'', setString (\<lambda>s. sq_Action_update (\<lambda>_. s)))]
       \<lparr>sq_Type = [], sq_Title = [], sq_Scope = [], sq_Priority = [], sq_Metadata = Map.empty, sq_Action = []\<rparr>"

record evaluatePolicyRequest =
  eq_Action :: string

definition decodeEvaluatePolicy :: "Body \<Rightarrow> evaluatePolicyRequest option" where
  "decodeEvaluatePolicy = Decode [(''action'', setString (\<lambda>s. eq_Action_update (\<lambda>_. s)))] \<lparr>eq_Action = []\<rparr>"

record workflowActionRequest =
  wq_Reason :: string
  wq_Actor :: string

definition decodeWorkflowAction :: "Body \<Rightarrow> workflowActionRequest option" where
  "decodeWorkflowAction =
     Decode [(''reason'', setString (\<lambda>s. wq_Reason_update (\<lambda>_. s))), (''actor'', setString (\<lambda>s. wq_Actor_update (\<lambda>_. s)))]
       \<lparr>wq_Reason = [], wq_Actor = []\<rparr>"

record registerAttemptRequest =
  aq_Status :: string
  aq_FailureStage :: "string option"
  aq_FailureCode :: "string option"
  aq_Retryable :: "bool option"
  aq_ToolName :: "string option"
  aq_StrategyUsed :: "string option"
  aq_AgentRole :: "string option"
  aq_Detail :: "string option"

definition decodeRegisterAttempt :: "Body \<Rightarrow> registerAttemptRequest option" where
  "decodeRegisterAttempt =
     Decode [(''status'', setString (\<lambda>s. aq_Status_update (\<lambda>_. s))),
             (''failure_stage'', setStringPtr (\<lambda>v. aq_FailureStage_update (\<lambda>_. v))),
             (''failure_code'', setStringPtr (\<lambda>v. aq_FailureCode_update (\<lambda>_. v))),
             (''retryable'', setBoolPtr (\<lambda>v. aq_Retryable_update (\<lambda>_. v))),
             (''tool_name'', setStringPtr (\<lambda>v. aq_ToolName_update (\<lambda>_. v))),
             (''strategy_used'', setStringPtr (\<lambda>v. aq_StrategyUsed_update (\<lambda>_. v))),
             (''agent_role'', setStringPtr (\<lambda>v. aq_AgentRole_update (\<lambda>_. v))),
             (''detail'', setStringPtr (\<lambda>v. aq_Detail_update (\<lambda>_. v)))]
       \<lparr>aq_Status = [], aq_FailureStage = None, aq_FailureCode = None, aq_Retryable = None, aq_ToolName = None,
        aq_StrategyUsed = None, aq_AgentRole = None, aq_Detail = None\<rparr>"

record resolveApprovalRequest =
  rq_Approved :: bool
  rq_ResolvedBy :: string
  rq_Reason :: string

definition decodeResolveApproval :: "Body \<Rightarrow> resolveApprovalRequest option" where
  "decodeResolveApproval =
     Decode [(''approved'', setBool (\<lambda>b. rq_Approved_update (\<lambda>_. b))),
             (''resolved_by'', setString (\<lambda>s. rq_ResolvedBy_update (\<lambda>_. s))),
             (''reason'', setString (\<lambda>s. rq_Reason_update (\<lambda>_. s)))]
       \<lparr>rq_Approved = False, rq_ResolvedBy = [], rq_Reason = []\<rparr>"

record triggerEscalationRequest =
  tq_ConditionType :: string
  tq_ConditionParams :: metadata
  tq_Target :: string

definition decodeTriggerEscalation :: "Body \<Rightarrow> triggerEscalationRequest option" where
  "decodeTriggerEscalation =
     Decode [(''condition_type'', setString (\<lambda>s. tq_ConditionType_update (\<lambda>_. s))),
             (''condition_params'', setMap tq_ConditionParams_update),
             (''target'', setString (\<lambda>s. tq_Target_update (\<lambda>_. s)))]
       \<lparr>tq_ConditionType = [], tq_ConditionParams = Map.empty, tq_Target = []\<rparr>"

record decisionPhaseRequest =
  dq_ChangeID :: string
  dq_PhaseType :: string
  dq_TaskDescription :: string
  dq_Sensitive :: bool

definition decodeDecisionPhase :: "Body \<Rightarrow> decisionPhaseRequest option" where
  "decodeDecisionPhase =
     Decode [(''change_id'', setString (\<lambda>s. dq_ChangeID_update (\<lambda>_. s))),
             (''phase_type'', setString (\<lambda>s. dq_PhaseType_update (\<lambda>_. s))),
             (''task_description'', setString (\<lambda>s. dq_TaskDescription_update (\<lambda>_. s))),
             (''sensitive'', setBool (\<lambda>b. dq_Sensitive_update (\<lambda>_. b)))]
       \<lparr>dq_ChangeID = [], dq_PhaseType = [], dq_TaskDescription = [], dq_Sensitive = False\<rparr>"

text \<open>
  A \<^verbatim>\<open>[]byte\<close> is a string in standard base64 with padding, in which line breaks are skipped, or an array of
  numbers that are bytes.
\<close>

definition base64Value :: "char \<Rightarrow> nat option" where
  "base64Value c =
     (let n = of_char c in
      if 65 \<le> n \<and> n \<le> 90 then Some (n - 65)
      else if 97 \<le> n \<and> n \<le> 122 then Some (n - 71)
      else if 48 \<le> n \<and> n \<le> 57 then Some (n + 4)
      else if n = 43 then Some 62 else if n = (47 :: nat) then Some 63 else None)"

fun base64Decode :: "string \<Rightarrow> nat list option" where
  "base64Decode [] = Some []"
| "base64Decode (a # b # c # d # rest) =
     (case (base64Value a, base64Value b, base64Value c, base64Value d) of
        (Some w, Some x, Some y, Some z) \<Rightarrow>
          map_option (\<lambda>bs. (4 * w + x div 16) # (16 * (x mod 16) + y div 4) # (64 * (y mod 4) + z) # bs) (base64Decode rest)
      | (Some w, Some x, Some y, None) \<Rightarrow>
          (if d = CHR ''='' \<and> rest = [] then Some [4 * w + x div 16, 16 * (x mod 16) + y div 4] else None)
      | (Some w, Some x, None, None) \<Rightarrow>
          (if c = CHR ''='' \<and> d = CHR ''='' \<and> rest = [] then Some [4 * w + x div 16] else None)
      | _ \<Rightarrow> None)"
| "base64Decode _ = None"

definition lineBreak :: "char \<Rightarrow> bool" where
  "lineBreak c \<longleftrightarrow> (of_char c :: nat) = 10 \<or> (of_char c :: nat) = 13"

fun jsonByte :: "json \<Rightarrow> nat option" where
  "jsonByte JNull = Some 0"
| "jsonByte (JNum r) = (if r = of_int \<lfloor>r\<rfloor> \<and> 0 \<le> r \<and> r \<le> 255 then Some (nat \<lfloor>r\<rfloor>) else None)"
| "jsonByte _ = None"

definition setBytes :: "(nat list \<Rightarrow> 'r \<Rightarrow> 'r) \<Rightarrow> 'r setter" where
  "setBytes upd r j =
     (case j of
        JNull \<Rightarrow> Some (upd [] r)
      | JString s \<Rightarrow> map_option (\<lambda>bs. upd bs r) (base64Decode (filter (\<lambda>c. \<not> lineBreak c) s))
      | JArr js \<Rightarrow> map_option (\<lambda>bs. upd bs r) (those (map jsonByte js))
      | _ \<Rightarrow> None)"

record decisionSensitiveRequest =
  nq_ChangeID :: string
  nq_Capability :: string
  nq_Payload :: "nat list"

definition decodeDecisionSensitive :: "Body \<Rightarrow> decisionSensitiveRequest option" where
  "decodeDecisionSensitive =
     Decode [(''change_id'', setString (\<lambda>s. nq_ChangeID_update (\<lambda>_. s))),
             (''capability'', setString (\<lambda>s. nq_Capability_update (\<lambda>_. s))),
             (''payload'', setBytes (\<lambda>bs. nq_Payload_update (\<lambda>_. bs)))]
       \<lparr>nq_ChangeID = [], nq_Capability = [], nq_Payload = []\<rparr>"

section \<open>Responses\<close>

text \<open>
  \<^verbatim>\<open>t.Format(time.RFC3339)\<close> prints whole seconds. Every time in a response comes from the clock or from the
  database driver, and both give local times, so the zone is the local one at that time.
\<close>

definition fmtRFC3339 :: "TimeEnv \<Rightarrow> gotime \<Rightarrow> string" where
  "fmtRFC3339 z t = fmtRFC3339Nano (te_zone z t) (t - t mod Second)"

record taskResponse =
  kr_ID :: string
  kr_ParentTaskID :: "string option"
  kr_Type :: string
  kr_Title :: string
  kr_Scope :: string
  kr_Priority :: string
  kr_RiskLevel :: string
  kr_Status :: string
  kr_Metadata :: metadata
  kr_CreatedAt :: string
  kr_UpdatedAt :: string

definition taskToResponse :: "TimeEnv \<Rightarrow> Task \<Rightarrow> taskResponse" where
  "taskToResponse z t =
     \<lparr>kr_ID = t_id t, kr_ParentTaskID = t_parentTaskID t, kr_Type = TaskType_String (t_taskType t),
      kr_Title = t_title t, kr_Scope = TaskScope_String (t_scope t), kr_Priority = Priority_String (t_priority t),
      kr_RiskLevel = RiskLevel_String (t_riskLevel t), kr_Status = TaskStatus_String (t_status t),
      kr_Metadata = t_metadata t, kr_CreatedAt = fmtRFC3339 z (t_createdAt t),
      kr_UpdatedAt = fmtRFC3339 z (t_updatedAt t)\<rparr>"

record workflowTransitionResponse =
  hr_From :: string
  hr_To :: string
  hr_Reason :: string
  hr_Actor :: string
  hr_Timestamp :: string

record workflowRunResponse =
  wrr_ID :: string
  wrr_TaskID :: string
  wrr_Status :: string
  wrr_RoutingDecisionID :: "string option"
  wrr_PolicyDecisionID :: "string option"
  wrr_CurrentStepIndex :: int
  wrr_Transitions :: "workflowTransitionResponse list"
  wrr_CreatedAt :: string
  wrr_UpdatedAt :: string

definition workflowRunToResponse :: "TimeEnv \<Rightarrow> WorkflowRun \<Rightarrow> workflowRunResponse" where
  "workflowRunToResponse z w =
     \<lparr>wrr_ID = w_ID w, wrr_TaskID = w_TaskID w, wrr_Status = WorkflowStatus_String (w_Status w),
      wrr_RoutingDecisionID = w_RoutingDecisionID w, wrr_PolicyDecisionID = w_PolicyDecisionID w,
      wrr_CurrentStepIndex = w_CurrentStepIndex w,
      wrr_Transitions =
        map (\<lambda>tr. \<lparr>hr_From = WorkflowStatus_String (tr_From tr), hr_To = WorkflowStatus_String (tr_To tr),
                   hr_Reason = tr_Reason tr, hr_Actor = tr_Actor tr, hr_Timestamp = fmtRFC3339 z (tr_Timestamp tr)\<rparr>)
          (w_Transitions w),
      wrr_CreatedAt = fmtRFC3339 z (w_CreatedAt w), wrr_UpdatedAt = fmtRFC3339 z (w_UpdatedAt w)\<rparr>"

record strategyEvaluationResponse =
  ser_Strategy :: string
  ser_Score :: rat
  ser_FactorScores :: "string \<rightharpoonup> rat"
  ser_Overridden :: bool
  ser_Reason :: string

record routingConstraintResponse =
  rcr_Type :: string
  rcr_Value :: string

record routingDecisionResponse =
  rdr_ID :: string
  rdr_TaskID :: string
  rdr_EvaluatedStrategies :: "strategyEvaluationResponse list"
  rdr_SelectedStrategy :: string
  rdr_SelectedAgentRole :: string
  rdr_Reason :: string
  rdr_Constraints :: "routingConstraintResponse list"
  rdr_CreatedAt :: string

definition routingDecisionToResponse :: "TimeEnv \<Rightarrow> RoutingDecision \<Rightarrow> routingDecisionResponse" where
  "routingDecisionToResponse z rd =
     \<lparr>rdr_ID = rd_id rd, rdr_TaskID = rd_taskID rd,
      rdr_EvaluatedStrategies =
        map (\<lambda>e. \<lparr>ser_Strategy = RoutingStrategy_String (se_Strategy e), ser_Score = se_Score e,
                  ser_FactorScores = se_FactorScores e, ser_Overridden = se_Overridden e, ser_Reason = se_Reason e\<rparr>)
          (rd_evaluatedStrategies rd),
      rdr_SelectedStrategy = RoutingStrategy_String (rd_selectedStrategy rd),
      rdr_SelectedAgentRole = AgentRole_String (rd_selectedAgentRole rd), rdr_Reason = rd_reason rd,
      rdr_Constraints = map (\<lambda>c. \<lparr>rcr_Type = rc_Type c, rcr_Value = rc_Value c\<rparr>) (rd_constraints rd),
      rdr_CreatedAt = fmtRFC3339 z (rd_createdAt rd)\<rparr>"

record policyConstraintResponse =
  pcr_Type :: string
  pcr_Value :: string
  pcr_Reason :: string

record approvalRequirementResponse =
  arr_ApproverRole :: string
  arr_Reason :: string
  arr_TimeoutSecs :: "int option"

record ruleEvaluationResponse =
  rer_RuleID :: string
  rer_Passed :: bool
  rer_Outcome :: "string option"
  rer_Reason :: string

record policyDecisionResponse =
  pdp_ID :: string
  pdp_TaskID :: string
  pdp_EvaluatedAction :: string
  pdp_Outcome :: string
  pdp_Constraints :: "policyConstraintResponse list"
  pdp_ApprovalRequirement :: "approvalRequirementResponse option"
  pdp_RulesEvaluated :: "ruleEvaluationResponse list"
  pdp_Reason :: string
  pdp_CreatedAt :: string

definition policyDecisionToResponse :: "TimeEnv \<Rightarrow> PolicyDecision \<Rightarrow> policyDecisionResponse" where
  "policyDecisionToResponse z pd =
     \<lparr>pdp_ID = pd_id pd, pdp_TaskID = pd_taskID pd, pdp_EvaluatedAction = pd_evaluatedAction pd,
      pdp_Outcome = PolicyOutcome_String (pd_outcome pd),
      pdp_Constraints =
        map (\<lambda>c. \<lparr>pcr_Type = pc_Type c, pcr_Value = pc_Value c, pcr_Reason = pc_Reason c\<rparr>) (pd_constraints pd),
      pdp_ApprovalRequirement =
        map_option (\<lambda>ar. \<lparr>arr_ApproverRole = ar_ApproverRole ar, arr_Reason = ar_Reason ar,
                          arr_TimeoutSecs = ar_TimeoutSecs ar\<rparr>) (pd_approvalRequirement pd),
      pdp_RulesEvaluated =
        map (\<lambda>r. \<lparr>rer_RuleID = re_RuleID r, rer_Passed = re_Passed r,
                  rer_Outcome = map_option PolicyOutcome_String (re_Outcome r), rer_Reason = re_Reason r\<rparr>)
          (pd_rulesEvaluated pd),
      pdp_Reason = pd_reason pd, pdp_CreatedAt = fmtRFC3339 z (pd_createdAt pd)\<rparr>"

record approverSpecResponse =
  asr_Role :: string
  asr_ActorID :: "string option"

record approvalResolutionResponse =
  orr_ResolvedBy :: string
  orr_ResolvedAt :: string
  orr_Reason :: string
  orr_Status :: string

record approvalRequestResponse =
  apr_ID :: string
  apr_TaskID :: string
  apr_WorkflowRunID :: string
  apr_Reason :: string
  apr_RequiredApprover :: approverSpecResponse
  apr_Status :: string
  apr_Resolution :: "approvalResolutionResponse option"
  apr_ExpiresAt :: "string option"
  apr_CreatedAt :: string

definition approvalRequestToResponse :: "TimeEnv \<Rightarrow> ApprovalRequest \<Rightarrow> approvalRequestResponse" where
  "approvalRequestToResponse z ar =
     \<lparr>apr_ID = a_id ar, apr_TaskID = a_taskID ar, apr_WorkflowRunID = a_workflowRunID ar, apr_Reason = a_reason ar,
      apr_RequiredApprover =
        \<lparr>asr_Role = as_Role (a_requiredApprover ar), asr_ActorID = as_ActorID (a_requiredApprover ar)\<rparr>,
      apr_Status = ApprovalStatus_String (a_status ar),
      apr_Resolution =
        map_option (\<lambda>res. \<lparr>orr_ResolvedBy = res_ResolvedBy res, orr_ResolvedAt = fmtRFC3339 z (res_ResolvedAt res),
                           orr_Reason = res_Reason res, orr_Status = ApprovalStatus_String (res_Status res)\<rparr>) (a_resolution ar),
      apr_ExpiresAt = map_option (fmtRFC3339 z) (a_expiresAt ar), apr_CreatedAt = fmtRFC3339 z (a_createdAt ar)\<rparr>"

record auditEntryResponse =
  aer_ID :: string
  aer_TaskID :: "string option"
  aer_WorkflowRunID :: "string option"
  aer_Actor :: string
  aer_Action :: string
  aer_Outcome :: string
  aer_Context :: "string \<rightharpoonup> any"
  aer_CreatedAt :: string

definition auditEntryToResponse :: "TimeEnv \<Rightarrow> AuditEntry \<Rightarrow> auditEntryResponse" where
  "auditEntryToResponse z ae =
     \<lparr>aer_ID = ae_id ae, aer_TaskID = ae_taskID ae, aer_WorkflowRunID = ae_workflowRunID ae, aer_Actor = ae_actor ae,
      aer_Action = ae_action ae, aer_Outcome = ae_outcome ae, aer_Context = ae_context ae,
      aer_CreatedAt = fmtRFC3339 z (ae_createdAt ae)\<rparr>"

text \<open>The coordinator fills every part of its result, so no part of the response is missing.\<close>

record processTaskResponse =
  ppr_Task :: "taskResponse option"
  ppr_RoutingDecision :: "routingDecisionResponse option"
  ppr_PolicyDecision :: "policyDecisionResponse option"
  ppr_WorkflowRun :: "workflowRunResponse option"

definition processTaskResultToResponse :: "TimeEnv \<Rightarrow> ProcessTaskResult \<Rightarrow> processTaskResponse" where
  "processTaskResultToResponse z r =
     \<lparr>ppr_Task = Some (taskToResponse z (ptr_Task r)),
      ppr_RoutingDecision = Some (routingDecisionToResponse z (ptr_RoutingDecision r)),
      ppr_PolicyDecision = Some (policyDecisionToResponse z (ptr_PolicyDecision r)),
      ppr_WorkflowRun = Some (workflowRunToResponse z (ptr_WorkflowRun r))\<rparr>"

record escalationTriggerResponse =
  etr_ID :: string
  etr_TaskID :: string
  etr_Condition :: string
  etr_Target :: string
  etr_Status :: string
  etr_TriggeredAt :: "string option"
  etr_CreatedAt :: string

definition escalationTriggerToResponse :: "TimeEnv \<Rightarrow> EscalationTrigger \<Rightarrow> escalationTriggerResponse" where
  "escalationTriggerToResponse z et =
     \<lparr>etr_ID = e_id et, etr_TaskID = e_taskID et, etr_Condition = ec_Type (e_condition et),
      etr_Target = EscalationTarget_String (e_target et), etr_Status = EscalationStatus_String (e_status et),
      etr_TriggeredAt = map_option (fmtRFC3339 z) (e_triggeredAt et), etr_CreatedAt = fmtRFC3339 z (e_createdAt et)\<rparr>"

record breakerResponse =
  br_ToolName :: string
  br_AgentRole :: string
  br_State :: string
  br_OpenedAt :: "string option"
  br_ConsecutiveFailures :: int
  br_FailureRate :: rat
  br_SampleSize :: nat
  br_UpdatedAt :: string

text \<open>Times of breakers are printed in UTC.\<close>

definition breakerToResponse :: "BreakerSnapshot \<Rightarrow> breakerResponse" where
  "breakerToResponse s =
     \<lparr>br_ToolName = bs_ToolName s, br_AgentRole = bs_AgentRole s, br_State = BreakerState_String (bs_State s),
      br_OpenedAt = map_option (\<lambda>t. fmtRFC3339Nano 0 (t - t mod Second)) (bs_OpenedAt s),
      br_ConsecutiveFailures = bs_ConsecutiveFailures s, br_FailureRate = bs_FailureRate s,
      br_SampleSize = bs_SampleSize s, br_UpdatedAt = fmtRFC3339Nano 0 (bs_UpdatedAt s - bs_UpdatedAt s mod Second)\<rparr>"

record decisionPayload =
  dp_Decision :: string
  dp_AgentRole :: string
  dp_Strategy :: string
  dp_Reason :: string

text \<open>The constraints of a decision are always empty, and its approval gate is never set.\<close>

definition toDecisionPayload :: "Decision \<Rightarrow> decisionPayload" where
  "toDecisionPayload d =
     \<lparr>dp_Decision = de_Decision d, dp_AgentRole = de_AgentRole d, dp_Strategy = de_Strategy d, dp_Reason = de_Reason d\<rparr>"

section \<open>The wire format\<close>

text \<open>The JSON of each response, by the tags of its struct.\<close>

abbreviation strField :: "string \<Rightarrow> string \<Rightarrow> string \<times> json" where
  "strField k v \<equiv> (k, JString v)"

definition omitEmptyStr :: "string \<Rightarrow> string \<Rightarrow> (string \<times> json) list" where
  "omitEmptyStr k v = (if v = [] then [] else [(k, JString v)])"

definition jsonTask :: "taskResponse \<Rightarrow> json" where
  "jsonTask r =
     jObj ([strField ''id'' (kr_ID r)] @ omitEmpty ''parent_task_id'' JString (kr_ParentTaskID r) @
           [strField ''type'' (kr_Type r), strField ''title'' (kr_Title r), strField ''scope'' (kr_Scope r),
            strField ''priority'' (kr_Priority r), strField ''risk_level'' (kr_RiskLevel r),
            strField ''status'' (kr_Status r), (''metadata'', encMap (kr_Metadata r)),
            strField ''created_at'' (kr_CreatedAt r), strField ''updated_at'' (kr_UpdatedAt r)])"

definition jsonTransition :: "workflowTransitionResponse \<Rightarrow> json" where
  "jsonTransition r =
     jObj [strField ''from'' (hr_From r), strField ''to'' (hr_To r), strField ''reason'' (hr_Reason r),
           strField ''actor'' (hr_Actor r), strField ''timestamp'' (hr_Timestamp r)]"

definition jsonRun :: "workflowRunResponse \<Rightarrow> json" where
  "jsonRun r =
     jObj ([strField ''id'' (wrr_ID r), strField ''task_id'' (wrr_TaskID r), strField ''status'' (wrr_Status r)] @
           omitEmpty ''routing_decision_id'' JString (wrr_RoutingDecisionID r) @
           omitEmpty ''policy_decision_id'' JString (wrr_PolicyDecisionID r) @
           [(''current_step_index'', JNum (of_int (wrr_CurrentStepIndex r))),
            (''transitions'', JArr (map jsonTransition (wrr_Transitions r))),
            strField ''created_at'' (wrr_CreatedAt r), strField ''updated_at'' (wrr_UpdatedAt r)])"

definition jsonEvaluation :: "strategyEvaluationResponse \<Rightarrow> json" where
  "jsonEvaluation r =
     jObj [strField ''strategy'' (ser_Strategy r), (''score'', JNum (ser_Score r)),
           (''factor_scores'', encFloats (ser_FactorScores r)), (''overridden'', JBool (ser_Overridden r)),
           strField ''reason'' (ser_Reason r)]"

definition jsonRouting :: "routingDecisionResponse \<Rightarrow> json" where
  "jsonRouting r =
     jObj [strField ''id'' (rdr_ID r), strField ''task_id'' (rdr_TaskID r),
           (''evaluated_strategies'', JArr (map jsonEvaluation (rdr_EvaluatedStrategies r))),
           strField ''selected_strategy'' (rdr_SelectedStrategy r),
           strField ''selected_agent_role'' (rdr_SelectedAgentRole r), strField ''reason'' (rdr_Reason r),
           (''constraints'', JArr (map (\<lambda>c. jObj [strField ''type'' (rcr_Type c), strField ''value'' (rcr_Value c)])
                                    (rdr_Constraints r))),
           strField ''created_at'' (rdr_CreatedAt r)]"

definition jsonRule :: "ruleEvaluationResponse \<Rightarrow> json" where
  "jsonRule r =
     jObj ([strField ''rule_id'' (rer_RuleID r), (''passed'', JBool (rer_Passed r))] @
           omitEmpty ''outcome'' JString (rer_Outcome r) @ [strField ''reason'' (rer_Reason r)])"

definition jsonRequirement :: "approvalRequirementResponse \<Rightarrow> json" where
  "jsonRequirement r =
     jObj ([strField ''approver_role'' (arr_ApproverRole r), strField ''reason'' (arr_Reason r)] @
           omitEmpty ''timeout_secs'' (\<lambda>n. JNum (of_int n)) (arr_TimeoutSecs r))"

definition jsonPolicy :: "policyDecisionResponse \<Rightarrow> json" where
  "jsonPolicy r =
     jObj ([strField ''id'' (pdp_ID r), strField ''task_id'' (pdp_TaskID r),
            strField ''evaluated_action'' (pdp_EvaluatedAction r), strField ''outcome'' (pdp_Outcome r),
            (''constraints'', JArr (map (\<lambda>c. jObj [strField ''type'' (pcr_Type c), strField ''value'' (pcr_Value c),
                                                  strField ''reason'' (pcr_Reason c)]) (pdp_Constraints r)))] @
           omitEmpty ''approval_requirement'' jsonRequirement (pdp_ApprovalRequirement r) @
           [(''rules_evaluated'', JArr (map jsonRule (pdp_RulesEvaluated r))), strField ''reason'' (pdp_Reason r),
            strField ''created_at'' (pdp_CreatedAt r)])"

definition jsonApproval :: "approvalRequestResponse \<Rightarrow> json" where
  "jsonApproval r =
     jObj ([strField ''id'' (apr_ID r), strField ''task_id'' (apr_TaskID r),
            strField ''workflow_run_id'' (apr_WorkflowRunID r), strField ''reason'' (apr_Reason r),
            (''required_approver'',
              jObj (strField ''role'' (asr_Role (apr_RequiredApprover r)) #
                    omitEmpty ''actor_id'' JString (asr_ActorID (apr_RequiredApprover r)))),
            strField ''status'' (apr_Status r)] @
           omitEmpty ''resolution''
             (\<lambda>o'. jObj [strField ''resolved_by'' (orr_ResolvedBy o'), strField ''resolved_at'' (orr_ResolvedAt o'),
                        strField ''reason'' (orr_Reason o'), strField ''status'' (orr_Status o')]) (apr_Resolution r) @
           omitEmpty ''expires_at'' JString (apr_ExpiresAt r) @ [strField ''created_at'' (apr_CreatedAt r)])"

definition jsonAudit :: "auditEntryResponse \<Rightarrow> json" where
  "jsonAudit r =
     jObj ([strField ''id'' (aer_ID r)] @ omitEmpty ''task_id'' JString (aer_TaskID r) @
           omitEmpty ''workflow_run_id'' JString (aer_WorkflowRunID r) @
           [strField ''actor'' (aer_Actor r), strField ''action'' (aer_Action r), strField ''outcome'' (aer_Outcome r),
            (''context'', encMap (aer_Context r)), strField ''created_at'' (aer_CreatedAt r)])"

definition jsonProcess :: "processTaskResponse \<Rightarrow> json" where
  "jsonProcess r =
     jObj (omitEmpty ''task'' jsonTask (ppr_Task r) @ omitEmpty ''routing_decision'' jsonRouting (ppr_RoutingDecision r) @
           omitEmpty ''policy_decision'' jsonPolicy (ppr_PolicyDecision r) @ omitEmpty ''workflow_run'' jsonRun (ppr_WorkflowRun r))"

definition jsonEscalation :: "escalationTriggerResponse \<Rightarrow> json" where
  "jsonEscalation r =
     jObj ([strField ''id'' (etr_ID r), strField ''task_id'' (etr_TaskID r), strField ''condition_type'' (etr_Condition r),
            strField ''target'' (etr_Target r), strField ''status'' (etr_Status r)] @
           omitEmpty ''triggered_at'' JString (etr_TriggeredAt r) @ [strField ''created_at'' (etr_CreatedAt r)])"

definition jsonBreaker :: "breakerResponse \<Rightarrow> json" where
  "jsonBreaker r =
     jObj ([strField ''tool_name'' (br_ToolName r), strField ''agent_role'' (br_AgentRole r), strField ''state'' (br_State r)] @
           omitEmpty ''opened_at'' JString (br_OpenedAt r) @
           [(''consecutive_failures'', JNum (of_int (br_ConsecutiveFailures r))), (''failure_rate'', JNum (br_FailureRate r)),
            (''sample_size'', JNum (of_nat (br_SampleSize r))), strField ''updated_at'' (br_UpdatedAt r)])"

definition jsonDecision :: "decisionPayload \<Rightarrow> json" where
  "jsonDecision r =
     jObj ([strField ''decision'' (dp_Decision r)] @ omitEmptyStr ''agent_role'' (dp_AgentRole r) @
           omitEmptyStr ''strategy'' (dp_Strategy r) @ omitEmptyStr ''reason'' (dp_Reason r))"

end
