(* ===== verification/HttpHandlers.thy ===== *)
theory HttpHandlers
  imports HttpDto
begin

text \<open>
  The handlers of the HTTP adapter (\<^verbatim>\<open>adapters/inbound/http/*_handler.go\<close>), one definition per handler,
  over the inbound ports a server holds. A handler reads the parameters of the path, the query and the
  decoded body of a request, calls one service, and gives a response: a status and a body. The text of an
  error in a body is kept as the error it comes from.
\<close>

section \<open>Requests and responses\<close>

record HttpRequest =
  hq_Method :: string
  hq_Path :: "string list"
  hq_Header :: "string \<Rightarrow> string"
  hq_Query :: "(string \<times> string) list"
  hq_Body :: Body
  hq_Ctx :: goctx

datatype Message = Text string | ErrorText gov_error

datatype HttpBody =
    JsonBody json
  | ErrorResponse Message string
  | ReadyBody string Message

record HttpResponse =
  hp_Status :: nat
  hp_Body :: HttpBody

definition writeError :: "nat \<Rightarrow> string \<Rightarrow> Message \<Rightarrow> ('s, HttpResponse) go" where
  "writeError status code message = ret \<lparr>hp_Status = status, hp_Body = ErrorResponse message code\<rparr>"

definition writeJSON :: "nat \<Rightarrow> json \<Rightarrow> ('s, HttpResponse) go" where
  "writeJSON status data = ret \<lparr>hp_Status = status, hp_Body = JsonBody data\<rparr>"

abbreviation "StatusOK \<equiv> 200 :: nat"
abbreviation "StatusCreatedHTTP \<equiv> 201 :: nat"
abbreviation "StatusBadRequest \<equiv> 400 :: nat"
abbreviation "StatusNotFound \<equiv> 404 :: nat"
abbreviation "StatusInternalServerError \<equiv> 500 :: nat"
abbreviation "StatusServiceUnavailable \<equiv> 503 :: nat"

text \<open>\<^verbatim>\<open>r.URL.Query().Get\<close>: the first value of a key, or the empty string.\<close>

definition queryGet :: "HttpRequest \<Rightarrow> string \<Rightarrow> string" where
  "queryGet req k = (case map_of (hq_Query req) k of None \<Rightarrow> [] | Some v \<Rightarrow> v)"

text \<open>\<^verbatim>\<open>strconv.Atoi\<close>: an optional sign and decimal digits, within 64 bits.\<close>

fun readNat :: "nat \<Rightarrow> string \<Rightarrow> nat option" where
  "readNat acc [] = Some acc"
| "readNat acc (c # cs) = (case digitVal c of None \<Rightarrow> None | Some d \<Rightarrow> readNat (10 * acc + d) cs)"

definition readSigned :: "string \<Rightarrow> int option" where
  "readSigned s =
     (case s of
        [] \<Rightarrow> None
      | c # cs \<Rightarrow>
          (if c = CHR ''-'' then (if cs = [] then None else map_option (\<lambda>n. - int n) (readNat 0 cs))
           else if c = CHR ''+'' then (if cs = [] then None else map_option int (readNat 0 cs))
           else map_option int (readNat 0 s)))"

definition Atoi :: "string \<Rightarrow> int option" where
  "Atoi s =
     (case readSigned s of
        Some i \<Rightarrow> (if - (2 ^ 63) \<le> i \<and> i < 2 ^ 63 then Some i else None)
      | None \<Rightarrow> None)"

text \<open>The two idioms of the handlers: reject what cannot be converted, and answer with what a service gave.\<close>

definition orReject :: "string \<Rightarrow> gov_error + 'a \<Rightarrow> ('a \<Rightarrow> ('s, HttpResponse) go) \<Rightarrow> ('s, HttpResponse) go" where
  "orReject code r k = (case r of Inl e \<Rightarrow> writeError StatusBadRequest code (ErrorText e) | Inr x \<Rightarrow> k x)"

definition decoded :: "'r option \<Rightarrow> ('r \<Rightarrow> ('s, HttpResponse) go) \<Rightarrow> ('s, HttpResponse) go" where
  "decoded r k =
     (case r of
        None \<Rightarrow> writeError StatusBadRequest ''INVALID_JSON'' (Text ''invalid request body'')
      | Some x \<Rightarrow> k x)"

definition answer :: "nat \<Rightarrow> string \<Rightarrow> ('s, 'a) go \<Rightarrow> ('a \<Rightarrow> ('s, HttpResponse) go) \<Rightarrow> ('s, HttpResponse) go" where
  "answer status code m k =
     bindR m (\<lambda>r. case r of Inl e \<Rightarrow> writeError status code (ErrorText e) | Inr x \<Rightarrow> k x)"

record 's Server =
  srv_governance :: "'s GovernanceService"
  srv_control :: "'s WorkflowControl"
  srv_approvals :: "'s ApprovalService"
  srv_queries :: "'s QueryService"
  srv_escalation :: "'s EscalationPort"
  srv_phaseDecisions :: "'s PhaseDecisionsService option"
  srv_db :: "(gov_error + unit) option"

section \<open>Tasks\<close>

definition submitInput :: "submitTaskRequest \<Rightarrow> TaskType \<Rightarrow> TaskScope \<Rightarrow> Priority \<Rightarrow> SubmitTaskInput" where
  "submitInput req taskType taskScope priority =
     \<lparr>si_Type = taskType, si_Title = sq_Title req, si_Scope = taskScope, si_Priority = priority,
      si_Metadata = sq_Metadata req\<rparr>"

definition handleSubmitTask :: "TimeEnv \<Rightarrow> 's Server \<Rightarrow> HttpRequest \<Rightarrow> ('s, HttpResponse) go" where
  "handleSubmitTask z s r =
     decoded (decodeSubmitTask (hq_Body r)) (\<lambda>req.
     orReject ''INVALID_TASK_TYPE'' (NewTaskType (sq_Type req)) (\<lambda>taskType.
     orReject ''INVALID_TASK_SCOPE'' (NewTaskScope (sq_Scope req)) (\<lambda>taskScope.
     orReject ''INVALID_PRIORITY'' (NewPriority (sq_Priority req)) (\<lambda>priority.
     answer StatusInternalServerError ''SUBMIT_FAILED''
       (gs_SubmitTask (srv_governance s) (hq_Ctx r) (submitInput req taskType taskScope priority)) (\<lambda>result.
     writeJSON StatusCreatedHTTP (jsonTask (taskToResponse z result)))))))"

definition handleGetTask :: "Host \<Rightarrow> TimeEnv \<Rightarrow> 's Server \<Rightarrow> (string \<Rightarrow> string) \<Rightarrow> HttpRequest \<Rightarrow> ('s, HttpResponse) go" where
  "handleGetTask host z s param r =
     orReject ''INVALID_TASK_ID'' (NewTaskID (h_validULID host) (param ''taskID'')) (\<lambda>taskID.
     answer StatusNotFound ''TASK_NOT_FOUND'' (qs_GetTask (srv_queries s) (hq_Ctx r) taskID) (\<lambda>result.
     writeJSON StatusOK (jsonTask (taskToResponse z result))))"

definition handleRouteTask :: "Host \<Rightarrow> TimeEnv \<Rightarrow> 's Server \<Rightarrow> (string \<Rightarrow> string) \<Rightarrow> HttpRequest \<Rightarrow> ('s, HttpResponse) go" where
  "handleRouteTask host z s param r =
     orReject ''INVALID_TASK_ID'' (NewTaskID (h_validULID host) (param ''taskID'')) (\<lambda>taskID.
     answer StatusInternalServerError ''ROUTE_FAILED'' (gs_RouteTask (srv_governance s) (hq_Ctx r) taskID) (\<lambda>result.
     writeJSON StatusOK (jsonRouting (routingDecisionToResponse z result))))"

definition handleEvaluatePolicy :: "Host \<Rightarrow> TimeEnv \<Rightarrow> 's Server \<Rightarrow> (string \<Rightarrow> string) \<Rightarrow> HttpRequest \<Rightarrow> ('s, HttpResponse) go" where
  "handleEvaluatePolicy host z s param r =
     orReject ''INVALID_TASK_ID'' (NewTaskID (h_validULID host) (param ''taskID'')) (\<lambda>taskID.
     decoded (decodeEvaluatePolicy (hq_Body r)) (\<lambda>req.
     if eq_Action req = [] then writeError StatusBadRequest ''MISSING_ACTION'' (Text ''action is required'')
     else
     answer StatusInternalServerError ''EVALUATE_POLICY_FAILED''
       (gs_EvaluatePolicy (srv_governance s) (hq_Ctx r) taskID (eq_Action req)) (\<lambda>result.
     writeJSON StatusOK (jsonPolicy (policyDecisionToResponse z result)))))"

definition handleStartWorkflow :: "Host \<Rightarrow> TimeEnv \<Rightarrow> 's Server \<Rightarrow> (string \<Rightarrow> string) \<Rightarrow> HttpRequest \<Rightarrow> ('s, HttpResponse) go" where
  "handleStartWorkflow host z s param r =
     orReject ''INVALID_TASK_ID'' (NewTaskID (h_validULID host) (param ''taskID'')) (\<lambda>taskID.
     answer StatusInternalServerError ''START_WORKFLOW_FAILED''
       (gs_StartWorkflow (srv_governance s) (hq_Ctx r) taskID) (\<lambda>result.
     writeJSON StatusCreatedHTTP (jsonRun (workflowRunToResponse z result))))"

text \<open>The identifier in the path is checked and then not used: a new task is made from the body.\<close>

definition handleProcessTask :: "Host \<Rightarrow> TimeEnv \<Rightarrow> 's Server \<Rightarrow> (string \<Rightarrow> string) \<Rightarrow> HttpRequest \<Rightarrow> ('s, HttpResponse) go" where
  "handleProcessTask host z s param r =
     orReject ''INVALID_TASK_ID'' (NewTaskID (h_validULID host) (param ''taskID'')) (\<lambda>_.
     decoded (decodeSubmitTask (hq_Body r)) (\<lambda>req.
     orReject ''INVALID_TASK_TYPE'' (NewTaskType (sq_Type req)) (\<lambda>taskType.
     orReject ''INVALID_TASK_SCOPE'' (NewTaskScope (sq_Scope req)) (\<lambda>taskScope.
     orReject ''INVALID_PRIORITY'' (NewPriority (sq_Priority req)) (\<lambda>priority.
     if sq_Action req = [] then writeError StatusBadRequest ''MISSING_ACTION'' (Text ''action is required for process'')
     else
     answer StatusInternalServerError ''PROCESS_FAILED''
       (gs_ProcessTask (srv_governance s) (hq_Ctx r) (submitInput req taskType taskScope priority) (sq_Action req)) (\<lambda>result.
     writeJSON StatusOK (jsonProcess (processTaskResultToResponse z result))))))))"

section \<open>Workflows\<close>

definition validWorkflowStatuses :: "string list" where
  "validWorkflowStatuses =
     map WorkflowStatus_String
       [StatusCreated, StatusRouted, StatusPolicyChecked, StatusRunning, StatusAwaitingApproval, StatusApproved,
        StatusPaused, StatusCompleted, StatusFailed, StatusKilled, StatusQuarantined]"

definition listFilter :: "HttpRequest \<Rightarrow> WorkflowListFilter" where
  "listFilter r =
     (let statusParam = queryGet r ''status''; limitParam = queryGet r ''limit''; offsetParam = queryGet r ''offset''
      in \<lparr>wlf_Status = (if statusParam = [] then None else Some (WorkflowStatus statusParam)),
          wlf_TaskID = None,
          wlf_Limit =
            (if limitParam = [] then 20
             else case Atoi limitParam of Some l \<Rightarrow> (if 0 < l \<and> l \<le> 100 then l else 20) | None \<Rightarrow> 20),
          wlf_Offset =
            (if offsetParam = [] then 0
             else case Atoi offsetParam of Some off \<Rightarrow> (if 0 \<le> off then off else 0) | None \<Rightarrow> 0)\<rparr>)"

definition handleListWorkflows :: "TimeEnv \<Rightarrow> 's Server \<Rightarrow> HttpRequest \<Rightarrow> ('s, HttpResponse) go" where
  "handleListWorkflows z s r =
     (if queryGet r ''status'' \<noteq> [] \<and> queryGet r ''status'' \<notin> set validWorkflowStatuses
      then writeError StatusBadRequest ''INVALID_STATUS'' (Text (''invalid status: '' @ queryGet r ''status''))
      else
      answer StatusInternalServerError ''LIST_FAILED'' (qs_ListWorkflows (srv_queries s) (hq_Ctx r) (listFilter r)) (\<lambda>(workflows, total).
      writeJSON StatusOK
        (jObj [(''items'', JArr (map (\<lambda>w. jsonRun (workflowRunToResponse z w)) workflows)), (''total'', JNum (of_nat total))])))"

definition handleGetWorkflowStatus :: "Host \<Rightarrow> TimeEnv \<Rightarrow> 's Server \<Rightarrow> (string \<Rightarrow> string) \<Rightarrow> HttpRequest \<Rightarrow> ('s, HttpResponse) go" where
  "handleGetWorkflowStatus host z s param r =
     orReject ''INVALID_WORKFLOW_ID'' (NewWorkflowRunID (h_validULID host) (param ''workflowID'')) (\<lambda>wfID.
     answer StatusNotFound ''WORKFLOW_NOT_FOUND'' (qs_GetWorkflowStatus (srv_queries s) (hq_Ctx r) wfID) (\<lambda>result.
     writeJSON StatusOK (jsonRun (workflowRunToResponse z result))))"

definition handleKillWorkflow :: "Host \<Rightarrow> 's Server \<Rightarrow> (string \<Rightarrow> string) \<Rightarrow> HttpRequest \<Rightarrow> ('s, HttpResponse) go" where
  "handleKillWorkflow host s param r =
     orReject ''INVALID_WORKFLOW_ID'' (NewWorkflowRunID (h_validULID host) (param ''workflowID'')) (\<lambda>wfID.
     decoded (decodeWorkflowAction (hq_Body r)) (\<lambda>req.
     orReject ''INVALID_ACTOR'' (NewActorID (wq_Actor req)) (\<lambda>actor.
     answer StatusInternalServerError ''KILL_FAILED''
       (wc_KillWorkflow (srv_control s) (hq_Ctx r) wfID (wq_Reason req) actor) (\<lambda>_.
     writeJSON StatusOK (jObj [(''status'', JString ''killed'')])))))"

definition handlePauseWorkflow :: "Host \<Rightarrow> 's Server \<Rightarrow> (string \<Rightarrow> string) \<Rightarrow> HttpRequest \<Rightarrow> ('s, HttpResponse) go" where
  "handlePauseWorkflow host s param r =
     orReject ''INVALID_WORKFLOW_ID'' (NewWorkflowRunID (h_validULID host) (param ''workflowID'')) (\<lambda>wfID.
     decoded (decodeWorkflowAction (hq_Body r)) (\<lambda>req.
     orReject ''INVALID_ACTOR'' (NewActorID (wq_Actor req)) (\<lambda>actor.
     answer StatusInternalServerError ''PAUSE_FAILED''
       (wc_PauseWorkflow (srv_control s) (hq_Ctx r) wfID (wq_Reason req) actor) (\<lambda>_.
     writeJSON StatusOK (jObj [(''status'', JString ''paused'')])))))"

definition handleResumeWorkflow :: "Host \<Rightarrow> 's Server \<Rightarrow> (string \<Rightarrow> string) \<Rightarrow> HttpRequest \<Rightarrow> ('s, HttpResponse) go" where
  "handleResumeWorkflow host s param r =
     orReject ''INVALID_WORKFLOW_ID'' (NewWorkflowRunID (h_validULID host) (param ''workflowID'')) (\<lambda>wfID.
     decoded (decodeWorkflowAction (hq_Body r)) (\<lambda>req.
     orReject ''INVALID_ACTOR'' (NewActorID (wq_Actor req)) (\<lambda>actor.
     answer StatusInternalServerError ''RESUME_FAILED''
       (wc_ResumeWorkflow (srv_control s) (hq_Ctx r) wfID (wq_Reason req) actor) (\<lambda>_.
     writeJSON StatusOK (jObj [(''status'', JString ''resumed'')])))))"

text \<open>The attempt a request describes, or the code and message it is rejected with.\<close>

definition attemptBase :: "registerAttemptRequest \<Rightarrow> (string \<times> Message) + AttemptResult" where
  "attemptBase req =
     (let status = AttemptStatus (aq_Status req)
      in if status = AttemptStatusSuccess then Inr NewSuccessResult
         else if status = AttemptStatusFailure \<or> status = AttemptStatusRetry then
           (case aq_FailureStage req of
              None \<Rightarrow> Inl (''MISSING_FAILURE_STAGE'', Text ''failure_stage is required for failure/retry status'')
            | Some st \<Rightarrow>
                (case NewFailureStage st of
                   Inl e \<Rightarrow> Inl (''INVALID_FAILURE_STAGE'', ErrorText e)
                 | Inr stage \<Rightarrow>
                     (case aq_FailureCode req of
                        None \<Rightarrow> Inl (''MISSING_FAILURE_CODE'', Text ''failure_code is required for failure/retry status'')
                      | Some code \<Rightarrow>
                          (if code = [] then Inl (''MISSING_FAILURE_CODE'', Text ''failure_code is required for failure/retry status'')
                           else case aq_Retryable req of
                             None \<Rightarrow> Inl (''MISSING_RETRYABLE'', Text ''retryable is required for failure/retry status'')
                           | Some retryable \<Rightarrow>
                               (case (if status = AttemptStatusFailure then NewFailureResult stage code retryable
                                      else NewRetryResult stage code) of
                                  Inl e \<Rightarrow> Inl (''INVALID_ATTEMPT'', ErrorText e)
                                | Inr result \<Rightarrow> Inr result)))))
         else Inl (''INVALID_ATTEMPT_STATUS'', Text ''status must be success, failure, or retry''))"

definition whenSet :: "('v \<Rightarrow> 'a \<Rightarrow> 'a) \<Rightarrow> 'v option \<Rightarrow> 'a \<Rightarrow> 'a" where
  "whenSet f v x = (case v of None \<Rightarrow> x | Some y \<Rightarrow> f y x)"

definition attemptFromRequest :: "registerAttemptRequest \<Rightarrow> (string \<times> Message) + AttemptResult" where
  "attemptFromRequest req =
     (case attemptBase req of
        Inl bad \<Rightarrow> Inl bad
      | Inr attemptResult \<Rightarrow>
          Inr (whenSet WithDetail (aq_Detail req)
                (whenSet WithAgentRole (aq_AgentRole req)
                  (whenSet WithStrategy (aq_StrategyUsed req)
                    (whenSet WithToolName (aq_ToolName req) attemptResult)))))"

definition handleRegisterAttempt :: "Host \<Rightarrow> TimeEnv \<Rightarrow> 's Server \<Rightarrow> (string \<Rightarrow> string) \<Rightarrow> HttpRequest \<Rightarrow> ('s, HttpResponse) go" where
  "handleRegisterAttempt host z s param r =
     orReject ''INVALID_WORKFLOW_ID'' (NewWorkflowRunID (h_validULID host) (param ''workflowID'')) (\<lambda>wfID.
     decoded (decodeRegisterAttempt (hq_Body r)) (\<lambda>req.
     case attemptFromRequest req of
       Inl (code, message) \<Rightarrow> writeError StatusBadRequest code message
     | Inr attemptResult \<Rightarrow>
         answer StatusInternalServerError ''REGISTER_ATTEMPT_FAILED''
           (wc_RegisterAttempt (srv_control s) (hq_Ctx r) wfID attemptResult) (\<lambda>result.
         writeJSON StatusOK (jsonRun (workflowRunToResponse z result)))))"

section \<open>Approvals and escalation\<close>

definition handleGetPendingApprovals :: "TimeEnv \<Rightarrow> 's Server \<Rightarrow> HttpRequest \<Rightarrow> ('s, HttpResponse) go" where
  "handleGetPendingApprovals z s r =
     answer StatusInternalServerError ''QUERY_FAILED'' (as_GetPendingApprovals (srv_approvals s) (hq_Ctx r)) (\<lambda>results.
     writeJSON StatusOK (JArr (map (\<lambda>ar. jsonApproval (approvalRequestToResponse z ar)) results)))"

definition handleResolveApproval :: "Host \<Rightarrow> TimeEnv \<Rightarrow> 's Server \<Rightarrow> (string \<Rightarrow> string) \<Rightarrow> HttpRequest \<Rightarrow> ('s, HttpResponse) go" where
  "handleResolveApproval host z s param r =
     orReject ''INVALID_APPROVAL_ID'' (NewApprovalRequestID (h_validULID host) (param ''approvalID'')) (\<lambda>approvalID.
     decoded (decodeResolveApproval (hq_Body r)) (\<lambda>req.
     orReject ''INVALID_ACTOR'' (NewActorID (rq_ResolvedBy req)) (\<lambda>resolvedBy.
     answer StatusInternalServerError ''RESOLVE_FAILED''
       (as_ResolveApproval (srv_approvals s) (hq_Ctx r)
          \<lparr>ra_ApprovalRequestID = approvalID, ra_Approved = rq_Approved req, ra_ResolvedBy = resolvedBy,
           ra_Reason = rq_Reason req\<rparr>) (\<lambda>result.
     writeJSON StatusOK (jsonApproval (approvalRequestToResponse z result))))))"

definition handleTriggerEscalation :: "Host \<Rightarrow> TimeEnv \<Rightarrow> 's Server \<Rightarrow> (string \<Rightarrow> string) \<Rightarrow> HttpRequest \<Rightarrow> ('s, HttpResponse) go" where
  "handleTriggerEscalation host z s param r =
     orReject ''INVALID_TASK_ID'' (NewTaskID (h_validULID host) (param ''taskID'')) (\<lambda>taskID.
     decoded (decodeTriggerEscalation (hq_Body r)) (\<lambda>req.
     if tq_ConditionType req = []
     then writeError StatusBadRequest ''MISSING_CONDITION_TYPE'' (Text ''condition_type is required'')
     else
     orReject ''INVALID_ESCALATION_TARGET'' (NewEscalationTarget (tq_Target req)) (\<lambda>target.
     answer StatusInternalServerError ''ESCALATION_FAILED''
       (ep_TriggerEscalation (srv_escalation s) (hq_Ctx r) taskID
          \<lparr>ec_Type = tq_ConditionType req, ec_Parameters = tq_ConditionParams req\<rparr> target) (\<lambda>trigger.
     writeJSON StatusCreatedHTTP (jsonEscalation (escalationTriggerToResponse z trigger))))))"

section \<open>Audit and breakers\<close>

definition optionalParam :: "HttpRequest \<Rightarrow> string \<Rightarrow> string \<Rightarrow> (string \<Rightarrow> gov_error + 'a) \<Rightarrow>
    ('a option \<Rightarrow> ('s, HttpResponse) go) \<Rightarrow> ('s, HttpResponse) go" where
  "optionalParam r key code parse k =
     (if queryGet r key = [] then k None else orReject code (parse (queryGet r key)) (\<lambda>x. k (Some x)))"

definition naturalParam :: "HttpRequest \<Rightarrow> string \<Rightarrow> string \<Rightarrow> string \<Rightarrow> (int \<Rightarrow> ('s, HttpResponse) go) \<Rightarrow> ('s, HttpResponse) go" where
  "naturalParam r key code message k =
     (if queryGet r key = [] then k 0
      else case Atoi (queryGet r key) of
        None \<Rightarrow> writeError StatusBadRequest code (Text message)
      | Some n \<Rightarrow> (if n < 0 then writeError StatusBadRequest code (Text message) else k n))"

definition handleQueryAuditTrail :: "Host \<Rightarrow> TimeEnv \<Rightarrow> 's Server \<Rightarrow> HttpRequest \<Rightarrow> ('s, HttpResponse) go" where
  "handleQueryAuditTrail host z s r =
     optionalParam r ''task_id'' ''INVALID_TASK_ID'' (NewTaskID (h_validULID host)) (\<lambda>taskID.
     optionalParam r ''workflow_run_id'' ''INVALID_WORKFLOW_ID'' (NewWorkflowRunID (h_validULID host)) (\<lambda>wfID.
     optionalParam r ''actor'' ''INVALID_ACTOR'' NewActorID (\<lambda>actor.
     naturalParam r ''limit'' ''INVALID_LIMIT'' ''limit must be a non-negative integer'' (\<lambda>limit.
     naturalParam r ''offset'' ''INVALID_OFFSET'' ''offset must be a non-negative integer'' (\<lambda>offset.
     answer StatusInternalServerError ''QUERY_FAILED''
       (qs_QueryAuditTrail (srv_queries s) (hq_Ctx r)
          \<lparr>af_TaskID = taskID, af_WorkflowRunID = wfID, af_Actor = actor,
           af_Action = (if queryGet r ''action'' = [] then None else Some (queryGet r ''action'')),
           af_CreatedAfter = None, af_CreatedBefore = None, af_Limit = limit, af_Offset = offset\<rparr>) (\<lambda>(entries, total).
     writeJSON StatusOK
       (jObj [(''entries'', JArr (map (\<lambda>e. jsonAudit (auditEntryToResponse z e)) entries)), (''total'', JNum (of_nat total))])))))))"

definition handleListBreakers :: "'s Server \<Rightarrow> HttpRequest \<Rightarrow> ('s, HttpResponse) go" where
  "handleListBreakers s r =
     (if queryGet r ''state'' \<noteq> [] \<and> queryGet r ''state'' \<notin> {''closed'', ''open'', ''half_open''}
      then writeError StatusBadRequest ''INVALID_STATE'' (Text ''state must be one of: closed, open, half_open'')
      else
      let present = (\<lambda>k. if queryGet r k = [] then None else Some (queryGet r k))
      in answer StatusInternalServerError ''LIST_FAILED''
           (qs_ListBreakers (srv_queries s) (hq_Ctx r)
              \<lparr>bf_State = map_option BreakerState (present ''state''), bf_ToolName = present ''tool_name'',
               bf_AgentRole = present ''agent_role''\<rparr>) (\<lambda>snapshots.
         writeJSON StatusOK
           (jObj [(''items'', JArr (map (\<lambda>b. jsonBreaker (breakerToResponse b)) snapshots)),
                  (''total'', JNum (of_nat (length snapshots)))])))"

section \<open>Phase decisions\<close>

definition whenWired :: "'s Server \<Rightarrow> ('s PhaseDecisionsService \<Rightarrow> ('s, HttpResponse) go) \<Rightarrow> ('s, HttpResponse) go" where
  "whenWired s k =
     (case srv_phaseDecisions s of
        None \<Rightarrow> writeError StatusServiceUnavailable ''NOT_CONFIGURED'' (Text ''phase decisions service not wired'')
      | Some d \<Rightarrow> k d)"

text \<open>\<^verbatim>\<open>errors.Is(err, govdecisions.ErrInvalidInput)\<close>.\<close>

definition invalidInput :: "gov_error \<Rightarrow> bool" where
  "invalidInput e \<longleftrightarrow> (case root_cause e of ErrInvalidInput _ \<Rightarrow> True | _ \<Rightarrow> False)"

definition decide :: "string \<Rightarrow> ('s, 'a) go \<Rightarrow> ('a \<Rightarrow> ('s, HttpResponse) go) \<Rightarrow> ('s, HttpResponse) go" where
  "decide code m k =
     bindR m (\<lambda>r.
     case r of
       Inl e \<Rightarrow> (if invalidInput e then writeError StatusBadRequest ''INVALID_INPUT'' (ErrorText e)
                else writeError StatusInternalServerError code (ErrorText e))
     | Inr x \<Rightarrow> k x)"

definition handleDecisionPhase :: "'s Server \<Rightarrow> HttpRequest \<Rightarrow> ('s, HttpResponse) go" where
  "handleDecisionPhase s r =
     whenWired s (\<lambda>svc.
     decoded (decodeDecisionPhase (hq_Body r)) (\<lambda>req.
     decide ''DECISION_FAILED''
       (ds_EvaluatePhase svc (hq_Ctx r)
          \<lparr>pi_ChangeID = dq_ChangeID req, pi_PhaseType = dq_PhaseType req, pi_TaskDescription = dq_TaskDescription req,
           pi_Sensitive = dq_Sensitive req\<rparr>) (\<lambda>dec.
     writeJSON StatusOK (jsonDecision (toDecisionPayload dec)))))"

text \<open>The service does not look at the payload, which the model of its input leaves out.\<close>

definition handleDecisionSensitive :: "'s Server \<Rightarrow> HttpRequest \<Rightarrow> ('s, HttpResponse) go" where
  "handleDecisionSensitive s r =
     whenWired s (\<lambda>svc.
     decoded (decodeDecisionSensitive (hq_Body r)) (\<lambda>req.
     decide ''DECISION_FAILED''
       (ds_EvaluateSensitive svc (hq_Ctx r) \<lparr>sd_ChangeID = nq_ChangeID req, sd_Capability = nq_Capability req\<rparr>) (\<lambda>dec.
     writeJSON StatusOK (jsonDecision (toDecisionPayload dec)))))"

definition handleApprovalStatus :: "'s Server \<Rightarrow> (string \<Rightarrow> string) \<Rightarrow> HttpRequest \<Rightarrow> ('s, HttpResponse) go" where
  "handleApprovalStatus s param r =
     whenWired s (\<lambda>svc.
     decide ''APPROVAL_LOOKUP_FAILED''
       (ds_ApprovalStatusFor svc (hq_Ctx r) (param ''change_id'') (param ''phase_id'')) (\<lambda>status.
     writeJSON StatusOK (jObj [(''status'', JString status)])))"

section \<open>Probes\<close>

definition handleHealth :: "HttpRequest \<Rightarrow> ('s, HttpResponse) go" where
  "handleHealth r = writeJSON StatusOK (jObj [(''status'', JString ''ok'')])"

text \<open>The readiness body \<open>{"status": \<dots>, "checks": {"db": \<dots>}}\<close>; the ping is bounded by two seconds.\<close>

definition handleReady :: "'s Server \<Rightarrow> HttpRequest \<Rightarrow> ('s, HttpResponse) go" where
  "handleReady s r =
     (case srv_db s of
        None \<Rightarrow> ret \<lparr>hp_Status = StatusServiceUnavailable, hp_Body = ReadyBody ''degraded'' (Text ''not configured'')\<rparr>
      | Some (Inl e) \<Rightarrow> ret \<lparr>hp_Status = StatusServiceUnavailable, hp_Body = ReadyBody ''degraded'' (ErrorText e)\<rparr>
      | Some (Inr _) \<Rightarrow> ret \<lparr>hp_Status = StatusOK, hp_Body = ReadyBody ''ready'' (Text ''ok'')\<rparr>)"

end
