(* ===== verification/Telemetry.thy ===== *)
theory Telemetry
  imports Inbound
begin

text \<open>
  The decorators that stand in front of the services when OpenTelemetry is enabled:
  \<^verbatim>\<open>adapters/inbound/metrics\<close> and \<^verbatim>\<open>adapters/inbound/tracing\<close>. A decorator takes a service and gives a
  service. The tracer and the meter are third-party code: starting a span gives it a number and, through
  the host, the identifiers that the context then carries; what the code does with the span afterwards is
  kept in the state. A measurement is appended to the measurements of the world.
\<close>

section \<open>Instruments\<close>

text \<open>
  \<open>mtr kind name description unit\<close> creates an instrument, or refuses. The fields of the record are the
  instruments; the events of \<open>MetricEvent\<close> are their uses.
\<close>

datatype InstrumentKind = Int64Counter | Float64Histogram

record 'i Instruments =
  in_TasksSubmitted :: 'i
  in_TasksCompleted :: 'i
  in_RoutingDuration :: 'i
  in_PolicyDuration :: 'i
  in_PolicyOutcomes :: 'i
  in_WorkflowDuration :: 'i
  in_WorkflowTransitions :: 'i
  in_ApprovalWait :: 'i
  in_ExecutionAttempts :: 'i
  in_ExecutionFailures :: 'i
  in_MemoryDuration :: 'i
  in_MemoryDegraded :: 'i
  in_CircuitBreakerTransitions :: 'i
  in_CircuitBreakerTrips :: 'i

definition NewInstruments ::
  "(InstrumentKind \<Rightarrow> string \<Rightarrow> string \<Rightarrow> string \<Rightarrow> gov_error + 'i) \<Rightarrow> gov_error + 'i Instruments" where
  "NewInstruments mtr =
     andThen (mtr Int64Counter ''governance.tasks.submitted''
       ''Number of tasks submitted to the governance pipeline'' []) (\<lambda>tasksSubmitted.
     andThen (mtr Int64Counter ''governance.tasks.completed''
       ''Number of tasks that completed processing'' []) (\<lambda>tasksCompleted.
     andThen (mtr Float64Histogram ''governance.routing.duration_ms''
       ''Time spent evaluating routing strategies'' ''ms'') (\<lambda>routingDuration.
     andThen (mtr Float64Histogram ''governance.policy.duration_ms''
       ''Time spent evaluating policy rules'' ''ms'') (\<lambda>policyDuration.
     andThen (mtr Int64Counter ''governance.policy.outcomes''
       ''Count of policy evaluation outcomes by type'' []) (\<lambda>policyOutcomes.
     andThen (mtr Float64Histogram ''governance.workflow.duration_ms''
       ''Total workflow execution duration'' ''ms'') (\<lambda>workflowDuration.
     andThen (mtr Int64Counter ''governance.workflow.transitions''
       ''Count of workflow state transitions'' []) (\<lambda>workflowTransitions.
     andThen (mtr Float64Histogram ''governance.approval.wait_ms''
       ''Time spent waiting for approval'' ''ms'') (\<lambda>approvalWait.
     andThen (mtr Float64Histogram ''governance.execution.attempts''
       ''Distribution of execution attempt counts'' []) (\<lambda>executionAttempts.
     andThen (mtr Int64Counter ''governance.execution.failures''
       ''Count of execution failures'' []) (\<lambda>executionFailures.
     andThen (mtr Float64Histogram ''governance.memory.duration_ms''
       ''Time spent on memory context operations'' ''ms'') (\<lambda>memoryDuration.
     andThen (mtr Int64Counter ''governance.memory.degraded''
       ''Count of degraded memory context events'' []) (\<lambda>memoryDegraded.
     andThen (mtr Int64Counter ''governance.circuit_breaker.transitions''
       ''Number of circuit breaker state transitions'' []) (\<lambda>cbTransitions.
     andThen (mtr Int64Counter ''governance.circuit_breaker.trips''
       (''Number of CLOSED'' @ map char_of [0xE2, 0x86, 0x92 :: nat] @ ''OPEN transitions by trip reason'') []) (\<lambda>cbTrips.
     Inr \<lparr>in_TasksSubmitted = tasksSubmitted, in_TasksCompleted = tasksCompleted,
          in_RoutingDuration = routingDuration, in_PolicyDuration = policyDuration,
          in_PolicyOutcomes = policyOutcomes, in_WorkflowDuration = workflowDuration,
          in_WorkflowTransitions = workflowTransitions, in_ApprovalWait = approvalWait,
          in_ExecutionAttempts = executionAttempts, in_ExecutionFailures = executionFailures,
          in_MemoryDuration = memoryDuration, in_MemoryDegraded = memoryDegraded,
          in_CircuitBreakerTransitions = cbTransitions, in_CircuitBreakerTrips = cbTrips\<rparr>))))))))))))))"

section \<open>Metrics\<close>

definition measure_events :: "MetricEvent list \<Rightarrow> (Sys, unit) go" where
  "measure_events es = inWorld (modify (\<lambda>s. s\<lparr>metered := metered s @ es\<rparr>))"

definition MetricsSubmitTask :: "Sys GovernanceService \<Rightarrow> goctx \<Rightarrow> SubmitTaskInput \<Rightarrow> (Sys, Task) go" where
  "MetricsSubmitTask nxt ctx input =
     bindE (gs_SubmitTask nxt ctx input) (\<lambda>t.
     bindE (measure_events [TasksSubmitted (TaskType_String (si_Type input)) (TaskScope_String (si_Scope input))
                              (RiskLevel_String (t_riskLevel t))]) (\<lambda>_.
     ret t))"

definition MetricsRouteTask :: "Env \<Rightarrow> Sys GovernanceService \<Rightarrow> goctx \<Rightarrow> TaskID \<Rightarrow> (Sys, RoutingDecision) go" where
  "MetricsRouteTask env nxt ctx taskID =
     bindE (inWorld (timeNow env)) (\<lambda>start.
     bindE (gs_RouteTask nxt ctx taskID) (\<lambda>result.
     bindE (inWorld (sinceMs env start)) (\<lambda>elapsed.
     let overridden = (case rd_evaluatedStrategies result of
                         [] \<Rightarrow> ''false''
                       | e # _ \<Rightarrow> (if se_Overridden e then ''true'' else ''false''))
     in bindE (measure_events [RoutingDuration (RoutingStrategy_String (rd_selectedStrategy result)) overridden elapsed]) (\<lambda>_.
     ret result))))"

definition MetricsEvaluatePolicy :: "Env \<Rightarrow> Sys GovernanceService \<Rightarrow> goctx \<Rightarrow> TaskID \<Rightarrow> string \<Rightarrow> (Sys, PolicyDecision) go" where
  "MetricsEvaluatePolicy env nxt ctx taskID action =
     bindE (inWorld (timeNow env)) (\<lambda>start.
     bindE (gs_EvaluatePolicy nxt ctx taskID action) (\<lambda>result.
     bindE (inWorld (sinceMs env start)) (\<lambda>elapsed.
     let outcomeLabel = PolicyOutcome_String (pd_outcome result)
     in bindE (measure_events [PolicyDuration outcomeLabel elapsed, PolicyOutcomes outcomeLabel]) (\<lambda>_.
     ret result))))"

definition MetricsGovernanceService :: "Env \<Rightarrow> Sys GovernanceService \<Rightarrow> Sys GovernanceService" where
  "MetricsGovernanceService env nxt =
     \<lparr>gs_SubmitTask = MetricsSubmitTask nxt,
      gs_ProcessTask = gs_ProcessTask nxt,
      gs_RouteTask = MetricsRouteTask env nxt,
      gs_EvaluatePolicy = MetricsEvaluatePolicy env nxt,
      gs_StartWorkflow = gs_StartWorkflow nxt\<rparr>"

definition MetricsRegisterAttempt :: "Sys WorkflowControl \<Rightarrow> goctx \<Rightarrow> WorkflowRunID \<Rightarrow> AttemptResult \<Rightarrow> (Sys, WorkflowRun) go" where
  "MetricsRegisterAttempt nxt ctx i result =
     bindE (wc_RegisterAttempt nxt ctx i result) (\<lambda>run.
     bindE (measure_events [ExecutionAttempts
       ((case at_StrategyUsed result of None \<Rightarrow> [] | Some s \<Rightarrow> [(''strategy'', s)]) @
        (case at_AgentRole result of None \<Rightarrow> [] | Some r \<Rightarrow> [(''agent_role'', r)]))]) (\<lambda>_.
     ret run))"

definition MetricsKillWorkflow :: "Sys WorkflowControl \<Rightarrow> goctx \<Rightarrow> WorkflowRunID \<Rightarrow> string \<Rightarrow> ActorID \<Rightarrow> (Sys, unit) go" where
  "MetricsKillWorkflow nxt ctx i reason actor =
     bindE (wc_KillWorkflow nxt ctx i reason actor) (\<lambda>_. measure_events [WorkflowTransitions ''killed''])"

definition MetricsPauseWorkflow :: "Sys WorkflowControl \<Rightarrow> goctx \<Rightarrow> WorkflowRunID \<Rightarrow> string \<Rightarrow> ActorID \<Rightarrow> (Sys, unit) go" where
  "MetricsPauseWorkflow nxt ctx i reason actor =
     bindE (wc_PauseWorkflow nxt ctx i reason actor) (\<lambda>_. measure_events [WorkflowTransitions ''paused''])"

definition MetricsResumeWorkflow :: "Sys WorkflowControl \<Rightarrow> goctx \<Rightarrow> WorkflowRunID \<Rightarrow> string \<Rightarrow> ActorID \<Rightarrow> (Sys, unit) go" where
  "MetricsResumeWorkflow nxt ctx i reason actor =
     bindE (wc_ResumeWorkflow nxt ctx i reason actor) (\<lambda>_. measure_events [WorkflowTransitions ''resumed''])"

definition MetricsWorkflowControl :: "Sys WorkflowControl \<Rightarrow> Sys WorkflowControl" where
  "MetricsWorkflowControl nxt =
     \<lparr>wc_KillWorkflow = MetricsKillWorkflow nxt,
      wc_PauseWorkflow = MetricsPauseWorkflow nxt,
      wc_ResumeWorkflow = MetricsResumeWorkflow nxt,
      wc_RegisterAttempt = MetricsRegisterAttempt nxt\<rparr>"

section \<open>Spans\<close>

definition updSpan :: "nat \<Rightarrow> (Span \<Rightarrow> Span) \<Rightarrow> (Sys, unit) go" where
  "updSpan n f = modify (\<lambda>S. S\<lparr>sys_spans := (sys_spans S)[n := f (sys_spans S ! n)]\<rparr>)"

definition startSpan :: "string \<Rightarrow> (string \<times> any) list \<Rightarrow> (Sys, nat) go" where
  "startSpan name attrs S =
     (Inr (length (sys_spans S)),
      S\<lparr>sys_spans := sys_spans S @ [\<lparr>sp_Name = name, sp_Attributes = attrs, sp_Error = None, sp_Ended = False\<rparr>]\<rparr>)"

definition setAttributes :: "nat \<Rightarrow> (string \<times> any) list \<Rightarrow> (Sys, unit) go" where
  "setAttributes n attrs = updSpan n (\<lambda>sp. sp\<lparr>sp_Attributes := sp_Attributes sp @ attrs\<rparr>)"

definition recordError :: "nat \<Rightarrow> gov_error \<Rightarrow> (Sys, unit) go" where
  "recordError n e = updSpan n (\<lambda>sp. sp\<lparr>sp_Error := Some e\<rparr>)"

definition endSpan :: "nat \<Rightarrow> (Sys, unit) go" where
  "endSpan n = updSpan n (\<lambda>sp. sp\<lparr>sp_Ended := True\<rparr>)"

text \<open>\<^verbatim>\<open>defer\<close>: what was deferred runs on every way out, a panic included.\<close>

definition deferred :: "('s, unit) go \<Rightarrow> ('s, 'a) go \<Rightarrow> ('s, 'a) go" where
  "deferred d m s = (case m s of (r, t) \<Rightarrow> (r, snd (d t)))"

text \<open>
  The shape every traced method has: start a span, end it on the way out, call the service with the
  context of the span, and mark the span with the error or with attributes of the result.
\<close>

definition traced ::
  "Host \<Rightarrow> goctx \<Rightarrow> string \<Rightarrow> (string \<times> any) list \<Rightarrow> (goctx \<Rightarrow> (Sys, 'a) go) \<Rightarrow> ('a \<Rightarrow> (string \<times> any) list) \<Rightarrow> (Sys, 'a) go" where
  "traced host ctx name attrs call resultAttrs =
     bindE (startSpan name attrs) (\<lambda>n.
     deferred (endSpan n)
       (bindR (call (h_tracer host n ctx)) (\<lambda>r.
        case r of
          Inl e \<Rightarrow> bindE (recordError n e) (\<lambda>_. throw e)
        | Inr x \<Rightarrow> bindE (setAttributes n (resultAttrs x)) (\<lambda>_. ret x))))"

definition tracedPlain :: "Host \<Rightarrow> goctx \<Rightarrow> string \<Rightarrow> (goctx \<Rightarrow> (Sys, 'a) go) \<Rightarrow> (Sys, 'a) go" where
  "tracedPlain host ctx name call =
     bindE (startSpan name []) (\<lambda>n. deferred (endSpan n) (call (h_tracer host n ctx)))"

section \<open>Traced services\<close>

abbreviation strAttr :: "string \<Rightarrow> string \<Rightarrow> string \<times> any" where
  "strAttr k v \<equiv> (k, AString v)"

definition wasOverridden :: "RoutingDecision \<Rightarrow> bool" where
  "wasOverridden d \<longleftrightarrow> list_ex (\<lambda>eval. se_Strategy eval = rd_selectedStrategy d \<and> se_Overridden eval) (rd_evaluatedStrategies d)"

definition spanCategory :: "string \<Rightarrow> string" where
  "spanCategory code = beforeByte (CHR ''/'') code"

definition TracedSubmitTask :: "Host \<Rightarrow> Sys GovernanceService \<Rightarrow> goctx \<Rightarrow> SubmitTaskInput \<Rightarrow> (Sys, Task) go" where
  "TracedSubmitTask host nxt ctx input =
     traced host ctx ''GovernanceService.SubmitTask''
       [strAttr ''governance.action'' ''SubmitTask'',
        strAttr ''governance.task_type'' (TaskType_String (si_Type input)),
        strAttr ''governance.task_scope'' (TaskScope_String (si_Scope input))]
       (\<lambda>ctx. gs_SubmitTask nxt ctx input)
       (\<lambda>result.
          [strAttr ''governance.task_id'' (t_id result),
           strAttr ''governance.risk_level'' (RiskLevel_String (t_riskLevel result)),
           strAttr ''governance.outcome'' ''submitted''])"

definition TracedProcessTask :: "Host \<Rightarrow> Sys GovernanceService \<Rightarrow> goctx \<Rightarrow> SubmitTaskInput \<Rightarrow> string \<Rightarrow> (Sys, ProcessTaskResult) go" where
  "TracedProcessTask host nxt ctx input action =
     traced host ctx ''GovernanceService.ProcessTask''
       [strAttr ''governance.action'' ''ProcessTask'',
        strAttr ''governance.task_type'' (TaskType_String (si_Type input)),
        strAttr ''governance.task_scope'' (TaskScope_String (si_Scope input))]
       (\<lambda>ctx. gs_ProcessTask nxt ctx input action)
       (\<lambda>result.
          [strAttr ''governance.task_id'' (t_id (ptr_Task result)),
           strAttr ''governance.outcome'' ''processed''])"

text \<open>The adaptive attributes come from the first adjusted evaluation of the selected strategy.\<close>

definition adaptiveAttrs :: "RoutingDecision \<Rightarrow> (string \<times> any) list" where
  "adaptiveAttrs result =
     (let evals = rd_evaluatedStrategies result;
          hasAdaptive = list_ex (\<lambda>eval. se_AdaptiveAdjustment eval \<noteq> None) evals
      in (''governance.adaptive_applied'', ABool hasAdaptive) #
         (case List.find (\<lambda>eval. se_Strategy eval = rd_selectedStrategy result \<and> se_AdaptiveAdjustment eval \<noteq> None) evals of
            None \<Rightarrow> []
          | Some eval \<Rightarrow>
              (case se_AdaptiveAdjustment eval of
                 None \<Rightarrow> []
               | Some adj \<Rightarrow>
                   [(''governance.adaptive_final_adjustment'', AFloat (aa_FinalAdjustment adj)),
                    (''governance.adaptive_failure_rate'', AFloat (aa_FailureRate adj)),
                    (''governance.adaptive_confidence'', AFloat (aa_Confidence adj)),
                    (''governance.adaptive_sample_size'', AInt (aa_SampleSize adj)),
                    strAttr ''governance.adaptive_granularity'' (aa_Granularity adj)])))"

definition TracedRouteTask :: "Host \<Rightarrow> Sys GovernanceService \<Rightarrow> goctx \<Rightarrow> TaskID \<Rightarrow> (Sys, RoutingDecision) go" where
  "TracedRouteTask host nxt ctx taskID =
     traced host ctx ''GovernanceService.RouteTask''
       [strAttr ''governance.action'' ''RouteTask'', strAttr ''governance.task_id'' taskID]
       (\<lambda>ctx. gs_RouteTask nxt ctx taskID)
       (\<lambda>result.
          [strAttr ''governance.strategy'' (RoutingStrategy_String (rd_selectedStrategy result)),
           (''governance.strategy_overridden'', ABool (wasOverridden result)),
           strAttr ''governance.agent_role'' (AgentRole_String (rd_selectedAgentRole result)),
           strAttr ''governance.outcome'' ''routed''] @ adaptiveAttrs result)"

definition TracedEvaluatePolicy :: "Host \<Rightarrow> Sys GovernanceService \<Rightarrow> goctx \<Rightarrow> TaskID \<Rightarrow> string \<Rightarrow> (Sys, PolicyDecision) go" where
  "TracedEvaluatePolicy host nxt ctx taskID action =
     traced host ctx ''GovernanceService.EvaluatePolicy''
       [strAttr ''governance.action'' ''EvaluatePolicy'', strAttr ''governance.task_id'' taskID]
       (\<lambda>ctx. gs_EvaluatePolicy nxt ctx taskID action)
       (\<lambda>result.
          [strAttr ''governance.policy_outcome'' (PolicyOutcome_String (pd_outcome result)),
           strAttr ''governance.outcome'' ''evaluated''])"

definition TracedStartWorkflow :: "Host \<Rightarrow> Sys GovernanceService \<Rightarrow> goctx \<Rightarrow> TaskID \<Rightarrow> (Sys, WorkflowRun) go" where
  "TracedStartWorkflow host nxt ctx taskID =
     traced host ctx ''GovernanceService.StartWorkflow''
       [strAttr ''governance.action'' ''StartWorkflow'', strAttr ''governance.task_id'' taskID]
       (\<lambda>ctx. gs_StartWorkflow nxt ctx taskID)
       (\<lambda>result.
          [strAttr ''governance.workflow_run_id'' (w_ID result),
           strAttr ''governance.workflow_status'' (WorkflowStatus_String (w_Status result)),
           strAttr ''governance.outcome'' ''started''])"

definition TracedGovernanceService :: "Host \<Rightarrow> Sys GovernanceService \<Rightarrow> Sys GovernanceService" where
  "TracedGovernanceService host nxt =
     \<lparr>gs_SubmitTask = TracedSubmitTask host nxt,
      gs_ProcessTask = TracedProcessTask host nxt,
      gs_RouteTask = TracedRouteTask host nxt,
      gs_EvaluatePolicy = TracedEvaluatePolicy host nxt,
      gs_StartWorkflow = TracedStartWorkflow host nxt\<rparr>"

definition TracedKillWorkflow :: "Host \<Rightarrow> Sys WorkflowControl \<Rightarrow> goctx \<Rightarrow> WorkflowRunID \<Rightarrow> string \<Rightarrow> ActorID \<Rightarrow> (Sys, unit) go" where
  "TracedKillWorkflow host nxt ctx i reason actor =
     traced host ctx ''WorkflowControl.KillWorkflow''
       [strAttr ''governance.action'' ''KillWorkflow'', strAttr ''governance.workflow_run_id'' i,
        strAttr ''governance.kill_reason'' reason]
       (\<lambda>ctx. wc_KillWorkflow nxt ctx i reason actor) (\<lambda>_. [strAttr ''governance.outcome'' ''killed''])"

definition TracedPauseWorkflow :: "Host \<Rightarrow> Sys WorkflowControl \<Rightarrow> goctx \<Rightarrow> WorkflowRunID \<Rightarrow> string \<Rightarrow> ActorID \<Rightarrow> (Sys, unit) go" where
  "TracedPauseWorkflow host nxt ctx i reason actor =
     traced host ctx ''WorkflowControl.PauseWorkflow''
       [strAttr ''governance.action'' ''PauseWorkflow'', strAttr ''governance.workflow_run_id'' i]
       (\<lambda>ctx. wc_PauseWorkflow nxt ctx i reason actor) (\<lambda>_. [strAttr ''governance.outcome'' ''success''])"

definition TracedResumeWorkflow :: "Host \<Rightarrow> Sys WorkflowControl \<Rightarrow> goctx \<Rightarrow> WorkflowRunID \<Rightarrow> string \<Rightarrow> ActorID \<Rightarrow> (Sys, unit) go" where
  "TracedResumeWorkflow host nxt ctx i reason actor =
     traced host ctx ''WorkflowControl.ResumeWorkflow''
       [strAttr ''governance.action'' ''ResumeWorkflow'', strAttr ''governance.workflow_run_id'' i]
       (\<lambda>ctx. wc_ResumeWorkflow nxt ctx i reason actor) (\<lambda>_. [strAttr ''governance.outcome'' ''success''])"

definition TracedRegisterAttempt :: "Host \<Rightarrow> Sys WorkflowControl \<Rightarrow> goctx \<Rightarrow> WorkflowRunID \<Rightarrow> AttemptResult \<Rightarrow> (Sys, WorkflowRun) go" where
  "TracedRegisterAttempt host nxt ctx i result =
     traced host ctx ''WorkflowControl.RegisterAttempt''
       [strAttr ''governance.action'' ''RegisterAttempt'', strAttr ''governance.workflow_run_id'' i,
        strAttr ''governance.attempt_status'' (AttemptStatus_String (at_Status result))]
       (\<lambda>ctx. wc_RegisterAttempt nxt ctx i result)
       (\<lambda>run.
          strAttr ''governance.outcome'' (WorkflowStatus_String (w_Status run)) #
          (case at_FailureStage result of None \<Rightarrow> [] | Some st \<Rightarrow> [strAttr ''governance.failure_stage'' (FailureStage_String st)]) @
          (case at_FailureCode result of
             None \<Rightarrow> []
           | Some code \<Rightarrow> (if code = [] then [] else [strAttr ''governance.failure_category'' (spanCategory code)])))"

definition TracedWorkflowControl :: "Host \<Rightarrow> Sys WorkflowControl \<Rightarrow> Sys WorkflowControl" where
  "TracedWorkflowControl host nxt =
     \<lparr>wc_KillWorkflow = TracedKillWorkflow host nxt,
      wc_PauseWorkflow = TracedPauseWorkflow host nxt,
      wc_ResumeWorkflow = TracedResumeWorkflow host nxt,
      wc_RegisterAttempt = TracedRegisterAttempt host nxt\<rparr>"

definition TracedResolveApproval :: "Host \<Rightarrow> Sys ApprovalService \<Rightarrow> goctx \<Rightarrow> ResolveApprovalInput \<Rightarrow> (Sys, ApprovalRequest) go" where
  "TracedResolveApproval host nxt ctx input =
     traced host ctx ''ApprovalService.ResolveApproval''
       [strAttr ''governance.action'' ''ResolveApproval'',
        strAttr ''governance.approval_request_id'' (ra_ApprovalRequestID input),
        (''governance.approved'', ABool (ra_Approved input))]
       (\<lambda>ctx. as_ResolveApproval nxt ctx input) (\<lambda>_. [strAttr ''governance.outcome'' ''success''])"

definition TracedGetPendingApprovals :: "Host \<Rightarrow> Sys ApprovalService \<Rightarrow> goctx \<Rightarrow> (Sys, ApprovalRequest list) go" where
  "TracedGetPendingApprovals host nxt ctx =
     traced host ctx ''ApprovalService.GetPendingApprovals''
       [strAttr ''governance.action'' ''GetPendingApprovals'']
       (as_GetPendingApprovals nxt) (\<lambda>_. [strAttr ''governance.outcome'' ''success''])"

definition TracedApprovalService :: "Host \<Rightarrow> Sys ApprovalService \<Rightarrow> Sys ApprovalService" where
  "TracedApprovalService host nxt =
     \<lparr>as_ResolveApproval = TracedResolveApproval host nxt,
      as_GetPendingApprovals = TracedGetPendingApprovals host nxt\<rparr>"

definition TracedTriggerEscalation ::
  "Host \<Rightarrow> Sys EscalationPort \<Rightarrow> goctx \<Rightarrow> TaskID \<Rightarrow> EscalationCondition \<Rightarrow> EscalationTarget \<Rightarrow> (Sys, EscalationTrigger) go" where
  "TracedTriggerEscalation host nxt ctx taskID condition target =
     traced host ctx ''EscalationPort.TriggerEscalation''
       [strAttr ''governance.action'' ''TriggerEscalation'', strAttr ''governance.task_id'' taskID]
       (\<lambda>ctx. ep_TriggerEscalation nxt ctx taskID condition target) (\<lambda>_. [strAttr ''governance.outcome'' ''success''])"

definition TracedEscalationPort :: "Host \<Rightarrow> Sys EscalationPort \<Rightarrow> Sys EscalationPort" where
  "TracedEscalationPort host nxt = \<lparr>ep_TriggerEscalation = TracedTriggerEscalation host nxt\<rparr>"

definition TracedGetTask :: "Host \<Rightarrow> Sys QueryService \<Rightarrow> goctx \<Rightarrow> TaskID \<Rightarrow> (Sys, Task) go" where
  "TracedGetTask host nxt ctx i =
     traced host ctx ''QueryService.GetTask''
       [strAttr ''governance.action'' ''GetTask'', strAttr ''governance.task_id'' i]
       (\<lambda>ctx. qs_GetTask nxt ctx i) (\<lambda>_. [strAttr ''governance.outcome'' ''success''])"

definition TracedGetWorkflowStatus :: "Host \<Rightarrow> Sys QueryService \<Rightarrow> goctx \<Rightarrow> WorkflowRunID \<Rightarrow> (Sys, WorkflowRun) go" where
  "TracedGetWorkflowStatus host nxt ctx i =
     traced host ctx ''QueryService.GetWorkflowStatus''
       [strAttr ''governance.action'' ''GetWorkflowStatus'', strAttr ''governance.workflow_run_id'' i]
       (\<lambda>ctx. qs_GetWorkflowStatus nxt ctx i) (\<lambda>_. [strAttr ''governance.outcome'' ''success''])"

definition TracedGetWorkflowByTask :: "Host \<Rightarrow> Sys QueryService \<Rightarrow> goctx \<Rightarrow> TaskID \<Rightarrow> (Sys, WorkflowRun) go" where
  "TracedGetWorkflowByTask host nxt ctx taskID =
     traced host ctx ''QueryService.GetWorkflowByTask''
       [strAttr ''governance.action'' ''GetWorkflowByTask'', strAttr ''governance.task_id'' taskID]
       (\<lambda>ctx. qs_GetWorkflowByTask nxt ctx taskID) (\<lambda>_. [strAttr ''governance.outcome'' ''success''])"

definition TracedQueryAuditTrail :: "Host \<Rightarrow> Sys QueryService \<Rightarrow> goctx \<Rightarrow> AuditFilter \<Rightarrow> (Sys, AuditEntry list \<times> nat) go" where
  "TracedQueryAuditTrail host nxt ctx f =
     traced host ctx ''QueryService.QueryAuditTrail''
       [strAttr ''governance.action'' ''QueryAuditTrail'']
       (\<lambda>ctx. qs_QueryAuditTrail nxt ctx f) (\<lambda>_. [strAttr ''governance.outcome'' ''success''])"

definition TracedListWorkflows :: "Host \<Rightarrow> Sys QueryService \<Rightarrow> goctx \<Rightarrow> WorkflowListFilter \<Rightarrow> (Sys, WorkflowRun list \<times> nat) go" where
  "TracedListWorkflows host nxt ctx f =
     traced host ctx ''QueryService.ListWorkflows''
       [strAttr ''governance.action'' ''ListWorkflows'']
       (\<lambda>ctx. qs_ListWorkflows nxt ctx f) (\<lambda>_. [strAttr ''governance.outcome'' ''success''])"

definition TracedListBreakers :: "Host \<Rightarrow> Sys QueryService \<Rightarrow> goctx \<Rightarrow> BreakerFilter \<Rightarrow> (Sys, BreakerSnapshot list) go" where
  "TracedListBreakers host nxt ctx f =
     tracedPlain host ctx ''QueryService.ListBreakers'' (\<lambda>ctx. qs_ListBreakers nxt ctx f)"

definition TracedGetBreakerState :: "Host \<Rightarrow> Sys QueryService \<Rightarrow> goctx \<Rightarrow> string \<Rightarrow> string \<Rightarrow> (Sys, BreakerSnapshot option) go" where
  "TracedGetBreakerState host nxt ctx tool role =
     tracedPlain host ctx ''QueryService.GetBreakerState'' (\<lambda>ctx. qs_GetBreakerState nxt ctx tool role)"

definition TracedQueryService :: "Host \<Rightarrow> Sys QueryService \<Rightarrow> Sys QueryService" where
  "TracedQueryService host nxt =
     \<lparr>qs_GetTask = TracedGetTask host nxt,
      qs_GetWorkflowStatus = TracedGetWorkflowStatus host nxt,
      qs_GetWorkflowByTask = TracedGetWorkflowByTask host nxt,
      qs_QueryAuditTrail = TracedQueryAuditTrail host nxt,
      qs_ListWorkflows = TracedListWorkflows host nxt,
      qs_ListBreakers = TracedListBreakers host nxt,
      qs_GetBreakerState = TracedGetBreakerState host nxt\<rparr>"

lemmas traced_defs =
  TracedSubmitTask_def TracedProcessTask_def TracedRouteTask_def TracedEvaluatePolicy_def TracedStartWorkflow_def
  TracedKillWorkflow_def TracedPauseWorkflow_def TracedResumeWorkflow_def TracedRegisterAttempt_def
  TracedResolveApproval_def TracedGetPendingApprovals_def TracedTriggerEscalation_def TracedGetTask_def
  TracedGetWorkflowStatus_def TracedGetWorkflowByTask_def TracedQueryAuditTrail_def TracedListWorkflows_def
  TracedListBreakers_def TracedGetBreakerState_def

lemmas metrics_defs =
  MetricsSubmitTask_def MetricsRouteTask_def MetricsEvaluatePolicy_def MetricsRegisterAttempt_def
  MetricsKillWorkflow_def MetricsPauseWorkflow_def MetricsResumeWorkflow_def

lemmas service_defs =
  governanceServiceAdapter_def workflowRunService_def approvalService_def escalationService_def
  queryServiceAdapter_def decisionsService_def
  MetricsGovernanceService_def MetricsWorkflowControl_def TracedGovernanceService_def TracedWorkflowControl_def
  TracedApprovalService_def TracedEscalationPort_def TracedQueryService_def

section \<open>What a decorator may do\<close>

text \<open>
  \<open>likeCall m k S\<close> says that \<open>m\<close>, run in \<open>S\<close>, gives the outcome of the undecorated call \<open>k\<close> and leaves
  the same tables, breakers, statistics and notifications behind.
\<close>

definition sameState :: "World \<Rightarrow> World \<Rightarrow> bool" where
  "sameState s t \<longleftrightarrow>
     db s = db t \<and> breakerRegistry s = breakerRegistry t \<and> statsStore s = statsStore t \<and> notified s = notified t"

lemma sameState_simps [simp]:
  "sameState s s" "sameState (s\<lparr>metered := ms\<rparr>) t = sameState s t" "sameState (s\<lparr>n_now := n\<rparr>) t = sameState s t"
  by (simp_all add: sameState_def)

definition tick :: "nat \<Rightarrow> World \<Rightarrow> World" where
  "tick n s = s\<lparr>n_now := n_now s + n\<rparr>"

text \<open>The span of a traced call: started last, ended, and marked with the error if there was one.\<close>

lemma traced_outcome:
  assumes "sys_spans (snd (call (h_tracer host (length (sys_spans S)) ctx)
             (S\<lparr>sys_spans := sys_spans S @ [\<lparr>sp_Name = name, sp_Attributes = attrs, sp_Error = None, sp_Ended = False\<rparr>]\<rparr>))) =
           sys_spans S @ [\<lparr>sp_Name = name, sp_Attributes = attrs, sp_Error = None, sp_Ended = False\<rparr>]"
  shows "\<exists>as. sys_spans (snd (traced host ctx name attrs call resultAttrs S)) =
      sys_spans S @ [\<lparr>sp_Name = name, sp_Attributes = attrs @ as,
        sp_Error = (case fst (traced host ctx name attrs call resultAttrs S) of
                      Inl e \<Rightarrow> (if isPanic e then None else Some e) | Inr _ \<Rightarrow> None),
        sp_Ended = True\<rparr>]"
proof -
  obtain r T where c: "call (h_tracer host (length (sys_spans S)) ctx)
      (S\<lparr>sys_spans := sys_spans S @ [\<lparr>sp_Name = name, sp_Attributes = attrs, sp_Error = None, sp_Ended = False\<rparr>]\<rparr>) = (r, T)"
    by fastforce
  with assms have T: "sys_spans T = sys_spans S @ [\<lparr>sp_Name = name, sp_Attributes = attrs, sp_Error = None, sp_Ended = False\<rparr>]"
    by simp
  show ?thesis
    by (cases r)
      (auto simp: traced_def bindE_def startSpan_def deferred_def bindR_def c endSpan_def recordError_def setAttributes_def
        updSpan_def modify_def throw_def ret_def T)
qed

end
