(* ===== verification/HttpServer.thy ===== *)
theory HttpServer
  imports HttpHandlers Telemetry
begin

text \<open>
  The HTTP server (\<^verbatim>\<open>adapters/inbound/http/router.go\<close>): its table of routes, the choice of a handler, and the
  chain of middlewares around it. The router library is a parameter, the record \<open>Mux\<close>: how it finds a
  route for a request, what it answers when there is none, and what its recoverer answers after a panic.
  What is assumed of it is \<open>muxSound\<close>.
\<close>

section \<open>Routes\<close>

datatype Endpoint =
    Health | Ready
  | SubmitTaskE | GetTaskE | RouteTaskE | EvaluatePolicyE | StartWorkflowE | ProcessTaskE | TriggerEscalationE
  | ListWorkflowsE | GetWorkflowStatusE | KillWorkflowE | PauseWorkflowE | ResumeWorkflowE | RegisterAttemptE
  | GetPendingApprovalsE | ResolveApprovalE
  | QueryAuditTrailE
  | ListBreakersE
  | DecisionPhaseE | DecisionSensitiveE | ApprovalStatusE

datatype Segment = Lit string | Param string

type_synonym route = "string \<times> Segment list \<times> Endpoint"

definition apiPath :: "Segment list \<Rightarrow> Segment list" where
  "apiPath segs = Lit ''api'' # Lit ''v1'' # segs"

definition govPath :: "Segment list \<Rightarrow> Segment list" where
  "govPath segs = Lit ''governance'' # Lit ''v1'' # segs"

definition routes :: "route list" where
  "routes =
     [(''GET'', [Lit ''health''], Health),
      (''GET'', [Lit ''ready''], Ready),
      (''POST'', apiPath [Lit ''tasks''], SubmitTaskE),
      (''GET'', apiPath [Lit ''tasks'', Param ''taskID''], GetTaskE),
      (''POST'', apiPath [Lit ''tasks'', Param ''taskID'', Lit ''route''], RouteTaskE),
      (''POST'', apiPath [Lit ''tasks'', Param ''taskID'', Lit ''evaluate-policy''], EvaluatePolicyE),
      (''POST'', apiPath [Lit ''tasks'', Param ''taskID'', Lit ''start-workflow''], StartWorkflowE),
      (''POST'', apiPath [Lit ''tasks'', Param ''taskID'', Lit ''process''], ProcessTaskE),
      (''POST'', apiPath [Lit ''tasks'', Param ''taskID'', Lit ''escalate''], TriggerEscalationE),
      (''GET'', apiPath [Lit ''workflows''], ListWorkflowsE),
      (''GET'', apiPath [Lit ''workflows'', Param ''workflowID''], GetWorkflowStatusE),
      (''POST'', apiPath [Lit ''workflows'', Param ''workflowID'', Lit ''kill''], KillWorkflowE),
      (''POST'', apiPath [Lit ''workflows'', Param ''workflowID'', Lit ''pause''], PauseWorkflowE),
      (''POST'', apiPath [Lit ''workflows'', Param ''workflowID'', Lit ''resume''], ResumeWorkflowE),
      (''POST'', apiPath [Lit ''workflows'', Param ''workflowID'', Lit ''attempts''], RegisterAttemptE),
      (''GET'', apiPath [Lit ''approvals'', Lit ''pending''], GetPendingApprovalsE),
      (''POST'', apiPath [Lit ''approvals'', Param ''approvalID'', Lit ''resolve''], ResolveApprovalE),
      (''GET'', apiPath [Lit ''audit''], QueryAuditTrailE),
      (''GET'', apiPath [Lit ''breakers''], ListBreakersE),
      (''POST'', govPath [Lit ''decisions'', Lit ''phase''], DecisionPhaseE),
      (''POST'', govPath [Lit ''decisions'', Lit ''sensitive''], DecisionSensitiveE),
      (''GET'', govPath [Lit ''approvals'', Param ''change_id'', Param ''phase_id'', Lit ''status''], ApprovalStatusE)]"

text \<open>A pattern fits a path segment by segment; the parameters take the segments they stand for.\<close>

fun fits :: "Segment list \<Rightarrow> string list \<Rightarrow> (string \<Rightarrow> string) option" where
  "fits [] [] = Some (\<lambda>_. [])"
| "fits (Lit l # segs) (p # ps) = (if l = p then fits segs ps else None)"
| "fits (Param x # segs) (p # ps) = map_option (\<lambda>f. f(x := p)) (fits segs ps)"
| "fits _ _ = None"

record Mux =
  mux_find :: "route list \<Rightarrow> HttpRequest \<Rightarrow> (Endpoint \<times> (string \<Rightarrow> string)) option"
  mux_miss :: "HttpRequest \<Rightarrow> HttpResponse"
  mux_recover :: "gov_error \<Rightarrow> HttpResponse"

text \<open>The documented behaviour of the router: it finds a route that fits, whenever there is one.\<close>

definition routed :: "route list \<Rightarrow> HttpRequest \<Rightarrow> Endpoint \<Rightarrow> (string \<Rightarrow> string) \<Rightarrow> bool" where
  "routed table r e param \<longleftrightarrow> (\<exists>pat. (hq_Method r, pat, e) \<in> set table \<and> fits pat (hq_Path r) = Some param)"

definition muxSound :: "Mux \<Rightarrow> bool" where
  "muxSound mux \<longleftrightarrow>
     (\<forall>table r e param. mux_find mux table r = Some (e, param) \<longrightarrow> routed table r e param) \<and>
     (\<forall>table r. mux_find mux table r = None \<longrightarrow> (\<forall>e param. \<not> routed table r e param))"

section \<open>Serving\<close>

fun dispatch :: "Host \<Rightarrow> TimeEnv \<Rightarrow> 's Server \<Rightarrow> Endpoint \<Rightarrow> (string \<Rightarrow> string) \<Rightarrow> HttpRequest \<Rightarrow> ('s, HttpResponse) go" where
  "dispatch host z s Health param r = handleHealth r"
| "dispatch host z s Ready param r = handleReady s r"
| "dispatch host z s SubmitTaskE param r = handleSubmitTask z s r"
| "dispatch host z s GetTaskE param r = handleGetTask host z s param r"
| "dispatch host z s RouteTaskE param r = handleRouteTask host z s param r"
| "dispatch host z s EvaluatePolicyE param r = handleEvaluatePolicy host z s param r"
| "dispatch host z s StartWorkflowE param r = handleStartWorkflow host z s param r"
| "dispatch host z s ProcessTaskE param r = handleProcessTask host z s param r"
| "dispatch host z s TriggerEscalationE param r = handleTriggerEscalation host z s param r"
| "dispatch host z s ListWorkflowsE param r = handleListWorkflows z s r"
| "dispatch host z s GetWorkflowStatusE param r = handleGetWorkflowStatus host z s param r"
| "dispatch host z s KillWorkflowE param r = handleKillWorkflow host s param r"
| "dispatch host z s PauseWorkflowE param r = handlePauseWorkflow host s param r"
| "dispatch host z s ResumeWorkflowE param r = handleResumeWorkflow host s param r"
| "dispatch host z s RegisterAttemptE param r = handleRegisterAttempt host z s param r"
| "dispatch host z s GetPendingApprovalsE param r = handleGetPendingApprovals z s r"
| "dispatch host z s ResolveApprovalE param r = handleResolveApproval host z s param r"
| "dispatch host z s QueryAuditTrailE param r = handleQueryAuditTrail host z s r"
| "dispatch host z s ListBreakersE param r = handleListBreakers s r"
| "dispatch host z s DecisionPhaseE param r = handleDecisionPhase s r"
| "dispatch host z s DecisionSensitiveE param r = handleDecisionSensitive s r"
| "dispatch host z s ApprovalStatusE param r = handleApprovalStatus s param r"

definition NewServer ::
  "'s GovernanceService \<Rightarrow> 's WorkflowControl \<Rightarrow> 's ApprovalService \<Rightarrow> 's QueryService \<Rightarrow> 's EscalationPort \<Rightarrow>
   (gov_error + unit) option \<Rightarrow> 's Server" where
  "NewServer governance control approvals queries escalation pinger =
     \<lparr>srv_governance = governance, srv_control = control, srv_approvals = approvals, srv_queries = queries,
      srv_escalation = escalation, srv_phaseDecisions = None, srv_db = pinger\<rparr>"

definition WithPhaseDecisions :: "'s PhaseDecisionsService \<Rightarrow> 's Server \<Rightarrow> 's Server" where
  "WithPhaseDecisions svc s = s\<lparr>srv_phaseDecisions := Some svc\<rparr>"

text \<open>A handler stops early only by a panic, which the recoverer turns into a response.\<close>

definition recovered :: "Mux \<Rightarrow> ('s, HttpResponse) go \<Rightarrow> ('s, HttpResponse) go" where
  "recovered mux m S = (case m S of (Inl e, T) \<Rightarrow> (Inr (mux_recover mux e), T) | (Inr x, T) \<Rightarrow> (Inr x, T))"

definition inRand :: "(byte list, 'a) go \<Rightarrow> (Sys, 'a) go" where
  "inRand m S = (case m (sys_rand S) of (r, b) \<Rightarrow> (r, S\<lparr>sys_rand := b\<rparr>))"

text \<open>
  A request goes through the trace middleware, which gives it a trace and the response a header, then
  through the recoverer to the handler of its route. The request log and the content type leave no mark
  on the state. The services do not read the W3C trace: the identifiers they record are those of the
  OpenTelemetry span in the context.
\<close>

definition ServeHTTP :: "Mux \<Rightarrow> Host \<Rightarrow> TimeEnv \<Rightarrow> Sys Server \<Rightarrow> HttpRequest \<Rightarrow> (Sys, HttpResponse \<times> string option) go" where
  "ServeHTTP mux host z s r =
     bindE (inRand (TraceW3C (hq_Header r))) (\<lambda>(trace, header).
     bindE (recovered mux
              (case mux_find mux routes r of
                 None \<Rightarrow> ret (mux_miss mux r)
               | Some (e, param) \<Rightarrow> dispatch host z s e param r)) (\<lambda>response.
     ret (response, header)))"

section \<open>The routing table\<close>

lemma fits_length: "fits pat ps = Some f \<Longrightarrow> length ps = length pat"
  by (induction pat ps arbitrary: f rule: fits.induct) (auto split: if_splits)

lemma fits_literal: "fits pat ps = Some f \<Longrightarrow> i < length pat \<Longrightarrow> pat ! i = Lit l \<Longrightarrow> ps ! i = l"
  by (induction pat ps arbitrary: f i rule: fits.induct) (auto split: if_splits simp: nth_Cons' )

text \<open>Two patterns that some path fits have the same length and no position with different literals.\<close>

fun clash :: "Segment list \<Rightarrow> Segment list \<Rightarrow> bool" where
  "clash [] [] = False"
| "clash (Lit l # p) (Lit l' # q) = (l \<noteq> l' \<or> clash p q)"
| "clash (Lit l # p) (Param n # q) = clash p q"
| "clash (Param n # p) (s # q) = clash p q"
| "clash _ _ = True"

lemma fits_no_clash: "fits p ps = Some f \<Longrightarrow> fits q ps = Some g \<Longrightarrow> \<not> clash p q"
proof (induction p q arbitrary: ps f g rule: clash.induct)
  case (2 l p l' q)
  then show ?case by (cases ps) (auto split: if_splits)
next
  case (3 l p n q)
  then show ?case by (cases ps) (auto split: if_splits)
next
  case (4 n p s q)
  then show ?case by (cases ps; cases s) (auto split: if_splits)
qed (auto dest: fits_length elim: fits.elims split: if_splits)

lemma routes_separate:
  "\<forall>(m, p, e)\<in>set routes. \<forall>(m', p', e')\<in>set routes. e = e' \<and> (m, p) = (m', p') \<or> e \<noteq> e' \<and> (m \<noteq> m' \<or> clash p p')"
  by (simp add: routes_def apiPath_def govPath_def)

lemma routed_unique: "routed routes r e param \<Longrightarrow> routed routes r e' param' \<Longrightarrow> e = e' \<and> param = param'"
  using routes_separate fits_no_clash by (fastforce simp: routed_def)

text \<open>A router that takes the first route that fits.\<close>

definition firstMux :: Mux where
  "firstMux =
     \<lparr>mux_find = (\<lambda>table r.
        case List.find (\<lambda>(m, pat, e). m = hq_Method r \<and> fits pat (hq_Path r) \<noteq> None) table of
          None \<Rightarrow> None
        | Some (m, pat, e) \<Rightarrow> map_option (\<lambda>f. (e, f)) (fits pat (hq_Path r))),
      mux_miss = (\<lambda>_. \<lparr>hp_Status = 404, hp_Body = JsonBody JNull\<rparr>),
      mux_recover = (\<lambda>_. \<lparr>hp_Status = 500, hp_Body = JsonBody JNull\<rparr>)\<rparr>"

lemma find_SomeD: "List.find P xs = Some x \<Longrightarrow> x \<in> set xs \<and> P x"
  by (induction xs) (auto split: if_splits)

lemma firstMux_sound: "muxSound firstMux"
  unfolding muxSound_def
proof (intro conjI allI impI)
  fix table r e param
  assume "mux_find firstMux table r = Some (e, param)"
  then show "routed table r e param"
    by (auto simp: firstMux_def routed_def dest!: find_SomeD split: option.splits)
next
  fix table r e param
  assume "mux_find firstMux table r = None"
  then have "List.find (\<lambda>(m, pat, e). m = hq_Method r \<and> fits pat (hq_Path r) \<noteq> None) table = None"
    by (auto simp: firstMux_def dest!: find_SomeD split: option.splits)
  then show "\<not> routed table r e param"
    by (fastforce simp: routed_def find_None_iff)
qed

end
