(* ===== verification/Config.thy ===== *)
theory Config
  imports HttpHandlers
begin

text \<open>
  The configuration (\<^verbatim>\<open>infrastructure/config\<close>) and the connection string of the database
  (\<^verbatim>\<open>infrastructure/database\<close>). The environment of the process is the argument \<open>getenv\<close>, with the empty
  string for a variable that is not set.
\<close>

record DBConfig =
  dbc_Host :: string
  dbc_Port :: int
  dbc_User :: string
  dbc_Password :: string
  dbc_Database :: string
  dbc_SSLMode :: string

definition DSN :: "DBConfig \<Rightarrow> string" where
  "DSN c = ''postgres://'' @ dbc_User c @ '':'' @ dbc_Password c @ ''@'' @ dbc_Host c @ '':'' @ showInt (dbc_Port c) @
           ''/'' @ dbc_Database c @ ''?sslmode='' @ dbc_SSLMode c"

record Config =
  cfg_ServerPort :: int
  cfg_DB :: DBConfig
  cfg_LogLevel :: string
  cfg_OTelEnabled :: bool
  cfg_AdaptiveRoutingEnabled :: bool

definition envString :: "(string \<Rightarrow> string) \<Rightarrow> string \<Rightarrow> string \<Rightarrow> string" where
  "envString getenv key fallback = (if getenv key \<noteq> [] then getenv key else fallback)"

definition envBool :: "(string \<Rightarrow> string) \<Rightarrow> string \<Rightarrow> bool \<Rightarrow> bool" where
  "envBool getenv key fallback =
     (let v = getenv key in if v \<noteq> [] then v = ''true'' \<or> v = ''1'' \<or> v = ''yes'' else fallback)"

definition envInt :: "(string \<Rightarrow> string) \<Rightarrow> string \<Rightarrow> int \<Rightarrow> int" where
  "envInt getenv key fallback =
     (let v = getenv key in if v \<noteq> [] then (case Atoi v of Some i \<Rightarrow> i | None \<Rightarrow> fallback) else fallback)"

definition Load :: "(string \<Rightarrow> string) \<Rightarrow> Config" where
  "Load getenv =
     \<lparr>cfg_ServerPort = envInt getenv ''PORT'' 8080,
      cfg_DB =
        \<lparr>dbc_Host = envString getenv ''DB_HOST'' ''localhost'',
         dbc_Port = envInt getenv ''DB_PORT'' 5432,
         dbc_User = envString getenv ''DB_USER'' ''postgres'',
         dbc_Password = envString getenv ''DB_PASSWORD'' ''postgres'',
         dbc_Database = envString getenv ''DB_NAME'' ''governance'',
         dbc_SSLMode = envString getenv ''DB_SSLMODE'' ''disable''\<rparr>,
      cfg_LogLevel = envString getenv ''LOG_LEVEL'' ''info'',
      cfg_OTelEnabled = envBool getenv ''OTEL_ENABLED'' False,
      cfg_AdaptiveRoutingEnabled = envBool getenv ''ADAPTIVE_ROUTING_ENABLED'' False\<rparr>"

section \<open>Reading printed integers\<close>

lemma readNat_append: "readNat acc (xs @ ys) = Option.bind (readNat acc xs) (\<lambda>n. readNat n ys)"
  by (induction xs arbitrary: acc) (auto split: option.splits)

lemma readNat_showNat: "readNat 0 (showNat n) = Some n"
proof (induction n rule: showNat.induct)
  case (1 n)
  show ?case
  proof (cases "n < 10")
    case True
    then show ?thesis by (subst showNat.simps) simp
  next
    case False
    then show ?thesis using 1 by (subst showNat.simps) (simp add: readNat_append)
  qed
qed

lemma digit_not_sign: "d < 10 \<Longrightarrow> digitChar d \<noteq> CHR ''-'' \<and> digitChar d \<noteq> CHR ''+''"
  using digitVal_digitChar [of d] by (auto simp: digitVal_def Let_def)

lemma showNat_first: "\<exists>d xs. d < 10 \<and> showNat n = digitChar d # xs"
proof (induction n rule: showNat.induct)
  case (1 n)
  then show ?case
    by (cases "n < 10"; subst showNat.simps) auto
qed

lemma Atoi_showInt: "- (2 ^ 63) \<le> i \<Longrightarrow> i < 2 ^ 63 \<Longrightarrow> Atoi (showInt i) = Some i"
proof -
  assume i: "- (2 ^ 63) \<le> i" "i < 2 ^ 63"
  have "readSigned (showInt i) = Some i"
  proof (cases "i < 0")
    case True
    then show ?thesis by (simp add: showInt_def readSigned_def readNat_showNat)
  next
    case False
    obtain d xs where "d < 10" "showNat (nat i) = digitChar d # xs" using showNat_first by blast
    with digit_not_sign [of d] readNat_showNat [of "nat i"] False show ?thesis
      by (auto simp: showInt_def readSigned_def)
  qed
  with i show ?thesis by (simp add: Atoi_def)
qed

end
