(* ===== verification/Bootstrap.thy ===== *)
theory Bootstrap
  imports HttpServer Config Governance
begin

text \<open>
  The composition of the program (\<^verbatim>\<open>bootstrap/wire.go\<close>): which services stand behind which ports, which
  decorators stand in front of them, and what a process does from its start on. The OpenTelemetry set-up
  and the meter are parameters; they may fail, and then the process does not start.
\<close>

section \<open>Wiring\<close>

record App =
  app_HTTPServer :: "Sys Server"
  app_Facade :: "Sys GovernanceFacade"

text \<open>
  What the configuration decides for the services: whether they meter, whether routing looks at the
  failure statistics; the memory engine is always the stub.
\<close>

definition wireEnv :: "Config \<Rightarrow> Env \<Rightarrow> Env" where
  "wireEnv cfg env =
     env\<lparr>env_otel := cfg_OTelEnabled cfg, env_adaptive := cfg_AdaptiveRoutingEnabled cfg,
         env_memory := Some stubGetRelevantContext\<rparr>"

definition wiredGovernance :: "Host \<Rightarrow> Env \<Rightarrow> Config \<Rightarrow> Sys GovernanceService" where
  "wiredGovernance host env cfg =
     (let govSvc = governanceServiceAdapter env
      in if cfg_OTelEnabled cfg then TracedGovernanceService host (MetricsGovernanceService env govSvc) else govSvc)"

definition wiredControl :: "Host \<Rightarrow> Env \<Rightarrow> Config \<Rightarrow> Sys WorkflowControl" where
  "wiredControl host env cfg =
     (let wfCtrl = workflowRunService env
      in if cfg_OTelEnabled cfg then TracedWorkflowControl host (MetricsWorkflowControl wfCtrl) else wfCtrl)"

definition wiredApprovals :: "Host \<Rightarrow> Env \<Rightarrow> Config \<Rightarrow> Sys ApprovalService" where
  "wiredApprovals host env cfg =
     (let approvalPort = approvalService env
      in if cfg_OTelEnabled cfg then TracedApprovalService host approvalPort else approvalPort)"

definition wiredEscalation :: "Host \<Rightarrow> Env \<Rightarrow> Config \<Rightarrow> Sys EscalationPort" where
  "wiredEscalation host env cfg =
     (let escalationPort = escalationService env
      in if cfg_OTelEnabled cfg then TracedEscalationPort host escalationPort else escalationPort)"

definition wiredQueries :: "Host \<Rightarrow> Env \<Rightarrow> Config \<Rightarrow> Sys QueryService" where
  "wiredQueries host env cfg =
     (let queryPort = queryServiceAdapter host env
      in if cfg_OTelEnabled cfg then TracedQueryService host queryPort else queryPort)"

definition wiredServer :: "Host \<Rightarrow> Env \<Rightarrow> Config \<Rightarrow> Sys Server" where
  "wiredServer host env cfg =
     WithPhaseDecisions (decisionsService env)
       (NewServer (wiredGovernance host env cfg) (wiredControl host env cfg) (wiredApprovals host env cfg)
          (wiredQueries host env cfg) (wiredEscalation host env cfg) (Some (h_ping host)))"

definition wiredFacade :: "Host \<Rightarrow> Env \<Rightarrow> Config \<Rightarrow> Sys GovernanceFacade" where
  "wiredFacade host env cfg =
     NewGovernanceFacade (wiredGovernance host env cfg) (wiredControl host env cfg) (wiredApprovals host env cfg)
       (wiredQueries host env cfg) (wiredEscalation host env cfg)"

definition SetupOTel :: "(gov_error + unit) \<Rightarrow> bool \<Rightarrow> gov_error + unit" where
  "SetupOTel otel enabled = (if \<not> enabled then Inr () else otel)"

text \<open>
  \<^verbatim>\<open>Wire\<close>. A process begins with an empty breaker registry and without statistics, and records its
  start in the audit trail; a failure of that record is ignored.
\<close>

definition Wire ::
  "Host \<Rightarrow> (gov_error + unit) \<Rightarrow> (InstrumentKind \<Rightarrow> string \<Rightarrow> string \<Rightarrow> string \<Rightarrow> gov_error + 'i) \<Rightarrow> Env \<Rightarrow> Config \<Rightarrow> (Sys, App) go" where
  "Wire host otel mtr env0 cfg =
     (let env = wireEnv cfg env0
      in bindW ''otel setup'' (lift (SetupOTel otel (cfg_OTelEnabled cfg))) (\<lambda>_.
         bindE (if cfg_OTelEnabled cfg then bindW ''otel instruments'' (lift (NewInstruments mtr)) (\<lambda>_. ret ()) else ret ()) (\<lambda>_.
         bindE (inWorld (modify (\<lambda>s. s\<lparr>statsStore := None\<rparr>))) (\<lambda>_.
         bindE (inWorld (modify (\<lambda>s. s\<lparr>breakerRegistry := []\<rparr>))) (\<lambda>_.
         discard (inWorld (RecordAudit env None ''system'' ''circuit_breaker_registry_started'' ''empty''
                    (auditSet ''component'' (AString ''circuit_breaker'') NewAuditContext) None None)) (
         ret \<lparr>app_HTTPServer = wiredServer host env cfg, app_Facade = wiredFacade host env cfg\<rparr>))))))"

section \<open>The life of a process\<close>

text \<open>
  What happens to a process: HTTP requests, calls of the embedding program through the facade, and, when
  adaptive routing is enabled, the rounds of the statistics collector.
\<close>

datatype Event =
    Request HttpRequest
  | SdkCall goctx FacadeCall
  | CollectorRound

fun handleEvent :: "Mux \<Rightarrow> Host \<Rightarrow> Env \<Rightarrow> Config \<Rightarrow> App \<Rightarrow> Event \<Rightarrow> Sys \<Rightarrow> Sys" where
  "handleEvent mux host env cfg app (Request r) S = snd (ServeHTTP mux host (te env) (app_HTTPServer app) r S)"
| "handleEvent mux host env cfg app (SdkCall ctx c) S = snd (facadeCall (app_Facade app) ctx c S)"
| "handleEvent mux host env cfg app CollectorRound S =
     (if cfg_AdaptiveRoutingEnabled cfg then snd (inWorld (refreshStats env DefaultStatsWindow) S) else S)"

definition process_life ::
  "Mux \<Rightarrow> Host \<Rightarrow> (gov_error + unit) \<Rightarrow> (InstrumentKind \<Rightarrow> string \<Rightarrow> string \<Rightarrow> string \<Rightarrow> gov_error + 'i) \<Rightarrow> Env \<Rightarrow>
   Config \<Rightarrow> Event list \<Rightarrow> Sys \<Rightarrow> Sys" where
  "process_life mux host otel mtr env cfg events S =
     (case Wire host otel mtr env cfg S of
        (Inl _, T) \<Rightarrow> T
      | (Inr app, T) \<Rightarrow> fold (handleEvent mux host (wireEnv cfg env) cfg app) events T)"

text \<open>The program over its restarts: one configuration and one sequence of events per process.\<close>

definition program_run ::
  "Mux \<Rightarrow> Host \<Rightarrow> (gov_error + unit) \<Rightarrow> (InstrumentKind \<Rightarrow> string \<Rightarrow> string \<Rightarrow> string \<Rightarrow> gov_error + 'i) \<Rightarrow> Env \<Rightarrow>
   (Config \<times> Event list) list \<Rightarrow> Sys \<Rightarrow> Sys" where
  "program_run mux host otel mtr env lives S =
     fold (\<lambda>(cfg, events). process_life mux host otel mtr env cfg events) lives S"

end
