(* ===== verification/Ports.thy ===== *)
theory Ports
  imports HttpServer
begin

text \<open>
  What a client of the inbound ports can rely on. The contract \<open>inbound_ports\<close> says that every operation
  of every port moves the state along a preorder \<open>R\<close>; whoever only uses the ports then moves it along \<open>R\<close>
  as well. This is shown once for the facade and once for every HTTP handler (\<open>http_ports\<close>), and a
  decorated facade keeps the contract of what it decorates if \<open>R\<close> does not look at the telemetry
  (\<open>quiet_ports\<close>). The second half is about rejected requests.
\<close>

section \<open>The contract of the ports\<close>

locale inbound_ports = step_preorder R for R :: "'s \<Rightarrow> 's \<Rightarrow> bool" +
  fixes f :: "'s GovernanceFacade"
  assumes governance_ops:
      "steps (gs_SubmitTask (f_governance f) ctx input)" "steps (gs_ProcessTask (f_governance f) ctx input action)"
      "steps (gs_RouteTask (f_governance f) ctx t)" "steps (gs_EvaluatePolicy (f_governance f) ctx t action)"
      "steps (gs_StartWorkflow (f_governance f) ctx t)"
    and control_ops:
      "steps (wc_KillWorkflow (f_control f) ctx w reason actor)" "steps (wc_PauseWorkflow (f_control f) ctx w reason actor)"
      "steps (wc_ResumeWorkflow (f_control f) ctx w reason actor)" "steps (wc_RegisterAttempt (f_control f) ctx w result)"
    and approval_ops:
      "steps (as_ResolveApproval (f_approvals f) ctx resolution)" "steps (as_GetPendingApprovals (f_approvals f) ctx)"
    and query_ops:
      "steps (qs_GetTask (f_queries f) ctx t)" "steps (qs_GetWorkflowStatus (f_queries f) ctx w)"
      "steps (qs_GetWorkflowByTask (f_queries f) ctx t)" "steps (qs_QueryAuditTrail (f_queries f) ctx af)"
      "steps (qs_ListWorkflows (f_queries f) ctx wlf)" "steps (qs_ListBreakers (f_queries f) ctx bf)"
      "steps (qs_GetBreakerState (f_queries f) ctx tool role)"
    and escalation_ops: "steps (ep_TriggerEscalation (f_escalation f) ctx t condition target)"
begin

lemmas port_ops = governance_ops control_ops approval_ops query_ops escalation_ops

lemma facade_steps: "steps (facadeCall f ctx c)"
  by (cases c) (simp_all add: mapGo_def, (intro steps_rules port_ops)+)

end

locale http_ports = inbound_ports R f for R :: "'s \<Rightarrow> 's \<Rightarrow> bool" and f +
  fixes srv :: "'s Server"
  assumes same_ports:
      "srv_governance srv = f_governance f" "srv_control srv = f_control f" "srv_approvals srv = f_approvals f"
      "srv_queries srv = f_queries f" "srv_escalation srv = f_escalation f"
    and decision_ops:
      "srv_phaseDecisions srv = Some d \<Longrightarrow> steps (ds_EvaluatePhase d ctx phase)"
      "srv_phaseDecisions srv = Some d \<Longrightarrow> steps (ds_EvaluateSensitive d ctx sensitive)"
      "srv_phaseDecisions srv = Some d \<Longrightarrow> steps (ds_ApprovalStatusFor d ctx change phaseID)"
begin

lemma steps_write: "steps (writeError status code message)" "steps (writeJSON status data)"
  by (simp_all add: writeError_def writeJSON_def steps_ret)

lemma steps_orReject: "(\<And>x. steps (k x)) \<Longrightarrow> steps (orReject code v k)"
  by (simp add: orReject_def steps_write split: sum.split)

lemma steps_decoded: "(\<And>x. steps (k x)) \<Longrightarrow> steps (decoded v k)"
  by (simp add: decoded_def steps_write split: option.split)

lemma steps_answer: "steps m \<Longrightarrow> (\<And>x. steps (k x)) \<Longrightarrow> steps (answer status code m k)"
  unfolding answer_def by (intro steps_rules steps_write)

lemma steps_decide: "steps m \<Longrightarrow> (\<And>x. steps (k x)) \<Longrightarrow> steps (decide code m k)"
  unfolding decide_def by (intro steps_rules steps_write)

lemma steps_whenWired: "(\<And>d. srv_phaseDecisions srv = Some d \<Longrightarrow> steps (k d)) \<Longrightarrow> steps (whenWired srv k)"
  by (simp add: whenWired_def steps_write split: option.split)

lemma steps_optionalParam: "(\<And>x. steps (k x)) \<Longrightarrow> steps (optionalParam r key code parse k)"
  unfolding optionalParam_def by (intro steps_rules steps_orReject)

lemma steps_naturalParam: "(\<And>x. steps (k x)) \<Longrightarrow> steps (naturalParam r key code message k)"
  unfolding naturalParam_def by (intro steps_rules steps_write)

lemma steps_case_prod: "(\<And>a b. steps (k a b)) \<Longrightarrow> steps (case v of (a, b) \<Rightarrow> k a b)"
  by (simp split: prod.split)

lemmas handler_rules =
  steps_orReject steps_decoded steps_answer steps_decide steps_whenWired steps_optionalParam steps_naturalParam
  steps_write steps_case_prod steps_rules

lemma task_handlers:
  "steps (handleSubmitTask z srv r)" "steps (handleGetTask host z srv param r)" "steps (handleRouteTask host z srv param r)"
  "steps (handleEvaluatePolicy host z srv param r)" "steps (handleStartWorkflow host z srv param r)"
  "steps (handleProcessTask host z srv param r)" "steps (handleTriggerEscalation host z srv param r)"
  unfolding handleSubmitTask_def handleGetTask_def handleRouteTask_def handleEvaluatePolicy_def handleStartWorkflow_def
    handleProcessTask_def handleTriggerEscalation_def same_ports
  by (intro handler_rules port_ops)+

lemma workflow_handlers:
  "steps (handleListWorkflows z srv r)" "steps (handleGetWorkflowStatus host z srv param r)"
  "steps (handleKillWorkflow host srv param r)" "steps (handlePauseWorkflow host srv param r)"
  "steps (handleResumeWorkflow host srv param r)" "steps (handleRegisterAttempt host z srv param r)"
  unfolding handleListWorkflows_def handleGetWorkflowStatus_def handleKillWorkflow_def handlePauseWorkflow_def
    handleResumeWorkflow_def handleRegisterAttempt_def same_ports
  by (intro handler_rules port_ops)+

lemma other_handlers:
  "steps (handleGetPendingApprovals z srv r)" "steps (handleResolveApproval host z srv param r)"
  "steps (handleQueryAuditTrail host z srv r)" "steps (handleListBreakers srv r)"
  unfolding handleGetPendingApprovals_def handleResolveApproval_def handleQueryAuditTrail_def handleListBreakers_def
    same_ports Let_def
  by (intro handler_rules port_ops)+

lemma decision_handlers:
  "steps (handleDecisionPhase srv r)" "steps (handleDecisionSensitive srv r)" "steps (handleApprovalStatus srv param r)"
  unfolding handleDecisionPhase_def handleDecisionSensitive_def handleApprovalStatus_def
  by (intro handler_rules decision_ops; assumption)+

lemma probe_handlers: "steps (handleHealth r)" "steps (handleReady srv r)"
  unfolding handleHealth_def handleReady_def by (intro handler_rules)+

lemma dispatch_steps: "steps (dispatch host z srv e param r)"
  by (cases e)
    (simp_all add: task_handlers workflow_handlers other_handlers decision_handlers probe_handlers)

end

section \<open>Decorated ports\<close>

definition decorate :: "Host \<Rightarrow> Env \<Rightarrow> Sys GovernanceFacade \<Rightarrow> Sys GovernanceFacade" where
  "decorate host env f =
     NewGovernanceFacade
       (TracedGovernanceService host (MetricsGovernanceService env (f_governance f)))
       (TracedWorkflowControl host (MetricsWorkflowControl (f_control f)))
       (TracedApprovalService host (f_approvals f)) (TracedQueryService host (f_queries f))
       (TracedEscalationPort host (f_escalation f))"

locale quiet_ports = inbound_ports R f for R :: "Sys \<Rightarrow> Sys \<Rightarrow> bool" and f +
  assumes quiet: "sys_world T = (sys_world S)\<lparr>metered := ms, n_now := n\<rparr> \<Longrightarrow> R S T"
begin

lemma quiet_world: "sys_world T = sys_world S \<Longrightarrow> R S T"
  by (rule quiet [where ms = "metered (sys_world S)" and n = "n_now (sys_world S)"]) simp

lemma steps_updSpan: "steps (updSpan n g)"
  unfolding updSpan_def by (rule steps_modify) (rule quiet_world, simp)

lemma steps_span: "steps (startSpan name attrs)" "steps (setAttributes n attrs)" "steps (recordError n e)" "steps (endSpan n)"
  unfolding setAttributes_def recordError_def endSpan_def
  by (rule stepsI, rule quiet_world, simp add: startSpan_def) (rule steps_updSpan)+

lemma steps_deferred:
  assumes "steps m" "steps d"
  shows "steps (deferred d m)"
proof (rule stepsI)
  fix S
  have "R S (snd (m S))" "R (snd (m S)) (snd (d (snd (m S))))"
    using assms by (auto dest: stepsD)
  then show "R S (snd (deferred d m S))"
    by (auto simp: deferred_def split: prod.split intro: R_trans)
qed

lemma steps_traced: "(\<And>ctx. steps (call ctx)) \<Longrightarrow> steps (traced host ctx name attrs call resultAttrs)"
  unfolding traced_def by (intro steps_rules steps_span steps_deferred)

lemma steps_tracedPlain: "(\<And>ctx. steps (call ctx)) \<Longrightarrow> steps (tracedPlain host ctx name call)"
  unfolding tracedPlain_def by (intro steps_rules steps_span steps_deferred)

lemma steps_quietly:
  "(\<And>S. sys_world (snd (m S)) = (sys_world S)\<lparr>metered := ms S, n_now := n S\<rparr>) \<Longrightarrow> steps m"
  by (rule stepsI, rule quiet) assumption

lemma steps_measure: "steps (measure_events es)"
  unfolding measure_events_def
  by (rule steps_quietly [where ms = "\<lambda>S. metered (sys_world S) @ es" and n = "\<lambda>S. n_now (sys_world S)"]) (simp add: modify_def)

lemma steps_clock: "steps (inWorld (timeNow env))" "steps (inWorld (sinceMs env t))"
  by (rule steps_quietly [where ms = "\<lambda>S. metered (sys_world S)" and n = "\<lambda>S. Suc (n_now (sys_world S))"];
      simp add: timeNow_def sinceMs_def bindE_def ret_def)+

lemmas decorator_rules = steps_traced steps_tracedPlain steps_measure steps_clock steps_rules

end

sublocale quiet_ports \<subseteq> decorated: inbound_ports R "decorate host env f" for host env
  by unfold_locales
    (simp_all only: decorate_def NewGovernanceFacade_def GovernanceFacade.simps TracedGovernanceService_def
      MetricsGovernanceService_def TracedWorkflowControl_def MetricsWorkflowControl_def TracedApprovalService_def
      TracedQueryService_def TracedEscalationPort_def GovernanceService.simps WorkflowControl.simps ApprovalService.simps
      QueryService.simps EscalationPort.simps traced_defs metrics_defs Let_def,
     (intro decorator_rules port_ops)+)

section \<open>Serving\<close>

locale quiet_http = quiet_ports R f + http_ports R f srv for R f srv
begin

lemma steps_recovered: "steps m \<Longrightarrow> steps (recovered mux m)"
  by (auto simp: steps_def recovered_def split: prod.split sum.split) (metis snd_conv)+

lemma steps_inRand: "steps (inRand m)"
  by (rule stepsI, rule quiet_world) (simp add: inRand_def split: prod.split)

lemma ServeHTTP_steps: "steps (ServeHTTP mux host z srv r)"
  unfolding ServeHTTP_def
  by (intro steps_bindE steps_inRand steps_case_prod steps_recovered steps_rules dispatch_steps)

end

section \<open>Rejected requests\<close>

text \<open>
  A computation is \<open>untouched\<close> if it leaves the state alone whenever it answers with status 400, and
  \<open>accepting\<close> if it never answers so.
\<close>

definition untouched :: "('s, HttpResponse) go \<Rightarrow> bool" where
  "untouched m \<longleftrightarrow> (\<forall>s r t. m s = (Inr r, t) \<longrightarrow> hp_Status r = StatusBadRequest \<longrightarrow> t = s)"

definition accepting :: "('s, HttpResponse) go \<Rightarrow> bool" where
  "accepting m \<longleftrightarrow> (\<forall>s r t. m s = (Inr r, t) \<longrightarrow> hp_Status r \<noteq> StatusBadRequest)"

lemma untouched_write: "untouched (writeError status code message)" "untouched (writeJSON status data)" "untouched (ret x)"
  by (simp_all add: untouched_def writeError_def writeJSON_def ret_def)

lemma accepting_write: "accepting (writeJSON status data) \<longleftrightarrow> status \<noteq> StatusBadRequest"
  by (auto simp: accepting_def writeJSON_def ret_def)

lemma untouched_orReject: "(\<And>x. untouched (k x)) \<Longrightarrow> untouched (orReject code v k)"
  by (simp add: orReject_def untouched_write split: sum.split)

lemma untouched_decoded: "(\<And>x. untouched (k x)) \<Longrightarrow> untouched (decoded v k)"
  by (simp add: decoded_def untouched_write split: option.split)

lemma untouched_if: "untouched m \<Longrightarrow> untouched n \<Longrightarrow> untouched (if b then m else n)"
  by simp

lemma untouched_optionalParam: "(\<And>x. untouched (k x)) \<Longrightarrow> untouched (optionalParam r key code parse k)"
  unfolding optionalParam_def by (intro untouched_if untouched_orReject)

lemma untouched_naturalParam: "(\<And>x. untouched (k x)) \<Longrightarrow> untouched (naturalParam r key code message k)"
  by (simp add: naturalParam_def untouched_write split: option.split)

lemma untouched_answer:
  "status \<noteq> StatusBadRequest \<Longrightarrow> (\<And>x. accepting (k x)) \<Longrightarrow> untouched (answer status code m k)"
  by (auto simp: untouched_def accepting_def answer_def bindR_def writeError_def ret_def
      split: prod.splits sum.splits if_splits)

lemma untouched_decide:
  assumes "\<And>s e t. m s = (Inl e, t) \<Longrightarrow> invalidInput e \<Longrightarrow> t = s" "\<And>x. accepting (k x)"
  shows "untouched (decide code m k)"
  using assms
  by (auto simp: untouched_def accepting_def decide_def bindR_def writeError_def ret_def
      split: prod.splits sum.splits if_splits) blast

lemma untouched_whenWired: "(\<And>d. srv_phaseDecisions srv = Some d \<Longrightarrow> untouched (k d)) \<Longrightarrow> untouched (whenWired srv k)"
  by (simp add: whenWired_def untouched_write split: option.split)

lemmas untouched_rules =
  untouched_orReject untouched_decoded untouched_if untouched_optionalParam untouched_naturalParam untouched_answer
  untouched_write

lemma accepting_case_prod: "(\<And>a b. accepting (k a b)) \<Longrightarrow> accepting (case v of (a, b) \<Rightarrow> k a b)"
  by (simp split: prod.split)

lemma untouched_tasks:
  "untouched (handleSubmitTask z srv r)" "untouched (handleGetTask host z srv param r)" "untouched (handleRouteTask host z srv param r)"
  "untouched (handleEvaluatePolicy host z srv param r)" "untouched (handleStartWorkflow host z srv param r)"
  "untouched (handleProcessTask host z srv param r)" "untouched (handleTriggerEscalation host z srv param r)"
  unfolding handleSubmitTask_def handleGetTask_def handleRouteTask_def handleEvaluatePolicy_def handleStartWorkflow_def
    handleProcessTask_def handleTriggerEscalation_def
  by (intro untouched_rules accepting_write [THEN iffD2]; simp)+

lemma untouched_workflows:
  "untouched (handleListWorkflows z srv r)" "untouched (handleGetWorkflowStatus host z srv param r)"
  "untouched (handleKillWorkflow host srv param r)" "untouched (handlePauseWorkflow host srv param r)"
  "untouched (handleResumeWorkflow host srv param r)"
  unfolding handleListWorkflows_def handleGetWorkflowStatus_def handleKillWorkflow_def handlePauseWorkflow_def
    handleResumeWorkflow_def
  by (intro untouched_rules accepting_case_prod accepting_write [THEN iffD2]; simp)+

lemma untouched_attempt: "untouched (handleRegisterAttempt host z srv param r)"
  unfolding handleRegisterAttempt_def
  by (intro untouched_orReject untouched_decoded)
    (auto split: sum.split prod.split intro!: untouched_rules simp: accepting_write)

lemma untouched_others:
  "untouched (handleGetPendingApprovals z srv r)" "untouched (handleResolveApproval host z srv param r)"
  "untouched (handleQueryAuditTrail host z srv r)" "untouched (handleListBreakers srv r)"
  "untouched (handleHealth r)" "untouched (handleReady srv r)"
  unfolding handleGetPendingApprovals_def handleResolveApproval_def handleQueryAuditTrail_def handleListBreakers_def
    handleHealth_def handleReady_def Let_def
  by (intro untouched_rules accepting_case_prod accepting_write [THEN iffD2]; simp)+
    (simp add: untouched_write split: option.split sum.split)

text \<open>The services of the phase decisions check their input before they do anything.\<close>

definition checksFirst :: "'s PhaseDecisionsService \<Rightarrow> bool" where
  "checksFirst d \<longleftrightarrow>
     (\<forall>ctx phase s e t. ds_EvaluatePhase d ctx phase s = (Inl e, t) \<longrightarrow> invalidInput e \<longrightarrow> t = s) \<and>
     (\<forall>ctx sensitive s e t. ds_EvaluateSensitive d ctx sensitive s = (Inl e, t) \<longrightarrow> invalidInput e \<longrightarrow> t = s) \<and>
     (\<forall>ctx change phaseID s e t. ds_ApprovalStatusFor d ctx change phaseID s = (Inl e, t) \<longrightarrow> invalidInput e \<longrightarrow> t = s)"

lemma untouched_decisions:
  assumes "pred_option checksFirst (srv_phaseDecisions srv)"
  shows "untouched (handleDecisionPhase srv r)" "untouched (handleDecisionSensitive srv r)"
    "untouched (handleApprovalStatus srv param r)"
  unfolding handleDecisionPhase_def handleDecisionSensitive_def handleApprovalStatus_def
  using assms
  by (auto intro!: untouched_whenWired untouched_decoded untouched_decide simp: accepting_write checksFirst_def)

lemma untouched_dispatch:
  assumes "pred_option checksFirst (srv_phaseDecisions srv)"
  shows "untouched (dispatch host z srv e param r)"
  by (cases e)
    (simp_all add: untouched_tasks untouched_workflows untouched_attempt untouched_others untouched_decisions [OF assms])

end
