(* ===== verification/System.thy ===== *)
theory System
  imports Bootstrap Ports
begin

text \<open>
  The whole program: the services behind their ports, the decorators, the HTTP server, restarts. The
  contract of the governance machine, proved for the services in \<open>Governance\<close>, is carried through the
  ports to every HTTP request and every call of the facade, by interpreting the contracts of \<open>Ports\<close> on
  the wired program.
\<close>

section \<open>The ports keep the governance contract\<close>

definition keptSys :: "Env \<Rightarrow> Sys \<Rightarrow> Sys \<Rightarrow> bool" where
  "keptSys env S T \<longleftrightarrow>
     (worldInv env (sys_world S) \<longrightarrow> worldInv env (sys_world T) \<and> guar (sys_world S) (sys_world T))"

interpretation sysSteps: step_preorder "keptSys env" for env
  by unfold_locales (auto simp: keptSys_def intro: gov.R_refl gov.R_trans)

lemma steps_inWorld: "kept env (\<lambda>_. True) m \<Longrightarrow> sysSteps.steps env (inWorld m)"
  by (rule sysSteps.stepsI) (simp add: keptSys_def kept_final)

definition plainFacade :: "Host \<Rightarrow> Env \<Rightarrow> Sys GovernanceFacade" where
  "plainFacade host env =
     NewGovernanceFacade (governanceServiceAdapter env) (workflowRunService env) (approvalService env)
       (queryServiceAdapter host env) (escalationService env)"

lemma kept_ListBreakerStates: "kept env (\<lambda>_. True) (ListBreakerStates host f)"
  unfolding ListBreakerStates_def by (rule kept_tail [OF fr.steps_gets])

interpretation plain: quiet_ports "keptSys env" "plainFacade host env" for env host
  by unfold_locales
    (simp_all only: plainFacade_def NewGovernanceFacade_def GovernanceFacade.simps governanceServiceAdapter_def
      workflowRunService_def approvalService_def queryServiceAdapter_def escalationService_def GovernanceService.simps
      WorkflowControl.simps ApprovalService.simps QueryService.simps EscalationPort.simps,
     (rule steps_inWorld, rule kept_services kept_ListBreakerStates)+,
     simp add: keptSys_def worldInv_def guar_def dbGuar_def settledKept_def)

lemma wiredFacade_cases:
  "wiredFacade host env cfg = (if cfg_OTelEnabled cfg then decorate host env (plainFacade host env) else plainFacade host env)"
  by (simp add: wiredFacade_def decorate_def plainFacade_def NewGovernanceFacade_def wiredGovernance_def wiredControl_def
      wiredApprovals_def wiredEscalation_def wiredQueries_def)

interpretation wired: quiet_http "keptSys env" "wiredFacade host env cfg" "wiredServer host env cfg" for env host cfg
proof -
  have ports: "inbound_ports (keptSys env) (wiredFacade host env cfg)"
    by (simp add: wiredFacade_cases plain.inbound_ports_axioms plain.decorated.inbound_ports_axioms)
  have "quiet_ports_axioms (keptSys env)"
    by unfold_locales (rule plain.quiet)
  moreover have "http_ports_axioms (keptSys env) (wiredFacade host env cfg) (wiredServer host env cfg)"
    by unfold_locales
      (auto simp: wiredServer_def wiredFacade_def WithPhaseDecisions_def NewServer_def NewGovernanceFacade_def
        decisionsService_def intro!: steps_inWorld kept_services)
  ultimately show "quiet_http (keptSys env) (wiredFacade host env cfg) (wiredServer host env cfg)"
    using ports by (simp add: quiet_http_def quiet_ports_def http_ports_def)
qed

section \<open>The whole program\<close>

lemma worldInv_wireEnv: "worldInv (wireEnv cfg env) s = worldInv env s"
proof -
  have "te (wireEnv cfg env) = te env" "env_now (wireEnv cfg env) = env_now env"
    by (simp_all add: wireEnv_def TimeEnv.defs)
  then have "clockOK (wireEnv cfg env) = clockOK env" "historyOK (wireEnv cfg env) = historyOK env"
    by (simp_all add: clockOK_def historyOK_def fun_eq_iff)
  then show ?thesis by (simp add: worldInv_def dbInv_def)
qed

lemma keptSys_wireEnv: "keptSys (wireEnv cfg env) = keptSys env"
  by (simp add: keptSys_def worldInv_wireEnv fun_eq_iff)

lemma Wire_steps: "sysSteps.steps env (Wire host otel mtr env0 cfg)"
  unfolding Wire_def Let_def
  by (intro sysSteps.steps_rules steps_inWorld kept_tail fr.steps_notes fr.steps_RecordAudit)

lemma Wire_app:
  "fst (Wire host otel mtr env cfg S) = Inr app \<Longrightarrow>
   app_HTTPServer app = wiredServer host (wireEnv cfg env) cfg \<and> app_Facade app = wiredFacade host (wireEnv cfg env) cfg"
  by (auto simp: Wire_def Let_def bindW_def bindE_def discard_def ret_def lift_def split: prod.splits sum.splits if_splits)

lemma handleEvent_kept:
  assumes "app_HTTPServer app = wiredServer host (wireEnv cfg env) cfg" "app_Facade app = wiredFacade host (wireEnv cfg env) cfg"
  shows "keptSys env S (handleEvent mux host (wireEnv cfg env) cfg app e S)"
proof (cases e)
  case CollectorRound
  then show ?thesis
    using sysSteps.stepsD [OF steps_inWorld [OF kept_tail [OF fr.steps_refreshStats]]] sysSteps.R_refl by simp
qed (simp_all add: assms keptSys_wireEnv
      sysSteps.stepsD [OF wired.ServeHTTP_steps, of "wireEnv cfg env", unfolded keptSys_wireEnv]
      sysSteps.stepsD [OF wired.facade_steps, of "wireEnv cfg env", unfolded keptSys_wireEnv])

lemma process_life_kept: "keptSys env S (process_life mux host otel mtr env cfg events S)"
proof -
  obtain r T where W: "Wire host otel mtr env cfg S = (r, T)" by fastforce
  have start: "keptSys env S T" using sysSteps.stepsD [OF Wire_steps, of env S host otel mtr env cfg] W by simp
  show ?thesis
  proof (cases r)
    case (Inl e)
    then show ?thesis using start by (simp add: process_life_def W)
  next
    case (Inr app)
    then have app: "app_HTTPServer app = wiredServer host (wireEnv cfg env) cfg" "app_Facade app = wiredFacade host (wireEnv cfg env) cfg"
      using Wire_app [of host otel mtr env cfg S app] W by auto
    have "keptSys env T (fold (handleEvent mux host (wireEnv cfg env) cfg app) events T)" for T
      by (induction events arbitrary: T)
        (auto simp: sysSteps.R_refl intro: sysSteps.R_trans [OF handleEvent_kept [OF app]])
    with start Inr show ?thesis by (auto simp: process_life_def W intro: sysSteps.R_trans)
  qed
qed

lemma program_run_kept: "keptSys env S (program_run mux host otel mtr env lives S)"
  unfolding program_run_def
  by (induction lives arbitrary: S) (auto simp: sysSteps.R_refl intro: sysSteps.R_trans [OF process_life_kept])

section \<open>Decorators\<close>

lemma mapGo_simps [simp]: "fst (mapGo g m S) = map_sum id g (fst (m S))" "snd (mapGo g m S) = snd (m S)"
  by (simp_all add: mapGo_def bindE_def ret_def split: prod.splits sum.splits)






lemma tick_0 [simp]: "tick 0 s = s"
  by (simp add: tick_def)





text \<open>What is known of the span of a call, given the outcome of the call.\<close>

definition spanFor :: "gov_error + 'a \<Rightarrow> Span \<Rightarrow> bool" where
  "spanFor r sp \<longleftrightarrow> sp_Ended sp \<and> sp_Error sp = (case r of Inl e \<Rightarrow> (if isPanic e then None else Some e) | Inr _ \<Rightarrow> None)"

lemma spanFor_map [simp]: "spanFor (map_sum id g r) sp = spanFor r sp"
  by (cases r) (simp_all add: spanFor_def)




section \<open>The program from end to end\<close>

text \<open>A host, a process with the tables of the example, and a request to kill its executing run.\<close>

definition sampleHost :: Host where
  "sampleHost = \<lparr>h_order = (\<lambda>bs. bs), h_validULID = (\<lambda>_. True), h_tracer = (\<lambda>n ctx. ctx), h_ping = Inr ()\<rparr>"

definition sampleSys :: Sys where
  "sampleSys = \<lparr>sys_world = sampleWorld, sys_spans = [], sys_rand = []\<rparr>"

definition killRequest :: "Body \<Rightarrow> HttpRequest" where
  "killRequest b =
     \<lparr>hq_Method = ''POST'', hq_Path = [''api'', ''v1'', ''workflows'', ''w1'', ''kill''], hq_Header = (\<lambda>_. []), hq_Query = [],
      hq_Body = b, hq_Ctx = None\<rparr>"

abbreviation sampleLives :: "(Config \<times> Event list) list" where
  "sampleLives \<equiv>
     [(Load (\<lambda>_. []), [Request (killRequest (BodyObject [(''actor'', JString ''ana''), (''reason'', JString ''stop'')]))])]"

text \<open>
  C3. The program is governed from end to end. Over any sequence of process lives, with and without
  instrumentation and adaptive routing, each started and fed with any HTTP requests, calls of the facade and
  rounds of the statistics collector, whatever the router, the host, the clock and the database do: a world
  that is governed stays governed, the tables move by steps of the abstract machine only, and the rows that
  are settled stay as they are.
\<close>

theorem program_governed:
  assumes "governed env (sys_world S)" "T = program_run mux host otel mtr env lives S"
  shows "governed env (sys_world T) \<and> govSteps (absDB (db (sys_world S))) (absDB (db (sys_world T))) \<and>
    settledKept (db (sys_world S)) (db (sys_world T))"
  using program_run_kept [of env S mux host otel mtr lives] assms govSteps_inv
  by (auto simp: keptSys_def governed_def guar_def dbGuar_def)

theorem program_governed_witness:
  "governed calmEnv (sys_world sampleSys) \<and>
   governed calmEnv (sys_world (program_run firstMux sampleHost (Inr ()) (\<lambda>_ _ _ _. Inr ()) calmEnv sampleLives sampleSys)) \<and>
   killedRow \<in> set (db_workflows (db (sys_world (program_run firstMux sampleHost (Inr ()) (\<lambda>_ _ _ _. Inr ()) calmEnv sampleLives sampleSys))))"
proof -
  have g: "governed calmEnv (sys_world sampleSys)" by (simp add: sampleSys_def sample_governed)
  have "killedRow \<in> set (db_workflows (db (sys_world sampleSys)))" "IsTerminal (WorkflowStatus (wr_status killedRow))"
    by (simp_all add: sampleSys_def sampleDB_def) (simp add: sampleRow_def)
  then show ?thesis
    using program_governed [OF g refl, of firstMux sampleHost "Inr ()" "\<lambda>_ _ _ _. Inr ()" sampleLives] g
    by (simp add: settledKept_def)
qed

section \<open>Requests that are refused\<close>

lemma invalidInput_simps [simp]:
  "invalidInput (Wrap c e) = invalidInput e" "\<not> invalidInput (ErrDB msg)" "\<not> invalidInput (ErrPanic msg)"
  "\<not> invalidInput (ErrNotFound what)"
  by (simp_all add: invalidInput_def)

text \<open>Errors that a statement of the phase tables can give are never about the input.\<close>

lemma phase_errors:
  "PhaseDecisionSave env rec s = (Inl e, t) \<Longrightarrow> \<not> invalidInput e"
  "PhaseApprovalFind env c p s = (Inl e, t) \<Longrightarrow> \<not> invalidInput e"
  "Now env s = (Inl e, t) \<Longrightarrow> \<not> invalidInput e"
  by (auto simp: PhaseDecisionSave_def PhaseApprovalFind_def bindW_def bindR_def bindE_def exec_def queryRow_def Let_def
      insertPhaseDecision_def ret_def throw_def Now_def timeNow_def lift_def MustTimestamp_def
      split: if_splits prod.splits sum.splits fault.splits)

lemma phase_checks_first:
  "EvaluatePhase env phase s = (Inl e, t) \<Longrightarrow> invalidInput e \<Longrightarrow> t = s"
  "EvaluateSensitive env sensitive s = (Inl e, t) \<Longrightarrow> invalidInput e \<Longrightarrow> t = s"
  "ApprovalStatusFor env change phaseID s = (Inl e, t) \<Longrightarrow> invalidInput e \<Longrightarrow> t = s"
  unfolding EvaluatePhase_def EvaluateSensitive_def ApprovalStatusFor_def
  by (auto simp: throw_def bindE_def bindW_def generate_def ret_def
      split: if_splits prod.splits sum.splits option.splits dest: phase_errors)

lemma wired_checksFirst: "pred_option checksFirst (srv_phaseDecisions (wiredServer host env cfg))"
  by (auto simp: wiredServer_def WithPhaseDecisions_def checksFirst_def decisionsService_def inWorld_def
      split: prod.splits dest: phase_checks_first)

lemma untouched_recovered:
  assumes "untouched m" "\<forall>e. hp_Status (mux_recover mux e) \<noteq> StatusBadRequest"
  shows "untouched (recovered mux m)"
  using assms by (auto simp: untouched_def recovered_def split: prod.splits sum.splits)

text \<open>
  C4. A rejected request leaves no trace. When the server answers a request with status 400, for a malformed
  body, an identifier, enumeration or number that cannot be parsed, or a missing field, no service was called
  that did anything: the tables, the breakers, the statistics, the measurements and the spans are as before,
  and no identifier and no reading of the clock was used up. The recoverer of the router is assumed not to
  answer with 400.
\<close>

theorem rejected_requests_leave_no_trace:
  assumes "ServeHTTP mux host z (wiredServer host env cfg) r S = (Inr (response, header), T)"
    "hp_Status response = StatusBadRequest" "\<forall>e. hp_Status (mux_recover mux e) \<noteq> StatusBadRequest"
  shows "sys_world T = sys_world S \<and> sys_spans T = sys_spans S"
proof -
  let ?m = "case mux_find mux routes r of None \<Rightarrow> ret (mux_miss mux r)
      | Some (e, param) \<Rightarrow> dispatch host z (wiredServer host env cfg) e param r"
  have "untouched (recovered mux ?m)"
    by (rule untouched_recovered)
      (use assms(3) untouched_dispatch [OF wired_checksFirst] in \<open>auto simp: untouched_write split: option.split\<close>)
  moreover obtain b where "recovered mux ?m (S\<lparr>sys_rand := b\<rparr>) = (Inr response, T)"
    using assms(1) by (auto simp: ServeHTTP_def bindE_def inRand_def ret_def split: prod.splits sum.splits)
  ultimately have "T = S\<lparr>sys_rand := b\<rparr>" using assms(2) unfolding untouched_def by blast
  then show ?thesis by simp
qed

theorem rejected_requests_leave_no_trace_witness:
  "\<exists>response header T.
     ServeHTTP firstMux sampleHost (te calmEnv) (wiredServer sampleHost calmEnv (Load (\<lambda>_. []))) (killRequest BodyMalformed) sampleSys =
       (Inr (response, header), T) \<and>
     hp_Status response = StatusBadRequest \<and> sys_world T = sampleWorld \<and> sys_spans T = []"
proof -
  let ?srv = "wiredServer sampleHost calmEnv (Load (\<lambda>_. []))"
  have "mux_find firstMux routes (killRequest BodyMalformed) = Some (KillWorkflowE, (\<lambda>_. [])(''workflowID'' := ''w1''))"
    by (simp add: firstMux_def routes_def apiPath_def govPath_def killRequest_def)
  then have serve: "ServeHTTP firstMux sampleHost (te calmEnv) ?srv (killRequest BodyMalformed) sampleSys =
      (Inr (\<lparr>hp_Status = StatusBadRequest, hp_Body = ErrorResponse (Text ''invalid request body'') ''INVALID_JSON''\<rparr>, None), sampleSys)"
    by (simp add: ServeHTTP_def bindE_def inRand_def TraceW3C_def bindR_def traceFromRequest_def killRequest_def traceNew_def
        ReadFull_def bindW_def ret_def recovered_def handleKillWorkflow_def orReject_def NewWorkflowRunID_def newID_def
        validateULID_def sampleHost_def decoded_def decodeWorkflowAction_def Decode_def writeError_def sampleSys_def)
  moreover have "\<forall>e. hp_Status (mux_recover firstMux e) \<noteq> StatusBadRequest" by (simp add: firstMux_def)
  ultimately show ?thesis
    using rejected_requests_leave_no_trace [OF serve] serve by (simp add: sampleSys_def)
qed

end
