(* ===== verification/HttpApi.thy ===== *)
theory HttpApi
  imports System
begin

text \<open>
  Properties of the HTTP interface that do not concern the state as a whole: which handler a request
  reaches, what the handlers pass on, and what they answer with.
\<close>

section \<open>Routes\<close>

lemma every_endpoint: "distinct (map (\<lambda>(m, p, e). e) routes)" "set (map (\<lambda>(m, p, e). e) routes) = UNIV"
proof -
  show "distinct (map (\<lambda>(m, p, e). e) routes)" by (simp add: routes_def)
  have "e \<in> set (map (\<lambda>(m, p, e). e) routes)" for e by (cases e) (simp_all add: routes_def)
  then show "set (map (\<lambda>(m, p, e). e) routes) = UNIV" by blast
qed

text \<open>
  C33. The routing table is unambiguous and complete. With any router that finds a route that fits whenever
  there is one, a request reaches a handler exactly if the method and the path fit the route of that handler,
  with the parameters cut out of the path; no request fits two routes, so the outcome does not depend on the
  order or the precedence of the routes; and every handler has exactly one route.
\<close>

theorem routes_unambiguous:
  assumes "muxSound mux"
  shows "(mux_find mux routes r = Some (e, param) \<longleftrightarrow> routed routes r e param) \<and>
    (routed routes r e param \<longrightarrow> routed routes r e' param' \<longrightarrow> e' = e \<and> param' = param) \<and>
    (\<exists>!entry. entry \<in> set routes \<and> snd (snd entry) = e)"
proof (intro conjI impI)
  show "mux_find mux routes r = Some (e, param) \<longleftrightarrow> routed routes r e param"
  proof
    assume ok: "routed routes r e param"
    then obtain e2 p2 where "mux_find mux routes r = Some (e2, p2)" using assms by (fastforce simp: muxSound_def)
    with ok show "mux_find mux routes r = Some (e, param)"
      using assms routed_unique by (metis muxSound_def)
  qed (use assms in \<open>auto simp: muxSound_def\<close>)
  show "e' = e" "param' = param" if "routed routes r e param" "routed routes r e' param'"
    using routed_unique that by blast+
  obtain entry where "entry \<in> set routes" "snd (snd entry) = e" using every_endpoint(2) by (force simp: image_iff)
  then show "\<exists>!entry. entry \<in> set routes \<and> snd (snd entry) = e"
    using every_endpoint(1) by (auto simp: distinct_map inj_on_def split_beta)
qed

theorem routes_unambiguous_witness:
  "muxSound firstMux \<and> routed routes (killRequest BodyMalformed) KillWorkflowE ((\<lambda>_. [])(''workflowID'' := ''w1'')) \<and>
   mux_find firstMux routes (killRequest BodyMalformed) = Some (KillWorkflowE, (\<lambda>_. [])(''workflowID'' := ''w1''))"
proof -
  have "routed routes (killRequest BodyMalformed) KillWorkflowE ((\<lambda>_. [])(''workflowID'' := ''w1''))"
    unfolding routed_def
    by (rule exI [of _ "apiPath [Lit ''workflows'', Param ''workflowID'', Lit ''kill'']"])
      (simp add: routes_def apiPath_def killRequest_def)
  then show ?thesis using routes_unambiguous [OF firstMux_sound] firstMux_sound by blast
qed

section \<open>Attempts\<close>






section \<open>Listing runs\<close>

lemma listFilter_bounds: "1 \<le> wlf_Limit (listFilter r) \<and> wlf_Limit (listFilter r) \<le> 100 \<and> 0 \<le> wlf_Offset (listFilter r)"
  by (simp add: listFilter_def Let_def split: option.split)

lemma mapE_scan:
  assumes "\<forall>r\<in>set rows. \<exists>w. scanWorkflowRun r = Inr w"
  shows "\<exists>ws. mapE scanWorkflowRun rows = Inr ws \<and> list_all2 (\<lambda>r w. scanWorkflowRun r = Inr w) rows ws"
  using assms by (induction rows) auto

lemma list_all2_scan:
  assumes "list_all2 (\<lambda>r w. scanWorkflowRun r = Inr w) rows ws"
  shows "map w_ID ws = map wr_id rows" "map w_Status ws = map (\<lambda>r. WorkflowStatus (wr_status r)) rows"
    "map w_UpdatedAt ws = map wr_updated_at rows"
  using assms
  by (induction rows ws rule: list_all2_induct)
    (auto simp: scanWorkflowRun_def andThen_Inr ReconstructWorkflowRun_def)

text \<open>
  C35. Listing runs. In a world the program can be in, if the statement itself does not fail, the query behind
  \<^verbatim>\<open>GET /api/v1/workflows\<close> succeeds for every combination of parameters, numbers out of range included: it
  gives at most 100 runs and at most as many as the limit, each once, newest first, all of the status that was
  asked for; the runs are the corresponding slice of the matching rows, and the total is the number of matching
  rows unless the slice is empty.
\<close>

theorem list_workflows_pages:
  assumes "worldInv env s" "clockOK env" "env_fault env (n_stmt s) = Done"
  shows "\<exists>runs total rows s'. ListWorkflows env (listFilter r) s = (Inr (runs, total), s') \<and>
    mset rows = mset (filter (workflowMatches (listFilter r)) (db_workflows (db s))) \<and>
    sorted_wrt (\<ge>) (map wr_updated_at rows) \<and>
    map w_ID runs = map wr_id (take (nat (wlf_Limit (listFilter r))) (drop (nat (wlf_Offset (listFilter r))) rows)) \<and>
    length runs \<le> 100 \<and> distinct (map w_ID runs) \<and>
    (queryGet r ''status'' \<noteq> [] \<longrightarrow> (\<forall>w\<in>set runs. w_Status w = WorkflowStatus (queryGet r ''status''))) \<and>
    (runs \<noteq> [] \<longrightarrow> total = length rows)"
proof -
  let ?f = "listFilter r"
  define rows where "rows = sort_key (\<lambda>r. - wr_updated_at r)
      (shuffle (env_rank env (n_stmt s)) (filter (workflowMatches ?f) (db_workflows (db s))))"
  define pg where "pg = take (nat (wlf_Limit ?f)) (drop (nat (wlf_Offset ?f)) rows)"
  note bounds = listFilter_bounds [of r]
  have m: "mset rows = mset (filter (workflowMatches ?f) (db_workflows (db s)))"
    by (simp add: rows_def mset_shuffle)
  then have sub: "set pg \<subseteq> set (filter (workflowMatches ?f) (db_workflows (db s)))"
    unfolding pg_def by (metis mset_eq_setD set_drop_subset set_take_subset subset_trans)
  have inv: "distinct (map wr_id (db_workflows (db s)))" "\<forall>r\<in>set (db_workflows (db s)). historyOK env r"
    using assms(1,2) by (simp_all add: worldInv_def dbInv_def)
  have "\<forall>r\<in>set pg. \<exists>w. scanWorkflowRun r = Inr w"
    using sub inv(2) by (auto simp: historyOK_def)
  then obtain ws where ws: "mapE scanWorkflowRun pg = Inr ws" "list_all2 (\<lambda>r w. scanWorkflowRun r = Inr w) pg ws"
    using mapE_scan by blast
  note maps = list_all2_scan [OF ws(2)]
  have len: "length ws = length pg" using ws(2) by (simp add: list_all2_lengthD)
  have "ListWorkflows env ?f s = (Inr (ws, pageTotal rows pg), s\<lparr>n_stmt := Suc (n_stmt s)\<rparr>)"
    using assms(3) bounds
    by (simp add: ListWorkflows_def WorkflowList_def query_def Let_def page_def ws(1)
        flip: rows_def pg_def)
  moreover have "sorted_wrt (\<ge>) (map wr_updated_at rows)"
    using sorted_sort_key [of "\<lambda>r. - wr_updated_at r" "shuffle (env_rank env (n_stmt s)) (filter (workflowMatches ?f) (db_workflows (db s)))"]
    unfolding rows_def by (simp add: sorted_map sorted_wrt_map)
  moreover have "distinct (map wr_id rows)"
    using m inv(1) by (metis distinct_map_filter mset_eq_imp_distinct_iff mset_map)
  then have "distinct (map w_ID ws)"
    unfolding maps(1) pg_def by (metis distinct_drop distinct_take drop_map take_map)
  moreover have "nat (wlf_Limit ?f) \<le> 100" using bounds by linarith
  then have "length ws \<le> 100" by (simp add: len pg_def min.coboundedI2)
  moreover have "\<forall>w\<in>set ws. w_Status w = WorkflowStatus (queryGet r ''status'')" if "queryGet r ''status'' \<noteq> []"
  proof -
    have "\<forall>r'\<in>set pg. WorkflowStatus (wr_status r') = WorkflowStatus (queryGet r ''status'')"
      using sub that by (auto simp: workflowMatches_def listFilter_def Let_def)
    then show ?thesis using maps(2) by (metis (no_types, lifting) image_iff image_set)
  qed
  moreover have "ws \<noteq> [] \<longrightarrow> pageTotal rows pg = length rows" using len by (auto simp: pageTotal_def)
  ultimately show ?thesis using m maps(1) unfolding pg_def by blast
qed

theorem list_workflows_pages_witness:
  "worldInv calmEnv sampleWorld \<and> clockOK calmEnv \<and> env_fault calmEnv (n_stmt sampleWorld) = Done \<and>
   (\<exists>runs total s'. ListWorkflows calmEnv (listFilter (killRequest BodyMalformed)) sampleWorld = (Inr (runs, total), s') \<and> length runs \<le> 100)"
proof -
  have calm: "env_fault calmEnv (n_stmt sampleWorld) = Done" by (simp add: calmEnv_def)
  show ?thesis
    using list_workflows_pages [OF sample_inv calm_clock calm, of "killRequest BodyMalformed"] sample_inv calm_clock calm by blast
qed

section \<open>Responses\<close>

text \<open>
  What a client can read off the response for a run: the run again, with its times parsed.
\<close>

definition readTransition :: "workflowTransitionResponse \<Rightarrow> WorkflowTransition option" where
  "readTransition h = map_option (\<lambda>t. \<lparr>tr_From = WorkflowStatus (hr_From h), tr_To = WorkflowStatus (hr_To h),
     tr_Reason = hr_Reason h, tr_Actor = hr_Actor h, tr_Timestamp = t\<rparr>) (parseRFC3339Nano (hr_Timestamp h))"

definition readRun :: "workflowRunResponse \<Rightarrow> WorkflowRun option" where
  "readRun p =
     (case (those (map readTransition (wrr_Transitions p)), parseRFC3339Nano (wrr_CreatedAt p), parseRFC3339Nano (wrr_UpdatedAt p)) of
        (Some trs, Some c, Some u) \<Rightarrow>
          Some \<lparr>w_ID = wrr_ID p, w_TaskID = wrr_TaskID p, w_Status = WorkflowStatus (wrr_Status p),
            w_RoutingDecisionID = wrr_RoutingDecisionID p, w_PolicyDecisionID = wrr_PolicyDecisionID p,
            w_CurrentStepIndex = wrr_CurrentStepIndex p, w_Transitions = trs, w_CreatedAt = c, w_UpdatedAt = u\<rparr>
      | _ \<Rightarrow> None)"

definition inSeconds :: "WorkflowRun \<Rightarrow> WorkflowRun" where
  "inSeconds w = w\<lparr>w_Transitions := map (\<lambda>tr. tr\<lparr>tr_Timestamp := tr_Timestamp tr - tr_Timestamp tr mod Second\<rparr>) (w_Transitions w),
     w_CreatedAt := w_CreatedAt w - w_CreatedAt w mod Second, w_UpdatedAt := w_UpdatedAt w - w_UpdatedAt w mod Second\<rparr>"

lemma parse_fmtRFC3339:
  assumes "yearInRange z t"
  shows "parseRFC3339Nano (fmtRFC3339 z t) = Some (t - t mod Second)"
proof -
  have c: "\<bar>te_zone z t\<bar> < 1440" "0 \<le> t + te_zone z t * 60 * Second" "t + te_zone z t * 60 * Second < 315537897600 * Second"
    using assms by (simp_all add: yearInRange_def)
  have m: "0 \<le> t mod Second" "t mod Second < Second" by (simp_all add: Second_def)
  have "t mod Second \<le> t + te_zone z t * 60 * Second"
    using zmod_le_nonneg_dividend [OF c(2), of Second] by simp
  then have "0 \<le> (t - t mod Second) + te_zone z t * 60 * Second"
      "(t - t mod Second) + te_zone z t * 60 * Second < 315537897600 * Second"
    using c(3) m(1) by linarith+
  then show ?thesis unfolding fmtRFC3339_def using c(1) by (rule parse_fmt)
qed

lemma those_map_Some: "(\<And>x. x \<in> set xs \<Longrightarrow> f x = Some (g x)) \<Longrightarrow> those (map f xs) = Some (map g xs)"
  by (induction xs) auto

text \<open>
  C36. The response for a run is complete. A client that reads the response gets the run back, with its status,
  its decisions and its whole history in order; only the times are cut to the second. This holds for every run
  whose times lie between the years 1 and 9999 in the local zone.
\<close>

theorem run_response_roundtrip:
  assumes "yearInRange z (w_CreatedAt w)" "yearInRange z (w_UpdatedAt w)"
    "\<forall>tr\<in>set (w_Transitions w). yearInRange z (tr_Timestamp tr)"
  shows "readRun (workflowRunToResponse z w) = Some (inSeconds w)"
  using assms
  by (simp add: readRun_def workflowRunToResponse_def inSeconds_def parse_fmtRFC3339 readTransition_def
      those_map_Some [where g = "\<lambda>tr. tr\<lparr>tr_Timestamp := tr_Timestamp tr - tr_Timestamp tr mod Second\<rparr>"] comp_def)

theorem run_response_roundtrip_witness:
  "readRun (workflowRunToResponse (te calmEnv)
     (NewWorkflowRun ''w1'' ''t1'' sampleTime\<lparr>w_Status := StatusRouted, w_Transitions := [\<lparr>tr_From = StatusCreated, tr_To = StatusRouted,
       tr_Reason = ''routed'', tr_Actor = ''system'', tr_Timestamp = sampleTime\<rparr>]\<rparr>)) =
   Some (inSeconds (NewWorkflowRun ''w1'' ''t1'' sampleTime\<lparr>w_Status := StatusRouted, w_Transitions := [\<lparr>tr_From = StatusCreated, tr_To = StatusRouted,
       tr_Reason = ''routed'', tr_Actor = ''system'', tr_Timestamp = sampleTime\<rparr>]\<rparr>))"
  by (rule run_response_roundtrip) (use sample_printable in \<open>simp_all add: printable_def NewWorkflowRun_def\<close>)

end
