(* ===== verification/Spec2Isabelle.thy ===== *)
theory Spec2Isabelle
  imports Workflow Policy Execution Approval Escalation Trace Resilience RoutingEval Control Stats
    Governance Partial Cost HttpApi
begin

text \<open>
  \<^bold>\<open>Agent governance core.\<close> The program decides what an autonomous agent may do with a task. A task is
  submitted, routed (which strategy and role), checked against policy, and, if allowed, run under a lease
  that bounds its attempts; approvals, escalations, kill, pause and resume control the run; every step is
  written to an audit trail. The state lives in PostgreSQL; circuit breakers and failure statistics are kept
  in memory. Clients come in over HTTP or through a facade in the same process; decorators add spans and metrics.

  \<^bold>\<open>Theories and the code they model\<close> (paths under \<^verbatim>\<open>src/internal\<close>).
  \<^item> \<open>Prelude\<close>: Go strings, numerals, dynamic values, time, errors, and the error-and-state computations in which
    every service is written, with their weakest preconditions. \<open>Float64\<close>: binary64 arithmetic on rationals.
  \<^item> \<open>Shared\<close>, \<open>Task\<close>, \<open>Workflow\<close>, \<open>Policy\<close>, \<open>Execution\<close>, \<open>Approval\<close>, \<open>Escalation\<close>, \<open>AuditTrail\<close>, \<open>Trace\<close>:
    the aggregates of \<^verbatim>\<open>domain/*\<close> and the trace middleware. A struct is a record, a string enumeration a datatype
    around the string, an operation a function that returns an error or the changed record.
  \<^item> \<open>Routing\<close>, \<open>RoutingEval\<close>: \<^verbatim>\<open>domain/routing\<close>, scoring, adaptive adjustment, overrides and selection.
  \<^item> \<open>Resilience\<close>: \<^verbatim>\<open>application/resilience\<close>, breakers and their registry.
  \<^item> \<open>Json\<close>, \<open>TimeFormat\<close>, \<open>Rows\<close>, \<open>Database\<close>, \<open>Repos\<close>: the tables of \<^verbatim>\<open>migrations/postgres\<close> and the repositories
    of \<^verbatim>\<open>adapters/outbound/persistence\<close>. A table is a list of rows; a statement may be refused, or carried out
    with its answer lost.
  \<^item> \<open>Recording\<close>, \<open>Pipeline\<close>, \<open>Control\<close>, \<open>Stats\<close>: \<^verbatim>\<open>application/*\<close>, the audit recorder, the notifier, the
    metrics, the pipeline from intake to start, the control operations, and the statistics collector.
  \<^item> \<open>Inbound\<close>, \<open>Telemetry\<close>: \<^verbatim>\<open>ports/inbound\<close>, the adapters of \<^verbatim>\<open>bootstrap/wire.go\<close>, \<^verbatim>\<open>adapters/inbound/sdk\<close>, and the
    decorators of \<^verbatim>\<open>adapters/inbound/tracing\<close> and \<^verbatim>\<open>adapters/inbound/metrics\<close>. An interface is a record of its
    methods, a decorator a function from such records to such records.
  \<^item> \<open>HttpDto\<close>, \<open>HttpHandlers\<close>, \<open>HttpServer\<close>: \<^verbatim>\<open>adapters/inbound/http\<close>, request and response objects, one definition
    per handler, the routes and the middleware.
  \<^item> \<open>Config\<close>, \<open>Bootstrap\<close>: \<^verbatim>\<open>infrastructure/config\<close>, the connection string, and \<open>Wire\<close> of \<^verbatim>\<open>bootstrap/wire.go\<close>; the
    program as a sequence of lives of a process, each wired and then driven by requests, calls and collector rounds.

  \<^bold>\<open>What the theorems show.\<close>
  \<^item> The domain theories: runs, tasks, requests, leases and escalations move along their tables only and stop in
    their final statuses; a run can be completed from every status that is not final; policy returns the most
    restrictive outcome; routing, with its floating-point scores, is total, bounded and deterministic; breakers
    trip and recover exactly on their thresholds; trace headers survive printing and parsing.
  \<^item> \<open>Contract\<close> is the abstract machine of the control plane: decisions on record, runs, requests and leases, with
    the evidence each move needs. \<open>Guarantee\<close> has the triples for computations that may stop at any statement,
    \<open>Frames\<close> the frame rules and the append-only record, \<open>Simulation\<close> the abstraction of the tables and what each
    statement does to it. \<open>Governance\<close> proves that every service refines the machine under all faults, and from
    it that no run executes without routing, policy or approval, and lease, that settled rows are frozen, that
    stored runs decode, and that leases are accounted for. \<open>Partial\<close> follows a call that fails after its first
    write. \<open>Cost\<close> bounds the statements of every call, so every call returns. \<open>Stats\<close> has the exact counts.
  \<^item> \<open>Ports\<close> states what clients may rely on as locales; \<open>System\<close> interprets them on the wired program and carries
    the contract through facade, decorators, HTTP server and restarts; there, decorators change no outcome, each
    call has one span, and a request answered with status 400 has changed nothing. \<open>HttpApi\<close> has the properties of
    single endpoints: unambiguous routes, valid attempts, pages of runs, and responses that can be read back.

  \<^bold>\<open>Parameters and bounds.\<close> \<open>Env\<close> gives the faults of the statements, the row a query picks, the order of rows, the
  clock, the ULIDs, the memory provider and the callback of the notifier; \<open>Host\<close> the order of Go map iteration,
  the ULID check, the tracer and the database ping; \<open>Mux\<close> the router library, with \<open>muxSound\<close> where its choice of
  route matters; further arguments the outcome of the OpenTelemetry setup and of creating an instrument. No
  definition uses fuel: every loop of the program runs over a finite list. Integers are unbounded where the code
  stays far from the limits, and bounded by 64 bits (32 in the lease table) where the code parses or counts. A
  clock has to show times that RFC 3339 can print only where the stored history of a run is concerned.

  \<^bold>\<open>Not modelled.\<close> Calls run one after the other: mutexes, goroutines and the loss of an update between two
  concurrent calls are outside the model. \<^verbatim>\<open>cmd/\<close> (listening, signals), the pool, exporters, sampler and shutdown of
  the telemetry library, and log output are input and output only. Column widths and indexes of the schema are not
  spelled out; a statement a width refuses is one the environment refuses. \<^verbatim>\<open>govhttptest\<close> and \<^verbatim>\<open>test/\<close> support tests and
  are not part of the program.
\<close>

end
